(* ===== verification/Wareboxes_Prelude.thy ===== *)
theory Wareboxes_Prelude
  imports Main "HOL-Library.Multiset"
begin

text \<open>
  The vocabulary every component of the model shares: Rust's \<open>Result\<close>, \<open>Ordering\<close>
  and fixed-width integers, text as sequences of Unicode scalar values with the standard
  library's \<open>trim\<close> and \<open>is_control\<close>, the stable \<open>sort_by\<close>, the
  \<open>HashSet::insert\<close> duplicate scan, and the greedy quantity loop that the allocation
  and the replenishment planners both run over a sorted list of stock.
  Values of type i64 are mathematical integers; the width is written out where the code
  checks for overflow (\<open>checked_add\<close>), saturates, or may wrap (\<open>wrap_i64\<close>).
\<close>

section \<open>Definitions\<close>

subsection \<open>Results\<close>

type_synonym ('a, 'e) result = "'e + 'a"

abbreviation Ok :: "'a \<Rightarrow> 'e + 'a" where
  "Ok \<equiv> Inr"

abbreviation Err :: "'e \<Rightarrow> 'e + 'a" where
  "Err \<equiv> Inl"

definition and_then :: "'e + 'a \<Rightarrow> ('a \<Rightarrow> 'e + 'b) \<Rightarrow> 'e + 'b" where
  "and_then r f = (case r of Inl e \<Rightarrow> Inl e | Inr x \<Rightarrow> f x)"

definition map_err :: "('e \<Rightarrow> 'd) \<Rightarrow> 'e + 'a \<Rightarrow> 'd + 'a" where
  "map_err f r = (case r of Inl e \<Rightarrow> Inl (f e) | Inr x \<Rightarrow> Inr x)"

definition ok_or :: "'a option \<Rightarrow> 'e \<Rightarrow> 'e + 'a" where
  "ok_or v e = (case v of None \<Rightarrow> Inl e | Some x \<Rightarrow> Inr x)"

definition is_ok :: "'e + 'a \<Rightarrow> bool" where
  "is_ok r = (case r of Inl _ \<Rightarrow> False | Inr _ \<Rightarrow> True)"

text \<open>
  A \<open>Deserialize\<close> implementation that reads a raw value with serde and passes it to the
  validating constructor. The raw read (\<open>raw\<close>) and serde's \<open>D::Error::custom\<close>
  (\<open>custom\<close>) belong to serde and stay parameters.
\<close>

definition deserialize_with :: "('r \<Rightarrow> 'e + 'a) \<Rightarrow> ('e \<Rightarrow> 'd) \<Rightarrow> 'd + 'r \<Rightarrow> 'd + 'a" where
  "deserialize_with new custom raw = and_then raw (\<lambda>v. map_err custom (new v))"

subsection \<open>Fixed-width integers\<close>

definition i64_min :: int where
  "i64_min = - (2 ^ 63)"

definition i64_max :: int where
  "i64_max = 2 ^ 63 - 1"

definition in_i64 :: "int \<Rightarrow> bool" where
  "in_i64 v \<longleftrightarrow> i64_min \<le> v \<and> v \<le> i64_max"

definition wrap_i64 :: "int \<Rightarrow> int" where
  "wrap_i64 v = (v + 2 ^ 63) mod 2 ^ 64 - 2 ^ 63"

definition checked_i64 :: "int \<Rightarrow> int option" where
  "checked_i64 v = (if in_i64 v then Some v else None)"

definition checked_add :: "int \<Rightarrow> int \<Rightarrow> int option" where
  "checked_add a b = checked_i64 (a + b)"

definition checked_sub :: "int \<Rightarrow> int \<Rightarrow> int option" where
  "checked_sub a b = checked_i64 (a - b)"

definition checked_mul :: "int \<Rightarrow> int \<Rightarrow> int option" where
  "checked_mul a b = checked_i64 (a * b)"

definition saturating_sub :: "int \<Rightarrow> int \<Rightarrow> int" where
  "saturating_sub a b = max i64_min (min i64_max (a - b))"

subsection \<open>Comparison and sorting\<close>

datatype ordering = Less | Equal | Greater

definition cmp_int :: "int \<Rightarrow> int \<Rightarrow> ordering" where
  "cmp_int a b = (if a < b then Less else if a = b then Equal else Greater)"

fun then_with :: "ordering \<Rightarrow> ordering \<Rightarrow> ordering" where
  "then_with Equal o2 = o2"
| "then_with o1 _ = o1"

fun insert_by :: "('a \<Rightarrow> 'a \<Rightarrow> ordering) \<Rightarrow> 'a \<Rightarrow> 'a list \<Rightarrow> 'a list" where
  "insert_by cmp x [] = [x]"
| "insert_by cmp x (y # ys) =
     (if cmp x y = Greater then y # insert_by cmp x ys else x # y # ys)"

text \<open>\<open>slice::sort_by\<close>: a stable sort by a comparison function.\<close>

fun sort_by :: "('a \<Rightarrow> 'a \<Rightarrow> ordering) \<Rightarrow> 'a list \<Rightarrow> 'a list" where
  "sort_by cmp [] = []"
| "sort_by cmp (x # xs) = insert_by cmp x (sort_by cmp xs)"

subsection \<open>Duplicate scan\<close>

text \<open>
  The loop \<open>for k in keys { if !seen.insert(k) { return Err(k) } }\<close> over a
  \<open>HashSet\<close>: the first key that was inserted before.
\<close>

fun first_duplicate :: "'k list \<Rightarrow> 'k list \<Rightarrow> 'k option" where
  "first_duplicate seen [] = None"
| "first_duplicate seen (k # ks) =
     (if k \<in> set seen then Some k else first_duplicate (k # seen) ks)"

subsection \<open>Greedy selection\<close>

text \<open>
  The selection loop: walk the stock in the given order, take
  \<open>remaining.min(available)\<close> from each entry, stop as soon as nothing remains.
\<close>

fun greedy :: "('c \<Rightarrow> int) \<Rightarrow> int \<Rightarrow> 'c list \<Rightarrow> ('c \<times> int) list \<times> int" where
  "greedy avail remaining [] = ([], remaining)"
| "greedy avail remaining (c # cs) =
     (if remaining = 0 then ([], remaining)
      else let selected = min remaining (avail c);
               (rest, left) = greedy avail (remaining - selected) cs
           in ((c, selected) # rest, left))"

subsection \<open>Text\<close>

text \<open>
  A Rust \<open>String\<close> is modelled by its sequence of Unicode scalar values, which is what
  \<open>chars()\<close> yields. \<open>is_whitespace\<close> is the Unicode property White\_Space and
  \<open>is_control\<close> the general category Cc.
\<close>

type_synonym rust_char = nat
type_synonym rust_string = "rust_char list"

definition lit :: "string \<Rightarrow> rust_string" where
  "lit s = map of_char s"

definition is_whitespace :: "rust_char \<Rightarrow> bool" where
  "is_whitespace c \<longleftrightarrow>
     9 \<le> c \<and> c \<le> 13 \<or> c = 32 \<or> c = 0x85 \<or> c = 0xA0 \<or> c = 0x1680 \<or>
     0x2000 \<le> c \<and> c \<le> 0x200A \<or> c = 0x2028 \<or> c = 0x2029 \<or> c = 0x202F \<or>
     c = 0x205F \<or> c = 0x3000"

definition is_control :: "rust_char \<Rightarrow> bool" where
  "is_control c \<longleftrightarrow> c < 32 \<or> 127 \<le> c \<and> c < 160"

definition trim :: "rust_string \<Rightarrow> rust_string" where
  "trim v = rev (dropWhile is_whitespace (rev (dropWhile is_whitespace v)))"

abbreviation bounded_text :: "nat \<Rightarrow> rust_string \<Rightarrow> bool" where
  "bounded_text maximum v \<equiv> v \<noteq> [] \<and> trim v = v \<and> length v \<le> maximum"

section \<open>Lemmas\<close>

named_theorems result_simps \<open>how the result combinators compute and invert\<close>

named_theorems i64_defs \<open>the i64 arithmetic, unfolded to integer inequalities\<close>

subsection \<open>Results\<close>

lemma and_then_simps [simp]:
  "and_then (Inl e) f = Inl e"
  "and_then (Inr x) f = f x"
  by (simp_all add: and_then_def)

lemma map_err_simps [simp]:
  "map_err f (Inl e) = Inl (f e)"
  "map_err f (Inr x) = Inr x"
  by (simp_all add: map_err_def)

lemma ok_or_simps [simp]:
  "ok_or None e = Inl e"
  "ok_or (Some x) e = Inr x"
  by (simp_all add: ok_or_def)

lemma is_ok_simps [simp]:
  "is_ok (Inl e) = False"
  "is_ok (Inr x) = True"
  by (simp_all add: is_ok_def)

lemma is_ok_iff: "is_ok r \<longleftrightarrow> (\<exists>x. r = Inr x)"
  by (cases r) simp_all

lemma and_then_eq_Inr [result_simps]:
  "and_then r f = Inr y \<longleftrightarrow> (\<exists>x. r = Inr x \<and> f x = Inr y)"
  by (cases r) simp_all

lemma and_then_eq_Inl [result_simps]:
  "and_then r f = Inl e \<longleftrightarrow> r = Inl e \<or> (\<exists>x. r = Inr x \<and> f x = Inl e)"
  by (cases r) auto

lemma map_err_eq_Inr [result_simps]: "map_err f r = Inr x \<longleftrightarrow> r = Inr x"
  by (cases r) simp_all

lemma ok_or_eq_Inr [result_simps]: "ok_or v e = Inr x \<longleftrightarrow> v = Some x"
  by (cases v) simp_all

lemma ok_or_eq_Inl [result_simps]: "ok_or v e = Inl e' \<longleftrightarrow> v = None \<and> e' = e"
  by (cases v) auto

lemma deserialize_with_eq_Inr:
  "deserialize_with new custom raw = Inr x \<longleftrightarrow> (\<exists>v. raw = Inr v \<and> new v = Inr x)"
  by (simp add: deserialize_with_def result_simps)

subsection \<open>i64\<close>

lemmas [i64_defs] = in_i64_def i64_min_def i64_max_def checked_i64_def checked_add_def
  checked_sub_def checked_mul_def saturating_sub_def

lemma checked_i64_eq_Some [simp]: "checked_i64 v = Some w \<longleftrightarrow> in_i64 v \<and> w = v"
  by (auto simp: checked_i64_def)

lemma checked_i64_eq_None [simp]: "checked_i64 v = None \<longleftrightarrow> \<not> in_i64 v"
  by (simp add: checked_i64_def)

lemma eq_checked_i64 [simp]:
  "Some w = checked_i64 v \<longleftrightarrow> in_i64 v \<and> w = v"
  "None = checked_i64 v \<longleftrightarrow> \<not> in_i64 v"
  by (auto simp: checked_i64_def)

lemma checked_add_eq_Some: "checked_add a b = Some c \<longleftrightarrow> in_i64 (a + b) \<and> c = a + b"
  by (simp add: checked_add_def)

lemma checked_sub_eq_Some: "checked_sub a b = Some c \<longleftrightarrow> in_i64 (a - b) \<and> c = a - b"
  by (simp add: checked_sub_def)

lemma checked_mul_eq_Some: "checked_mul a b = Some c \<longleftrightarrow> in_i64 (a * b) \<and> c = a * b"
  by (simp add: checked_mul_def)

lemmas checked_eq_Some = checked_add_eq_Some checked_sub_eq_Some checked_mul_eq_Some

lemma wrap_i64_id: "in_i64 v \<Longrightarrow> wrap_i64 v = v"
  by (simp add: wrap_i64_def in_i64_def i64_min_def i64_max_def)

lemma wrap_i64_range: "in_i64 (wrap_i64 v)"
proof -
  have "0 \<le> (v + 2 ^ 63) mod (2 ^ 64 :: int)" "(v + 2 ^ 63) mod (2 ^ 64 :: int) < 2 ^ 64"
    by simp_all
  then show ?thesis
    unfolding wrap_i64_def in_i64_def i64_min_def i64_max_def by simp
qed

lemma saturating_sub_in: "in_i64 (a - b) \<Longrightarrow> saturating_sub a b = a - b"
  by (simp add: saturating_sub_def in_i64_def)

lemma in_i64_diff: "0 \<le> a \<Longrightarrow> a \<le> i64_max \<Longrightarrow> 0 \<le> b \<Longrightarrow> b \<le> i64_max \<Longrightarrow> in_i64 (a - b)"
  by (simp add: in_i64_def i64_min_def i64_max_def)

lemma in_i64_between: "in_i64 a \<Longrightarrow> in_i64 b \<Longrightarrow> a \<le> c \<Longrightarrow> c \<le> b \<Longrightarrow> in_i64 c"
  by (simp add: in_i64_def)

subsection \<open>Comparison\<close>

lemma cmp_int_simps [simp]:
  "cmp_int a b = Less \<longleftrightarrow> a < b"
  "cmp_int a b = Equal \<longleftrightarrow> a = b"
  "cmp_int a b = Greater \<longleftrightarrow> b < a"
  by (auto simp: cmp_int_def)

lemma then_with_eq [simp]:
  "then_with o1 o2 = Less \<longleftrightarrow> o1 = Less \<or> o1 = Equal \<and> o2 = Less"
  "then_with o1 o2 = Equal \<longleftrightarrow> o1 = Equal \<and> o2 = Equal"
  "then_with o1 o2 = Greater \<longleftrightarrow> o1 = Greater \<or> o1 = Equal \<and> o2 = Greater"
  by (cases o1; simp)+

lemma mset_insert_by [simp]: "mset (insert_by cmp x ys) = add_mset x (mset ys)"
  by (induction ys) auto

lemma mset_sort_by [simp]: "mset (sort_by cmp xs) = mset xs"
  by (induction xs) auto

lemma set_sort_by [simp]: "set (sort_by cmp xs) = set xs"
  by (metis mset_sort_by set_mset_mset)

lemma length_sort_by [simp]: "length (sort_by cmp xs) = length xs"
  by (metis mset_sort_by size_mset)

lemma sum_list_map_sort_by [simp]:
  fixes f :: "'a \<Rightarrow> int"
  shows "sum_list (map f (sort_by cmp xs)) = sum_list (map f xs)"
proof -
  have "sum_mset (image_mset f (mset (sort_by cmp xs))) = sum_mset (image_mset f (mset xs))"
    by simp
  then show ?thesis
    by (simp only: mset_map [symmetric] sum_mset_sum_list)
qed

lemma distinct_map_sort_by [simp]: "distinct (map f (sort_by cmp xs)) \<longleftrightarrow> distinct (map f xs)"
  by (rule mset_eq_imp_distinct_iff) simp

subsection \<open>Duplicate scan\<close>

lemma first_duplicate_None_iff:
  "first_duplicate seen ks = None \<longleftrightarrow> distinct ks \<and> set ks \<inter> set seen = {}"
  by (induction seen ks rule: first_duplicate.induct) auto

lemma first_duplicate_distinct_iff: "first_duplicate [] ks = None \<longleftrightarrow> distinct ks"
  by (simp add: first_duplicate_None_iff)

lemma first_duplicate_distinct [simp]: "distinct ks \<Longrightarrow> first_duplicate [] ks = None"
  by (simp add: first_duplicate_None_iff)

lemma first_duplicate_SomeD:
  "first_duplicate seen ks = Some k \<Longrightarrow>
     \<exists>ys zs. ks = ys @ k # zs \<and> distinct ys \<and> set ys \<inter> set seen = {} \<and> k \<in> set ys \<union> set seen"
proof (induction seen ks rule: first_duplicate.induct)
  case (1 seen)
  then show ?case by simp
next
  case (2 seen j ks)
  show ?case
  proof (cases "j \<in> set seen")
    case True
    with "2.prems" show ?thesis by (intro exI [of _ "[]"] exI [of _ ks]) simp
  next
    case False
    with "2.prems" "2.IH" obtain ys zs where
      "ks = ys @ k # zs" "distinct ys" "set ys \<inter> set (j # seen) = {}"
      "k \<in> set ys \<union> set (j # seen)" by auto
    with False show ?thesis by (intro exI [of _ "j # ys"] exI [of _ zs]) auto
  qed
qed

lemma first_duplicate_append:
  "distinct ys \<Longrightarrow> set ys \<inter> set seen = {} \<Longrightarrow> k \<in> set ys \<union> set seen \<Longrightarrow>
     first_duplicate seen (ys @ k # zs) = Some k"
  by (induction ys arbitrary: seen) auto

text \<open>The scan stops at the first key whose prefix is duplicate-free and contains it.\<close>

lemma first_duplicate_Some_iff:
  "first_duplicate [] ks = Some k \<longleftrightarrow>
     (\<exists>ys zs. ks = ys @ k # zs \<and> distinct ys \<and> k \<in> set ys)"
  using first_duplicate_SomeD [of "[]" ks k] first_duplicate_append [of _ "[]" k]
  by auto

subsection \<open>Text\<close>

lemma dropWhile_same_length: "length (dropWhile P v) = length v \<Longrightarrow> dropWhile P v = v"
proof (cases v)
  case (Cons x xs)
  assume "length (dropWhile P v) = length v"
  with Cons length_dropWhile_le [of P xs] show ?thesis by (cases "P x") auto
qed simp

lemma trim_eq_iff:
  "trim v = v \<longleftrightarrow> v = [] \<or> \<not> is_whitespace (hd v) \<and> \<not> is_whitespace (last v)"
proof
  assume eq: "trim v = v"
  let ?d = "dropWhile is_whitespace v"
  have "length (trim v) \<le> length ?d"
    using length_dropWhile_le [of is_whitespace "rev ?d"] by (simp add: trim_def)
  with eq have "length v \<le> length ?d" by simp
  then have d: "?d = v"
    using length_dropWhile_le [of is_whitespace v] by (intro dropWhile_same_length) simp
  then have "rev (dropWhile is_whitespace (rev v)) = v"
    using eq by (simp add: trim_def)
  then have r: "dropWhile is_whitespace (rev v) = rev v"
    by (metis rev_rev_ident)
  from d r show "v = [] \<or> \<not> is_whitespace (hd v) \<and> \<not> is_whitespace (last v)"
    by (auto simp: dropWhile_eq_self_iff hd_rev)
next
  assume "v = [] \<or> \<not> is_whitespace (hd v) \<and> \<not> is_whitespace (last v)"
  then have "dropWhile is_whitespace v = v" "dropWhile is_whitespace (rev v) = rev v"
    by (auto simp: dropWhile_eq_self_iff hd_rev)
  then show "trim v = v" by (simp add: trim_def)
qed

lemma last_dropWhile: "dropWhile P v \<noteq> [] \<Longrightarrow> last (dropWhile P v) = last v"
  by (induction v) auto

lemma trim_trim [simp]: "trim (trim v) = trim v"
proof (cases "trim v = []")
  case True
  then show ?thesis by (simp only: True) (simp add: trim_def)
next
  case False
  let ?d = "dropWhile is_whitespace v"
  let ?t = "dropWhile is_whitespace (rev ?d)"
  from False have t: "?t \<noteq> []" unfolding trim_def by (metis rev.simps(1))
  then have d: "?d \<noteq> []" by (metis dropWhile.simps(1) rev.simps(1))
  from t have "\<not> is_whitespace (hd ?t)" by (rule hd_dropWhile)
  moreover from d have "\<not> is_whitespace (hd ?d)" by (rule hd_dropWhile)
  moreover from t have "last ?t = hd ?d" by (simp add: last_dropWhile last_rev)
  ultimately have "trim (rev ?t) = rev ?t"
    using t by (simp add: trim_eq_iff hd_rev last_rev)
  then show ?thesis by (simp add: trim_def)
qed

end
