(* ===== verification/Contracts.thy ===== *)
theory Contracts
  imports Wareboxes_Prelude
begin

text \<open>
  The interfaces the components of the domain crate share, as locales. A wire tag is an
  enum with \<open>as_str\<close> and \<open>parse\<close>; a validated integer or text is a newtype whose
  field is private and whose \<open>new\<close> rejects bad input; a revision is a positive i64
  with \<open>checked_next\<close>; a comparison function is a total preorder that \<open>sort_by\<close>
  may use; a stock rotation is such an order together with the quantity each entry offers.
  Each component theory interprets the locales on its own definitions.
\<close>

section \<open>Wire tags\<close>

locale tag_codec =
  fixes as_str :: "'a \<Rightarrow> string"
    and parse :: "string \<Rightarrow> 'a option"
  assumes parse_as_str: "parse (as_str x) = Some x"
    and as_str_parse: "parse s = Some x \<Longrightarrow> as_str x = s"
begin

lemma parse_eq_Some_iff: "parse s = Some x \<longleftrightarrow> s = as_str x"
  using parse_as_str as_str_parse by auto

lemma parse_eq_None_iff: "parse s = None \<longleftrightarrow> s \<notin> range as_str"
proof
  assume "parse s = None"
  then show "s \<notin> range as_str" by (auto simp: parse_as_str)
next
  assume "s \<notin> range as_str"
  then show "parse s = None" by (cases "parse s") (auto dest!: as_str_parse)
qed

lemma as_str_inject: "as_str x = as_str y \<longleftrightarrow> x = y"
  by (metis option.inject parse_as_str)

end

section \<open>Validated newtypes\<close>

locale validated_newtype =
  fixes new :: "'r \<Rightarrow> 'e + 'a"
    and get :: "'a \<Rightarrow> 'r"
    and valid :: "'r \<Rightarrow> bool"
  assumes new_ok_iff: "is_ok (new v) \<longleftrightarrow> valid v"
    and get_new: "new v = Inr x \<Longrightarrow> get x = v"
    and get_inject: "get x = get y \<Longrightarrow> x = y"
begin

lemma new_Inr_iff: "new v = Inr x \<longleftrightarrow> valid v \<and> get x = v"
proof
  assume "new v = Inr x"
  then show "valid v \<and> get x = v"
    using new_ok_iff [of v] by (simp add: get_new)
next
  assume *: "valid v \<and> get x = v"
  then obtain y where "new v = Inr y"
    using new_ok_iff [of v] by (auto simp: is_ok_iff)
  with * show "new v = Inr x" by (auto dest: get_new get_inject)
qed

lemma new_get: "valid (get x) \<Longrightarrow> new (get x) = Inr x"
  by (simp add: new_Inr_iff)

lemma new_valid: "new v = Inr x \<Longrightarrow> valid (get x)"
  by (simp add: new_Inr_iff)

text \<open>Reading a value through serde yields exactly the values the constructor accepts.\<close>

lemma deserialize_Inr_iff:
  "deserialize_with new custom raw = Inr x \<longleftrightarrow> raw = Inr (get x) \<and> valid (get x)"
  by (auto simp: deserialize_with_eq_Inr new_Inr_iff)

lemma deserialize_round_trip:
  "new v = Inr x \<Longrightarrow> deserialize_with new custom (Inr (get x)) = Inr x"
  by (simp add: deserialize_Inr_iff new_valid)

end

section \<open>Revisions\<close>

text \<open>
  An optimistic-concurrency revision: a positive i64 with a \<open>checked_next\<close>.
\<close>

locale revision_newtype = validated_newtype new get "\<lambda>v. 0 < v"
  for new :: "int \<Rightarrow> 'e + 'a" and get :: "'a \<Rightarrow> int" +
  fixes checked_next :: "'a \<Rightarrow> 'a option"
  assumes checked_next_get: "map_option get (checked_next r) = checked_add (get r) 1"
begin

lemma checked_next_Some_iff:
  "checked_next r = Some r' \<longleftrightarrow> in_i64 (get r + 1) \<and> get r' = get r + 1"
proof (cases "checked_next r")
  case None
  then show ?thesis using checked_next_get [of r] by (simp add: checked_add_def)
next
  case (Some s)
  then have "in_i64 (get r + 1)" "get s = get r + 1"
    using checked_next_get [of r] by (auto simp: checked_add_def dest: sym)
  with Some show ?thesis using get_inject [of s r'] by auto
qed

lemma checked_next_valid:
  "checked_next r = Some r' \<Longrightarrow> 0 < get r \<Longrightarrow> new (get r') = Inr r'"
  by (simp add: checked_next_Some_iff new_Inr_iff)

lemma checked_next_less: "checked_next r = Some r' \<Longrightarrow> get r < get r'"
  by (simp add: checked_next_Some_iff)

lemma checked_next_None_iff:
  "in_i64 (get r) \<Longrightarrow> checked_next r = None \<longleftrightarrow> get r = i64_max"
proof -
  assume "in_i64 (get r)"
  moreover have "checked_next r = None \<longleftrightarrow> \<not> in_i64 (get r + 1)"
    using checked_next_get [of r] by (cases "checked_next r") (simp_all add: checked_add_def)
  ultimately show ?thesis by (auto simp: i64_defs)
qed

end

section \<open>Comparison functions\<close>

locale total_comparison =
  fixes cmp :: "'a \<Rightarrow> 'a \<Rightarrow> ordering"
  assumes cmp_swap: "cmp x y = Less \<longleftrightarrow> cmp y x = Greater"
    and cmp_trans: "cmp x y \<noteq> Greater \<Longrightarrow> cmp y z \<noteq> Greater \<Longrightarrow> cmp x z \<noteq> Greater"
begin

lemma cmp_total: "cmp x y \<noteq> Greater \<or> cmp y x \<noteq> Greater"
  using cmp_swap [of x y] cmp_swap [of y x] by auto

lemma sorted_insert_by:
  "sorted_wrt (\<lambda>a b. cmp a b \<noteq> Greater) ys \<Longrightarrow>
     sorted_wrt (\<lambda>a b. cmp a b \<noteq> Greater) (insert_by cmp x ys)"
proof (induction ys)
  case Nil
  then show ?case by simp
next
  case (Cons y ys)
  have set_ins: "set (insert_by cmp x ys) = insert x (set ys)"
    by (metis mset_insert_by set_mset_add_mset_insert set_mset_mset)
  show ?case
  proof (cases "cmp x y = Greater")
    case True
    then have "cmp y x \<noteq> Greater" using cmp_total by blast
    with True Cons show ?thesis by (auto simp: set_ins)
  next
    case False
    with Cons.prems show ?thesis by (auto dest: cmp_trans)
  qed
qed

lemma sorted_sort_by: "sorted_wrt (\<lambda>a b. cmp a b \<noteq> Greater) (sort_by cmp xs)"
  by (induction xs) (auto intro: sorted_insert_by)

text \<open>
  Where equal entries are identical, the sorted order does not depend on the order the
  entries were supplied in.
\<close>

lemma sorted_mset_unique:
  assumes "sorted_wrt (\<lambda>a b. cmp a b \<noteq> Greater) xs"
    and "sorted_wrt (\<lambda>a b. cmp a b \<noteq> Greater) ys"
    and "mset xs = mset ys"
    and "\<And>a b. a \<in> set xs \<Longrightarrow> b \<in> set xs \<Longrightarrow> cmp a b = Equal \<Longrightarrow> a = b"
  shows "xs = ys"
  using assms
proof (induction xs arbitrary: ys)
  case Nil
  then show ?case by simp
next
  case (Cons x xs)
  then obtain y ys' where ys: "ys = y # ys'"
    by (metis mset_zero_iff neq_Nil_conv list.distinct(1))
  have sets: "set (y # ys') = set (x # xs)"
    using Cons.prems(3) ys by (metis set_mset_mset)
  have "x = y"
  proof (rule ccontr)
    assume neq: "x \<noteq> y"
    then have "x \<in> set ys'" "y \<in> set xs" using sets by auto
    then have "cmp x y \<noteq> Greater" "cmp y x \<noteq> Greater"
      using Cons.prems(1,2) ys by auto
    then have "cmp x y = Equal"
      using cmp_swap [of x y] by (cases "cmp x y") auto
    then show False using neq Cons.prems(4) sets by auto
  qed
  then show ?case using Cons ys by auto
qed

lemma sort_by_mset_cong:
  assumes "mset xs = mset ys"
    and "\<And>a b. a \<in> set xs \<Longrightarrow> b \<in> set xs \<Longrightarrow> cmp a b = Equal \<Longrightarrow> a = b"
  shows "sort_by cmp xs = sort_by cmp ys"
  by (rule sorted_mset_unique) (use assms in \<open>auto simp: sorted_sort_by\<close>)

end

text \<open>Comparison functions are built by key, by nulls-last optional key and by \<open>then\_with\<close>.\<close>

lemma total_comparison_cmp_int: "total_comparison (\<lambda>x y. cmp_int (k x) (k y))"
  by unfold_locales auto

lemma total_comparison_nulls_last:
  "total_comparison (\<lambda>x y. case (k x, k y) of
     (Some l, Some r) \<Rightarrow> cmp_int l r
   | (Some _, None) \<Rightarrow> Less
   | (None, Some _) \<Rightarrow> Greater
   | (None, None) \<Rightarrow> Equal)"
  by unfold_locales (auto split: option.splits)

lemma total_comparison_then_with:
  assumes "total_comparison f" and "total_comparison g"
  shows "total_comparison (\<lambda>x y. then_with (f x y) (g x y))"
proof -
  have fs: "f x y = Less \<longleftrightarrow> f y x = Greater" and gs: "g x y = Less \<longleftrightarrow> g y x = Greater" for x y
    using assms by (simp_all add: total_comparison_def)
  have ft: "f x y \<noteq> Greater \<Longrightarrow> f y z \<noteq> Greater \<Longrightarrow> f x z \<noteq> Greater"
    and gt: "g x y \<noteq> Greater \<Longrightarrow> g y z \<noteq> Greater \<Longrightarrow> g x z \<noteq> Greater" for x y z
    using assms unfolding total_comparison_def by blast+
  have fe: "f x y = Equal \<longleftrightarrow> f x y \<noteq> Greater \<and> f y x \<noteq> Greater" for x y
    using fs [of x y] fs [of y x] by (cases "f x y"; cases "f y x") auto
  show ?thesis
  proof
    fix x y z
    show "then_with (f x y) (g x y) = Less \<longleftrightarrow> then_with (f y x) (g y x) = Greater"
      using fs [of x y] fs [of y x] gs [of x y] fe [of x y] fe [of y x] by auto
    assume "then_with (f x y) (g x y) \<noteq> Greater" "then_with (f y z) (g y z) \<noteq> Greater"
    then show "then_with (f x z) (g x z) \<noteq> Greater"
      using ft [of x y z] ft [of y z x] ft [of z x y] gt [of x y z]
        fe [of x y] fe [of y z] fe [of x z] by auto
  qed
qed

section \<open>Greedy selection over sorted stock\<close>

lemma greedy_split:
  "greedy avail d (c # cs) =
     (if d = 0 then ([], d)
      else ((c, min d (avail c)) # fst (greedy avail (d - min d (avail c)) cs),
            snd (greedy avail (d - min d (avail c)) cs)))"
  by (simp add: Let_def split: prod.split)

declare greedy.simps(2) [simp del]

lemma greedy_left:
  "0 \<le> d \<Longrightarrow> \<forall>c \<in> set cs. 0 \<le> avail c \<Longrightarrow>
     snd (greedy avail d cs) = max 0 (d - sum_list (map avail cs))"
proof (induction cs arbitrary: d)
  case Nil
  then show ?case by simp
next
  case (Cons c cs)
  have "0 \<le> sum_list (map avail cs)"
    using Cons.prems by (intro sum_list_nonneg) auto
  with Cons show ?case by (auto simp: greedy_split)
qed

lemma greedy_sum:
  "sum_list (map snd (fst (greedy avail d cs))) = d - snd (greedy avail d cs)"
  by (induction cs arbitrary: d) (auto simp: greedy_split)

lemma greedy_prefix:
  "map fst (fst (greedy avail d cs)) = take (length (fst (greedy avail d cs))) cs"
  by (induction cs arbitrary: d) (auto simp: greedy_split)

lemma greedy_length: "length (fst (greedy avail d cs)) \<le> length cs"
  by (induction cs arbitrary: d) (auto simp: greedy_split)

lemma greedy_bounds:
  "0 \<le> d \<Longrightarrow> \<forall>c \<in> set cs. 0 < avail c \<Longrightarrow> (c, q) \<in> set (fst (greedy avail d cs)) \<Longrightarrow>
     c \<in> set cs \<and> 0 < q \<and> q \<le> avail c \<and> q \<le> d"
proof (induction cs arbitrary: d)
  case Nil
  then show ?case by simp
next
  case (Cons c' cs)
  show ?case
  proof (cases "d = 0 \<or> (c, q) = (c', min d (avail c'))")
    case True
    with Cons.prems show ?thesis by (auto simp: greedy_split split: if_splits)
  next
    case False
    then have "(c, q) \<in> set (fst (greedy avail (d - min d (avail c')) cs))"
      using Cons.prems by (auto simp: greedy_split)
    then have "c \<in> set cs \<and> 0 < q \<and> q \<le> avail c \<and> q \<le> d - min d (avail c')"
      using Cons.prems by (intro Cons.IH) auto
    with Cons.prems show ?thesis by auto
  qed
qed

text \<open>Every entry before the last selected one is taken in full.\<close>

lemma greedy_nonlast_full:
  "Suc i < length (fst (greedy avail d cs)) \<Longrightarrow>
     fst (greedy avail d cs) ! i = (cs ! i, avail (cs ! i))"
proof (induction cs arbitrary: d i)
  case Nil
  then show ?case by simp
next
  case (Cons c cs)
  let ?d' = "d - min d (avail c)"
  have d: "d \<noteq> 0" and len: "i < length (fst (greedy avail ?d' cs))"
    using Cons.prems by (auto simp: greedy_split split: if_splits)
  show ?case
  proof (cases i)
    case 0
    have "?d' \<noteq> 0"
    proof
      assume "?d' = 0"
      with len show False by (cases cs) (auto simp: greedy_split)
    qed
    then show ?thesis using 0 d by (auto simp: greedy_split min_def split: if_splits)
  next
    case (Suc j)
    then show ?thesis using Cons.IH [of j ?d'] len d by (simp add: greedy_split)
  qed
qed

locale stock_rotation = total_comparison cmp
  for cmp :: "'c \<Rightarrow> 'c \<Rightarrow> ordering" +
  fixes avail :: "'c \<Rightarrow> int"
begin

lemma selection_left:
  "0 \<le> d \<Longrightarrow> \<forall>c \<in> set cs. 0 \<le> avail c \<Longrightarrow>
     snd (greedy avail d (sort_by cmp cs)) = max 0 (d - sum_list (map avail cs))"
  by (simp add: greedy_left)

lemma selection_bounds:
  "0 \<le> d \<Longrightarrow> \<forall>c \<in> set cs. 0 < avail c \<Longrightarrow>
     (c, q) \<in> set (fst (greedy avail d (sort_by cmp cs))) \<Longrightarrow>
     c \<in> set cs \<and> 0 < q \<and> q \<le> avail c \<and> q \<le> d"
  using greedy_bounds [of d "sort_by cmp cs" avail c q] by simp

lemma selection_distinct:
  "distinct (map f cs) \<Longrightarrow>
     distinct (map (f \<circ> fst) (fst (greedy avail d (sort_by cmp cs))))"
proof -
  let ?sel = "fst (greedy avail d (sort_by cmp cs))"
  assume "distinct (map f cs)"
  then have "distinct (map f (take (length ?sel) (sort_by cmp cs)))"
    by (simp add: take_map [symmetric] distinct_take)
  then show ?thesis
    by (simp only: greedy_prefix [symmetric] map_map)
qed

text \<open>
  The rotation is respected: stock is taken from an entry only after every entry that
  ranks strictly before it has been taken in full.
\<close>

lemma selection_priority:
  assumes sel: "(c', q) \<in> set (fst (greedy avail d (sort_by cmp cs)))"
    and c: "c \<in> set cs" and less: "cmp c c' = Less"
  shows "(c, avail c) \<in> set (fst (greedy avail d (sort_by cmp cs)))"
proof -
  let ?s = "sort_by cmp cs" and ?sel = "fst (greedy avail d (sort_by cmp cs))"
  from sel obtain j where j: "j < length ?sel" "?sel ! j = (c', q)"
    by (auto simp: in_set_conv_nth)
  have j_s: "j < length ?s" using j greedy_length [of avail d ?s] by simp
  have "map fst ?sel ! j = take (length ?sel) ?s ! j"
    using greedy_prefix [of avail d ?s] by simp
  then have sj: "?s ! j = c'" using j by simp
  from c obtain i where i: "i < length ?s" "?s ! i = c"
    by (metis in_set_conv_nth set_sort_by)
  have "i < j"
  proof (rule ccontr)
    assume "\<not> i < j"
    then have "i = j \<or> j < i" by auto
    then have "cmp c' c \<noteq> Greater"
    proof
      assume "i = j"
      then have "c = c'" using i sj by simp
      then show ?thesis using less cmp_swap [of c c] by auto
    next
      assume "j < i"
      then show ?thesis
        using sorted_wrt_nth_less [OF sorted_sort_by, of j i cs] i sj by simp
    qed
    then show False using less cmp_swap by blast
  qed
  then have "?sel ! i = (c, avail c)"
    using greedy_nonlast_full [of i avail d ?s] i j by simp
  then show ?thesis using \<open>i < j\<close> j(1) by (metis in_set_conv_nth less_trans)
qed

end

end
