(* ===== verification/Orders.thy ===== *)
theory Orders
  imports Contracts
begin

text \<open>
  Fulfillment orders: the validated newtypes and the creation of an order
  (\<open>crates/domain/src/order.rs\<close>), the order status machine with holds, release
  (\<open>order\_release.rs\<close>), cancellation (\<open>order\_cancellation.rs\<close>) and the two
  optimistic amendments (\<open>order\_amendment.rs\<close>, \<open>order\_line\_amendment.rs\<close>),
  and the identifiers and scopes of \<open>lib.rs\<close>. Identifiers are positive i64 newtypes; a
  timestamp is an integer instant, compared as \<open>DateTime<Utc>\<close> is.
\<close>

section \<open>Identifiers and scopes\<close>

datatype InvalidId = InvalidId (InvalidId_kind: string) (InvalidId_value: int)

text \<open>The constructor the \<open>positive\_id!\<close> macro generates for each identifier type.\<close>

definition positive_id_new :: "string \<Rightarrow> int \<Rightarrow> InvalidId + int" where
  "positive_id_new label value = (if value > 0 then Ok value else Err (InvalidId label value))"

type_synonym TenantId = int
type_synonym InventoryOwnerId = int
type_synonym FacilityId = int
type_synonym OrderLineId = int
type_synonym InventoryBalanceId = int
type_synonym ItemBatchId = int
type_synonym LocationId = int
type_synonym LicensePlateId = int
type_synonym Timestamp = int

record SiteScope =
  all_facilities :: bool
  facility_ids :: "FacilityId list"

definition SiteScope_includes :: "SiteScope \<Rightarrow> FacilityId \<Rightarrow> bool" where
  "SiteScope_includes self facility_id \<longleftrightarrow>
     all_facilities self \<or> facility_id \<in> set (facility_ids self)"

record OwnerScope =
  all_inventory_owners :: bool
  inventory_owner_ids :: "InventoryOwnerId list"

definition OwnerScope_includes :: "OwnerScope \<Rightarrow> InventoryOwnerId \<Rightarrow> bool" where
  "OwnerScope_includes self inventory_owner_id \<longleftrightarrow>
     all_inventory_owners self \<or> inventory_owner_id \<in> set (inventory_owner_ids self)"

section \<open>Order creation\<close>

definition MAX_ORDER_KEY_LENGTH :: nat where "MAX_ORDER_KEY_LENGTH = 200"
definition MAX_ORDER_LINE_KEY_LENGTH :: nat where "MAX_ORDER_LINE_KEY_LENGTH = 200"
definition MAX_REQUESTED_UOM_LENGTH :: nat where "MAX_REQUESTED_UOM_LENGTH = 32"
definition MAX_DESTINATION_ADDRESS_LINE_LENGTH :: nat where
  "MAX_DESTINATION_ADDRESS_LINE_LENGTH = 200"
definition MAX_DESTINATION_RECIPIENT_NAME_LENGTH :: nat where
  "MAX_DESTINATION_RECIPIENT_NAME_LENGTH = 200"
definition MAX_DESTINATION_COMPANY_LENGTH :: nat where "MAX_DESTINATION_COMPANY_LENGTH = 200"
definition MAX_DESTINATION_PHONE_LENGTH :: nat where "MAX_DESTINATION_PHONE_LENGTH = 64"
definition MAX_DESTINATION_EMAIL_LENGTH :: nat where "MAX_DESTINATION_EMAIL_LENGTH = 254"
definition MAX_DESTINATION_CITY_LENGTH :: nat where "MAX_DESTINATION_CITY_LENGTH = 100"
definition MAX_DESTINATION_REGION_LENGTH :: nat where "MAX_DESTINATION_REGION_LENGTH = 100"
definition MAX_DESTINATION_POSTAL_CODE_LENGTH :: nat where
  "MAX_DESTINATION_POSTAL_CODE_LENGTH = 32"
definition MAX_DESTINATION_COUNTRY_LENGTH :: nat where "MAX_DESTINATION_COUNTRY_LENGTH = 100"

datatype OrderCreationField =
    OrderKeyField
  | LineKey
  | RequestedUomField
  | DestinationRecipientName
  | DestinationCompany
  | DestinationPhone
  | DestinationEmail
  | DestinationLine1
  | DestinationLine2
  | DestinationCity
  | DestinationRegion
  | DestinationPostalCode
  | DestinationCountry

datatype OrderCreationError =
    InvalidText OrderCreationField
  | TextTooLong OrderCreationField nat
  | InvalidItemId int
  | InvalidQuantity int
  | MissingDemandLines
  | DuplicateLineKey rust_string

definition validate_required_text ::
  "rust_string \<Rightarrow> OrderCreationField \<Rightarrow> nat \<Rightarrow> OrderCreationError + unit" where
  "validate_required_text value field maximum =
     (if value = [] \<or> trim value \<noteq> value then Err (InvalidText field)
      else if length value > maximum then Err (TextTooLong field maximum)
      else Ok ())"

definition validate_optional_text ::
  "rust_string option \<Rightarrow> OrderCreationField \<Rightarrow> nat \<Rightarrow> OrderCreationError + unit" where
  "validate_optional_text value field maximum =
     (case value of
        Some v \<Rightarrow> and_then (validate_required_text v field maximum) (\<lambda>_. Ok ())
      | None \<Rightarrow> Ok ())"

datatype OrderKey = OrderKey (OrderKey_as_str: rust_string)

definition OrderKey_new :: "rust_string \<Rightarrow> OrderCreationError + OrderKey" where
  "OrderKey_new value =
     and_then (validate_required_text value OrderKeyField MAX_ORDER_KEY_LENGTH)
       (\<lambda>_. Ok (OrderKey value))"

datatype OrderLineKey = OrderLineKey (OrderLineKey_as_str: rust_string)

definition OrderLineKey_new :: "rust_string \<Rightarrow> OrderCreationError + OrderLineKey" where
  "OrderLineKey_new value =
     and_then (validate_required_text value LineKey MAX_ORDER_LINE_KEY_LENGTH)
       (\<lambda>_. Ok (OrderLineKey value))"

datatype RequestedUom = RequestedUom (RequestedUom_as_str: rust_string)

definition RequestedUom_new :: "rust_string \<Rightarrow> OrderCreationError + RequestedUom" where
  "RequestedUom_new value =
     and_then (validate_required_text value RequestedUomField MAX_REQUESTED_UOM_LENGTH)
       (\<lambda>_. Ok (RequestedUom value))"

datatype OrderQuantity = OrderQuantity (OrderQuantity_get: int)

definition OrderQuantity_new :: "int \<Rightarrow> OrderCreationError + OrderQuantity" where
  "OrderQuantity_new value =
     (if value > 0 then Ok (OrderQuantity value)
      else Err (OrderCreationError.InvalidQuantity value))"

datatype CatalogItemId = CatalogItemId (CatalogItemId_get: int)

definition CatalogItemId_new :: "int \<Rightarrow> OrderCreationError + CatalogItemId" where
  "CatalogItemId_new value =
     (if value > 0 then Ok (CatalogItemId value) else Err (InvalidItemId value))"

definition CatalogItemId_deserialize ::
  "(OrderCreationError \<Rightarrow> 'd) \<Rightarrow> 'd + int \<Rightarrow> 'd + CatalogItemId" where
  "CatalogItemId_deserialize custom raw = deserialize_with CatalogItemId_new custom raw"

record ShippingRecipient =
  recipient_name :: rust_string
  recipient_company :: "rust_string option"
  recipient_phone :: "rust_string option"
  recipient_email :: "rust_string option"

definition ShippingRecipient_new ::
  "rust_string \<Rightarrow> rust_string option \<Rightarrow> rust_string option \<Rightarrow> rust_string option \<Rightarrow>
   OrderCreationError + ShippingRecipient" where
  "ShippingRecipient_new name company phone email =
     and_then (validate_required_text name DestinationRecipientName
                 MAX_DESTINATION_RECIPIENT_NAME_LENGTH) (\<lambda>_.
     and_then (validate_optional_text company DestinationCompany
                 MAX_DESTINATION_COMPANY_LENGTH) (\<lambda>_.
     and_then (validate_optional_text phone DestinationPhone
                 MAX_DESTINATION_PHONE_LENGTH) (\<lambda>_.
     and_then (validate_optional_text email DestinationEmail
                 MAX_DESTINATION_EMAIL_LENGTH) (\<lambda>_.
     Ok \<lparr>recipient_name = name, recipient_company = company, recipient_phone = phone,
         recipient_email = email\<rparr>))))"

record ShippingDestination =
  recipient :: ShippingRecipient
  line1 :: rust_string
  line2 :: "rust_string option"
  city :: rust_string
  region :: rust_string
  postal_code :: rust_string
  country :: rust_string

definition ShippingDestination_new ::
  "ShippingRecipient \<Rightarrow> rust_string \<Rightarrow> rust_string option \<Rightarrow> rust_string \<Rightarrow> rust_string \<Rightarrow>
   rust_string \<Rightarrow> rust_string \<Rightarrow> OrderCreationError + ShippingDestination" where
  "ShippingDestination_new rcp l1 l2 cty reg postal ctry =
     and_then (validate_required_text l1 DestinationLine1
                 MAX_DESTINATION_ADDRESS_LINE_LENGTH) (\<lambda>_.
     and_then (validate_optional_text l2 DestinationLine2
                 MAX_DESTINATION_ADDRESS_LINE_LENGTH) (\<lambda>_.
     and_then (validate_required_text cty DestinationCity
                 MAX_DESTINATION_CITY_LENGTH) (\<lambda>_.
     and_then (validate_required_text reg DestinationRegion
                 MAX_DESTINATION_REGION_LENGTH) (\<lambda>_.
     and_then (validate_required_text postal DestinationPostalCode
                 MAX_DESTINATION_POSTAL_CODE_LENGTH) (\<lambda>_.
     and_then (validate_required_text ctry DestinationCountry
                 MAX_DESTINATION_COUNTRY_LENGTH) (\<lambda>_.
     Ok \<lparr>recipient = rcp, line1 = l1, line2 = l2, city = cty, region = reg,
         postal_code = postal, country = ctry\<rparr>))))))"

record FulfillmentOrderDemandLine =
  line_key :: OrderLineKey
  line_item_id :: CatalogItemId
  line_quantity :: OrderQuantity
  requested_uom :: RequestedUom

datatype OrderStatus =
    AwaitingPacking
  | AwaitingShipment
  | Shipped
  | Cancelled
  | Held
  | Packing
  | Processing
  | Open
  | Void

record NewFulfillmentOrder =
  order_inventory_owner_id :: InventoryOwnerId
  order_key :: OrderKey
  order_rush :: bool
  order_ship_by :: "Timestamp option"
  order_destination :: ShippingDestination
  demand_lines :: "FulfillmentOrderDemandLine list"

definition NewFulfillmentOrder_new ::
  "InventoryOwnerId \<Rightarrow> OrderKey \<Rightarrow> bool \<Rightarrow> Timestamp option \<Rightarrow> ShippingDestination \<Rightarrow>
   FulfillmentOrderDemandLine list \<Rightarrow> OrderCreationError + NewFulfillmentOrder" where
  "NewFulfillmentOrder_new owner key rush ship_by destination lines =
     (if lines = [] then Err MissingDemandLines
      else case first_duplicate [] (map (OrderLineKey_as_str \<circ> line_key) lines) of
          Some k \<Rightarrow> Err (DuplicateLineKey k)
        | None \<Rightarrow> Ok \<lparr>order_inventory_owner_id = owner, order_key = key, order_rush = rush,
                     order_ship_by = ship_by, order_destination = destination,
                     demand_lines = lines\<rparr>)"

definition NewFulfillmentOrder_initial_status :: "NewFulfillmentOrder \<Rightarrow> OrderStatus" where
  "NewFulfillmentOrder_initial_status self = OrderStatus.Open"

section \<open>Order status\<close>

definition OrderStatus_ALL :: "OrderStatus list" where
  "OrderStatus_ALL =
     [AwaitingPacking, AwaitingShipment, Shipped, Cancelled, Held, Packing, Processing,
      OrderStatus.Open, Void]"

definition OrderStatus_as_str :: "OrderStatus \<Rightarrow> string" where
  "OrderStatus_as_str self =
     (case self of
        AwaitingPacking \<Rightarrow> ''awaiting packing''
      | AwaitingShipment \<Rightarrow> ''awaiting shipment''
      | Shipped \<Rightarrow> ''shipped''
      | Cancelled \<Rightarrow> ''cancelled''
      | Held \<Rightarrow> ''held''
      | Packing \<Rightarrow> ''packing''
      | Processing \<Rightarrow> ''processing''
      | OrderStatus.Open \<Rightarrow> ''open''
      | Void \<Rightarrow> ''void'')"

definition OrderStatus_parse :: "string \<Rightarrow> OrderStatus option" where
  "OrderStatus_parse value =
     (if value = ''awaiting packing'' then Some AwaitingPacking
      else if value = ''awaiting shipment'' then Some AwaitingShipment
      else if value = ''shipped'' then Some Shipped
      else if value = ''cancelled'' then Some Cancelled
      else if value = ''held'' then Some Held
      else if value = ''packing'' then Some Packing
      else if value = ''processing'' then Some Processing
      else if value = ''open'' then Some OrderStatus.Open
      else if value = ''void'' then Some Void
      else None)"

text \<open>
  The wire name the \<open>Serialize\<close> derive gives a status: the snake-case variant name
  (\<open>rename\_all\<close>), except where the variant carries its own \<open>rename\<close>.
\<close>

definition OrderStatus_serde_name :: "OrderStatus \<Rightarrow> string" where
  "OrderStatus_serde_name self =
     (case self of
        AwaitingPacking \<Rightarrow> ''awaiting_packing''
      | AwaitingShipment \<Rightarrow> ''awaiting shipment''
      | Shipped \<Rightarrow> ''shipped''
      | Cancelled \<Rightarrow> ''cancelled''
      | Held \<Rightarrow> ''held''
      | Packing \<Rightarrow> ''packing''
      | Processing \<Rightarrow> ''processing''
      | OrderStatus.Open \<Rightarrow> ''open''
      | Void \<Rightarrow> ''void'')"

fun OrderStatus_is_mutable :: "OrderStatus \<Rightarrow> bool" where
  "OrderStatus_is_mutable Cancelled = True"
| "OrderStatus_is_mutable Held = True"
| "OrderStatus_is_mutable OrderStatus.Open = True"
| "OrderStatus_is_mutable Void = True"
| "OrderStatus_is_mutable _ = False"

datatype OrderHoldTransitionError = OrderNotHoldable | OrderNotHeld

fun place_hold :: "OrderStatus \<Rightarrow> OrderHoldTransitionError + OrderStatus" where
  "place_hold OrderStatus.Open = Ok Held"
| "place_hold Held = Ok Held"
| "place_hold _ = Err OrderNotHoldable"

definition release_hold :: "OrderStatus \<Rightarrow> bool \<Rightarrow> OrderHoldTransitionError + OrderStatus" where
  "release_hold self active_holds_remaining =
     (if self \<noteq> Held then Err OrderNotHeld
      else if active_holds_remaining then Ok Held
      else Ok OrderStatus.Open)"

datatype OrderHoldReason =
    AddressReview
  | ComplianceReview
  | CustomerRequest
  | InventoryShortage
  | PaymentReview
  | Other

definition OrderHoldReason_as_str :: "OrderHoldReason \<Rightarrow> string" where
  "OrderHoldReason_as_str self =
     (case self of
        AddressReview \<Rightarrow> ''address_review''
      | ComplianceReview \<Rightarrow> ''compliance_review''
      | CustomerRequest \<Rightarrow> ''customer_request''
      | InventoryShortage \<Rightarrow> ''inventory_shortage''
      | PaymentReview \<Rightarrow> ''payment_review''
      | OrderHoldReason.Other \<Rightarrow> ''other'')"

definition OrderHoldReason_parse :: "string \<Rightarrow> OrderHoldReason option" where
  "OrderHoldReason_parse value =
     (if value = ''address_review'' then Some AddressReview
      else if value = ''compliance_review'' then Some ComplianceReview
      else if value = ''customer_request'' then Some CustomerRequest
      else if value = ''inventory_shortage'' then Some InventoryShortage
      else if value = ''payment_review'' then Some PaymentReview
      else if value = ''other'' then Some OrderHoldReason.Other
      else None)"

section \<open>Revisions\<close>

text \<open>
  \<open>AllocationPlanError\<close> is declared beside the allocation planner; its
  \<open>InvalidRevision\<close> and \<open>InvalidQuantity\<close> variants are raised by the newtypes of
  that file.
\<close>

datatype AllocationPlanError =
    InvalidQuantity int
  | InvalidRevision int
  | DuplicateInventoryBalance int

datatype OrderRevision = OrderRevision (OrderRevision_get: int)

definition OrderRevision_new :: "int \<Rightarrow> AllocationPlanError + OrderRevision" where
  "OrderRevision_new value =
     (if value > 0 then Ok (OrderRevision value) else Err (InvalidRevision value))"

definition OrderRevision_checked_next :: "OrderRevision \<Rightarrow> OrderRevision option" where
  "OrderRevision_checked_next self =
     (case checked_add (OrderRevision_get self) 1 of
        Some value \<Rightarrow> Some (OrderRevision value)
      | None \<Rightarrow> None)"

definition OrderRevision_deserialize ::
  "(AllocationPlanError \<Rightarrow> 'd) \<Rightarrow> 'd + int \<Rightarrow> 'd + OrderRevision" where
  "OrderRevision_deserialize custom raw = deserialize_with OrderRevision_new custom raw"

section \<open>Release, cancellation and amendment\<close>

datatype OrderReleaseError = OrderNotOpen OrderStatus

definition release_order :: "OrderStatus \<Rightarrow> OrderReleaseError + OrderStatus" where
  "release_order status =
     (case status of
        OrderStatus.Open \<Rightarrow> Ok Processing
      | _ \<Rightarrow> Err (OrderReleaseError.OrderNotOpen status))"

definition MAX_CANCELLATION_NOTE_LENGTH :: nat where "MAX_CANCELLATION_NOTE_LENGTH = 1000"

datatype OrderCancellationReason =
    ClientRequest
  | DuplicateOrder
  | DataCorrection
  | InventoryUnavailable
  | FulfillmentException
  | Other

definition OrderCancellationReason_as_str :: "OrderCancellationReason \<Rightarrow> string" where
  "OrderCancellationReason_as_str self =
     (case self of
        ClientRequest \<Rightarrow> ''client_request''
      | DuplicateOrder \<Rightarrow> ''duplicate_order''
      | DataCorrection \<Rightarrow> ''data_correction''
      | OrderCancellationReason.InventoryUnavailable \<Rightarrow> ''inventory_unavailable''
      | FulfillmentException \<Rightarrow> ''fulfillment_exception''
      | OrderCancellationReason.Other \<Rightarrow> ''other'')"

definition OrderCancellationReason_parse :: "string \<Rightarrow> OrderCancellationReason option" where
  "OrderCancellationReason_parse value =
     (if value = ''client_request'' then Some ClientRequest
      else if value = ''duplicate_order'' then Some DuplicateOrder
      else if value = ''data_correction'' then Some DataCorrection
      else if value = ''inventory_unavailable''
        then Some OrderCancellationReason.InventoryUnavailable
      else if value = ''fulfillment_exception'' then Some FulfillmentException
      else if value = ''other'' then Some OrderCancellationReason.Other
      else None)"

definition OrderCancellationReason_requires_note :: "OrderCancellationReason \<Rightarrow> bool" where
  "OrderCancellationReason_requires_note self \<longleftrightarrow> self = OrderCancellationReason.Other"

datatype OrderCancellationError =
    InvalidNote
  | NoteTooLong nat
  | NoteRequired

datatype CancellationNote = CancellationNote (CancellationNote_as_str: rust_string)

definition CancellationNote_new :: "rust_string \<Rightarrow> OrderCancellationError + CancellationNote" where
  "CancellationNote_new value =
     (if value = [] \<or> trim value \<noteq> value then Err OrderCancellationError.InvalidNote
      else if length value > MAX_CANCELLATION_NOTE_LENGTH
        then Err (NoteTooLong MAX_CANCELLATION_NOTE_LENGTH)
      else Ok (CancellationNote value))"

definition CancellationNote_deserialize ::
  "(OrderCancellationError \<Rightarrow> 'd) \<Rightarrow> 'd + rust_string \<Rightarrow> 'd + CancellationNote" where
  "CancellationNote_deserialize custom raw = deserialize_with CancellationNote_new custom raw"

record OrderCancellationDetails =
  cancellation_reason :: OrderCancellationReason
  cancellation_note :: "CancellationNote option"

definition OrderCancellationDetails_new ::
  "OrderCancellationReason \<Rightarrow> CancellationNote option \<Rightarrow>
   OrderCancellationError + OrderCancellationDetails" where
  "OrderCancellationDetails_new reason note =
     (if OrderCancellationReason_requires_note reason \<and> note = None then Err NoteRequired
      else Ok \<lparr>cancellation_reason = reason, cancellation_note = note\<rparr>)"

datatype OrderCancellationExecution =
    Unreleased
  | ReleasedUnclaimed nat
  | ReleasedRestored nat nat
  | Started

datatype OrderCancellationTransitionError =
    OrderNotCancellable OrderStatus
  | InvalidReleaseWork
  | PhysicalExecutionStarted

definition cancel_order_before_physical_execution ::
  "OrderStatus \<Rightarrow> OrderCancellationExecution \<Rightarrow>
   OrderCancellationTransitionError + OrderStatus" where
  "cancel_order_before_physical_execution status execution =
     (case (status, execution) of
        (OrderStatus.Open, Unreleased) \<Rightarrow> Ok Cancelled
      | (Held, Unreleased) \<Rightarrow> Ok Cancelled
      | (Processing, ReleasedUnclaimed pending_pick_tasks) \<Rightarrow>
          if pending_pick_tasks > 0 then Ok Cancelled else Err InvalidReleaseWork
      | (Processing, ReleasedRestored pending_pick_tasks reversed_pick_confirmations) \<Rightarrow>
          if pending_pick_tasks > 0 \<and> reversed_pick_confirmations > 0 then Ok Cancelled
          else Err InvalidReleaseWork
      | (Processing, Started) \<Rightarrow> Err PhysicalExecutionStarted
      | (Processing, Unreleased) \<Rightarrow> Err InvalidReleaseWork
      | _ \<Rightarrow> Err (OrderNotCancellable status))"

record FulfillmentOrderHeader =
  header_rush :: bool
  header_ship_by :: "Timestamp option"
  header_destination :: ShippingDestination

datatype OrderAmendmentTransition =
  OrderAmendmentTransition (amendment_revision: OrderRevision)

datatype OrderAmendmentError =
    InvalidOrderStatus
  | NoChanges
  | RevisionOverflow

definition amend_fulfillment_order ::
  "OrderStatus \<Rightarrow> OrderRevision \<Rightarrow> FulfillmentOrderHeader \<Rightarrow> FulfillmentOrderHeader \<Rightarrow>
   OrderAmendmentError + OrderAmendmentTransition" where
  "amend_fulfillment_order status revision current requested =
     (if status \<noteq> OrderStatus.Open \<and> status \<noteq> Held
        then Err OrderAmendmentError.InvalidOrderStatus
      else if current = requested then Err OrderAmendmentError.NoChanges
      else and_then
             (ok_or (OrderRevision_checked_next revision) OrderAmendmentError.RevisionOverflow)
             (\<lambda>next. Ok (OrderAmendmentTransition next)))"

datatype OrderLineAmendmentTransition =
  OrderLineAmendmentTransition (line_amendment_revision: OrderRevision)

datatype OrderLineAmendmentError =
    InvalidOrderStatus
  | MissingDemandLines
  | DuplicateLineKey rust_string
  | NoChanges
  | RevisionOverflow

definition replace_fulfillment_order_lines ::
  "OrderStatus \<Rightarrow> OrderRevision \<Rightarrow> FulfillmentOrderDemandLine list \<Rightarrow>
   FulfillmentOrderDemandLine list \<Rightarrow>
   OrderLineAmendmentError + OrderLineAmendmentTransition" where
  "replace_fulfillment_order_lines status revision current requested =
     (if status \<noteq> OrderStatus.Open \<and> status \<noteq> Held
        then Err OrderLineAmendmentError.InvalidOrderStatus
      else if requested = [] then Err OrderLineAmendmentError.MissingDemandLines
      else case first_duplicate [] (map (OrderLineKey_as_str \<circ> line_key) requested) of
          Some k \<Rightarrow> Err (OrderLineAmendmentError.DuplicateLineKey k)
        | None \<Rightarrow>
            if current = requested then Err OrderLineAmendmentError.NoChanges
            else and_then
                   (ok_or (OrderRevision_checked_next revision)
                      OrderLineAmendmentError.RevisionOverflow)
                   (\<lambda>next. Ok (OrderLineAmendmentTransition next)))"

section \<open>Interfaces\<close>

lemma validate_required_text_ok_iff:
  "validate_required_text v field maximum = Inr u \<longleftrightarrow> v \<noteq> [] \<and> trim v = v \<and> length v \<le> maximum"
  by (auto simp: validate_required_text_def)

lemma validate_optional_text_ok_iff:
  "validate_optional_text v field maximum = Inr u \<longleftrightarrow>
     (\<forall>w. v = Some w \<longrightarrow> w \<noteq> [] \<and> trim w = w \<and> length w \<le> maximum)"
  by (cases v)
    (auto simp: validate_optional_text_def result_simps validate_required_text_ok_iff)

interpretation order_key: validated_newtype OrderKey_new OrderKey_as_str
  "bounded_text MAX_ORDER_KEY_LENGTH"
  by unfold_locales
    (auto simp: OrderKey_new_def is_ok_iff result_simps validate_required_text_ok_iff
      intro: OrderKey.expand)

interpretation order_line_key: validated_newtype OrderLineKey_new OrderLineKey_as_str
  "bounded_text MAX_ORDER_LINE_KEY_LENGTH"
  by unfold_locales
    (auto simp: OrderLineKey_new_def is_ok_iff result_simps validate_required_text_ok_iff
      intro: OrderLineKey.expand)

interpretation requested_uom: validated_newtype RequestedUom_new RequestedUom_as_str
  "bounded_text MAX_REQUESTED_UOM_LENGTH"
  by unfold_locales
    (auto simp: RequestedUom_new_def is_ok_iff result_simps validate_required_text_ok_iff
      intro: RequestedUom.expand)

interpretation order_quantity: validated_newtype OrderQuantity_new OrderQuantity_get "\<lambda>v. 0 < v"
  by unfold_locales
    (auto simp: OrderQuantity_new_def split: if_splits intro: OrderQuantity.expand)

interpretation catalog_item_id: validated_newtype CatalogItemId_new CatalogItemId_get "\<lambda>v. 0 < v"
  by unfold_locales
    (auto simp: CatalogItemId_new_def split: if_splits intro: CatalogItemId.expand)

interpretation cancellation_note: validated_newtype CancellationNote_new CancellationNote_as_str
  "bounded_text MAX_CANCELLATION_NOTE_LENGTH"
  by unfold_locales
    (auto simp: CancellationNote_new_def is_ok_iff split: if_splits
      intro: CancellationNote.expand)

interpretation order_revision:
  revision_newtype OrderRevision_new OrderRevision_get OrderRevision_checked_next
  by unfold_locales
    (auto simp: OrderRevision_new_def OrderRevision_checked_next_def checked_add_def
      split: if_splits option.splits intro: OrderRevision.expand)

interpretation order_status: tag_codec OrderStatus_as_str OrderStatus_parse
  by unfold_locales
    (auto simp: OrderStatus_as_str_def OrderStatus_parse_def split: if_splits OrderStatus.splits)

interpretation order_hold_reason: tag_codec OrderHoldReason_as_str OrderHoldReason_parse
  by unfold_locales
    (auto simp: OrderHoldReason_as_str_def OrderHoldReason_parse_def split: if_splits OrderHoldReason.splits)

interpretation order_cancellation_reason:
  tag_codec OrderCancellationReason_as_str OrderCancellationReason_parse
  by unfold_locales
    (auto simp: OrderCancellationReason_as_str_def OrderCancellationReason_parse_def split: if_splits OrderCancellationReason.splits)

text \<open>
  The name serde gives a status and the name the database and the display use are the same,
  except for an order that awaits packing.
\<close>

lemma serde_name_agrees_iff:
  "OrderStatus_parse (OrderStatus_serde_name s) = Some s \<longleftrightarrow> s \<noteq> AwaitingPacking"
  by (cases s) (simp_all add: OrderStatus_parse_def OrderStatus_serde_name_def)

end
