(* ===== verification/Allocation.thy ===== *)
theory Allocation
  imports Orders
begin

text \<open>
  The pure allocation policy of \<open>crates/domain/src/allocation.rs\<close>: the rotation
  comparisons (FIFO and FEFO), the planner \<open>plan\_allocation\<close> with its duplicate check,
  its sort and its greedy loop, and the order-level readiness check. The lemmas refine the
  loop to the generic greedy selection and show conservation, rotation order, determinism
  and the exact error behaviour.
\<close>

section \<open>Definitions\<close>

datatype AllocationStrategy = Fifo | Fefo

datatype AllocationExecutionStage = PickSource | Staged | Packed

definition AllocationExecutionStage_as_str :: "AllocationExecutionStage \<Rightarrow> string" where
  "AllocationExecutionStage_as_str self =
     (case self of
        PickSource \<Rightarrow> ''pick_source''
      | Staged \<Rightarrow> ''staged''
      | Packed \<Rightarrow> ''packed'')"

definition AllocationExecutionStage_parse :: "string \<Rightarrow> AllocationExecutionStage option" where
  "AllocationExecutionStage_parse value =
     (if value = ''pick_source'' then Some PickSource
      else if value = ''staged'' then Some Staged
      else if value = ''packed'' then Some Packed
      else None)"

definition AllocationStrategy_as_str :: "AllocationStrategy \<Rightarrow> string" where
  "AllocationStrategy_as_str self = (case self of Fifo \<Rightarrow> ''fifo'' | Fefo \<Rightarrow> ''fefo'')"

definition AllocationStrategy_parse :: "string \<Rightarrow> AllocationStrategy option" where
  "AllocationStrategy_parse value =
     (if value = ''fifo'' then Some Fifo
      else if value = ''fefo'' then Some Fefo
      else None)"

datatype AllocationQuantity = AllocationQuantity (AllocationQuantity_get: int)

definition AllocationQuantity_new :: "int \<Rightarrow> AllocationPlanError + AllocationQuantity" where
  "AllocationQuantity_new value =
     (if value > 0 then Ok (AllocationQuantity value)
      else Err (AllocationPlanError.InvalidQuantity value))"

definition AllocationQuantity_deserialize ::
  "(AllocationPlanError \<Rightarrow> 'd) \<Rightarrow> 'd + int \<Rightarrow> 'd + AllocationQuantity" where
  "AllocationQuantity_deserialize custom raw =
     deserialize_with AllocationQuantity_new custom raw"

record AllocationCandidate =
  cand_inventory_balance_id :: InventoryBalanceId
  cand_item_batch_id :: ItemBatchId
  cand_location_id :: LocationId
  cand_license_plate_id :: "LicensePlateId option"
  cand_lot :: "rust_string option"
  cand_serial :: "rust_string option"
  cand_expiration :: "Timestamp option"
  cand_received_at :: Timestamp
  cand_available_quantity :: AllocationQuantity

record PlannedAllocation =
  plan_inventory_balance_id :: InventoryBalanceId
  plan_item_batch_id :: ItemBatchId
  plan_location_id :: LocationId
  plan_license_plate_id :: "LicensePlateId option"
  plan_lot :: "rust_string option"
  plan_serial :: "rust_string option"
  plan_expiration :: "Timestamp option"
  plan_quantity :: AllocationQuantity

datatype AllocationOutcome = FullyAllocated | PartiallyAllocated | NotAllocated

definition AllocationOutcome_as_str :: "AllocationOutcome \<Rightarrow> string" where
  "AllocationOutcome_as_str self =
     (case self of
        FullyAllocated \<Rightarrow> ''fully_allocated''
      | PartiallyAllocated \<Rightarrow> ''partially_allocated''
      | NotAllocated \<Rightarrow> ''not_allocated'')"

datatype AllocationShortageReason = NoEligibleInventory | InsufficientEligibleInventory

definition AllocationShortageReason_as_str :: "AllocationShortageReason \<Rightarrow> string" where
  "AllocationShortageReason_as_str self =
     (case self of
        NoEligibleInventory \<Rightarrow> ''no_eligible_inventory''
      | InsufficientEligibleInventory \<Rightarrow> ''insufficient_eligible_inventory'')"

record AllocationPlan =
  demand_quantity :: AllocationQuantity
  allocated_quantity :: int
  shortage_quantity :: int
  outcome :: AllocationOutcome
  shortage_reason :: "AllocationShortageReason option"
  allocations :: "PlannedAllocation list"

datatype OrderAllocationBlockReason = ActiveHold | OrderStatusNotAllocatable

datatype OrderAllocationReadiness =
    Ready
  | AlreadyFullyAllocated
  | Blocked OrderAllocationBlockReason

definition assess_order_allocation_readiness ::
  "OrderStatus \<Rightarrow> nat \<Rightarrow> nat \<Rightarrow> OrderAllocationReadiness" where
  "assess_order_allocation_readiness status active_hold_count remaining_quantity =
     (if active_hold_count > 0 \<or> status = Held then Blocked ActiveHold
      else case status of
          OrderStatus.Open \<Rightarrow>
            if remaining_quantity = 0 then AlreadyFullyAllocated else Ready
        | Processing \<Rightarrow>
            if remaining_quantity = 0 then AlreadyFullyAllocated
            else Blocked OrderStatusNotAllocatable
        | AwaitingPacking \<Rightarrow>
            if remaining_quantity = 0 then AlreadyFullyAllocated
            else Blocked OrderStatusNotAllocatable
        | Packing \<Rightarrow>
            if remaining_quantity = 0 then AlreadyFullyAllocated
            else Blocked OrderStatusNotAllocatable
        | AwaitingShipment \<Rightarrow>
            if remaining_quantity = 0 then AlreadyFullyAllocated
            else Blocked OrderStatusNotAllocatable
        | _ \<Rightarrow> Blocked OrderStatusNotAllocatable)"

definition compare_expiration :: "Timestamp option \<Rightarrow> Timestamp option \<Rightarrow> ordering" where
  "compare_expiration left right =
     (case (left, right) of
        (Some l, Some r) \<Rightarrow> cmp_int l r
      | (Some _, None) \<Rightarrow> Less
      | (None, Some _) \<Rightarrow> Greater
      | (None, None) \<Rightarrow> Equal)"

definition compare_fifo_candidates ::
  "AllocationCandidate \<Rightarrow> AllocationCandidate \<Rightarrow> ordering" where
  "compare_fifo_candidates left right =
     then_with (cmp_int (cand_received_at left) (cand_received_at right))
       (cmp_int (cand_inventory_balance_id left) (cand_inventory_balance_id right))"

definition compare_fefo_candidates ::
  "AllocationCandidate \<Rightarrow> AllocationCandidate \<Rightarrow> ordering" where
  "compare_fefo_candidates left right =
     then_with
       (then_with (compare_expiration (cand_expiration left) (cand_expiration right))
          (cmp_int (cand_received_at left) (cand_received_at right)))
       (cmp_int (cand_inventory_balance_id left) (cand_inventory_balance_id right))"

definition compare_candidates ::
  "AllocationStrategy \<Rightarrow> AllocationCandidate \<Rightarrow> AllocationCandidate \<Rightarrow> ordering" where
  "compare_candidates strategy left right =
     (case strategy of
        Fifo \<Rightarrow> compare_fifo_candidates left right
      | Fefo \<Rightarrow> compare_fefo_candidates left right)"

definition planned_from :: "AllocationCandidate \<Rightarrow> int \<Rightarrow> PlannedAllocation" where
  "planned_from candidate selected =
     \<lparr>plan_inventory_balance_id = cand_inventory_balance_id candidate,
      plan_item_batch_id = cand_item_batch_id candidate,
      plan_location_id = cand_location_id candidate,
      plan_license_plate_id = cand_license_plate_id candidate,
      plan_lot = cand_lot candidate,
      plan_serial = cand_serial candidate,
      plan_expiration = cand_expiration candidate,
      plan_quantity = AllocationQuantity selected\<rparr>"

text \<open>The \<open>for candidate in candidates\<close> loop of \<open>plan\_allocation\<close>.\<close>

fun allocation_loop ::
  "int \<Rightarrow> PlannedAllocation list \<Rightarrow> AllocationCandidate list \<Rightarrow> PlannedAllocation list \<times> int" where
  "allocation_loop remaining allocs [] = (allocs, remaining)"
| "allocation_loop remaining allocs (candidate # candidates) =
     (if remaining = 0 then (allocs, remaining)
      else let selected =
                 min remaining (AllocationQuantity_get (cand_available_quantity candidate))
           in allocation_loop (remaining - selected)
                (allocs @ [planned_from candidate selected]) candidates)"

definition plan_allocation ::
  "AllocationStrategy \<Rightarrow> AllocationQuantity \<Rightarrow> AllocationCandidate list \<Rightarrow>
   AllocationPlanError + AllocationPlan" where
  "plan_allocation strategy demand candidates =
     (case first_duplicate [] (map cand_inventory_balance_id candidates) of
        Some balance_id \<Rightarrow> Err (DuplicateInventoryBalance balance_id)
      | None \<Rightarrow>
          let sorted = sort_by (compare_candidates strategy) candidates;
              (allocs, remaining) = allocation_loop (AllocationQuantity_get demand) [] sorted;
              allocated = AllocationQuantity_get demand - remaining;
              (out, reason) =
                (if remaining = 0 then (FullyAllocated, None)
                 else if allocated = 0 then (NotAllocated, Some NoEligibleInventory)
                 else (PartiallyAllocated, Some InsufficientEligibleInventory))
          in Ok \<lparr>demand_quantity = demand, allocated_quantity = allocated,
                 shortage_quantity = remaining, outcome = out, shortage_reason = reason,
                 allocations = allocs\<rparr>)"

definition plan_fefo_allocation ::
  "AllocationQuantity \<Rightarrow> AllocationCandidate list \<Rightarrow> AllocationPlanError + AllocationPlan" where
  "plan_fefo_allocation demand candidates = plan_allocation Fefo demand candidates"

text \<open>
  The rotation promised by the documentation of \<open>AllocationStrategy\<close>, as a specification
  of when one candidate must be used up before another is touched: FIFO goes by receipt
  time, FEFO by expiration with undated stock last and then by receipt time; ties are
  broken by the balance identifier.
\<close>

definition older :: "AllocationCandidate \<Rightarrow> AllocationCandidate \<Rightarrow> bool" where
  "older a b \<longleftrightarrow>
     cand_received_at a < cand_received_at b \<or>
     cand_received_at a = cand_received_at b \<and>
       cand_inventory_balance_id a < cand_inventory_balance_id b"

definition expires_before :: "Timestamp option \<Rightarrow> Timestamp option \<Rightarrow> bool" where
  "expires_before e f \<longleftrightarrow> (\<exists>t. e = Some t \<and> (\<forall>u. f = Some u \<longrightarrow> t < u))"

definition rotates_before :: "AllocationStrategy \<Rightarrow> AllocationCandidate \<Rightarrow> AllocationCandidate \<Rightarrow> bool" where
  "rotates_before strategy a b \<longleftrightarrow>
     (case strategy of
        Fifo \<Rightarrow> older a b
      | Fefo \<Rightarrow> expires_before (cand_expiration a) (cand_expiration b) \<or>
                cand_expiration a = cand_expiration b \<and> older a b)"

abbreviation available :: "AllocationCandidate \<Rightarrow> int" where
  "available c \<equiv> AllocationQuantity_get (cand_available_quantity c)"

definition candidates_valid :: "AllocationCandidate list \<Rightarrow> bool" where
  "candidates_valid cs \<longleftrightarrow> list_all (\<lambda>c. 0 < available c) cs"

subsection \<open>A concrete planning run\<close>

definition sample_candidate :: "int \<Rightarrow> int option \<Rightarrow> int \<Rightarrow> int \<Rightarrow> AllocationCandidate" where
  "sample_candidate balance_id expiration received_at quantity =
     \<lparr>cand_inventory_balance_id = balance_id, cand_item_batch_id = 1, cand_location_id = 2,
      cand_license_plate_id = None, cand_lot = None, cand_serial = None,
      cand_expiration = expiration, cand_received_at = received_at,
      cand_available_quantity = AllocationQuantity quantity\<rparr>"

definition sample_stock :: "AllocationCandidate list" where
  "sample_stock =
     [sample_candidate 10 None 1 10, sample_candidate 11 (Some 200) 5 3,
      sample_candidate 12 (Some 100) 9 4]"

definition sample_plan :: AllocationPlan where
  "sample_plan =
     \<lparr>demand_quantity = AllocationQuantity 6, allocated_quantity = 6, shortage_quantity = 0,
      outcome = FullyAllocated, shortage_reason = None,
      allocations = [planned_from (sample_candidate 12 (Some 100) 9 4) 4,
                     planned_from (sample_candidate 11 (Some 200) 5 3) 2]\<rparr>"

section \<open>Interfaces\<close>

interpretation allocation_execution_stage:
  tag_codec AllocationExecutionStage_as_str AllocationExecutionStage_parse
  by unfold_locales
    (auto simp: AllocationExecutionStage_as_str_def AllocationExecutionStage_parse_def
      split: if_splits AllocationExecutionStage.splits)

interpretation allocation_strategy: tag_codec AllocationStrategy_as_str AllocationStrategy_parse
  by unfold_locales
    (auto simp: AllocationStrategy_as_str_def AllocationStrategy_parse_def
      split: if_splits AllocationStrategy.splits)

interpretation allocation_quantity:
  validated_newtype AllocationQuantity_new AllocationQuantity_get "\<lambda>v. 0 < v"
  by unfold_locales
    (auto simp: AllocationQuantity_new_def split: if_splits intro: AllocationQuantity.expand)

lemma compare_expiration_swap:
  "compare_expiration a b = Less \<longleftrightarrow> compare_expiration b a = Greater"
  "compare_expiration a b = Equal \<longleftrightarrow> a = b"
  by (auto simp: compare_expiration_def split: option.splits)

lemma compare_candidates_Less_iff:
  "compare_candidates strategy a b = Less \<longleftrightarrow> rotates_before strategy a b"
proof (cases strategy)
  case Fifo
  then show ?thesis
    by (auto simp: compare_candidates_def compare_fifo_candidates_def rotates_before_def older_def)
next
  case Fefo
  have "compare_expiration e f = Less \<longleftrightarrow> expires_before e f" for e f
    by (auto simp: compare_expiration_def expires_before_def split: option.splits)
  with Fefo show ?thesis
    by (auto simp: compare_candidates_def compare_fefo_candidates_def rotates_before_def
        older_def compare_expiration_swap)
qed

lemma compare_candidates_Equal_iff:
  "compare_candidates strategy a b = Equal \<Longrightarrow>
     cand_inventory_balance_id a = cand_inventory_balance_id b"
  by (cases strategy)
    (auto simp: compare_candidates_def compare_fifo_candidates_def compare_fefo_candidates_def)

lemma total_comparison_candidates: "total_comparison (compare_candidates strategy)"
proof (cases strategy)
  case Fifo
  then have "compare_candidates strategy = (\<lambda>x y.
      then_with (cmp_int (cand_received_at x) (cand_received_at y))
        (cmp_int (cand_inventory_balance_id x) (cand_inventory_balance_id y)))"
    by (simp add: fun_eq_iff compare_candidates_def compare_fifo_candidates_def)
  then show ?thesis
    by (simp only: total_comparison_then_with total_comparison_cmp_int)
next
  case Fefo
  then have "compare_candidates strategy = (\<lambda>x y.
      then_with
        (then_with
          (case (cand_expiration x, cand_expiration y) of
             (Some l, Some r) \<Rightarrow> cmp_int l r
           | (Some _, None) \<Rightarrow> Less
           | (None, Some _) \<Rightarrow> Greater
           | (None, None) \<Rightarrow> Equal)
          (cmp_int (cand_received_at x) (cand_received_at y)))
        (cmp_int (cand_inventory_balance_id x) (cand_inventory_balance_id y)))"
    by (simp add: fun_eq_iff compare_candidates_def compare_fefo_candidates_def
        compare_expiration_def)
  then show ?thesis
    by (simp only: total_comparison_then_with total_comparison_cmp_int
        total_comparison_nulls_last)
qed

interpretation rotation: stock_rotation "compare_candidates strategy" available for strategy
  by (intro stock_rotation.intro total_comparison_candidates)

section \<open>The planner refines the greedy selection\<close>

abbreviation selection ::
  "AllocationStrategy \<Rightarrow> AllocationQuantity \<Rightarrow> AllocationCandidate list \<Rightarrow>
   (AllocationCandidate \<times> int) list \<times> int" where
  "selection strategy d cs \<equiv>
     greedy available (AllocationQuantity_get d) (sort_by (compare_candidates strategy) cs)"

lemma allocation_loop_greedy:
  "allocation_loop remaining allocs cs =
     (allocs @ map (\<lambda>(c, q). planned_from c q) (fst (greedy available remaining cs)),
      snd (greedy available remaining cs))"
  by (induction remaining allocs cs rule: allocation_loop.induct) (simp_all add: greedy_split Let_def)

lemma plan_allocation_Inr_iff:
  "plan_allocation strategy d cs = Inr p \<longleftrightarrow>
     distinct (map cand_inventory_balance_id cs) \<and>
     p = \<lparr>demand_quantity = d,
          allocated_quantity = AllocationQuantity_get d - snd (selection strategy d cs),
          shortage_quantity = snd (selection strategy d cs),
          outcome = (if snd (selection strategy d cs) = 0 then FullyAllocated
                     else if AllocationQuantity_get d = snd (selection strategy d cs)
                     then NotAllocated else PartiallyAllocated),
          shortage_reason = (if snd (selection strategy d cs) = 0 then None
                     else if AllocationQuantity_get d = snd (selection strategy d cs)
                     then Some NoEligibleInventory else Some InsufficientEligibleInventory),
          allocations = map (\<lambda>(c, q). planned_from c q) (fst (selection strategy d cs))\<rparr>"
proof (cases "distinct (map cand_inventory_balance_id cs)")
  case True
  then show ?thesis by (auto simp: plan_allocation_def allocation_loop_greedy Let_def)
next
  case False
  then have "first_duplicate [] (map cand_inventory_balance_id cs) \<noteq> None"
    by (simp add: first_duplicate_distinct_iff)
  with False show ?thesis by (auto simp: plan_allocation_def)
qed

lemma planned_from_sel [simp]:
  "plan_inventory_balance_id (planned_from c q) = cand_inventory_balance_id c"
  "plan_quantity (planned_from c q) = AllocationQuantity q"
  by (simp_all add: planned_from_def)

lemma plan_left:
  assumes "0 < AllocationQuantity_get d" and "candidates_valid cs"
  shows "snd (selection strategy d cs) =
     max 0 (AllocationQuantity_get d - sum_list (map available cs))"
  using assms by (intro rotation.selection_left) (auto simp: candidates_valid_def list_all_iff)

lemma sum_available_pos:
  "candidates_valid cs \<Longrightarrow> 0 \<le> sum_list (map available cs) \<and> (sum_list (map available cs) = 0 \<longleftrightarrow> cs = [])"
  by (induction cs) (auto simp: candidates_valid_def)

lemmas sample_defs = sample_stock_def sample_candidate_def sample_plan_def

lemma sample_plan_computed: "plan_allocation Fefo (AllocationQuantity 6) sample_stock = Inr sample_plan"
  by code_simp

lemma sample_stock_valid: "candidates_valid sample_stock"
  by (simp add: candidates_valid_def sample_defs)

section \<open>Properties\<close>

text \<open>
  C1. Conservation. A successful plan splits the demand exactly into allocated and short
  quantity, allocates the smaller of the demand and the total stock offered, and the planned
  lines sum to the allocated quantity. Every planned line copies the identity of one supplied
  candidate, takes a positive quantity of at most what that candidate offers, and no balance
  is used twice.
\<close>

theorem plan_allocation_conserves:
  assumes pos: "0 < AllocationQuantity_get d" and valid: "candidates_valid cs"
    and plan: "plan_allocation strategy d cs = Inr p"
  shows "allocated_quantity p = min (AllocationQuantity_get d) (sum_list (map available cs)) \<and>
     allocated_quantity p + shortage_quantity p = AllocationQuantity_get d \<and>
     sum_list (map (AllocationQuantity_get \<circ> plan_quantity) (allocations p)) =
       allocated_quantity p \<and>
     distinct (map plan_inventory_balance_id (allocations p)) \<and>
     (\<forall>a \<in> set (allocations p). \<exists>c \<in> set cs.
        a = planned_from c (AllocationQuantity_get (plan_quantity a)) \<and>
        0 < AllocationQuantity_get (plan_quantity a) \<and>
        AllocationQuantity_get (plan_quantity a) \<le> available c)"
proof -
  let ?sel = "fst (selection strategy d cs)" and ?left = "snd (selection strategy d cs)"
  have p: "allocated_quantity p = AllocationQuantity_get d - ?left" "shortage_quantity p = ?left"
      "allocations p = map (\<lambda>(c, q). planned_from c q) ?sel"
    and dist: "distinct (map cand_inventory_balance_id cs)"
    using plan by (simp_all add: plan_allocation_Inr_iff)
  have "\<exists>c \<in> set cs. a = planned_from c (AllocationQuantity_get (plan_quantity a)) \<and>
        0 < AllocationQuantity_get (plan_quantity a) \<and>
        AllocationQuantity_get (plan_quantity a) \<le> available c"
    if a: "a \<in> set (allocations p)" for a
  proof -
    from a p obtain c q where cq: "(c, q) \<in> set ?sel" "a = planned_from c q" by auto
    then have "c \<in> set cs \<and> 0 < q \<and> q \<le> available c \<and> q \<le> AllocationQuantity_get d"
      using pos valid by (intro rotation.selection_bounds) (auto simp: candidates_valid_def list_all_iff)
    with cq show ?thesis by auto
  qed
  moreover have "sum_list (map (AllocationQuantity_get \<circ> plan_quantity) (allocations p)) =
      AllocationQuantity_get d - ?left"
    by (simp add: p split_def comp_def greedy_sum [symmetric])
  moreover have "distinct (map plan_inventory_balance_id (allocations p))"
    using rotation.selection_distinct [OF dist, of "AllocationQuantity_get d" strategy]
    by (simp add: p split_def comp_def)
  ultimately show ?thesis
    using plan_left [OF pos valid, of strategy] p(1,2) by simp
qed

theorem plan_allocation_conserves_witness:
  "allocated_quantity sample_plan = min 6 (sum_list (map available sample_stock)) \<and>
   distinct (map plan_inventory_balance_id (allocations sample_plan))"
  using plan_allocation_conserves [OF _ sample_stock_valid sample_plan_computed] by simp

text \<open>
  C2. Rotation. Stock is planned from a candidate only after every candidate that rotates
  strictly before it (older receipt under FIFO; earlier expiration with undated stock last,
  then older receipt, under FEFO) has been planned in full.
\<close>

theorem plan_allocation_respects_rotation:
  assumes plan: "plan_allocation strategy d cs = Inr p"
    and a: "a \<in> set (allocations p)"
    and c': "c' \<in> set cs" "cand_inventory_balance_id c' = plan_inventory_balance_id a"
    and c: "c \<in> set cs" "rotates_before strategy c c'"
    and pos: "0 < AllocationQuantity_get d" and valid: "candidates_valid cs"
  shows "planned_from c (available c) \<in> set (allocations p)"
proof -
  have dist: "distinct (map cand_inventory_balance_id cs)"
    and al: "allocations p = map (\<lambda>(c, q). planned_from c q) (fst (selection strategy d cs))"
    using plan by (simp_all add: plan_allocation_Inr_iff)
  from a al obtain b q where b: "(b, q) \<in> set (fst (selection strategy d cs))" "a = planned_from b q"
    by auto
  then have "b \<in> set cs"
    using rotation.selection_bounds [of "AllocationQuantity_get d" cs b q strategy] pos valid
    by (auto simp: candidates_valid_def list_all_iff)
  then have "b = c'" using dist c' b by (auto simp: distinct_map inj_on_def)
  then have "(c, available c) \<in> set (fst (selection strategy d cs))"
    using b c by (intro rotation.selection_priority) (auto simp: compare_candidates_Less_iff)
  then show ?thesis using al by force
qed

theorem plan_allocation_respects_rotation_witness:
  "planned_from (sample_candidate 12 (Some 100) 9 4) 4 \<in> set (allocations sample_plan)"
proof -
  have "planned_from (sample_candidate 12 (Some 100) 9 4)
      (available (sample_candidate 12 (Some 100) 9 4)) \<in> set (allocations sample_plan)"
    by (rule plan_allocation_respects_rotation [OF sample_plan_computed,
          where a = "planned_from (sample_candidate 11 (Some 200) 5 3) 2"
            and c' = "sample_candidate 11 (Some 200) 5 3"])
      (simp_all add: sample_defs sample_stock_valid [unfolded sample_defs] rotates_before_def
        expires_before_def)
  then show ?thesis by (simp add: sample_candidate_def)
qed

text \<open>
  C3. Determinism. The plan does not depend on the order in which the repository returned
  the eligible balances.
\<close>

theorem plan_allocation_order_independent:
  assumes "mset cs = mset cs'" and "distinct (map cand_inventory_balance_id cs)"
  shows "plan_allocation strategy d cs = plan_allocation strategy d cs'"
proof -
  have sorted: "sort_by (compare_candidates strategy) cs = sort_by (compare_candidates strategy) cs'"
  proof (rule rotation.sort_by_mset_cong [OF assms(1)])
    fix a b assume "a \<in> set cs" "b \<in> set cs" "compare_candidates strategy a b = Equal"
    then show "a = b"
      using assms(2) by (auto dest!: compare_candidates_Equal_iff simp: distinct_map inj_on_def)
  qed
  have "distinct (map cand_inventory_balance_id cs')"
    using assms mset_eq_imp_distinct_iff [of "map cand_inventory_balance_id cs"]
    by (metis mset_map)
  with sorted assms(2) show ?thesis by (simp add: plan_allocation_def)
qed

theorem plan_allocation_order_independent_witness:
  "plan_allocation Fefo (AllocationQuantity 6) sample_stock =
   plan_allocation Fefo (AllocationQuantity 6) (rev sample_stock)"
  by (rule plan_allocation_order_independent) (simp_all add: sample_defs)

text \<open>
  C4. Totality and the only error. Planning fails exactly when a balance is supplied twice,
  and then reports the balance at the first repeated position; every other input yields a
  plan.
\<close>

theorem plan_allocation_error_iff:
  "(plan_allocation strategy d cs = Inl e \<longleftrightarrow>
     (\<exists>ys c zs. cs = ys @ c # zs \<and> distinct (map cand_inventory_balance_id ys) \<and>
        cand_inventory_balance_id c \<in> cand_inventory_balance_id ` set ys \<and>
        e = DuplicateInventoryBalance (cand_inventory_balance_id c))) \<and>
   ((\<exists>p. plan_allocation strategy d cs = Inr p) \<longleftrightarrow> distinct (map cand_inventory_balance_id cs))"
proof -
  let ?ids = "map cand_inventory_balance_id cs"
  have "plan_allocation strategy d cs = Inl e \<longleftrightarrow>
      (\<exists>k. first_duplicate [] ?ids = Some k \<and> e = DuplicateInventoryBalance k)"
    by (auto simp: plan_allocation_def Let_def split: option.splits prod.splits)
  also have "\<dots> \<longleftrightarrow> (\<exists>ys c zs. cs = ys @ c # zs \<and> distinct (map cand_inventory_balance_id ys) \<and>
        cand_inventory_balance_id c \<in> cand_inventory_balance_id ` set ys \<and>
        e = DuplicateInventoryBalance (cand_inventory_balance_id c))"
    unfolding first_duplicate_Some_iff by (force simp: map_eq_append_conv)
  finally show ?thesis by (simp add: plan_allocation_Inr_iff)
qed

text \<open>
  C5. Classification. With valid stock, the outcome is full exactly when the stock covers the
  demand, not allocated exactly when there is no candidate at all, and partial otherwise; a
  shortage reason is reported exactly when a shortage remains, and it names the matching case.
\<close>

theorem plan_allocation_outcome:
  assumes pos: "0 < AllocationQuantity_get d" and valid: "candidates_valid cs"
    and plan: "plan_allocation strategy d cs = Inr p"
  shows "(outcome p = FullyAllocated \<longleftrightarrow> AllocationQuantity_get d \<le> sum_list (map available cs)) \<and>
     (outcome p = NotAllocated \<longleftrightarrow> cs = []) \<and>
     shortage_reason p =
       (if shortage_quantity p = 0 then None
        else if cs = [] then Some NoEligibleInventory
        else Some InsufficientEligibleInventory)"
  using plan plan_left [OF pos valid, of strategy] sum_available_pos [OF valid] pos
  by (auto simp: plan_allocation_Inr_iff max_def split: if_splits)

theorem plan_allocation_outcome_witness:
  "outcome sample_plan = FullyAllocated \<longleftrightarrow> 6 \<le> sum_list (map available sample_stock)"
  using plan_allocation_outcome [OF _ sample_stock_valid sample_plan_computed] by simp

end
