(* ===== verification/Picking.thy ===== *)
theory Picking
  imports Orders
begin

text \<open>
  Directed picking, \<open>crates/domain/src/picking.rs\<close>: the one-way state of a piece of pick
  work, reversals before packing, and pick shortages with their short-shipment resolution.
  Quantities are validated newtypes over i64; the deserializers re-run the constructors and
  compare the derived field, so that a forged remainder is rejected.
\<close>

section \<open>Definitions\<close>

definition MAX_PICK_SCAN_VALUE_LENGTH :: nat where "MAX_PICK_SCAN_VALUE_LENGTH = 200"
definition MAX_PICK_REVERSAL_NOTE_LENGTH :: nat where "MAX_PICK_REVERSAL_NOTE_LENGTH = 500"
definition MAX_PICK_SHORTAGE_NOTE_LENGTH :: nat where "MAX_PICK_SHORTAGE_NOTE_LENGTH = 500"
definition MAX_PICK_SHORT_SHIP_NOTE_LENGTH :: nat where "MAX_PICK_SHORT_SHIP_NOTE_LENGTH = 500"

datatype PickContentState = Pending | Completed | Shorted

datatype PickReversalReason =
    MisPick
  | WrongQuantity
  | WrongLotOrSerial
  | DamagedDuringPick
  | OrderException
  | Other

datatype PickShortageReason =
    InventoryMissing
  | InsufficientQuantity
  | DamagedInventory
  | WrongInventory
  | LotOrSerialMismatch
  | Other

datatype PickShortageStatus = AwaitingInventory | RecoveryInProgress | Resolved

datatype PickShortageResolution = Recovered | ShortShip | Substituted

datatype PickShortShipReason =
    ClientAuthorized
  | InventoryUnavailable
  | ShipByCommitment
  | Other

datatype PickClaimReleaseReason =
    WorkInterrupted
  | EquipmentUnavailable
  | SourceBlocked
  | InventoryDiscrepancy
  | SafetyIssue
  | Other

datatype PickingError =
    InvalidQuantity int
  | EmptyScanValue
  | UntrimmedScanValue
  | ScanValueTooLong
  | InvalidScanCharacter
  | ContentAlreadyCompleted
  | ContentAlreadyShorted
  | InvalidReversalNote
  | ReversalNoteTooLong
  | ReversalNoteRequired
  | OrderNotReversible OrderStatus
  | ReversalAfterPackingStarted
  | ShortagePickRequiresShortageRecovery
  | InvalidActualQuantity int
  | InvalidShortageRevision int
  | PickIsNotShort int int
  | InvalidShortageNote
  | ShortageNoteTooLong
  | ShortageNoteRequired
  | InvalidShortShipNote
  | ShortShipNoteTooLong
  | ShortShipNoteRequired
  | ShortShipRequiresAwaitingInventory PickShortageStatus
  | NoShortageQuantityToAccept
  | InconsistentShortShipRecoveryQuantities
  | AcceptedShortExceedsDemand int int

subsection \<open>Reversals\<close>

definition PickReversalReason_ALL :: "PickReversalReason list" where
  "PickReversalReason_ALL =
     [MisPick, WrongQuantity, WrongLotOrSerial, DamagedDuringPick, OrderException,
      PickReversalReason.Other]"

definition PickReversalReason_as_str :: "PickReversalReason \<Rightarrow> string" where
  "PickReversalReason_as_str self =
     (case self of
        MisPick \<Rightarrow> ''mis_pick''
      | WrongQuantity \<Rightarrow> ''wrong_quantity''
      | WrongLotOrSerial \<Rightarrow> ''wrong_lot_or_serial''
      | DamagedDuringPick \<Rightarrow> ''damaged_during_pick''
      | OrderException \<Rightarrow> ''order_exception''
      | PickReversalReason.Other \<Rightarrow> ''other'')"

definition PickReversalReason_requires_note :: "PickReversalReason \<Rightarrow> bool" where
  "PickReversalReason_requires_note self \<longleftrightarrow> self = PickReversalReason.Other"

definition PickReversalReason_parse :: "string \<Rightarrow> PickReversalReason option" where
  "PickReversalReason_parse value =
     List.find (\<lambda>candidate. PickReversalReason_as_str candidate = value) PickReversalReason_ALL"

datatype PickReversalNote = PickReversalNote (PickReversalNote_as_str: rust_string)

definition PickReversalNote_new :: "rust_string \<Rightarrow> PickingError + PickReversalNote" where
  "PickReversalNote_new value =
     (if value = [] \<or> trim value \<noteq> value then Err InvalidReversalNote
      else if length value > MAX_PICK_REVERSAL_NOTE_LENGTH then Err ReversalNoteTooLong
      else Ok (PickReversalNote value))"

definition PickReversalNote_deserialize ::
  "(PickingError \<Rightarrow> 'd) \<Rightarrow> 'd + rust_string \<Rightarrow> 'd + PickReversalNote" where
  "PickReversalNote_deserialize custom raw = deserialize_with PickReversalNote_new custom raw"

record PickReversalDetails =
  reversal_reason :: PickReversalReason
  reversal_note :: "PickReversalNote option"

definition PickReversalDetails_new ::
  "PickReversalReason \<Rightarrow> PickReversalNote option \<Rightarrow> PickingError + PickReversalDetails" where
  "PickReversalDetails_new reason note =
     (if PickReversalReason_requires_note reason \<and> note = None then Err ReversalNoteRequired
      else Ok \<lparr>reversal_reason = reason, reversal_note = note\<rparr>)"

definition reverse_pick_before_packing ::
  "OrderStatus \<Rightarrow> bool \<Rightarrow> bool \<Rightarrow> PickingError + OrderStatus" where
  "reverse_pick_before_packing order_status has_downstream_execution shortage_backed =
     (if has_downstream_execution then Err ReversalAfterPackingStarted
      else if shortage_backed then Err ShortagePickRequiresShortageRecovery
      else case order_status of
          Processing \<Rightarrow> Ok Processing
        | AwaitingPacking \<Rightarrow> Ok Processing
        | _ \<Rightarrow> Err (OrderNotReversible order_status))"

subsection \<open>Pick content\<close>

definition PickContentState_as_str :: "PickContentState \<Rightarrow> string" where
  "PickContentState_as_str self =
     (case self of
        Pending \<Rightarrow> ''pending''
      | Completed \<Rightarrow> ''completed''
      | Shorted \<Rightarrow> ''shorted'')"

definition PickContentState_parse :: "string \<Rightarrow> PickContentState option" where
  "PickContentState_parse value =
     (if value = ''pending'' then Some Pending
      else if value = ''completed'' then Some Completed
      else if value = ''shorted'' then Some Shorted
      else None)"

fun PickContentState_complete :: "PickContentState \<Rightarrow> PickingError + PickContentState" where
  "PickContentState_complete Pending = Ok Completed"
| "PickContentState_complete Completed = Err ContentAlreadyCompleted"
| "PickContentState_complete Shorted = Err ContentAlreadyShorted"

fun PickContentState_short :: "PickContentState \<Rightarrow> PickingError + PickContentState" where
  "PickContentState_short Pending = Ok Shorted"
| "PickContentState_short Completed = Err ContentAlreadyCompleted"
| "PickContentState_short Shorted = Err ContentAlreadyShorted"

subsection \<open>Shortage tags\<close>

definition PickShortageReason_as_str :: "PickShortageReason \<Rightarrow> string" where
  "PickShortageReason_as_str self =
     (case self of
        InventoryMissing \<Rightarrow> ''inventory_missing''
      | InsufficientQuantity \<Rightarrow> ''insufficient_quantity''
      | DamagedInventory \<Rightarrow> ''damaged_inventory''
      | WrongInventory \<Rightarrow> ''wrong_inventory''
      | LotOrSerialMismatch \<Rightarrow> ''lot_or_serial_mismatch''
      | PickShortageReason.Other \<Rightarrow> ''other'')"

definition PickShortageReason_parse :: "string \<Rightarrow> PickShortageReason option" where
  "PickShortageReason_parse value =
     (if value = ''inventory_missing'' then Some InventoryMissing
      else if value = ''insufficient_quantity'' then Some InsufficientQuantity
      else if value = ''damaged_inventory'' then Some DamagedInventory
      else if value = ''wrong_inventory'' then Some WrongInventory
      else if value = ''lot_or_serial_mismatch'' then Some LotOrSerialMismatch
      else if value = ''other'' then Some PickShortageReason.Other
      else None)"

definition PickShortageReason_requires_note :: "PickShortageReason \<Rightarrow> bool" where
  "PickShortageReason_requires_note self \<longleftrightarrow> self = PickShortageReason.Other"

definition PickShortageStatus_as_str :: "PickShortageStatus \<Rightarrow> string" where
  "PickShortageStatus_as_str self =
     (case self of
        AwaitingInventory \<Rightarrow> ''awaiting_inventory''
      | RecoveryInProgress \<Rightarrow> ''recovery_in_progress''
      | Resolved \<Rightarrow> ''resolved'')"

definition PickShortageStatus_parse :: "string \<Rightarrow> PickShortageStatus option" where
  "PickShortageStatus_parse value =
     (if value = ''awaiting_inventory'' then Some AwaitingInventory
      else if value = ''recovery_in_progress'' then Some RecoveryInProgress
      else if value = ''resolved'' then Some Resolved
      else None)"

definition PickShortageResolution_as_str :: "PickShortageResolution \<Rightarrow> string" where
  "PickShortageResolution_as_str self =
     (case self of
        Recovered \<Rightarrow> ''recovered''
      | ShortShip \<Rightarrow> ''short_ship''
      | Substituted \<Rightarrow> ''substituted'')"

definition PickShortageResolution_parse :: "string \<Rightarrow> PickShortageResolution option" where
  "PickShortageResolution_parse value =
     (if value = ''recovered'' then Some Recovered
      else if value = ''short_ship'' then Some ShortShip
      else if value = ''substituted'' then Some Substituted
      else None)"

definition PickShortShipReason_as_str :: "PickShortShipReason \<Rightarrow> string" where
  "PickShortShipReason_as_str self =
     (case self of
        ClientAuthorized \<Rightarrow> ''client_authorized''
      | PickShortShipReason.InventoryUnavailable \<Rightarrow> ''inventory_unavailable''
      | ShipByCommitment \<Rightarrow> ''ship_by_commitment''
      | PickShortShipReason.Other \<Rightarrow> ''other'')"

definition PickShortShipReason_parse :: "string \<Rightarrow> PickShortShipReason option" where
  "PickShortShipReason_parse value =
     (if value = ''client_authorized'' then Some ClientAuthorized
      else if value = ''inventory_unavailable'' then Some PickShortShipReason.InventoryUnavailable
      else if value = ''ship_by_commitment'' then Some ShipByCommitment
      else if value = ''other'' then Some PickShortShipReason.Other
      else None)"

definition PickShortShipReason_requires_note :: "PickShortShipReason \<Rightarrow> bool" where
  "PickShortShipReason_requires_note self \<longleftrightarrow> self = PickShortShipReason.Other"

subsection \<open>Quantities and revisions\<close>

datatype PickQuantity = PickQuantity (PickQuantity_get: int)

definition PickQuantity_new :: "int \<Rightarrow> PickingError + PickQuantity" where
  "PickQuantity_new value =
     (if value > 0 then Ok (PickQuantity value) else Err (PickingError.InvalidQuantity value))"

definition PickQuantity_deserialize ::
  "(PickingError \<Rightarrow> 'd) \<Rightarrow> 'd + int \<Rightarrow> 'd + PickQuantity" where
  "PickQuantity_deserialize custom raw = deserialize_with PickQuantity_new custom raw"

datatype ActualPickQuantity = ActualPickQuantity (ActualPickQuantity_get: int)

definition ActualPickQuantity_new :: "int \<Rightarrow> PickingError + ActualPickQuantity" where
  "ActualPickQuantity_new value =
     (if value \<ge> 0 then Ok (ActualPickQuantity value) else Err (InvalidActualQuantity value))"

definition ActualPickQuantity_is_zero :: "ActualPickQuantity \<Rightarrow> bool" where
  "ActualPickQuantity_is_zero self \<longleftrightarrow> ActualPickQuantity_get self = 0"

definition ActualPickQuantity_from :: "PickQuantity \<Rightarrow> ActualPickQuantity" where
  "ActualPickQuantity_from value = ActualPickQuantity (PickQuantity_get value)"

definition ActualPickQuantity_deserialize ::
  "(PickingError \<Rightarrow> 'd) \<Rightarrow> 'd + int \<Rightarrow> 'd + ActualPickQuantity" where
  "ActualPickQuantity_deserialize custom raw = deserialize_with ActualPickQuantity_new custom raw"

datatype PickShortageRevision = PickShortageRevision (PickShortageRevision_get: int)

definition PickShortageRevision_new :: "int \<Rightarrow> PickingError + PickShortageRevision" where
  "PickShortageRevision_new value =
     (if value > 0 then Ok (PickShortageRevision value)
      else Err (InvalidShortageRevision value))"

definition PickShortageRevision_checked_next ::
  "PickShortageRevision \<Rightarrow> PickShortageRevision option" where
  "PickShortageRevision_checked_next self =
     (case checked_add (PickShortageRevision_get self) 1 of
        Some value \<Rightarrow> Some (PickShortageRevision value)
      | None \<Rightarrow> None)"

definition PickShortageRevision_deserialize ::
  "(PickingError \<Rightarrow> 'd) \<Rightarrow> 'd + int \<Rightarrow> 'd + PickShortageRevision" where
  "PickShortageRevision_deserialize custom raw =
     deserialize_with PickShortageRevision_new custom raw"

record PickShortageQuantities =
  planned :: PickQuantity
  picked :: ActualPickQuantity
  short :: PickQuantity

definition PickShortageQuantities_new ::
  "PickQuantity \<Rightarrow> ActualPickQuantity \<Rightarrow> PickingError + PickShortageQuantities" where
  "PickShortageQuantities_new pl pk =
     (if ActualPickQuantity_get pk \<ge> PickQuantity_get pl
        then Err (PickIsNotShort (PickQuantity_get pl) (ActualPickQuantity_get pk))
      else Ok \<lparr>planned = pl, picked = pk,
               short = PickQuantity (PickQuantity_get pl - ActualPickQuantity_get pk)\<rparr>)"

text \<open>
  The deserializer reads the three raw fields, rebuilds the value and compares the stored
  shortage with the recomputed one; \<open>mismatch\<close> is serde's error for the message
  \<open>pick shortage quantity does not conserve\<close>.
\<close>

definition PickShortageQuantities_deserialize ::
  "(PickingError \<Rightarrow> 'd) \<Rightarrow> 'd \<Rightarrow> 'd + PickQuantity \<times> ActualPickQuantity \<times> PickQuantity \<Rightarrow>
   'd + PickShortageQuantities" where
  "PickShortageQuantities_deserialize custom mismatch raw =
     and_then raw (\<lambda>(raw_planned, raw_picked, raw_short).
     and_then (map_err custom (PickShortageQuantities_new raw_planned raw_picked)) (\<lambda>quantities.
     if short quantities \<noteq> raw_short then Err mismatch else Ok quantities))"

record ShortShipDemandQuantities =
  ordered :: PickQuantity
  accepted_short :: ActualPickQuantity
  accepted_substitute :: ActualPickQuantity
  effective :: ActualPickQuantity

definition ShortShipDemandQuantities_with_substitution ::
  "PickQuantity \<Rightarrow> ActualPickQuantity \<Rightarrow> ActualPickQuantity \<Rightarrow>
   PickingError + ShortShipDemandQuantities" where
  "ShortShipDemandQuantities_with_substitution ord acc_short acc_sub =
     (case checked_add (ActualPickQuantity_get acc_short) (ActualPickQuantity_get acc_sub) of
        None \<Rightarrow> Err (AcceptedShortExceedsDemand (PickQuantity_get ord) i64_max)
      | Some accepted_total \<Rightarrow>
          if accepted_total > PickQuantity_get ord
            then Err (AcceptedShortExceedsDemand (PickQuantity_get ord) accepted_total)
          else Ok \<lparr>ordered = ord, accepted_short = acc_short, accepted_substitute = acc_sub,
                   effective = ActualPickQuantity (PickQuantity_get ord - accepted_total)\<rparr>)"

definition ShortShipDemandQuantities_new ::
  "PickQuantity \<Rightarrow> ActualPickQuantity \<Rightarrow> PickingError + ShortShipDemandQuantities" where
  "ShortShipDemandQuantities_new ord acc_short =
     ShortShipDemandQuantities_with_substitution ord acc_short (ActualPickQuantity 0)"

definition ShortShipDemandQuantities_deserialize ::
  "(PickingError \<Rightarrow> 'd) \<Rightarrow> 'd \<Rightarrow>
   'd + PickQuantity \<times> ActualPickQuantity \<times> ActualPickQuantity \<times> ActualPickQuantity \<Rightarrow>
   'd + ShortShipDemandQuantities" where
  "ShortShipDemandQuantities_deserialize custom mismatch raw =
     and_then raw (\<lambda>(raw_ordered, raw_short, raw_substitute, raw_effective).
     and_then (map_err custom
       (ShortShipDemandQuantities_with_substitution raw_ordered raw_short raw_substitute))
       (\<lambda>quantities.
     if effective quantities \<noteq> raw_effective then Err mismatch else Ok quantities))"

subsection \<open>Short shipment\<close>

datatype PickShortShipNote = PickShortShipNote (PickShortShipNote_as_str: rust_string)

definition PickShortShipNote_new :: "rust_string \<Rightarrow> PickingError + PickShortShipNote" where
  "PickShortShipNote_new value =
     (if value = [] \<or> trim value \<noteq> value then Err InvalidShortShipNote
      else if length value > MAX_PICK_SHORT_SHIP_NOTE_LENGTH then Err ShortShipNoteTooLong
      else Ok (PickShortShipNote value))"

definition PickShortShipNote_deserialize ::
  "(PickingError \<Rightarrow> 'd) \<Rightarrow> 'd + rust_string \<Rightarrow> 'd + PickShortShipNote" where
  "PickShortShipNote_deserialize custom raw = deserialize_with PickShortShipNote_new custom raw"

record PickShortShipDetails =
  short_ship_reason :: PickShortShipReason
  short_ship_note :: "PickShortShipNote option"

definition PickShortShipDetails_new ::
  "PickShortShipReason \<Rightarrow> PickShortShipNote option \<Rightarrow> PickingError + PickShortShipDetails" where
  "PickShortShipDetails_new reason note =
     (if PickShortShipReason_requires_note reason \<and> note = None then Err ShortShipNoteRequired
      else Ok \<lparr>short_ship_reason = reason, short_ship_note = note\<rparr>)"

definition PickShortShipDetails_deserialize ::
  "(PickingError \<Rightarrow> 'd) \<Rightarrow> 'd + PickShortShipReason \<times> PickShortShipNote option \<Rightarrow>
   'd + PickShortShipDetails" where
  "PickShortShipDetails_deserialize custom raw =
     deserialize_with (\<lambda>(reason, note). PickShortShipDetails_new reason note) custom raw"

record PickShortShipTransition =
  accepted_quantity :: PickQuantity
  transition_status :: PickShortageStatus
  transition_resolution :: PickShortageResolution

definition resolve_pick_shortage_as_short_ship ::
  "PickShortageStatus \<Rightarrow> PickQuantity \<Rightarrow> ActualPickQuantity \<Rightarrow> ActualPickQuantity \<Rightarrow>
   ActualPickQuantity \<Rightarrow> PickingError + PickShortShipTransition" where
  "resolve_pick_shortage_as_short_ship status short_quantity reallocated_quantity
       recovery_terminal_quantity remaining_to_allocate_quantity =
     (if status \<noteq> AwaitingInventory then Err (ShortShipRequiresAwaitingInventory status)
      else if ActualPickQuantity_is_zero remaining_to_allocate_quantity
        then Err NoShortageQuantityToAccept
      else if reallocated_quantity \<noteq> recovery_terminal_quantity \<or>
          checked_add (ActualPickQuantity_get reallocated_quantity)
            (ActualPickQuantity_get remaining_to_allocate_quantity)
            \<noteq> Some (PickQuantity_get short_quantity)
        then Err InconsistentShortShipRecoveryQuantities
      else Ok \<lparr>accepted_quantity =
                 PickQuantity (ActualPickQuantity_get remaining_to_allocate_quantity),
               transition_status = Resolved,
               transition_resolution = ShortShip\<rparr>)"

subsection \<open>Shortage notes and scans\<close>

datatype PickShortageNote = PickShortageNote (PickShortageNote_as_str: rust_string)

definition PickShortageNote_new :: "rust_string \<Rightarrow> PickingError + PickShortageNote" where
  "PickShortageNote_new value =
     (if value = [] \<or> trim value \<noteq> value then Err InvalidShortageNote
      else if length value > MAX_PICK_SHORTAGE_NOTE_LENGTH then Err ShortageNoteTooLong
      else Ok (PickShortageNote value))"

definition PickShortageNote_deserialize ::
  "(PickingError \<Rightarrow> 'd) \<Rightarrow> 'd + rust_string \<Rightarrow> 'd + PickShortageNote" where
  "PickShortageNote_deserialize custom raw = deserialize_with PickShortageNote_new custom raw"

record PickShortageDetails =
  shortage_details_reason :: PickShortageReason
  shortage_details_note :: "PickShortageNote option"

definition PickShortageDetails_new ::
  "PickShortageReason \<Rightarrow> PickShortageNote option \<Rightarrow> PickingError + PickShortageDetails" where
  "PickShortageDetails_new reason note =
     (if PickShortageReason_requires_note reason \<and> note = None then Err ShortageNoteRequired
      else Ok \<lparr>shortage_details_reason = reason, shortage_details_note = note\<rparr>)"

definition PickShortageDetails_deserialize ::
  "(PickingError \<Rightarrow> 'd) \<Rightarrow> 'd + PickShortageReason \<times> PickShortageNote option \<Rightarrow>
   'd + PickShortageDetails" where
  "PickShortageDetails_deserialize custom raw =
     deserialize_with (\<lambda>(reason, note). PickShortageDetails_new reason note) custom raw"

datatype PickScanValue = PickScanValue (PickScanValue_as_str: rust_string)

definition PickScanValue_new :: "rust_string \<Rightarrow> PickingError + PickScanValue" where
  "PickScanValue_new value =
     (if value = [] then Err EmptyScanValue
      else if trim value \<noteq> value then Err UntrimmedScanValue
      else if length value > MAX_PICK_SCAN_VALUE_LENGTH then Err ScanValueTooLong
      else if list_ex is_control value then Err InvalidScanCharacter
      else Ok (PickScanValue value))"

definition PickScanValue_from_str :: "rust_string \<Rightarrow> PickingError + PickScanValue" where
  "PickScanValue_from_str value = PickScanValue_new value"

definition PickScanValue_deserialize ::
  "(PickingError \<Rightarrow> 'd) \<Rightarrow> 'd + rust_string \<Rightarrow> 'd + PickScanValue" where
  "PickScanValue_deserialize custom raw = deserialize_with PickScanValue_new custom raw"

subsection \<open>What the quantities promise\<close>

text \<open>
  The fields of the quantity types are private, so every value was built by \<open>new\<close> from an
  i64. The remaining predicates and the reference demand state the contract of the pick and
  shortage quantities over plain integers.
\<close>

definition PickQuantity_wf :: "PickQuantity \<Rightarrow> bool" where
  "PickQuantity_wf q \<longleftrightarrow> 0 < PickQuantity_get q \<and> PickQuantity_get q \<le> i64_max"

definition ActualPickQuantity_wf :: "ActualPickQuantity \<Rightarrow> bool" where
  "ActualPickQuantity_wf q \<longleftrightarrow> 0 \<le> ActualPickQuantity_get q \<and> ActualPickQuantity_get q \<le> i64_max"

definition PickShortageQuantities_wf :: "PickShortageQuantities \<Rightarrow> bool" where
  "PickShortageQuantities_wf q \<longleftrightarrow>
     PickQuantity_wf (planned q) \<and> ActualPickQuantity_wf (picked q) \<and> PickQuantity_wf (short q) \<and>
     PickQuantity_get (planned q) = ActualPickQuantity_get (picked q) + PickQuantity_get (short q)"

definition ShortShipDemandQuantities_wf :: "ShortShipDemandQuantities \<Rightarrow> bool" where
  "ShortShipDemandQuantities_wf q \<longleftrightarrow>
     PickQuantity_wf (ordered q) \<and> ActualPickQuantity_wf (accepted_short q) \<and>
     ActualPickQuantity_wf (accepted_substitute q) \<and> ActualPickQuantity_wf (effective q) \<and>
     PickQuantity_get (ordered q) =
       ActualPickQuantity_get (accepted_short q) + ActualPickQuantity_get (accepted_substitute q) +
       ActualPickQuantity_get (effective q)"

datatype pick_event = CompletePick | ShortPick

fun pick_apply :: "pick_event \<Rightarrow> PickContentState \<Rightarrow> PickingError + PickContentState" where
  "pick_apply CompletePick s = PickContentState_complete s"
| "pick_apply ShortPick s = PickContentState_short s"

text \<open>
  A history of events on one piece of pick work: an event that fails leaves the state, and the
  second component collects the events that were accepted.
\<close>

fun pick_history :: "PickContentState \<Rightarrow> pick_event list \<Rightarrow> PickContentState \<times> pick_event list" where
  "pick_history s [] = (s, [])"
| "pick_history s (e # es) =
     (case pick_apply e s of
        Inl _ \<Rightarrow> pick_history s es
      | Inr s' \<Rightarrow> (let (t, accepted) = pick_history s' es in (t, e # accepted)))"

section \<open>Interpretations\<close>

interpretation pick_content_state: tag_codec PickContentState_as_str PickContentState_parse
  by unfold_locales
    (auto simp: PickContentState_as_str_def PickContentState_parse_def
      split: if_splits PickContentState.splits)

interpretation pick_reversal_reason: tag_codec PickReversalReason_as_str PickReversalReason_parse
  by unfold_locales
    (auto simp: PickReversalReason_as_str_def PickReversalReason_parse_def
      PickReversalReason_ALL_def split: if_splits PickReversalReason.splits)

interpretation pick_shortage_reason: tag_codec PickShortageReason_as_str PickShortageReason_parse
  by unfold_locales
    (auto simp: PickShortageReason_as_str_def PickShortageReason_parse_def
      split: if_splits PickShortageReason.splits)

interpretation pick_shortage_status: tag_codec PickShortageStatus_as_str PickShortageStatus_parse
  by unfold_locales
    (auto simp: PickShortageStatus_as_str_def PickShortageStatus_parse_def
      split: if_splits PickShortageStatus.splits)

interpretation pick_shortage_resolution:
  tag_codec PickShortageResolution_as_str PickShortageResolution_parse
  by unfold_locales
    (auto simp: PickShortageResolution_as_str_def PickShortageResolution_parse_def
      split: if_splits PickShortageResolution.splits)

interpretation pick_short_ship_reason:
  tag_codec PickShortShipReason_as_str PickShortShipReason_parse
  by unfold_locales
    (auto simp: PickShortShipReason_as_str_def PickShortShipReason_parse_def
      split: if_splits PickShortShipReason.splits)

interpretation pick_quantity: validated_newtype PickQuantity_new PickQuantity_get "\<lambda>v. 0 < v"
  by unfold_locales (auto simp: PickQuantity_new_def split: if_splits intro: PickQuantity.expand)

interpretation actual_pick_quantity:
  validated_newtype ActualPickQuantity_new ActualPickQuantity_get "\<lambda>v. 0 \<le> v"
  by unfold_locales
    (auto simp: ActualPickQuantity_new_def split: if_splits intro: ActualPickQuantity.expand)

interpretation pick_shortage_revision: revision_newtype PickShortageRevision_new
  PickShortageRevision_get PickShortageRevision_checked_next
  by unfold_locales
    (auto simp: PickShortageRevision_new_def PickShortageRevision_checked_next_def checked_add_def
      split: if_splits option.splits intro: PickShortageRevision.expand)

interpretation pick_reversal_note: validated_newtype PickReversalNote_new PickReversalNote_as_str
  "bounded_text MAX_PICK_REVERSAL_NOTE_LENGTH"
  by unfold_locales
    (auto simp: PickReversalNote_new_def is_ok_iff split: if_splits intro: PickReversalNote.expand)

interpretation pick_short_ship_note: validated_newtype PickShortShipNote_new PickShortShipNote_as_str
  "bounded_text MAX_PICK_SHORT_SHIP_NOTE_LENGTH"
  by unfold_locales
    (auto simp: PickShortShipNote_new_def is_ok_iff split: if_splits intro: PickShortShipNote.expand)

interpretation pick_shortage_note: validated_newtype PickShortageNote_new PickShortageNote_as_str
  "bounded_text MAX_PICK_SHORTAGE_NOTE_LENGTH"
  by unfold_locales
    (auto simp: PickShortageNote_new_def is_ok_iff split: if_splits intro: PickShortageNote.expand)

interpretation pick_scan_value: validated_newtype PickScanValue_new PickScanValue_as_str
  "\<lambda>v. bounded_text MAX_PICK_SCAN_VALUE_LENGTH v \<and> \<not> list_ex is_control v"
  by unfold_locales
    (auto simp: PickScanValue_new_def is_ok_iff split: if_splits intro: PickScanValue.expand)

section \<open>Lemmas\<close>

lemmas pick_wf_defs =
  PickQuantity_wf_def ActualPickQuantity_wf_def PickShortageQuantities_wf_def
  ShortShipDemandQuantities_wf_def

lemma PickShortageQuantities_new_Inr_iff:
  assumes "PickQuantity_wf pl" "ActualPickQuantity_wf pk"
  shows "PickShortageQuantities_new pl pk = Inr q \<longleftrightarrow>
    planned q = pl \<and> picked q = pk \<and> PickShortageQuantities_wf q"
  using assms
  by (cases q; cases pl; cases pk)
    (auto simp: PickShortageQuantities_new_def pick_wf_defs PickQuantity.expand)

lemma ShortShipDemandQuantities_with_substitution_Inr_iff:
  assumes "PickQuantity_wf ord" "ActualPickQuantity_wf s" "ActualPickQuantity_wf u"
  shows "ShortShipDemandQuantities_with_substitution ord s u = Inr q \<longleftrightarrow>
    ordered q = ord \<and> accepted_short q = s \<and> accepted_substitute q = u \<and>
    ShortShipDemandQuantities_wf q"
  using assms
  by (cases q; cases ord; cases s; cases u)
    (auto simp: ShortShipDemandQuantities_with_substitution_def pick_wf_defs checked_add_def
      in_i64_def i64_min_def ActualPickQuantity.expand split: option.splits)

lemma pick_apply_pending: "pick_apply e Pending = Inr s \<Longrightarrow> s \<noteq> Pending"
  by (cases e) auto

lemma pick_apply_terminal: "s \<noteq> Pending \<Longrightarrow> pick_apply e s \<noteq> Inr t"
  by (cases e; cases s) auto

lemma pick_history_terminal: "s \<noteq> Pending \<Longrightarrow> pick_history s es = (s, [])"
  by (induction es) (auto simp: pick_apply_terminal split: sum.splits)

section \<open>Properties\<close>



text \<open>
  C7. Stored demand quantities cannot be forged. Reading short-shipment demand from the wire
  yields a value exactly when the four raw fields are its fields and ordered is the sum of
  accepted short, accepted substitute and effective quantity, all in range; in particular
  effective demand never exceeds the ordered demand.
\<close>

theorem short_ship_demand_deserialize_iff:
  assumes "PickQuantity_wf o'" "ActualPickQuantity_wf s" "ActualPickQuantity_wf u"
    and "ActualPickQuantity_wf e"
  shows "ShortShipDemandQuantities_deserialize custom mismatch (Inr (o', s, u, e)) = Inr q \<longleftrightarrow>
    q = \<lparr>ordered = o', accepted_short = s, accepted_substitute = u, effective = e\<rparr> \<and>
    ShortShipDemandQuantities_wf q"
proof -
  have "ShortShipDemandQuantities_deserialize custom mismatch (Inr (o', s, u, e)) = Inr q \<longleftrightarrow>
      ShortShipDemandQuantities_with_substitution o' s u = Inr q \<and> effective q = e"
    by (auto simp: ShortShipDemandQuantities_deserialize_def result_simps split: if_splits)
  then show ?thesis
    unfolding ShortShipDemandQuantities_with_substitution_Inr_iff [OF assms(1-3)]
    by (cases q) auto
qed

theorem short_ship_demand_deserialize_iff_witness:
  "ShortShipDemandQuantities_deserialize id ReversalNoteRequired
     (Inr (PickQuantity 10, ActualPickQuantity 2, ActualPickQuantity 1, ActualPickQuantity 7)) =
   Inr \<lparr>ordered = PickQuantity 10, accepted_short = ActualPickQuantity 2,
        accepted_substitute = ActualPickQuantity 1, effective = ActualPickQuantity 7\<rparr>"
  by (subst short_ship_demand_deserialize_iff) (simp_all add: pick_wf_defs i64_max_def)

text \<open>
  C8. Pick work is decided once. Whatever sequence of complete and short requests reaches a
  pending piece of pick work, exactly the first one is accepted, every later one is refused,
  and the final state is the one the first request asked for.
\<close>

theorem pick_history_decided_once:
  "pick_history Pending es =
     (case es of
        [] \<Rightarrow> (Pending, [])
      | e # _ \<Rightarrow> ((case e of CompletePick \<Rightarrow> Completed | ShortPick \<Rightarrow> Shorted), [e]))"
  by (cases es) (auto simp: pick_history_terminal split: pick_event.splits)

end
