(* ===== verification/Packing.thy ===== *)
theory Packing
  imports Orders
begin

text \<open>
  The pack station, \<open>crates/domain/src/packing.rs\<close>: session, carton and content
  lifecycles, the conserved progress counters of a session, and the order transitions that
  packing drives. Counts are i64, as they arrive from the database.
\<close>

section \<open>Definitions\<close>

definition MAX_PACK_SCAN_VALUE_LENGTH :: nat where "MAX_PACK_SCAN_VALUE_LENGTH = 200"
definition MAX_PACK_CONTENT_REMOVAL_NOTE_LENGTH :: nat where
  "MAX_PACK_CONTENT_REMOVAL_NOTE_LENGTH = 500"
definition MAX_PACK_SESSION_ABANDONMENT_NOTE_LENGTH :: nat where
  "MAX_PACK_SESSION_ABANDONMENT_NOTE_LENGTH = 500"
definition MAX_CARTON_REOPEN_NOTE_LENGTH :: nat where "MAX_CARTON_REOPEN_NOTE_LENGTH = 500"

datatype PackSessionStatus = Open | ReadyToManifest | Abandoned

datatype PackSessionAbandonmentReason = OrderCancellation | Repack | StationIssue | Other

datatype CartonStatus = Open | Closed | Voided

datatype CartonReopenReason = PackingCorrection | QualityIssue | OrderCancellation | Other

datatype PackContentRemovalReason = WrongCarton | WrongItem | QualityIssue | DamagedCarton | Other

datatype PackingError =
    InvalidQuantity int
  | EmptyScanValue
  | UntrimmedScanValue
  | ScanValueTooLong
  | InvalidScanCharacter
  | InvalidWeight int
  | InvalidDimension int
  | InvalidProgress
  | OpenCartonAlreadyExists
  | EmptyCarton
  | CartonNotOpen
  | NonemptyCarton
  | CartonContentMissing
  | EmptyRemovalNote
  | UntrimmedRemovalNote
  | RemovalNoteTooLong
  | InvalidRemovalNoteCharacter
  | RemovalNoteRequired
  | EmptyCartonReopenNote
  | UntrimmedCartonReopenNote
  | CartonReopenNoteTooLong
  | InvalidCartonReopenNoteCharacter
  | CartonReopenNoteRequired
  | CartonNotClosed
  | CartonReopenStateMismatch
  | CartonReopenProgressMismatch
  | EmptyAbandonmentNote
  | UntrimmedAbandonmentNote
  | AbandonmentNoteTooLong
  | InvalidAbandonmentNoteCharacter
  | AbandonmentNoteRequired
  | SessionNotEmpty
  | OrderNotAwaitingPacking OrderStatus
  | OrderNotPacking OrderStatus
  | NotReadyToManifest

subsection \<open>Notes and details\<close>

datatype PackSessionAbandonmentNote =
  PackSessionAbandonmentNote (PackSessionAbandonmentNote_as_str: rust_string)

definition PackSessionAbandonmentNote_new ::
  "rust_string \<Rightarrow> PackingError + PackSessionAbandonmentNote" where
  "PackSessionAbandonmentNote_new value =
     (if trim value \<noteq> value then Err UntrimmedAbandonmentNote
      else if value = [] then Err EmptyAbandonmentNote
      else if length value > MAX_PACK_SESSION_ABANDONMENT_NOTE_LENGTH
        then Err AbandonmentNoteTooLong
      else if list_ex is_control value then Err InvalidAbandonmentNoteCharacter
      else Ok (PackSessionAbandonmentNote value))"

record PackSessionAbandonmentDetails =
  abandonment_reason :: PackSessionAbandonmentReason
  abandonment_note :: "PackSessionAbandonmentNote option"

definition PackSessionAbandonmentDetails_new ::
  "PackSessionAbandonmentReason \<Rightarrow> PackSessionAbandonmentNote option \<Rightarrow>
   PackingError + PackSessionAbandonmentDetails" where
  "PackSessionAbandonmentDetails_new reason note =
     (if reason = PackSessionAbandonmentReason.Other \<and> note = None
        then Err AbandonmentNoteRequired
      else Ok \<lparr>abandonment_reason = reason, abandonment_note = note\<rparr>)"

datatype CartonReopenNote = CartonReopenNote (CartonReopenNote_as_str: rust_string)

definition CartonReopenNote_new :: "rust_string \<Rightarrow> PackingError + CartonReopenNote" where
  "CartonReopenNote_new value =
     (if trim value \<noteq> value then Err UntrimmedCartonReopenNote
      else if value = [] then Err EmptyCartonReopenNote
      else if length value > MAX_CARTON_REOPEN_NOTE_LENGTH then Err CartonReopenNoteTooLong
      else if list_ex is_control value then Err InvalidCartonReopenNoteCharacter
      else Ok (CartonReopenNote value))"

record CartonReopenDetails =
  reopen_reason :: CartonReopenReason
  reopen_note :: "CartonReopenNote option"

definition CartonReopenDetails_new ::
  "CartonReopenReason \<Rightarrow> CartonReopenNote option \<Rightarrow> PackingError + CartonReopenDetails" where
  "CartonReopenDetails_new reason note =
     (if reason = CartonReopenReason.Other \<and> note = None then Err CartonReopenNoteRequired
      else Ok \<lparr>reopen_reason = reason, reopen_note = note\<rparr>)"

datatype PackContentRemovalNote =
  PackContentRemovalNote (PackContentRemovalNote_as_str: rust_string)

definition PackContentRemovalNote_new ::
  "rust_string \<Rightarrow> PackingError + PackContentRemovalNote" where
  "PackContentRemovalNote_new value =
     (if trim value \<noteq> value then Err UntrimmedRemovalNote
      else if value = [] then Err EmptyRemovalNote
      else if length value > MAX_PACK_CONTENT_REMOVAL_NOTE_LENGTH then Err RemovalNoteTooLong
      else if list_ex is_control value then Err InvalidRemovalNoteCharacter
      else Ok (PackContentRemovalNote value))"

record PackContentRemovalDetails =
  removal_reason :: PackContentRemovalReason
  removal_note :: "PackContentRemovalNote option"

definition PackContentRemovalDetails_new ::
  "PackContentRemovalReason \<Rightarrow> PackContentRemovalNote option \<Rightarrow>
   PackingError + PackContentRemovalDetails" where
  "PackContentRemovalDetails_new reason note =
     (if reason = PackContentRemovalReason.Other \<and> note = None then Err RemovalNoteRequired
      else Ok \<lparr>removal_reason = reason, removal_note = note\<rparr>)"

subsection \<open>Cartons\<close>

fun CartonStatus_close :: "CartonStatus \<Rightarrow> int \<Rightarrow> PackingError + CartonStatus" where
  "CartonStatus_close Closed content_count = Err CartonNotOpen"
| "CartonStatus_close Voided content_count = Err CartonNotOpen"
| "CartonStatus_close CartonStatus.Open content_count =
     (if content_count \<le> 0 then Err EmptyCarton else Ok Closed)"

fun CartonStatus_void :: "CartonStatus \<Rightarrow> int \<Rightarrow> PackingError + CartonStatus" where
  "CartonStatus_void Closed content_count = Err CartonNotOpen"
| "CartonStatus_void Voided content_count = Err CartonNotOpen"
| "CartonStatus_void CartonStatus.Open content_count =
     (if content_count \<noteq> 0 then Err NonemptyCarton else Ok Voided)"

fun CartonStatus_reopen :: "CartonStatus \<Rightarrow> int \<Rightarrow> PackingError + CartonStatus" where
  "CartonStatus_reopen CartonStatus.Open content_count = Err CartonNotClosed"
| "CartonStatus_reopen Voided content_count = Err CartonNotClosed"
| "CartonStatus_reopen Closed content_count =
     (if content_count \<le> 0 then Err EmptyCarton else Ok CartonStatus.Open)"

definition remove_packed_content :: "CartonStatus \<Rightarrow> int \<Rightarrow> PackingError + int" where
  "remove_packed_content status active_content_count =
     (if status \<noteq> CartonStatus.Open then Err CartonNotOpen
      else if active_content_count \<le> 0 then Err CartonContentMissing
      else Ok (active_content_count - 1))"

definition open_carton :: "int \<Rightarrow> PackingError + CartonStatus" where
  "open_carton open_carton_count =
     (if open_carton_count < 0 then Err InvalidProgress
      else if open_carton_count = 0 then Ok CartonStatus.Open
      else Err OpenCartonAlreadyExists)"

subsection \<open>Quantities, scans and measurements\<close>

datatype PackQuantity = PackQuantity (PackQuantity_get: int)

definition PackQuantity_new :: "int \<Rightarrow> PackingError + PackQuantity" where
  "PackQuantity_new value =
     (if value > 0 then Ok (PackQuantity value) else Err (PackingError.InvalidQuantity value))"

definition PackQuantity_deserialize ::
  "(PackingError \<Rightarrow> 'd) \<Rightarrow> 'd + int \<Rightarrow> 'd + PackQuantity" where
  "PackQuantity_deserialize custom raw = deserialize_with PackQuantity_new custom raw"

datatype PackScanValue = PackScanValue (PackScanValue_as_str: rust_string)

definition PackScanValue_new :: "rust_string \<Rightarrow> PackingError + PackScanValue" where
  "PackScanValue_new value =
     (if value = [] then Err EmptyScanValue
      else if trim value \<noteq> value then Err UntrimmedScanValue
      else if length value > MAX_PACK_SCAN_VALUE_LENGTH then Err ScanValueTooLong
      else if list_ex is_control value then Err InvalidScanCharacter
      else Ok (PackScanValue value))"

definition PackScanValue_from_str :: "rust_string \<Rightarrow> PackingError + PackScanValue" where
  "PackScanValue_from_str value = PackScanValue_new value"

definition PackScanValue_deserialize ::
  "(PackingError \<Rightarrow> 'd) \<Rightarrow> 'd + rust_string \<Rightarrow> 'd + PackScanValue" where
  "PackScanValue_deserialize custom raw = deserialize_with PackScanValue_new custom raw"

datatype WeightGrams = WeightGrams (WeightGrams_get: int)

definition WeightGrams_new :: "int \<Rightarrow> PackingError + WeightGrams" where
  "WeightGrams_new value =
     (if value > 0 then Ok (WeightGrams value) else Err (InvalidWeight value))"

definition WeightGrams_deserialize ::
  "(PackingError \<Rightarrow> 'd) \<Rightarrow> 'd + int \<Rightarrow> 'd + WeightGrams" where
  "WeightGrams_deserialize custom raw = deserialize_with WeightGrams_new custom raw"

datatype DimensionMillimeters = DimensionMillimeters (DimensionMillimeters_get: int)

definition DimensionMillimeters_new :: "int \<Rightarrow> PackingError + DimensionMillimeters" where
  "DimensionMillimeters_new value =
     (if value > 0 then Ok (DimensionMillimeters value) else Err (InvalidDimension value))"

definition DimensionMillimeters_deserialize ::
  "(PackingError \<Rightarrow> 'd) \<Rightarrow> 'd + int \<Rightarrow> 'd + DimensionMillimeters" where
  "DimensionMillimeters_deserialize custom raw =
     deserialize_with DimensionMillimeters_new custom raw"

record CartonDimensions =
  length_mm :: DimensionMillimeters
  width_mm :: DimensionMillimeters
  height_mm :: DimensionMillimeters

record CartonMeasurements =
  weight_grams :: "WeightGrams option"
  dimensions :: "CartonDimensions option"

subsection \<open>Session progress\<close>

record PackingProgress =
  expected_allocation_count :: int
  packed_allocation_count :: int
  expected_quantity :: int
  packed_quantity :: int
  open_carton_count :: int
  closed_carton_count :: int

definition PackingProgress_new ::
  "int \<Rightarrow> int \<Rightarrow> int \<Rightarrow> int \<Rightarrow> int \<Rightarrow> int \<Rightarrow> PackingError + PackingProgress" where
  "PackingProgress_new expected_allocations packed_allocations expected_qty packed_qty
       open_cartons closed_cartons =
     (case checked_add open_cartons closed_cartons of
        None \<Rightarrow> Err InvalidProgress
      | Some carton_count \<Rightarrow>
          if expected_allocations \<le> 0
            \<or> packed_allocations < 0
            \<or> packed_allocations > expected_allocations
            \<or> expected_qty \<le> 0
            \<or> packed_qty < 0
            \<or> packed_qty > expected_qty
            \<or> ((packed_allocations = 0) \<noteq> (packed_qty = 0))
            \<or> ((packed_allocations = expected_allocations) \<noteq> (packed_qty = expected_qty))
            \<or> open_cartons < 0
            \<or> open_cartons > 1
            \<or> closed_cartons < 0
            \<or> (packed_allocations > 0 \<and> carton_count = 0)
          then Err InvalidProgress
          else Ok \<lparr>expected_allocation_count = expected_allocations,
                   packed_allocation_count = packed_allocations,
                   expected_quantity = expected_qty,
                   packed_quantity = packed_qty,
                   open_carton_count = open_cartons,
                   closed_carton_count = closed_cartons\<rparr>)"

text \<open>\<open>UncheckedPackingProgress\<close> has the same six fields; serde reads it and converts.\<close>

type_synonym UncheckedPackingProgress = PackingProgress

definition PackingProgress_try_from :: "UncheckedPackingProgress \<Rightarrow> PackingError + PackingProgress" where
  "PackingProgress_try_from value =
     PackingProgress_new (expected_allocation_count value) (packed_allocation_count value)
       (expected_quantity value) (packed_quantity value) (open_carton_count value)
       (closed_carton_count value)"

definition PackingProgress_status :: "PackingProgress \<Rightarrow> PackSessionStatus" where
  "PackingProgress_status self =
     (if packed_allocation_count self = expected_allocation_count self
        \<and> packed_quantity self = expected_quantity self
        \<and> open_carton_count self = 0
        \<and> closed_carton_count self > 0
      then ReadyToManifest else PackSessionStatus.Open)"

definition ready_to_manifest :: "PackingProgress \<Rightarrow> bool" where
  "ready_to_manifest self \<longleftrightarrow> PackingProgress_status self = ReadyToManifest"

subsection \<open>Order transitions\<close>

definition begin_packing :: "OrderStatus \<Rightarrow> PackingError + OrderStatus" where
  "begin_packing status =
     (case status of
        AwaitingPacking \<Rightarrow> Ok OrderStatus.Packing
      | _ \<Rightarrow> Err (OrderNotAwaitingPacking status))"

definition continue_packing :: "OrderStatus \<Rightarrow> PackingError + OrderStatus" where
  "continue_packing status =
     (case status of
        OrderStatus.Packing \<Rightarrow> Ok OrderStatus.Packing
      | _ \<Rightarrow> Err (OrderNotPacking status))"

definition abandon_empty_packing :: "OrderStatus \<Rightarrow> PackingProgress \<Rightarrow> PackingError + OrderStatus" where
  "abandon_empty_packing status progress =
     (if status \<noteq> OrderStatus.Packing then Err (OrderNotPacking status)
      else if packed_allocation_count progress \<noteq> 0
          \<or> packed_quantity progress \<noteq> 0
          \<or> open_carton_count progress \<noteq> 0
          \<or> closed_carton_count progress \<noteq> 0
        then Err SessionNotEmpty
      else Ok AwaitingPacking)"

definition reopen_carton ::
  "OrderStatus \<Rightarrow> PackSessionStatus \<Rightarrow> PackingProgress \<Rightarrow> CartonStatus \<Rightarrow> int \<Rightarrow>
   PackingError + OrderStatus \<times> PackingProgress" where
  "reopen_carton order_status session_status progress carton_status content_count =
     (if \<not> (order_status = OrderStatus.Packing \<and> session_status = PackSessionStatus.Open
            \<or> order_status = AwaitingShipment \<and> session_status = ReadyToManifest)
        then Err CartonReopenStateMismatch
      else and_then (CartonStatus_reopen carton_status content_count) (\<lambda>_.
        if open_carton_count progress \<noteq> 0 \<or> closed_carton_count progress \<le> 0
          then Err CartonReopenProgressMismatch
        else case PackingProgress_new (expected_allocation_count progress)
                 (packed_allocation_count progress) (expected_quantity progress)
                 (packed_quantity progress) 1 (closed_carton_count progress - 1) of
            Inr next_progress \<Rightarrow> Ok (OrderStatus.Packing, next_progress)
          | Inl _ \<Rightarrow> Err CartonReopenProgressMismatch))"

definition complete_packing :: "OrderStatus \<Rightarrow> PackingProgress \<Rightarrow> PackingError + OrderStatus" where
  "complete_packing status progress =
     (if status \<noteq> OrderStatus.Packing then Err (OrderNotPacking status)
      else if \<not> ready_to_manifest progress then Err NotReadyToManifest
      else Ok AwaitingShipment)"

subsection \<open>Reference view of a session\<close>

text \<open>
  The contract behind the counters. A session is given by its picked allocations, each with
  its quantity and whether it lies in a carton; the counters are what \<open>PackingProgress\<close>
  stores. \<open>PackingProgress_wf\<close> is the invariant of the private fields.
\<close>

definition PackingProgress_wf :: "PackingProgress \<Rightarrow> bool" where
  "PackingProgress_wf p \<longleftrightarrow>
     0 < expected_allocation_count p \<and>
     0 \<le> packed_allocation_count p \<and> packed_allocation_count p \<le> expected_allocation_count p \<and>
     0 < expected_quantity p \<and>
     0 \<le> packed_quantity p \<and> packed_quantity p \<le> expected_quantity p \<and>
     (packed_allocation_count p = 0 \<longleftrightarrow> packed_quantity p = 0) \<and>
     (packed_allocation_count p = expected_allocation_count p \<longleftrightarrow>
        packed_quantity p = expected_quantity p) \<and>
     open_carton_count p \<in> {0, 1} \<and> 0 \<le> closed_carton_count p \<and>
     open_carton_count p + closed_carton_count p \<le> i64_max \<and>
     (0 < packed_allocation_count p \<longrightarrow> 0 < open_carton_count p + closed_carton_count p)"

type_synonym pack_allocation = "int \<times> bool"

definition packed_of :: "pack_allocation list \<Rightarrow> pack_allocation list" where
  "packed_of als = filter snd als"

definition session_progress :: "pack_allocation list \<Rightarrow> int \<Rightarrow> int \<Rightarrow> PackingProgress" where
  "session_progress als open_cartons closed_cartons =
     \<lparr>expected_allocation_count = int (length als),
      packed_allocation_count = int (length (packed_of als)),
      expected_quantity = sum_list (map fst als),
      packed_quantity = sum_list (map fst (packed_of als)),
      open_carton_count = open_cartons,
      closed_carton_count = closed_cartons\<rparr>"

definition session_consistent :: "pack_allocation list \<Rightarrow> int \<Rightarrow> int \<Rightarrow> bool" where
  "session_consistent als open_cartons closed_cartons \<longleftrightarrow>
     als \<noteq> [] \<and> list_all (\<lambda>(q, _). 0 < q) als \<and>
     open_cartons \<in> {0, 1} \<and> 0 \<le> closed_cartons \<and> open_cartons + closed_cartons \<le> i64_max \<and>
     (packed_of als \<noteq> [] \<longrightarrow> 0 < open_cartons + closed_cartons)"

text \<open>
  The life of one carton: its status and the number of active contents, under the events of
  the pack station. Content is only placed into an open carton; every other guard is a
  function of the program.
\<close>

inductive carton_step :: "CartonStatus \<times> int \<Rightarrow> CartonStatus \<times> int \<Rightarrow> bool" where
  pack: "n < i64_max \<Longrightarrow> carton_step (CartonStatus.Open, n) (CartonStatus.Open, n + 1)"
| remove: "remove_packed_content s n = Inr n' \<Longrightarrow> carton_step (s, n) (s, n')"
| close: "CartonStatus_close s n = Inr s' \<Longrightarrow> carton_step (s, n) (s', n)"
| void: "CartonStatus_void s n = Inr s' \<Longrightarrow> carton_step (s, n) (s', n)"
| reopen: "CartonStatus_reopen s n = Inr s' \<Longrightarrow> carton_step (s, n) (s', n)"

fun carton_inv :: "CartonStatus \<times> int \<Rightarrow> bool" where
  "carton_inv (CartonStatus.Open, n) \<longleftrightarrow> 0 \<le> n \<and> n \<le> i64_max"
| "carton_inv (Closed, n) \<longleftrightarrow> 0 < n \<and> n \<le> i64_max"
| "carton_inv (Voided, n) \<longleftrightarrow> n = 0"

inductive_cases carton_step_from_voided: "carton_step (Voided, n) c"

section \<open>Interpretations\<close>

interpretation abandonment_note: validated_newtype PackSessionAbandonmentNote_new
  PackSessionAbandonmentNote_as_str
  "\<lambda>v. bounded_text MAX_PACK_SESSION_ABANDONMENT_NOTE_LENGTH v \<and> \<not> list_ex is_control v"
  by unfold_locales
    (auto simp: PackSessionAbandonmentNote_new_def is_ok_iff split: if_splits
      intro: PackSessionAbandonmentNote.expand)

interpretation carton_reopen_note: validated_newtype CartonReopenNote_new CartonReopenNote_as_str
  "\<lambda>v. bounded_text MAX_CARTON_REOPEN_NOTE_LENGTH v \<and> \<not> list_ex is_control v"
  by unfold_locales
    (auto simp: CartonReopenNote_new_def is_ok_iff split: if_splits intro: CartonReopenNote.expand)

interpretation removal_note: validated_newtype PackContentRemovalNote_new
  PackContentRemovalNote_as_str
  "\<lambda>v. bounded_text MAX_PACK_CONTENT_REMOVAL_NOTE_LENGTH v \<and> \<not> list_ex is_control v"
  by unfold_locales
    (auto simp: PackContentRemovalNote_new_def is_ok_iff split: if_splits
      intro: PackContentRemovalNote.expand)

interpretation pack_scan_value: validated_newtype PackScanValue_new PackScanValue_as_str
  "\<lambda>v. bounded_text MAX_PACK_SCAN_VALUE_LENGTH v \<and> \<not> list_ex is_control v"
  by unfold_locales
    (auto simp: PackScanValue_new_def is_ok_iff split: if_splits intro: PackScanValue.expand)

interpretation pack_quantity: validated_newtype PackQuantity_new PackQuantity_get "\<lambda>v. 0 < v"
  by unfold_locales (auto simp: PackQuantity_new_def split: if_splits intro: PackQuantity.expand)

interpretation weight: validated_newtype WeightGrams_new WeightGrams_get "\<lambda>v. 0 < v"
  by unfold_locales (auto simp: WeightGrams_new_def split: if_splits intro: WeightGrams.expand)

interpretation dimension:
  validated_newtype DimensionMillimeters_new DimensionMillimeters_get "\<lambda>v. 0 < v"
  by unfold_locales
    (auto simp: DimensionMillimeters_new_def split: if_splits intro: DimensionMillimeters.expand)

section \<open>Lemmas\<close>

lemma PackingProgress_try_from_Inr_iff:
  "PackingProgress_try_from p = Inr q \<longleftrightarrow> q = p \<and> PackingProgress_wf p"
  by (cases p; cases q)
    (auto simp: PackingProgress_try_from_def PackingProgress_new_def PackingProgress_wf_def
      checked_add_def in_i64_def i64_min_def split: option.splits if_splits)

lemma PackingProgress_new_Inr_iff:
  "PackingProgress_new ea pa eq pq oc cc = Inr q \<longleftrightarrow>
     q = \<lparr>expected_allocation_count = ea, packed_allocation_count = pa, expected_quantity = eq,
          packed_quantity = pq, open_carton_count = oc, closed_carton_count = cc\<rparr> \<and>
     PackingProgress_wf q"
  using PackingProgress_try_from_Inr_iff [of "\<lparr>expected_allocation_count = ea,
      packed_allocation_count = pa, expected_quantity = eq, packed_quantity = pq,
      open_carton_count = oc, closed_carton_count = cc\<rparr>" q]
  by (auto simp: PackingProgress_try_from_def)

lemma PackingProgress_new_reopened:
  assumes "PackingProgress_wf p" "open_carton_count p = 0" "0 < closed_carton_count p"
  shows "PackingProgress_new (expected_allocation_count p) (packed_allocation_count p)
      (expected_quantity p) (packed_quantity p) 1 (closed_carton_count p - 1) =
    Inr (p\<lparr>open_carton_count := 1, closed_carton_count := closed_carton_count p - 1\<rparr>)"
  using assms by (cases p) (auto simp: PackingProgress_new_Inr_iff PackingProgress_wf_def)

lemma CartonStatus_reopen_Inr_iff:
  "CartonStatus_reopen cs n = Inr s \<longleftrightarrow> cs = Closed \<and> 0 < n \<and> s = CartonStatus.Open"
  by (cases cs) auto

lemma packed_of_simps [simp]:
  "packed_of [] = []"
  "packed_of ((q, b) # als) = (if b then (q, b) # packed_of als else packed_of als)"
  by (simp_all add: packed_of_def)

lemma packed_of_length: "length (packed_of als) \<le> length als"
  by (simp add: packed_of_def)

lemma packed_of_full_iff: "length (packed_of als) = length als \<longleftrightarrow> list_all snd als"
  by (metis (no_types, lifting) filter_True length_filter_less linorder_neq_iff list_all_iff packed_of_def)

lemma packed_quantity_bounds:
  assumes "list_all (\<lambda>(q, _). 0 < q) als"
  shows "0 \<le> sum_list (map fst (packed_of als)) \<and>
    sum_list (map fst (packed_of als)) \<le> sum_list (map fst als) \<and>
    (sum_list (map fst (packed_of als)) = 0 \<longleftrightarrow> packed_of als = []) \<and>
    (sum_list (map fst (packed_of als)) = sum_list (map fst als) \<longleftrightarrow> list_all snd als)"
  using assms by (induction als) (auto simp: packed_of_def)

lemma expected_quantity_pos:
  fixes als :: "pack_allocation list"
  shows "als \<noteq> [] \<Longrightarrow> list_all (\<lambda>(q, _). 0 < q) als \<Longrightarrow> 0 < sum_list (map fst als)"
  by (induction als rule: list_nonempty_induct) auto

lemma session_progress_wf:
  assumes "session_consistent als oc cc"
  shows "PackingProgress_wf (session_progress als oc cc)"
proof -
  have pos: "als \<noteq> []" "list_all (\<lambda>(q, _). 0 < q) als"
    using assms by (auto simp: session_consistent_def)
  show ?thesis
    using assms packed_quantity_bounds [OF pos(2)] expected_quantity_pos [OF pos]
      packed_of_length [of als] packed_of_full_iff [of als]
    by (auto simp: PackingProgress_wf_def session_progress_def session_consistent_def)
qed

lemma carton_step_inv: "carton_step c c' \<Longrightarrow> carton_inv c \<Longrightarrow> carton_inv c'"
proof (induction rule: carton_step.induct)
  case (remove s n n')
  then show ?case by (cases s) (auto simp: remove_packed_content_def split: if_splits)
next
  case (close s n s')
  then show ?case by (cases s) (auto split: if_splits)
next
  case (void s n s')
  then show ?case by (cases s) (auto split: if_splits)
next
  case (reopen s n s')
  then show ?case by (cases s) (auto split: if_splits)
qed simp

lemma carton_reachable_inv:
  "carton_step\<^sup>*\<^sup>* (CartonStatus.Open, 0) c \<Longrightarrow> carton_inv c"
  by (induction rule: rtranclp_induct) (auto simp: i64_max_def intro: carton_step_inv)

section \<open>Properties\<close>

text \<open>
  C9. Completion is exact. The counters of every consistent session are accepted by the
  checked constructor, and packing completes, moving the order to awaiting shipment, exactly
  when the order is packing, every picked allocation is packed and no carton is still open.
\<close>

theorem packing_completion_exact:
  assumes "session_consistent als oc cc"
  shows "PackingProgress_try_from (session_progress als oc cc) = Inr (session_progress als oc cc) \<and>
    (complete_packing status (session_progress als oc cc) = Inr next_status \<longleftrightarrow>
       status = OrderStatus.Packing \<and> list_all snd als \<and> oc = 0 \<and> next_status = AwaitingShipment)"
proof -
  let ?p = "session_progress als oc cc"
  have facts: "als \<noteq> []" "list_all (\<lambda>(q, _). 0 < q) als"
      "packed_of als \<noteq> [] \<Longrightarrow> 0 < oc + cc"
    using assms by (auto simp: session_consistent_def)
  have "packed_allocation_count ?p = expected_allocation_count ?p \<longleftrightarrow> list_all snd als"
    and "packed_quantity ?p = expected_quantity ?p \<longleftrightarrow> list_all snd als"
    using packed_of_full_iff [of als] packed_quantity_bounds [OF facts(2)]
    by (simp_all add: session_progress_def)
  moreover have "0 < cc" if "list_all snd als" "oc = 0"
    using that facts(1,3) packed_of_full_iff [of als] by (cases "packed_of als") auto
  ultimately have "ready_to_manifest ?p \<longleftrightarrow> list_all snd als \<and> oc = 0"
    by (auto simp: ready_to_manifest_def PackingProgress_status_def) (auto simp: session_progress_def)
  then show ?thesis
    using session_progress_wf [OF assms]
    by (auto simp: PackingProgress_try_from_Inr_iff complete_packing_def)
qed

theorem packing_completion_exact_witness:
  "complete_packing OrderStatus.Packing (session_progress [(5, True), (2, True)] 0 1) =
     Inr AwaitingShipment \<and>
   complete_packing OrderStatus.Packing (session_progress [(5, True), (2, False)] 0 1) \<noteq>
     Inr AwaitingShipment"
  using packing_completion_exact [of "[(5, True), (2, True)]" 0 1 OrderStatus.Packing AwaitingShipment]
    packing_completion_exact [of "[(5, True), (2, False)]" 0 1 OrderStatus.Packing AwaitingShipment]
  by (simp add: session_consistent_def i64_max_def)

text \<open>
  C10. Reopening a carton. On valid progress, a carton can be reopened exactly when it is a
  nonempty closed carton, no other carton is open, and the order and session are both active
  or both complete. The order then returns to packing with exactly one closed carton turned
  into the open one; the new progress is valid and no longer ready to manifest, and closing
  the carton again restores the previous progress.
\<close>

theorem reopen_carton_correct:
  assumes wf: "PackingProgress_wf p"
  shows "(reopen_carton os ss p cs n = Inr (os', p') \<longleftrightarrow>
      (os = OrderStatus.Packing \<and> ss = PackSessionStatus.Open \<or>
       os = AwaitingShipment \<and> ss = ReadyToManifest) \<and>
      cs = Closed \<and> 0 < n \<and> open_carton_count p = 0 \<and> 0 < closed_carton_count p \<and>
      os' = OrderStatus.Packing \<and>
      p' = p\<lparr>open_carton_count := 1, closed_carton_count := closed_carton_count p - 1\<rparr>) \<and>
    (reopen_carton os ss p cs n = Inr (os', p') \<longrightarrow>
      PackingProgress_wf p' \<and> \<not> ready_to_manifest p' \<and>
      PackingProgress_new (expected_allocation_count p') (packed_allocation_count p')
        (expected_quantity p') (packed_quantity p') (open_carton_count p' - 1)
        (closed_carton_count p' + 1) = Inr p)"
proof -
  have *: "reopen_carton os ss p cs n = Inr (os', p') \<longleftrightarrow>
      (os = OrderStatus.Packing \<and> ss = PackSessionStatus.Open \<or>
       os = AwaitingShipment \<and> ss = ReadyToManifest) \<and>
      cs = Closed \<and> 0 < n \<and> open_carton_count p = 0 \<and> 0 < closed_carton_count p \<and>
      os' = OrderStatus.Packing \<and>
      p' = p\<lparr>open_carton_count := 1, closed_carton_count := closed_carton_count p - 1\<rparr>"
    by (auto simp: reopen_carton_def result_simps CartonStatus_reopen_Inr_iff
        PackingProgress_new_reopened [OF wf])
  then show ?thesis
    using wf by (cases p) (auto simp: PackingProgress_new_Inr_iff PackingProgress_wf_def
        ready_to_manifest_def PackingProgress_status_def)
qed

theorem reopen_carton_correct_witness:
  "\<not> ready_to_manifest (session_progress [(5, True)] 1 1) \<and>
   reopen_carton AwaitingShipment ReadyToManifest (session_progress [(5, True)] 0 2) Closed 3 =
     Inr (OrderStatus.Packing, session_progress [(5, True)] 1 1)"
proof -
  have "PackingProgress_wf (session_progress [(5, True)] 0 2)"
    by (rule session_progress_wf) (simp add: session_consistent_def i64_max_def)
  from reopen_carton_correct [OF this, of AwaitingShipment ReadyToManifest Closed 3
      OrderStatus.Packing "session_progress [(5, True)] 1 1"]
  show ?thesis by (simp add: session_progress_def)
qed

text \<open>
  C11. Carton lifecycle. In every state a carton can reach from creation, its content count
  is not negative and within i64, a closed carton is never empty, a voided carton is empty,
  and a voided carton admits no further step.
\<close>

theorem carton_lifecycle:
  assumes "carton_step\<^sup>*\<^sup>* (CartonStatus.Open, 0) (s, n)"
  shows "0 \<le> n \<and> in_i64 n \<and> (s = Closed \<longrightarrow> 0 < n) \<and> (s = Voided \<longrightarrow> n = 0) \<and>
    (s = Voided \<longrightarrow> (\<forall>c. \<not> carton_step (s, n) c))"
  using carton_reachable_inv [OF assms]
  by (cases s)
    (auto simp: in_i64_def i64_min_def i64_max_def remove_packed_content_def
      elim: carton_step_from_voided)

theorem carton_lifecycle_witness:
  "carton_step\<^sup>*\<^sup>* (CartonStatus.Open, 0) (Closed, 1) \<and> in_i64 1"
proof -
  have "carton_step (CartonStatus.Open, 0) (CartonStatus.Open, 0 + 1)"
    by (rule carton_step.pack) (simp add: i64_max_def)
  moreover have "carton_step (CartonStatus.Open, 1) (Closed, 1)"
    by (rule carton_step.close) simp
  ultimately have r: "carton_step\<^sup>*\<^sup>* (CartonStatus.Open, 0) (Closed, 1)"
    by (auto intro: rtranclp.rtrancl_into_rtrancl)
  with carton_lifecycle [OF r] show ?thesis by simp
qed

end
