(* ===== verification/Backorder.thy ===== *)
theory Backorder
  imports Orders
begin

text \<open>
  Splitting the unallocated part of an open order into a child backorder:
  \<open>crates/domain/src/backorder.rs\<close>, the result contract of
  \<open>crates/application/src/backorder.rs\<close>, and the assembly of the result in
  \<open>crates/api/src/repo/backorder.rs\<close>. The domain function adds two i64 values without a
  check; release builds wrap there, which the model writes out with \<open>wrap_i64\<close>.
\<close>

section \<open>Definitions\<close>

definition MAX_BACKORDER_NOTE_LENGTH :: nat where "MAX_BACKORDER_NOTE_LENGTH = 500"

datatype BackorderPolicyMode = Block | SplitShortage

definition BackorderPolicyMode_as_str :: "BackorderPolicyMode \<Rightarrow> string" where
  "BackorderPolicyMode_as_str self =
     (case self of Block \<Rightarrow> ''block'' | SplitShortage \<Rightarrow> ''split_shortage'')"

definition BackorderPolicyMode_parse :: "string \<Rightarrow> BackorderPolicyMode option" where
  "BackorderPolicyMode_parse value =
     (if value = ''block'' then Some Block
      else if value = ''split_shortage'' then Some SplitShortage
      else None)"

datatype BackorderReason = InventoryUnavailable | ClientRequested | ServiceLevel | Other

definition BackorderReason_as_str :: "BackorderReason \<Rightarrow> string" where
  "BackorderReason_as_str self =
     (case self of
        InventoryUnavailable \<Rightarrow> ''inventory_unavailable''
      | ClientRequested \<Rightarrow> ''client_requested''
      | ServiceLevel \<Rightarrow> ''service_level''
      | Other \<Rightarrow> ''other'')"

definition BackorderReason_parse :: "string \<Rightarrow> BackorderReason option" where
  "BackorderReason_parse value =
     (if value = ''inventory_unavailable'' then Some InventoryUnavailable
      else if value = ''client_requested'' then Some ClientRequested
      else if value = ''service_level'' then Some ServiceLevel
      else if value = ''other'' then Some Other
      else None)"

datatype BackorderError =
    InvalidRevision int
  | InvalidNote
  | OtherRequiresNote
  | OrderNotOpen OrderStatus
  | PolicyBlocksSplit
  | MissingLines
  | InvalidLineState OrderLineId
  | NoShortage
  | ZeroEffectiveDemand
  | QuantityOverflow
  | RevisionOverflow

datatype BackorderNote = BackorderNote (BackorderNote_as_str: rust_string)

definition BackorderNote_new :: "rust_string \<Rightarrow> BackorderError + BackorderNote" where
  "BackorderNote_new value =
     (if value = [] \<or> trim value \<noteq> value \<or> length value > MAX_BACKORDER_NOTE_LENGTH
        \<or> list_ex is_control value
      then Err InvalidNote
      else Ok (BackorderNote value))"

definition BackorderNote_deserialize ::
  "(BackorderError \<Rightarrow> 'd) \<Rightarrow> 'd + rust_string \<Rightarrow> 'd + BackorderNote" where
  "BackorderNote_deserialize custom raw = deserialize_with BackorderNote_new custom raw"

record BackorderDetails =
  backorder_reason :: BackorderReason
  backorder_note :: "BackorderNote option"

definition BackorderDetails_new ::
  "BackorderReason \<Rightarrow> BackorderNote option \<Rightarrow> BackorderError + BackorderDetails" where
  "BackorderDetails_new reason note =
     (if reason = Other \<and> note = None then Err OtherRequiresNote
      else Ok \<lparr>backorder_reason = reason, backorder_note = note\<rparr>)"

datatype BackorderPolicyRevision = BackorderPolicyRevision (BackorderPolicyRevision_get: int)

definition BackorderPolicyRevision_new :: "int \<Rightarrow> BackorderError + BackorderPolicyRevision" where
  "BackorderPolicyRevision_new value =
     (if value > 0 then Ok (BackorderPolicyRevision value)
      else Err (BackorderError.InvalidRevision value))"

definition BackorderPolicyRevision_checked_next ::
  "BackorderPolicyRevision \<Rightarrow> BackorderPolicyRevision option" where
  "BackorderPolicyRevision_checked_next self =
     (case checked_add (BackorderPolicyRevision_get self) 1 of
        Some value \<Rightarrow> Some (BackorderPolicyRevision value)
      | None \<Rightarrow> None)"

definition BackorderPolicyRevision_deserialize ::
  "(BackorderError \<Rightarrow> 'd) \<Rightarrow> 'd + int \<Rightarrow> 'd + BackorderPolicyRevision" where
  "BackorderPolicyRevision_deserialize custom raw =
     deserialize_with BackorderPolicyRevision_new custom raw"

subsection \<open>Splitting\<close>

record BackorderLineSnapshot =
  snap_order_line_id :: OrderLineId
  snap_original_quantity :: int
  snap_previously_backordered_quantity :: int
  snap_effective_quantity :: int
  snap_allocated_quantity :: int

definition shortage_quantity :: "BackorderLineSnapshot \<Rightarrow> int option" where
  "shortage_quantity self =
     checked_sub (snap_effective_quantity self) (snap_allocated_quantity self)"

record BackorderSplitLineTransition =
  tr_order_line_id :: OrderLineId
  tr_original_quantity :: int
  tr_allocated_quantity :: int
  tr_previously_backordered_quantity :: int
  tr_newly_backordered_quantity :: int
  tr_resulting_backordered_quantity :: int
  tr_resulting_effective_quantity :: int

record BackorderSplitTransition =
  split_parent_revision :: OrderRevision
  split_child_revision :: OrderRevision
  split_original_quantity :: int
  split_allocated_quantity :: int
  split_previously_backordered_quantity :: int
  split_newly_backordered_quantity :: int
  split_parent_effective_quantity :: int
  split_lines :: "BackorderSplitLineTransition list"

text \<open>The local variables of the loop over the demand lines.\<close>

record split_vars =
  seen :: "OrderLineId list"
  transitions :: "BackorderSplitLineTransition list"
  original_total :: int
  allocated_total :: int
  parent_effective_total :: int
  previous_backorder_total :: int
  new_backorder_total :: int

definition split_vars_init :: split_vars where
  "split_vars_init =
     \<lparr>seen = [], transitions = [], original_total = 0, allocated_total = 0,
      parent_effective_total = 0, previous_backorder_total = 0, new_backorder_total = 0\<rparr>"

definition split_line :: "split_vars \<Rightarrow> BackorderLineSnapshot \<Rightarrow> BackorderError + split_vars" where
  "split_line v line =
     (if snap_order_line_id line \<in> set (seen v)
        \<or> snap_original_quantity line \<le> 0
        \<or> snap_previously_backordered_quantity line < 0
        \<or> snap_effective_quantity line \<le> 0
        \<or> snap_allocated_quantity line < 0
        \<or> wrap_i64 (snap_previously_backordered_quantity line + snap_effective_quantity line)
            \<noteq> snap_original_quantity line
        \<or> snap_allocated_quantity line > snap_effective_quantity line
      then Err (InvalidLineState (snap_order_line_id line))
      else and_then (ok_or (shortage_quantity line) QuantityOverflow) (\<lambda>shortage.
        and_then (ok_or (checked_add (parent_effective_total v) (snap_allocated_quantity line))
          QuantityOverflow) (\<lambda>effective_total.
        let v' = v\<lparr>seen := snap_order_line_id line # seen v,
                   parent_effective_total := effective_total\<rparr>
        in if shortage = 0 then Ok v'
        else and_then (ok_or (checked_add (snap_previously_backordered_quantity line) shortage)
            QuantityOverflow) (\<lambda>resulting_backordered.
          and_then (ok_or (checked_add (original_total v) (snap_original_quantity line))
            QuantityOverflow) (\<lambda>original.
          and_then (ok_or (checked_add (allocated_total v) (snap_allocated_quantity line))
            QuantityOverflow) (\<lambda>allocated.
          and_then (ok_or (checked_add (previous_backorder_total v)
            (snap_previously_backordered_quantity line)) QuantityOverflow) (\<lambda>previous.
          and_then (ok_or (checked_add (new_backorder_total v) shortage) QuantityOverflow) (\<lambda>new.
          Ok (v'\<lparr>original_total := original, allocated_total := allocated,
                previous_backorder_total := previous, new_backorder_total := new,
                transitions := transitions v @
                  [\<lparr>tr_order_line_id = snap_order_line_id line,
                    tr_original_quantity = snap_original_quantity line,
                    tr_allocated_quantity = snap_allocated_quantity line,
                    tr_previously_backordered_quantity = snap_previously_backordered_quantity line,
                    tr_newly_backordered_quantity = shortage,
                    tr_resulting_backordered_quantity = resulting_backordered,
                    tr_resulting_effective_quantity = snap_allocated_quantity line\<rparr>]\<rparr>)))))))))"

fun split_loop :: "split_vars \<Rightarrow> BackorderLineSnapshot list \<Rightarrow> BackorderError + split_vars" where
  "split_loop v [] = Ok v"
| "split_loop v (line # lines) = and_then (split_line v line) (\<lambda>v'. split_loop v' lines)"

definition split_current_allocation_shortage ::
  "OrderStatus \<Rightarrow> OrderRevision \<Rightarrow> BackorderPolicyMode \<Rightarrow> BackorderLineSnapshot list \<Rightarrow>
   BackorderError + BackorderSplitTransition" where
  "split_current_allocation_shortage status revision policy lines =
     (if status \<noteq> OrderStatus.Open then Err (OrderNotOpen status)
      else if policy \<noteq> SplitShortage then Err PolicyBlocksSplit
      else if lines = [] then Err MissingLines
      else and_then (split_loop split_vars_init lines) (\<lambda>v.
        if new_backorder_total v \<le> 0 then Err NoShortage
        else if parent_effective_total v \<le> 0 then Err ZeroEffectiveDemand
        else and_then (ok_or (OrderRevision_checked_next revision) RevisionOverflow)
          (\<lambda>parent_revision.
          and_then (map_err (\<lambda>_. RevisionOverflow) (OrderRevision_new 1)) (\<lambda>child_revision.
          Ok \<lparr>split_parent_revision = parent_revision,
              split_child_revision = child_revision,
              split_original_quantity = original_total v,
              split_allocated_quantity = allocated_total v,
              split_previously_backordered_quantity = previous_backorder_total v,
              split_newly_backordered_quantity = new_backorder_total v,
              split_parent_effective_quantity = parent_effective_total v,
              split_lines = transitions v\<rparr>))))"

subsection \<open>The result of the split command\<close>

record BackorderSplitLineReadModel =
  parent_order_line_id :: OrderLineId
  child_order_line_id :: OrderLineId
  rm_line_key :: rust_string
  rm_item_id :: int
  rm_uom :: rust_string
  rm_original_quantity :: int
  rm_allocated_quantity :: int
  rm_previously_backordered_quantity :: int
  rm_newly_backordered_quantity :: int
  resulting_parent_quantity :: int

record SplitOrderBackorderResult =
  res_split_id :: int
  res_policy_id :: int
  res_policy_revision :: BackorderPolicyRevision
  res_inventory_owner_id :: InventoryOwnerId
  res_facility_id :: FacilityId
  res_parent_order_id :: int
  res_parent_order_key :: rust_string
  res_parent_status :: OrderStatus
  res_parent_revision :: OrderRevision
  res_child_order_id :: int
  res_child_order_key :: rust_string
  res_child_status :: OrderStatus
  res_child_revision :: OrderRevision
  res_original_quantity :: int
  res_allocated_quantity :: int
  res_previously_backordered_quantity :: int
  res_newly_backordered_quantity :: int
  res_parent_effective_quantity :: int
  res_lines :: "BackorderSplitLineReadModel list"
  res_details :: BackorderDetails
  res_split_by :: int
  res_split_at :: Timestamp

fun consistent_totals ::
  "int \<times> int \<times> int \<times> int \<Rightarrow> BackorderSplitLineReadModel list \<Rightarrow> (int \<times> int \<times> int \<times> int) option" where
  "consistent_totals totals [] = Some totals"
| "consistent_totals (original, allocated, previous, new) (line # lines) =
     (if rm_original_quantity line \<le> 0
        \<or> rm_allocated_quantity line < 0
        \<or> rm_previously_backordered_quantity line < 0
        \<or> rm_newly_backordered_quantity line < 0
        \<or> resulting_parent_quantity line \<noteq> rm_allocated_quantity line
        \<or> rm_original_quantity line \<noteq>
            wrap_i64 (wrap_i64 (rm_allocated_quantity line
              + rm_previously_backordered_quantity line) + rm_newly_backordered_quantity line)
      then None
      else case (checked_add original (rm_original_quantity line),
                 checked_add allocated (rm_allocated_quantity line),
                 checked_add previous (rm_previously_backordered_quantity line),
                 checked_add new (rm_newly_backordered_quantity line)) of
          (Some o', Some a, Some p, Some n) \<Rightarrow> consistent_totals (o', a, p, n) lines
        | _ \<Rightarrow> None)"

definition quantities_are_consistent :: "SplitOrderBackorderResult \<Rightarrow> bool" where
  "quantities_are_consistent self =
     (if res_original_quantity self \<le> 0
        \<or> res_allocated_quantity self \<le> 0
        \<or> res_previously_backordered_quantity self < 0
        \<or> res_newly_backordered_quantity self \<le> 0
        \<or> res_parent_effective_quantity self < res_allocated_quantity self
        \<or> res_lines self = []
      then False
      else consistent_totals (0, 0, 0, 0) (res_lines self) =
        Some (res_original_quantity self, res_allocated_quantity self,
          res_previously_backordered_quantity self, res_newly_backordered_quantity self))"

record SplitLine =
  sl_snapshot :: BackorderLineSnapshot
  sl_line_key :: rust_string
  sl_item_id :: int
  sl_uom :: rust_string

text \<open>
  The command handler pairs every transition line with its source line, inserts the child
  lines, and returns one read model per pair. Of the handler, the values it assembles are
  modelled: the generated ids, keys and the actor and time are arguments, the SQL writes are
  not modelled.
\<close>

fun transition_lines ::
  "SplitLine list \<Rightarrow> BackorderSplitLineTransition list \<Rightarrow>
   (SplitLine \<times> BackorderSplitLineTransition) list option" where
  "transition_lines lines [] = Some []"
| "transition_lines lines (t # ts) =
     (case List.find (\<lambda>line. snap_order_line_id (sl_snapshot line) = tr_order_line_id t) lines of
        None \<Rightarrow> None
      | Some source \<Rightarrow>
          (case transition_lines lines ts of
             None \<Rightarrow> None
           | Some rest \<Rightarrow> Some ((source, t) # rest)))"

definition split_read_model ::
  "(SplitLine \<times> BackorderSplitLineTransition) \<times> OrderLineId \<Rightarrow> BackorderSplitLineReadModel" where
  "split_read_model = (\<lambda>((source, transition), child_line_id).
     \<lparr>parent_order_line_id = snap_order_line_id (sl_snapshot source),
      child_order_line_id = child_line_id,
      rm_line_key = sl_line_key source,
      rm_item_id = sl_item_id source,
      rm_uom = sl_uom source,
      rm_original_quantity = tr_original_quantity transition,
      rm_allocated_quantity = tr_allocated_quantity transition,
      rm_previously_backordered_quantity = tr_previously_backordered_quantity transition,
      rm_newly_backordered_quantity = tr_newly_backordered_quantity transition,
      resulting_parent_quantity = tr_resulting_effective_quantity transition\<rparr>)"

definition split_result ::
  "SplitOrderBackorderResult \<Rightarrow> BackorderSplitTransition \<Rightarrow>
   (SplitLine \<times> BackorderSplitLineTransition) list \<Rightarrow> OrderLineId list \<Rightarrow> SplitOrderBackorderResult" where
  "split_result context transition pairs child_line_ids =
     context\<lparr>res_parent_status := OrderStatus.Open,
             res_parent_revision := split_parent_revision transition,
             res_child_status := OrderStatus.Open,
             res_child_revision := split_child_revision transition,
             res_original_quantity := split_original_quantity transition,
             res_allocated_quantity := split_allocated_quantity transition,
             res_previously_backordered_quantity := split_previously_backordered_quantity transition,
             res_newly_backordered_quantity := split_newly_backordered_quantity transition,
             res_parent_effective_quantity := split_parent_effective_quantity transition,
             res_lines := map split_read_model (zip pairs child_line_ids)\<rparr>"

subsection \<open>Reference split\<close>

definition line_i64 :: "BackorderLineSnapshot \<Rightarrow> bool" where
  "line_i64 l \<longleftrightarrow>
     in_i64 (snap_original_quantity l) \<and> in_i64 (snap_previously_backordered_quantity l) \<and>
     in_i64 (snap_effective_quantity l) \<and> in_i64 (snap_allocated_quantity l)"

definition line_consistent :: "BackorderLineSnapshot \<Rightarrow> bool" where
  "line_consistent l \<longleftrightarrow>
     0 \<le> snap_previously_backordered_quantity l \<and> 0 < snap_effective_quantity l \<and>
     0 \<le> snap_allocated_quantity l \<and> snap_allocated_quantity l \<le> snap_effective_quantity l \<and>
     snap_original_quantity l = snap_previously_backordered_quantity l + snap_effective_quantity l"

definition line_shortage :: "BackorderLineSnapshot \<Rightarrow> int" where
  "line_shortage l = snap_effective_quantity l - snap_allocated_quantity l"

definition short_lines :: "BackorderLineSnapshot list \<Rightarrow> BackorderLineSnapshot list" where
  "short_lines ls = filter (\<lambda>l. line_shortage l \<noteq> 0) ls"

definition line_transition :: "BackorderLineSnapshot \<Rightarrow> BackorderSplitLineTransition" where
  "line_transition l =
     \<lparr>tr_order_line_id = snap_order_line_id l,
      tr_original_quantity = snap_original_quantity l,
      tr_allocated_quantity = snap_allocated_quantity l,
      tr_previously_backordered_quantity = snap_previously_backordered_quantity l,
      tr_newly_backordered_quantity = line_shortage l,
      tr_resulting_backordered_quantity =
        snap_previously_backordered_quantity l + line_shortage l,
      tr_resulting_effective_quantity = snap_allocated_quantity l\<rparr>"

abbreviation line_total :: "(BackorderLineSnapshot \<Rightarrow> int) \<Rightarrow> BackorderLineSnapshot list \<Rightarrow> int" where
  "line_total f ls \<equiv> sum_list (map f ls)"

definition split_spec :: "OrderRevision \<Rightarrow> BackorderLineSnapshot list \<Rightarrow> BackorderSplitTransition" where
  "split_spec revision ls =
     \<lparr>split_parent_revision = OrderRevision (OrderRevision_get revision + 1),
      split_child_revision = OrderRevision 1,
      split_original_quantity = line_total snap_original_quantity (short_lines ls),
      split_allocated_quantity = line_total snap_allocated_quantity (short_lines ls),
      split_previously_backordered_quantity =
        line_total snap_previously_backordered_quantity (short_lines ls),
      split_newly_backordered_quantity = line_total line_shortage (short_lines ls),
      split_parent_effective_quantity = line_total snap_allocated_quantity ls,
      split_lines = map line_transition (short_lines ls)\<rparr>"

text \<open>The snapshot the next split reads for a line: demand moved to the child is backordered.\<close>

definition after_split :: "BackorderLineSnapshot \<Rightarrow> BackorderLineSnapshot" where
  "after_split l =
     l\<lparr>snap_previously_backordered_quantity :=
         snap_previously_backordered_quantity l + line_shortage l,
       snap_effective_quantity := snap_allocated_quantity l\<rparr>"

definition vars_inv :: "split_vars \<Rightarrow> bool" where
  "vars_inv v \<longleftrightarrow>
     0 \<le> allocated_total v \<and> 0 \<le> previous_backorder_total v \<and> 0 \<le> new_backorder_total v \<and>
     0 \<le> parent_effective_total v \<and>
     original_total v = allocated_total v + previous_backorder_total v + new_backorder_total v \<and>
     in_i64 (original_total v) \<and> in_i64 (parent_effective_total v)"

definition add_lines :: "split_vars \<Rightarrow> BackorderLineSnapshot list \<Rightarrow> split_vars" where
  "add_lines v ls =
     \<lparr>seen = rev (map snap_order_line_id ls) @ seen v,
      transitions = transitions v @ map line_transition (short_lines ls),
      original_total = original_total v + line_total snap_original_quantity (short_lines ls),
      allocated_total = allocated_total v + line_total snap_allocated_quantity (short_lines ls),
      parent_effective_total = parent_effective_total v + line_total snap_allocated_quantity ls,
      previous_backorder_total = previous_backorder_total v +
        line_total snap_previously_backordered_quantity (short_lines ls),
      new_backorder_total = new_backorder_total v + line_total line_shortage (short_lines ls)\<rparr>"

definition sample_lines :: "BackorderLineSnapshot list" where
  "sample_lines =
     [\<lparr>snap_order_line_id = 1, snap_original_quantity = 10,
       snap_previously_backordered_quantity = 0, snap_effective_quantity = 10,
       snap_allocated_quantity = 6\<rparr>,
      \<lparr>snap_order_line_id = 2, snap_original_quantity = 5,
       snap_previously_backordered_quantity = 1, snap_effective_quantity = 4,
       snap_allocated_quantity = 4\<rparr>]"

definition sample_split_lines :: "int \<Rightarrow> int \<Rightarrow> SplitLine list" where
  "sample_split_lines a b =
     [\<lparr>sl_snapshot = \<lparr>snap_order_line_id = 1, snap_original_quantity = 10,
         snap_previously_backordered_quantity = 0, snap_effective_quantity = 10,
         snap_allocated_quantity = a\<rparr>,
       sl_line_key = lit ''A'', sl_item_id = 100, sl_uom = lit ''EA''\<rparr>,
      \<lparr>sl_snapshot = \<lparr>snap_order_line_id = 2, snap_original_quantity = 5,
         snap_previously_backordered_quantity = 0, snap_effective_quantity = 5,
         snap_allocated_quantity = b\<rparr>,
       sl_line_key = lit ''B'', sl_item_id = 200, sl_uom = lit ''EA''\<rparr>]"

definition sample_result :: SplitOrderBackorderResult where
  "sample_result =
     \<lparr>res_split_id = 1, res_policy_id = 1, res_policy_revision = BackorderPolicyRevision 1,
      res_inventory_owner_id = 1, res_facility_id = 1, res_parent_order_id = 7,
      res_parent_order_key = lit ''SO-1'', res_parent_status = OrderStatus.Open,
      res_parent_revision = OrderRevision 1, res_child_order_id = 8,
      res_child_order_key = lit ''SO-1-B001'', res_child_status = OrderStatus.Open,
      res_child_revision = OrderRevision 1, res_original_quantity = 0, res_allocated_quantity = 0,
      res_previously_backordered_quantity = 0, res_newly_backordered_quantity = 0,
      res_parent_effective_quantity = 0, res_lines = [],
      res_details = \<lparr>backorder_reason = InventoryUnavailable, backorder_note = None\<rparr>,
      res_split_by = 3, res_split_at = 0\<rparr>"

definition tr_conserved :: "BackorderSplitLineTransition \<Rightarrow> bool" where
  "tr_conserved x \<longleftrightarrow>
     0 \<le> tr_allocated_quantity x \<and> 0 \<le> tr_previously_backordered_quantity x \<and>
     0 < tr_newly_backordered_quantity x \<and>
     tr_original_quantity x = tr_allocated_quantity x + tr_previously_backordered_quantity x +
       tr_newly_backordered_quantity x \<and>
     tr_resulting_effective_quantity x = tr_allocated_quantity x"

section \<open>Interpretations\<close>

interpretation backorder_policy_mode: tag_codec BackorderPolicyMode_as_str BackorderPolicyMode_parse
  by unfold_locales
    (auto simp: BackorderPolicyMode_as_str_def BackorderPolicyMode_parse_def
      split: if_splits BackorderPolicyMode.splits)

interpretation backorder_reason: tag_codec BackorderReason_as_str BackorderReason_parse
  by unfold_locales
    (auto simp: BackorderReason_as_str_def BackorderReason_parse_def
      split: if_splits BackorderReason.splits)

interpretation backorder_note: validated_newtype BackorderNote_new BackorderNote_as_str
  "\<lambda>v. bounded_text MAX_BACKORDER_NOTE_LENGTH v \<and> \<not> list_ex is_control v"
  by unfold_locales
    (auto simp: BackorderNote_new_def is_ok_iff split: if_splits intro: BackorderNote.expand)

interpretation backorder_policy_revision: revision_newtype BackorderPolicyRevision_new
  BackorderPolicyRevision_get BackorderPolicyRevision_checked_next
  by unfold_locales
    (auto simp: BackorderPolicyRevision_new_def BackorderPolicyRevision_checked_next_def
      checked_add_def split: if_splits option.splits intro: BackorderPolicyRevision.expand)

section \<open>Lemmas\<close>

lemma wrap_i64_add_eq_pos_iff:
  assumes "0 \<le> a" "0 \<le> b" "in_i64 a" "in_i64 b" "0 < c"
  shows "wrap_i64 (a + b) = c \<longleftrightarrow> c = a + b \<and> in_i64 c"
proof (cases "in_i64 (a + b)")
  case True
  then show ?thesis by (auto simp: wrap_i64_id)
next
  case False
  have "(a + b + 2 ^ 63) mod 2 ^ 64 = (a + b + 2 ^ 63 - 2 ^ 64) mod 2 ^ 64"
    by (rule minus_mod_self2 [symmetric])
  also have "\<dots> = a + b + 2 ^ 63 - 2 ^ 64"
    using assms False by (intro mod_pos_pos_trivial) (auto simp: i64_defs)
  finally have "(a + b + 2 ^ 63) mod 2 ^ 64 = a + b + 2 ^ 63 - 2 ^ 64" .
  with False assms show ?thesis by (auto simp: wrap_i64_def i64_defs)
qed

lemma short_lines_simps [simp]:
  "short_lines [] = []"
  "short_lines (l # ls) = (if line_shortage l = 0 then short_lines ls else l # short_lines ls)"
  by (simp_all add: short_lines_def)

lemma add_lines_Nil [simp]: "add_lines v [] = v"
  by (simp add: add_lines_def)

lemma add_lines_Cons: "add_lines v (l # ls) = add_lines (add_lines v [l]) ls"
  by (simp add: add_lines_def)

lemma split_line_guard:
  assumes "line_i64 l"
  shows "\<not> (snap_original_quantity l \<le> 0 \<or> snap_previously_backordered_quantity l < 0 \<or>
      snap_effective_quantity l \<le> 0 \<or> snap_allocated_quantity l < 0 \<or>
      wrap_i64 (snap_previously_backordered_quantity l + snap_effective_quantity l)
        \<noteq> snap_original_quantity l \<or>
      snap_allocated_quantity l > snap_effective_quantity l) \<longleftrightarrow> line_consistent l"
  using assms wrap_i64_add_eq_pos_iff
    [of "snap_previously_backordered_quantity l" "snap_effective_quantity l"
      "snap_original_quantity l"]
  by (auto simp: line_i64_def line_consistent_def)

lemma split_line_Inr_iff:
  assumes i64: "line_i64 l" and inv: "vars_inv v"
  shows "split_line v l = Inr v' \<longleftrightarrow>
    snap_order_line_id l \<notin> set (seen v) \<and> line_consistent l \<and>
    in_i64 (parent_effective_total v + snap_allocated_quantity l) \<and>
    (line_shortage l \<noteq> 0 \<longrightarrow> in_i64 (original_total v + snap_original_quantity l)) \<and>
    v' = add_lines v [l]"
proof (cases "snap_order_line_id l \<notin> set (seen v) \<and> line_consistent l")
  case False
  then show ?thesis
    using split_line_guard [OF i64] by (auto simp: split_line_def)
next
  case True
  then have c: "line_consistent l" by simp
  have shortage: "shortage_quantity l = Some (line_shortage l)" "0 \<le> line_shortage l"
    using c i64 by (auto simp: shortage_quantity_def line_shortage_def checked_sub_def
        line_consistent_def line_i64_def in_i64_def i64_min_def i64_max_def)
  have "in_i64 (snap_previously_backordered_quantity l + line_shortage l)"
    using c i64 by (auto simp: line_shortage_def line_consistent_def line_i64_def in_i64_def
        i64_min_def i64_max_def)
  moreover have "in_i64 (allocated_total v + snap_allocated_quantity l) \<and>
      in_i64 (previous_backorder_total v + snap_previously_backordered_quantity l) \<and>
      in_i64 (new_backorder_total v + line_shortage l)"
    if "in_i64 (original_total v + snap_original_quantity l)"
    using that c inv by (auto simp: line_shortage_def line_consistent_def vars_inv_def in_i64_def
        i64_min_def i64_max_def)
  ultimately show ?thesis
    using True split_line_guard [OF i64] shortage
    by (cases v) (auto simp: split_line_def result_simps checked_eq_Some add_lines_def
        line_transition_def Let_def)
qed

lemma vars_inv_add_line:
  assumes "line_consistent l" "vars_inv v"
    and "in_i64 (parent_effective_total v + snap_allocated_quantity l)"
    and "line_shortage l \<noteq> 0 \<longrightarrow> in_i64 (original_total v + snap_original_quantity l)"
  shows "vars_inv (add_lines v [l])"
  using assms by (auto simp: vars_inv_def add_lines_def line_consistent_def line_shortage_def)

lemma line_total_nonneg:
  assumes "list_all line_consistent ls"
  shows "0 \<le> line_total snap_allocated_quantity ls \<and> 0 \<le> line_total snap_original_quantity (short_lines ls)"
  using assms by (induction ls) (auto simp: line_consistent_def)

lemma in_i64_prefix: "in_i64 (a + b) \<Longrightarrow> 0 \<le> a \<Longrightarrow> 0 \<le> b \<Longrightarrow> in_i64 a"
  by (auto simp: i64_defs)

lemma split_loop_Inr_iff:
  assumes "list_all line_i64 ls" "vars_inv v"
  shows "split_loop v ls = Inr v' \<longleftrightarrow>
    list_all line_consistent ls \<and> distinct (map snap_order_line_id ls) \<and>
    set (map snap_order_line_id ls) \<inter> set (seen v) = {} \<and>
    in_i64 (parent_effective_total v + line_total snap_allocated_quantity ls) \<and>
    in_i64 (original_total v + line_total snap_original_quantity (short_lines ls)) \<and>
    v' = add_lines v ls"
  using assms
proof (induction ls arbitrary: v)
  case Nil
  then show ?case by (auto simp: vars_inv_def)
next
  case (Cons l ls)
  let ?w = "add_lines v [l]"
  let ?ok = "snap_order_line_id l \<notin> set (seen v) \<and> line_consistent l \<and>
    in_i64 (parent_effective_total v + snap_allocated_quantity l) \<and>
    (line_shortage l \<noteq> 0 \<longrightarrow> in_i64 (original_total v + snap_original_quantity l))"
  have step: "split_loop v (l # ls) = Inr v' \<longleftrightarrow> ?ok \<and> split_loop ?w ls = Inr v'"
    using Cons.prems by (simp add: result_simps split_line_Inr_iff)
  have pre: "?ok" if "list_all line_consistent (l # ls)" "snap_order_line_id l \<notin> set (seen v)"
    "in_i64 (parent_effective_total v + line_total snap_allocated_quantity (l # ls))"
    "in_i64 (original_total v + line_total snap_original_quantity (short_lines (l # ls)))"
    using that Cons.prems(2) line_total_nonneg [of ls]
      in_i64_prefix [of "parent_effective_total v + snap_allocated_quantity l"
        "line_total snap_allocated_quantity ls"]
      in_i64_prefix [of "original_total v + snap_original_quantity l"
        "line_total snap_original_quantity (short_lines ls)"]
    by (auto simp: vars_inv_def line_consistent_def add.assoc)
  show ?case
  proof (cases ?ok)
    case True
    then have "vars_inv ?w" using Cons.prems(2) by (intro vars_inv_add_line) auto
    then have IH: "split_loop ?w ls = Inr v' \<longleftrightarrow>
        list_all line_consistent ls \<and> distinct (map snap_order_line_id ls) \<and>
        set (map snap_order_line_id ls) \<inter> set (seen ?w) = {} \<and>
        in_i64 (parent_effective_total ?w + line_total snap_allocated_quantity ls) \<and>
        in_i64 (original_total ?w + line_total snap_original_quantity (short_lines ls)) \<and>
        v' = add_lines ?w ls"
      using Cons.prems(1) by (intro Cons.IH) auto
    have w: "set (seen ?w) = insert (snap_order_line_id l) (set (seen v))"
        "parent_effective_total ?w + line_total snap_allocated_quantity ls =
         parent_effective_total v + line_total snap_allocated_quantity (l # ls)"
        "original_total ?w + line_total snap_original_quantity (short_lines ls) =
         original_total v + line_total snap_original_quantity (short_lines (l # ls))"
      by (auto simp: add_lines_def)
    show ?thesis
      unfolding step IH w using True add_lines_Cons [of v l ls] by (auto simp del: short_lines_simps)
  next
    case False
    then show ?thesis unfolding step using pre by auto
  qed
qed

lemma pos_sum_list_iff:
  fixes f :: "'a \<Rightarrow> int"
  assumes "\<And>x. x \<in> set xs \<Longrightarrow> 0 \<le> f x"
  shows "0 < sum_list (map f xs) \<longleftrightarrow> (\<exists>x \<in> set xs. 0 < f x)"
  using assms
proof (induction xs)
  case (Cons x xs)
  have "0 \<le> sum_list (map f xs)" "0 \<le> f x"
    using Cons.prems by (auto intro!: sum_list_nonneg)
  then have "0 < sum_list (map f (x # xs)) \<longleftrightarrow> 0 < f x \<or> 0 < sum_list (map f xs)"
    by (simp only: list.map sum_list.Cons) linarith
  moreover have "0 < sum_list (map f xs) \<longleftrightarrow> (\<exists>x \<in> set xs. 0 < f x)"
    using Cons by (intro Cons.IH) auto
  ultimately show ?case by simp
qed simp

lemma short_lines_total_shortage: "line_total line_shortage (short_lines ls) = line_total line_shortage ls"
  by (induction ls) auto

lemma line_total_conserves:
  assumes "list_all line_consistent ls"
  shows "line_total snap_original_quantity ls =
    line_total snap_allocated_quantity ls + line_total snap_previously_backordered_quantity ls +
    line_total line_shortage ls"
  using assms by (induction ls) (auto simp: line_consistent_def line_shortage_def)

lemma list_all_short_lines: "list_all P ls \<Longrightarrow> list_all P (short_lines ls)"
  by (simp add: short_lines_def list_all_iff)

lemma add_lines_init:
  "add_lines split_vars_init ls =
     \<lparr>seen = rev (map snap_order_line_id ls),
      transitions = map line_transition (short_lines ls),
      original_total = line_total snap_original_quantity (short_lines ls),
      allocated_total = line_total snap_allocated_quantity (short_lines ls),
      parent_effective_total = line_total snap_allocated_quantity ls,
      previous_backorder_total = line_total snap_previously_backordered_quantity (short_lines ls),
      new_backorder_total = line_total line_shortage (short_lines ls)\<rparr>"
  by (simp add: add_lines_def split_vars_init_def)

lemma split_Inr_iff:
  assumes "list_all line_i64 ls"
  shows "split_current_allocation_shortage status revision policy ls = Inr t \<longleftrightarrow>
    status = OrderStatus.Open \<and> policy = SplitShortage \<and>
    list_all line_consistent ls \<and> distinct (map snap_order_line_id ls) \<and>
    (\<exists>l \<in> set ls. snap_allocated_quantity l < snap_effective_quantity l) \<and>
    (\<exists>l \<in> set ls. 0 < snap_allocated_quantity l) \<and>
    in_i64 (line_total snap_allocated_quantity ls) \<and>
    in_i64 (line_total snap_original_quantity (short_lines ls)) \<and>
    in_i64 (OrderRevision_get revision + 1) \<and> t = split_spec revision ls"
proof -
  have inv: "vars_inv split_vars_init" by (simp add: vars_inv_def split_vars_init_def i64_defs)
  have v: "split_loop split_vars_init ls = Inr v \<longleftrightarrow>
      list_all line_consistent ls \<and> distinct (map snap_order_line_id ls) \<and>
      in_i64 (line_total snap_allocated_quantity ls) \<and>
      in_i64 (line_total snap_original_quantity (short_lines ls)) \<and>
      v = add_lines split_vars_init ls" for v
    using split_loop_Inr_iff [OF assms inv, of v] by (auto simp: split_vars_init_def)
  have short: "0 < line_total line_shortage (short_lines ls) \<longleftrightarrow>
      (\<exists>l \<in> set ls. snap_allocated_quantity l < snap_effective_quantity l)"
    if "list_all line_consistent ls"
    unfolding short_lines_total_shortage using that
    by (subst pos_sum_list_iff) (auto simp: list_all_iff line_consistent_def line_shortage_def)
  have alloc: "0 < line_total snap_allocated_quantity ls \<longleftrightarrow>
      (\<exists>l \<in> set ls. 0 < snap_allocated_quantity l)"
    if "list_all line_consistent ls"
    using that by (subst pos_sum_list_iff) (auto simp: list_all_iff line_consistent_def)
  have next_rev: "OrderRevision_checked_next revision = Some r \<longleftrightarrow>
      in_i64 (OrderRevision_get revision + 1) \<and> r = OrderRevision (OrderRevision_get revision + 1)" for r
    by (auto simp: OrderRevision_checked_next_def checked_add_def split: option.splits)
  have "split_current_allocation_shortage status revision policy ls = Inr t \<longleftrightarrow>
      status = OrderStatus.Open \<and> policy = SplitShortage \<and> ls \<noteq> [] \<and>
      list_all line_consistent ls \<and> distinct (map snap_order_line_id ls) \<and>
      in_i64 (line_total snap_allocated_quantity ls) \<and>
      in_i64 (line_total snap_original_quantity (short_lines ls)) \<and>
      0 < line_total line_shortage (short_lines ls) \<and> 0 < line_total snap_allocated_quantity ls \<and>
      in_i64 (OrderRevision_get revision + 1) \<and> t = split_spec revision ls"
    by (auto simp: split_current_allocation_shortage_def result_simps v next_rev
        add_lines_init split_spec_def OrderRevision_new_def)
  with short alloc show ?thesis by auto
qed

lemma split_read_model_simps [simp]:
  "rm_original_quantity (split_read_model ((s, x), i)) = tr_original_quantity x"
  "rm_allocated_quantity (split_read_model ((s, x), i)) = tr_allocated_quantity x"
  "rm_previously_backordered_quantity (split_read_model ((s, x), i)) =
     tr_previously_backordered_quantity x"
  "rm_newly_backordered_quantity (split_read_model ((s, x), i)) = tr_newly_backordered_quantity x"
  "resulting_parent_quantity (split_read_model ((s, x), i)) = tr_resulting_effective_quantity x"
  by (simp_all add: split_read_model_def)

lemma consistent_totals_read_models:
  assumes "list_all (tr_conserved \<circ> snd \<circ> fst) xs"
    and "0 \<le> a" "0 \<le> p" "0 \<le> n" "o' = a + p + n"
    and "in_i64 (o' + sum_list (map (tr_original_quantity \<circ> snd \<circ> fst) xs))"
  shows "consistent_totals (o', a, p, n) (map split_read_model xs) =
    Some (o' + sum_list (map (tr_original_quantity \<circ> snd \<circ> fst) xs),
      a + sum_list (map (tr_allocated_quantity \<circ> snd \<circ> fst) xs),
      p + sum_list (map (tr_previously_backordered_quantity \<circ> snd \<circ> fst) xs),
      n + sum_list (map (tr_newly_backordered_quantity \<circ> snd \<circ> fst) xs))"
  using assms
proof (induction xs arbitrary: o' a p n)
  case (Cons y xs)
  obtain s x i where y: "y = ((s, x), i)" by (metis surj_pair)
  have x: "tr_conserved x" using Cons.prems(1) y by simp
  have rest: "0 \<le> sum_list (map (tr_original_quantity \<circ> snd \<circ> fst) xs)"
    using Cons.prems(1) by (intro sum_list_nonneg) (auto simp: tr_conserved_def list_all_iff)
  have range: "in_i64 (o' + tr_original_quantity x)" "in_i64 (a + tr_allocated_quantity x)"
      "in_i64 (p + tr_previously_backordered_quantity x)"
      "in_i64 (n + tr_newly_backordered_quantity x)"
      "in_i64 (tr_allocated_quantity x + tr_previously_backordered_quantity x)"
      "in_i64 (tr_original_quantity x)"
    using Cons.prems(2-6) x rest y
    by (auto simp: tr_conserved_def in_i64_def i64_min_def i64_max_def comp_def)
  have "consistent_totals (o' + tr_original_quantity x, a + tr_allocated_quantity x,
      p + tr_previously_backordered_quantity x, n + tr_newly_backordered_quantity x)
      (map split_read_model xs) =
    Some (o' + tr_original_quantity x + sum_list (map (tr_original_quantity \<circ> snd \<circ> fst) xs),
      a + tr_allocated_quantity x + sum_list (map (tr_allocated_quantity \<circ> snd \<circ> fst) xs),
      p + tr_previously_backordered_quantity x +
        sum_list (map (tr_previously_backordered_quantity \<circ> snd \<circ> fst) xs),
      n + tr_newly_backordered_quantity x +
        sum_list (map (tr_newly_backordered_quantity \<circ> snd \<circ> fst) xs))"
    using Cons.prems x y by (intro Cons.IH) (auto simp: tr_conserved_def add.assoc)
  with range x y show ?case
    by (simp add: tr_conserved_def wrap_i64_id checked_add_def checked_i64_def comp_def)
qed simp

lemma transition_lines_find:
  assumes "set (map tr_order_line_id ts) \<subseteq> set (map (snap_order_line_id \<circ> sl_snapshot) ls)"
  shows "\<exists>pairs. transition_lines ls ts = Some pairs \<and> map snd pairs = ts"
  using assms
proof (induction ts)
  case (Cons t ts)
  then obtain l where l: "l \<in> set ls" "snap_order_line_id (sl_snapshot l) = tr_order_line_id t"
    by force
  then obtain s where "List.find (\<lambda>line. snap_order_line_id (sl_snapshot line) = tr_order_line_id t) ls
      = Some s"
    by (metis (mono_tags, lifting) find_None_iff not_Some_eq)
  with Cons show ?case by auto
qed simp

lemma split_spec_facts:
  assumes "list_all line_consistent ls"
    and "\<exists>l \<in> set ls. snap_allocated_quantity l < snap_effective_quantity l"
    and t: "t = split_spec revision ls"
  shows "split_lines t \<noteq> [] \<and> 0 < split_newly_backordered_quantity t \<and>
    0 \<le> split_previously_backordered_quantity t \<and> 0 \<le> split_allocated_quantity t \<and>
    split_allocated_quantity t \<le> split_parent_effective_quantity t \<and>
    split_original_quantity t = split_allocated_quantity t +
      split_previously_backordered_quantity t + split_newly_backordered_quantity t"
proof -
  have "0 < line_total line_shortage ls"
    using assms by (subst pos_sum_list_iff) (auto simp: list_all_iff line_consistent_def line_shortage_def)
  moreover have "0 \<le> line_total snap_previously_backordered_quantity (short_lines ls) \<and>
      0 \<le> line_total snap_allocated_quantity (short_lines ls) \<and>
      line_total snap_allocated_quantity (short_lines ls) \<le> line_total snap_allocated_quantity ls"
    using assms(1) by (induction ls) (auto simp: line_consistent_def)
  moreover have "short_lines ls \<noteq> []"
    using assms(2) by (force simp: short_lines_def line_shortage_def filter_empty_conv)
  ultimately show ?thesis
    using line_total_conserves [OF list_all_short_lines [OF assms(1)]]
    by (simp add: t split_spec_def short_lines_total_shortage)
qed

lemma line_transition_conserved:
  "line_consistent l \<Longrightarrow> line_shortage l \<noteq> 0 \<Longrightarrow> tr_conserved (line_transition l)"
  by (auto simp: tr_conserved_def line_transition_def line_consistent_def line_shortage_def)

text \<open>
  A line that a split leaves without any allocation has effective quantity zero afterwards,
  and every later split of the order that reads it fails.
\<close>

lemma split_blocked_after_unallocated_line:
  assumes "list_all line_i64 ls" "split_current_allocation_shortage status revision policy ls = Inr t"
    and "l \<in> set ls" "snap_allocated_quantity l = 0"
    and "after_split l \<in> set ls'" "list_all line_i64 ls'"
  shows "split_current_allocation_shortage status' revision' policy' ls' \<noteq> Inr t'"
proof -
  have "\<not> line_consistent (after_split l)"
    using assms(4) by (simp add: line_consistent_def after_split_def)
  then show ?thesis using assms(5,6) split_Inr_iff by (auto simp: list_all_iff)
qed

lemma sample_split:
  assumes "0 \<le> a" "a \<le> 10" "0 \<le> b" "b \<le> 5" "0 < a + b" "a + b < 15"
  shows "split_current_allocation_shortage OrderStatus.Open (OrderRevision 1) SplitShortage
      (map sl_snapshot (sample_split_lines a b)) =
    Inr (split_spec (OrderRevision 1) (map sl_snapshot (sample_split_lines a b)))"
    and "list_all line_i64 (map sl_snapshot (sample_split_lines a b))"
proof -
  show i64: "list_all line_i64 (map sl_snapshot (sample_split_lines a b))"
    using assms by (auto simp: sample_split_lines_def line_i64_def in_i64_def i64_min_def i64_max_def)
  show "split_current_allocation_shortage OrderStatus.Open (OrderRevision 1) SplitShortage
      (map sl_snapshot (sample_split_lines a b)) =
    Inr (split_spec (OrderRevision 1) (map sl_snapshot (sample_split_lines a b)))"
    unfolding split_Inr_iff [OF i64] using assms
    by (auto simp: sample_split_lines_def line_consistent_def line_shortage_def
        in_i64_def i64_min_def i64_max_def)
qed

section \<open>Properties\<close>

text \<open>
  C12. The split succeeds exactly when it should. On line snapshots whose fields are i64
  values, a split succeeds exactly when the order is open, the policy splits shortages, every
  line is consistent in unbounded arithmetic (the unchecked addition never lets an
  inconsistent line through), no line repeats, some demand is short, some is allocated, and
  the totals and the next revision fit an i64; the result is then the reference split.
\<close>

theorem split_succeeds_iff:
  assumes "list_all line_i64 ls"
  shows "split_current_allocation_shortage status revision policy ls = Inr t \<longleftrightarrow>
    status = OrderStatus.Open \<and> policy = SplitShortage \<and>
    list_all line_consistent ls \<and> distinct (map snap_order_line_id ls) \<and>
    (\<exists>l \<in> set ls. snap_allocated_quantity l < snap_effective_quantity l) \<and>
    (\<exists>l \<in> set ls. 0 < snap_allocated_quantity l) \<and>
    in_i64 (line_total snap_allocated_quantity ls) \<and>
    in_i64 (line_total snap_original_quantity (short_lines ls)) \<and>
    in_i64 (OrderRevision_get revision + 1) \<and> t = split_spec revision ls"
  using assms by (rule split_Inr_iff)

theorem split_succeeds_iff_witness:
  "split_current_allocation_shortage OrderStatus.Open (OrderRevision 4) SplitShortage sample_lines =
   Inr (split_spec (OrderRevision 4) sample_lines)"
  by (subst split_succeeds_iff)
    (simp_all add: sample_lines_def line_i64_def line_consistent_def line_shortage_def
      in_i64_def i64_min_def i64_max_def)

text \<open>
  C13. Conservation. A successful split moves exactly the unallocated demand: per split line
  the original quantity is what stays allocated on the parent plus everything backordered,
  the header totals add up the same way, exactly the lines with a shortage are split, in
  order, and the parent keeps precisely the allocated quantity of all its lines, which is
  positive, under the next revision.
\<close>

theorem split_conserves:
  assumes "list_all line_i64 ls"
    and "split_current_allocation_shortage status revision policy ls = Inr t"
  shows "split_original_quantity t =
      split_allocated_quantity t + split_previously_backordered_quantity t +
      split_newly_backordered_quantity t \<and>
    0 < split_newly_backordered_quantity t \<and>
    split_newly_backordered_quantity t = line_total line_shortage ls \<and>
    0 < split_parent_effective_quantity t \<and>
    split_parent_effective_quantity t = line_total snap_allocated_quantity ls \<and>
    map tr_order_line_id (split_lines t) =
      map snap_order_line_id
        (filter (\<lambda>l. snap_allocated_quantity l < snap_effective_quantity l) ls) \<and>
    list_all (\<lambda>x. tr_original_quantity x =
        tr_resulting_effective_quantity x + tr_resulting_backordered_quantity x \<and>
      tr_resulting_backordered_quantity x =
        tr_previously_backordered_quantity x + tr_newly_backordered_quantity x \<and>
      0 < tr_newly_backordered_quantity x) (split_lines t) \<and>
    OrderRevision_get (split_parent_revision t) = OrderRevision_get revision + 1"
proof -
  have ok: "list_all line_consistent ls" "t = split_spec revision ls"
      "\<exists>l \<in> set ls. snap_allocated_quantity l < snap_effective_quantity l"
      "\<exists>l \<in> set ls. 0 < snap_allocated_quantity l"
    using assms(2) unfolding split_Inr_iff [OF assms(1)] by auto
  have "0 < line_total line_shortage ls" "0 < line_total snap_allocated_quantity ls"
    using ok by (subst pos_sum_list_iff; auto simp: list_all_iff line_consistent_def line_shortage_def)+
  moreover have "filter (\<lambda>l. snap_allocated_quantity l < snap_effective_quantity l) ls = short_lines ls"
    unfolding short_lines_def using ok(1)
    by (intro filter_cong) (auto simp: line_shortage_def line_consistent_def list_all_iff)
  moreover have "list_all (\<lambda>l. line_consistent l \<and> line_shortage l \<noteq> 0) (short_lines ls)"
    using ok(1) by (auto simp: short_lines_def list_all_iff)
  ultimately show ?thesis
    using line_total_conserves [OF list_all_short_lines [OF ok(1)]] ok(2)
    by (auto simp: split_spec_def short_lines_total_shortage line_transition_def comp_def
        list_all_iff line_consistent_def line_shortage_def)
qed

theorem split_conserves_witness:
  "split_original_quantity (split_spec (OrderRevision 4) sample_lines) = 10 \<and>
   0 < split_parent_effective_quantity (split_spec (OrderRevision 4) sample_lines)"
proof -
  have "list_all line_i64 sample_lines"
    by (simp add: sample_lines_def line_i64_def in_i64_def i64_min_def i64_max_def)
  moreover have "split_current_allocation_shortage OrderStatus.Open (OrderRevision 4) SplitShortage
      sample_lines = Inr (split_spec (OrderRevision 4) sample_lines)"
    by (subst split_Inr_iff)
      (simp_all add: sample_lines_def line_i64_def line_consistent_def line_shortage_def
        in_i64_def i64_min_def i64_max_def)
  ultimately show ?thesis
    using split_conserves [of sample_lines OrderStatus.Open "OrderRevision 4" SplitShortage]
    by (simp add: split_spec_def sample_lines_def line_shortage_def)
qed

text \<open>
  C14. The result check of the split command. For every successful split the handler finds
  the source line of every transition, and the check it applies to the assembled result holds
  exactly when the short lines carry some allocation. A split whose short lines are wholly
  unallocated, while other lines carry the allocation, is accepted by the domain and then
  rejected by this check.
\<close>

theorem split_result_consistent_iff:
  assumes i64: "list_all line_i64 (map sl_snapshot lines)"
    and split: "split_current_allocation_shortage status revision policy (map sl_snapshot lines) = Inr t"
    and ids: "length child_line_ids = length (split_lines t)"
  shows "\<exists>pairs. transition_lines lines (split_lines t) = Some pairs \<and>
    (quantities_are_consistent (split_result context t pairs child_line_ids) \<longleftrightarrow>
     0 < split_allocated_quantity t)"
proof -
  let ?ls = "map sl_snapshot lines"
  have ok: "list_all line_consistent ?ls" "t = split_spec revision ?ls"
      "\<exists>l \<in> set ?ls. snap_allocated_quantity l < snap_effective_quantity l"
      "in_i64 (line_total snap_original_quantity (short_lines ?ls))"
    using split unfolding split_Inr_iff [OF i64] by auto
  have lines: "split_lines t = map line_transition (short_lines ?ls)"
    by (simp add: ok(2) split_spec_def)
  have "set (map tr_order_line_id (split_lines t)) \<subseteq> set (map (snap_order_line_id \<circ> sl_snapshot) lines)"
    unfolding lines by (auto simp: short_lines_def line_transition_def)
  then obtain pairs where pairs: "transition_lines lines (split_lines t) = Some pairs"
      "map snd pairs = split_lines t"
    by (blast dest: transition_lines_find)
  let ?xs = "zip pairs child_line_ids"
  have proj: "map (f \<circ> snd \<circ> fst) ?xs = map (f \<circ> line_transition) (short_lines ?ls)"
    for f :: "BackorderSplitLineTransition \<Rightarrow> int"
  proof -
    have "length pairs = length child_line_ids" using pairs(2) ids by (metis length_map)
    then have "map fst ?xs = pairs" by simp
    then have "map (f \<circ> snd \<circ> fst) ?xs = map f (map snd pairs)"
      by (metis List.map.compositionality o_assoc)
    then show ?thesis by (simp add: pairs(2) lines)
  qed
  have short: "list_all (\<lambda>l. line_consistent l \<and> line_shortage l \<noteq> 0) (short_lines ?ls)"
    using ok(1) by (auto simp: short_lines_def list_all_iff)
  have "list_all (tr_conserved \<circ> snd \<circ> fst) ?xs"
  proof -
    have "snd p \<in> set (split_lines t)" if "p \<in> set pairs" for p
      using that pairs(2) by (metis imageI list.set_map)
    then have "snd (fst y) \<in> set (map line_transition (short_lines ?ls))" if "y \<in> set ?xs" for y
      using that lines set_zip_leftD [of "fst y" "snd y" pairs child_line_ids] by auto
    then show ?thesis using short line_transition_conserved by (fastforce simp: list_all_iff)
  qed
  then have totals: "consistent_totals (0, 0, 0, 0) (map split_read_model ?xs) =
      Some (split_original_quantity t, split_allocated_quantity t,
        split_previously_backordered_quantity t, split_newly_backordered_quantity t)"
    using ok(4) by (subst consistent_totals_read_models)
      (simp_all only: proj, simp_all add: ok(2) split_spec_def line_transition_def comp_def)
  have "?xs \<noteq> []"
    using split_spec_facts [OF ok(1,3,2)] pairs(2) ids by (cases pairs; cases child_line_ids) auto
  then have "quantities_are_consistent (split_result context t pairs child_line_ids) \<longleftrightarrow>
     0 < split_allocated_quantity t"
    using split_spec_facts [OF ok(1,3,2)] totals by (auto simp: quantities_are_consistent_def split_result_def)
  with pairs(1) show ?thesis by blast
qed

theorem split_result_consistent_iff_witness:
  "\<exists>pairs. transition_lines (sample_split_lines 10 0)
       (split_lines (split_spec (OrderRevision 1) (map sl_snapshot (sample_split_lines 10 0)))) =
         Some pairs \<and>
     \<not> quantities_are_consistent (split_result sample_result
        (split_spec (OrderRevision 1) (map sl_snapshot (sample_split_lines 10 0))) pairs [20])"
  using split_result_consistent_iff [OF sample_split(2,1), of 10 0 "[20]" sample_result]
  by (simp add: split_spec_def sample_split_lines_def line_shortage_def)

end
