(* ===== verification/Replenishment.thy ===== *)
theory Replenishment
  imports Orders
begin

text \<open>
  Pick-face replenishment, \<open>crates/domain/src/replenishment.rs\<close>: min/target policies with
  their canonical set of reserve locations, source eligibility, the aggregate planning
  decision, the selection of exact reserve balances in FEFO order, and the status of the
  resulting work. The selection loop is the greedy loop of the contracts over the FEFO
  comparison of this component.
\<close>

section \<open>Definitions\<close>

definition MAX_REPLENISHMENT_UOM_LENGTH :: nat where "MAX_REPLENISHMENT_UOM_LENGTH = 32"
definition MAX_REPLENISHMENT_SCAN_VALUE_LENGTH :: nat where
  "MAX_REPLENISHMENT_SCAN_VALUE_LENGTH = 200"
definition MAX_REPLENISHMENT_CANCELLATION_NOTE_LENGTH :: nat where
  "MAX_REPLENISHMENT_CANCELLATION_NOTE_LENGTH = 500"

datatype ReplenishmentWorkStatus = Pending | Claimed | Completed | Cancelled

datatype ReplenishmentPolicyStatus = Active | Retired

datatype ReplenishmentClaimReleaseReason =
    WorkInterrupted
  | EquipmentUnavailable
  | SourceBlocked
  | DestinationBlocked
  | InventoryMismatch
  | SafetyIssue
  | Other

datatype ReplenishmentWorkCancellationReason =
    DemandRemoved
  | PolicyReconfigured
  | SourceUnavailable
  | DestinationUnavailable
  | PlanningError
  | Other

datatype ReplenishmentInventoryStatus = Available | Hold | Damaged | Quarantine

datatype ReplenishmentUom = ReplenishmentUom (ReplenishmentUom_as_str: rust_string)

record ReplenishmentPolicyScope =
  scope_tenant_id :: TenantId
  scope_inventory_owner_id :: InventoryOwnerId
  scope_facility_id :: FacilityId
  scope_item_id :: CatalogItemId
  scope_uom :: ReplenishmentUom
  scope_pick_face_location_id :: LocationId

datatype ReplenishmentError =
    InvalidUom
  | NegativeLevel int
  | InvalidMoveQuantity int
  | InvalidPolicyRevision int
  | TargetNotAboveMinimum int int
  | EmptyReserveSourceSet
  | PickFaceIsReserveSource int
  | DuplicateActivePolicy ReplenishmentPolicyScope
  | WorkNotClaimable ReplenishmentWorkStatus
  | WorkNotReleasable ReplenishmentWorkStatus
  | WorkNotConfirmable ReplenishmentWorkStatus
  | WorkNotCancellable ReplenishmentWorkStatus
  | InvalidCancellationNote
  | CancellationNoteRequired
  | DuplicateSourceBalance int
  | ReserveSnapshotMismatch int
  | TooManySourceBalances
  | ProjectedFreeOverflow
  | InconsistentProjectedFree int int
  | InvalidScanValue

subsection \<open>Validated values\<close>

definition validate_text :: "rust_string \<Rightarrow> nat \<Rightarrow> unit + unit" where
  "validate_text value max_length =
     (if value = [] \<or> trim value \<noteq> value \<or> length value > max_length \<or> list_ex is_control value
      then Err () else Ok ())"

definition ReplenishmentUom_new :: "rust_string \<Rightarrow> ReplenishmentError + ReplenishmentUom" where
  "ReplenishmentUom_new value =
     and_then (map_err (\<lambda>_. InvalidUom) (validate_text value MAX_REPLENISHMENT_UOM_LENGTH))
       (\<lambda>_. Ok (ReplenishmentUom value))"

definition ReplenishmentUom_deserialize ::
  "(ReplenishmentError \<Rightarrow> 'd) \<Rightarrow> 'd + rust_string \<Rightarrow> 'd + ReplenishmentUom" where
  "ReplenishmentUom_deserialize custom raw = deserialize_with ReplenishmentUom_new custom raw"

datatype ReplenishmentLevel = ReplenishmentLevel (ReplenishmentLevel_get: int)

definition ReplenishmentLevel_ZERO :: ReplenishmentLevel where
  "ReplenishmentLevel_ZERO = ReplenishmentLevel 0"

definition ReplenishmentLevel_new :: "int \<Rightarrow> ReplenishmentError + ReplenishmentLevel" where
  "ReplenishmentLevel_new value =
     (if value \<ge> 0 then Ok (ReplenishmentLevel value) else Err (NegativeLevel value))"

definition ReplenishmentLevel_deserialize ::
  "(ReplenishmentError \<Rightarrow> 'd) \<Rightarrow> 'd + int \<Rightarrow> 'd + ReplenishmentLevel" where
  "ReplenishmentLevel_deserialize custom raw = deserialize_with ReplenishmentLevel_new custom raw"

datatype ReplenishmentMoveQuantity = ReplenishmentMoveQuantity (ReplenishmentMoveQuantity_get: int)

definition ReplenishmentMoveQuantity_new :: "int \<Rightarrow> ReplenishmentError + ReplenishmentMoveQuantity" where
  "ReplenishmentMoveQuantity_new value =
     (if value > 0 then Ok (ReplenishmentMoveQuantity value) else Err (InvalidMoveQuantity value))"

definition ReplenishmentMoveQuantity_deserialize ::
  "(ReplenishmentError \<Rightarrow> 'd) \<Rightarrow> 'd + int \<Rightarrow> 'd + ReplenishmentMoveQuantity" where
  "ReplenishmentMoveQuantity_deserialize custom raw =
     deserialize_with ReplenishmentMoveQuantity_new custom raw"

datatype ReplenishmentPolicyRevision =
  ReplenishmentPolicyRevision (ReplenishmentPolicyRevision_get: int)

definition ReplenishmentPolicyRevision_new ::
  "int \<Rightarrow> ReplenishmentError + ReplenishmentPolicyRevision" where
  "ReplenishmentPolicyRevision_new value =
     (if value > 0 then Ok (ReplenishmentPolicyRevision value)
      else Err (InvalidPolicyRevision value))"

definition ReplenishmentPolicyRevision_checked_next ::
  "ReplenishmentPolicyRevision \<Rightarrow> ReplenishmentPolicyRevision option" where
  "ReplenishmentPolicyRevision_checked_next self =
     (case checked_add (ReplenishmentPolicyRevision_get self) 1 of
        Some value \<Rightarrow> Some (ReplenishmentPolicyRevision value)
      | None \<Rightarrow> None)"

definition ReplenishmentPolicyRevision_deserialize ::
  "(ReplenishmentError \<Rightarrow> 'd) \<Rightarrow> 'd + int \<Rightarrow> 'd + ReplenishmentPolicyRevision" where
  "ReplenishmentPolicyRevision_deserialize custom raw =
     deserialize_with ReplenishmentPolicyRevision_new custom raw"

datatype ReplenishmentWorkCancellationNote =
  ReplenishmentWorkCancellationNote (ReplenishmentWorkCancellationNote_as_str: rust_string)

definition ReplenishmentWorkCancellationNote_new ::
  "rust_string \<Rightarrow> ReplenishmentError + ReplenishmentWorkCancellationNote" where
  "ReplenishmentWorkCancellationNote_new value =
     and_then (map_err (\<lambda>_. InvalidCancellationNote)
         (validate_text value MAX_REPLENISHMENT_CANCELLATION_NOTE_LENGTH))
       (\<lambda>_. Ok (ReplenishmentWorkCancellationNote value))"

definition ReplenishmentWorkCancellationNote_deserialize ::
  "(ReplenishmentError \<Rightarrow> 'd) \<Rightarrow> 'd + rust_string \<Rightarrow> 'd + ReplenishmentWorkCancellationNote" where
  "ReplenishmentWorkCancellationNote_deserialize custom raw =
     deserialize_with ReplenishmentWorkCancellationNote_new custom raw"

datatype ReplenishmentScanValue =
  ReplenishmentScanValue (ReplenishmentScanValue_as_str: rust_string)

definition ReplenishmentScanValue_new ::
  "rust_string \<Rightarrow> ReplenishmentError + ReplenishmentScanValue" where
  "ReplenishmentScanValue_new value =
     and_then (map_err (\<lambda>_. InvalidScanValue)
         (validate_text value MAX_REPLENISHMENT_SCAN_VALUE_LENGTH))
       (\<lambda>_. Ok (ReplenishmentScanValue value))"

definition ReplenishmentScanValue_deserialize ::
  "(ReplenishmentError \<Rightarrow> 'd) \<Rightarrow> 'd + rust_string \<Rightarrow> 'd + ReplenishmentScanValue" where
  "ReplenishmentScanValue_deserialize custom raw =
     deserialize_with ReplenishmentScanValue_new custom raw"

subsection \<open>Policies\<close>

record ReplenishmentPolicyThresholds =
  minimum :: ReplenishmentLevel
  target :: ReplenishmentLevel

definition ReplenishmentPolicyThresholds_new ::
  "ReplenishmentLevel \<Rightarrow> ReplenishmentLevel \<Rightarrow>
   ReplenishmentError + ReplenishmentPolicyThresholds" where
  "ReplenishmentPolicyThresholds_new mn tg =
     (if ReplenishmentLevel_get tg \<le> ReplenishmentLevel_get mn
        then Err (TargetNotAboveMinimum (ReplenishmentLevel_get mn) (ReplenishmentLevel_get tg))
      else Ok \<lparr>minimum = mn, target = tg\<rparr>)"

definition ReplenishmentPolicyThresholds_deserialize ::
  "(ReplenishmentError \<Rightarrow> 'd) \<Rightarrow> 'd + ReplenishmentLevel \<times> ReplenishmentLevel \<Rightarrow>
   'd + ReplenishmentPolicyThresholds" where
  "ReplenishmentPolicyThresholds_deserialize custom raw =
     deserialize_with (\<lambda>(mn, tg). ReplenishmentPolicyThresholds_new mn tg) custom raw"

text \<open>
  A location id compares by its i64, so sorting the ids by \<open>get\<close> is sorting the ids, and
  \<open>dedup\<close> removes adjacent equal ids. \<open>slice::binary\_search\_by\_key\<close> halves the
  search interval \<open>[base, base + size)\<close> until one element remains.
\<close>

datatype ReplenishmentReserveSourceLocationIds =
  ReplenishmentReserveSourceLocationIds (as_slice: "LocationId list")

definition ReplenishmentReserveSourceLocationIds_new ::
  "LocationId list \<Rightarrow> ReplenishmentError + ReplenishmentReserveSourceLocationIds" where
  "ReplenishmentReserveSourceLocationIds_new location_ids =
     (let ids = remdups_adj (sort location_ids)
      in if ids = [] then Err EmptyReserveSourceSet
         else Ok (ReplenishmentReserveSourceLocationIds ids))"

function binary_search_base :: "int list \<Rightarrow> int \<Rightarrow> nat \<Rightarrow> nat \<Rightarrow> nat" where
  "binary_search_base xs key base sz =
     (if sz \<le> 1 then base
      else let half = sz div 2; mid = base + half
           in binary_search_base xs key (if xs ! mid > key then base else mid) (sz - half))"
  by auto
termination by (relation "measure (\<lambda>(_, _, _, sz). sz)") auto

definition binary_search :: "int list \<Rightarrow> int \<Rightarrow> nat + nat" where
  "binary_search xs key =
     (if xs = [] then Err 0
      else let base = binary_search_base xs key 0 (length xs)
           in if xs ! base = key then Ok base
              else Err (base + (if xs ! base < key then 1 else 0)))"

definition contains :: "ReplenishmentReserveSourceLocationIds \<Rightarrow> LocationId \<Rightarrow> bool" where
  "contains self location_id = is_ok (binary_search (as_slice self) location_id)"

definition ReplenishmentReserveSourceLocationIds_deserialize ::
  "(ReplenishmentError \<Rightarrow> 'd) \<Rightarrow> 'd + LocationId list \<Rightarrow>
   'd + ReplenishmentReserveSourceLocationIds" where
  "ReplenishmentReserveSourceLocationIds_deserialize custom raw =
     deserialize_with ReplenishmentReserveSourceLocationIds_new custom raw"

record ReplenishmentPolicyDefinition =
  policy_scope :: ReplenishmentPolicyScope
  policy_thresholds :: ReplenishmentPolicyThresholds
  reserve_source_location_ids :: ReplenishmentReserveSourceLocationIds

definition ReplenishmentPolicyDefinition_new ::
  "ReplenishmentPolicyScope \<Rightarrow> ReplenishmentPolicyThresholds \<Rightarrow>
   ReplenishmentReserveSourceLocationIds \<Rightarrow>
   ReplenishmentError + ReplenishmentPolicyDefinition" where
  "ReplenishmentPolicyDefinition_new scope thresholds reserve =
     (if contains reserve (scope_pick_face_location_id scope)
        then Err (PickFaceIsReserveSource (scope_pick_face_location_id scope))
      else Ok \<lparr>policy_scope = scope, policy_thresholds = thresholds,
               reserve_source_location_ids = reserve\<rparr>)"

definition ReplenishmentPolicyDefinition_deserialize ::
  "(ReplenishmentError \<Rightarrow> 'd) \<Rightarrow>
   'd + ReplenishmentPolicyScope \<times> ReplenishmentPolicyThresholds \<times>
     ReplenishmentReserveSourceLocationIds \<Rightarrow> 'd + ReplenishmentPolicyDefinition" where
  "ReplenishmentPolicyDefinition_deserialize custom raw =
     deserialize_with (\<lambda>(scope, thresholds, reserve).
       ReplenishmentPolicyDefinition_new scope thresholds reserve) custom raw"

definition validate_unique_active_replenishment_policy_scopes ::
  "ReplenishmentPolicyScope list \<Rightarrow> ReplenishmentError + unit" where
  "validate_unique_active_replenishment_policy_scopes scopes =
     (case first_duplicate [] scopes of
        Some scope \<Rightarrow> Err (DuplicateActivePolicy scope)
      | None \<Rightarrow> Ok ())"

subsection \<open>Work status\<close>

definition ReplenishmentWorkStatus_claim ::
  "ReplenishmentWorkStatus \<Rightarrow> ReplenishmentError + ReplenishmentWorkStatus" where
  "ReplenishmentWorkStatus_claim self =
     (case self of Pending \<Rightarrow> Ok Claimed | status \<Rightarrow> Err (WorkNotClaimable status))"

definition ReplenishmentWorkStatus_release ::
  "ReplenishmentWorkStatus \<Rightarrow> ReplenishmentError + ReplenishmentWorkStatus" where
  "ReplenishmentWorkStatus_release self =
     (case self of Claimed \<Rightarrow> Ok Pending | status \<Rightarrow> Err (WorkNotReleasable status))"

definition ReplenishmentWorkStatus_confirm ::
  "ReplenishmentWorkStatus \<Rightarrow> ReplenishmentError + ReplenishmentWorkStatus" where
  "ReplenishmentWorkStatus_confirm self =
     (case self of Claimed \<Rightarrow> Ok Completed | status \<Rightarrow> Err (WorkNotConfirmable status))"

definition ReplenishmentWorkStatus_cancel ::
  "ReplenishmentWorkStatus \<Rightarrow> ReplenishmentError + ReplenishmentWorkStatus" where
  "ReplenishmentWorkStatus_cancel self =
     (case self of Pending \<Rightarrow> Ok Cancelled | status \<Rightarrow> Err (WorkNotCancellable status))"

subsection \<open>Source eligibility\<close>

record ReplenishmentSourceCandidate =
  src_tenant_id :: TenantId
  src_inventory_owner_id :: InventoryOwnerId
  src_facility_id :: FacilityId
  src_location_id :: LocationId
  src_inventory_balance_id :: InventoryBalanceId
  src_item_batch_id :: ItemBatchId
  src_item_id :: CatalogItemId
  src_uom :: ReplenishmentUom
  src_lot :: "rust_string option"
  src_serial :: "rust_string option"
  src_expiration :: "Timestamp option"
  src_received_at :: Timestamp
  src_inventory_status :: ReplenishmentInventoryStatus
  src_free_quantity :: ReplenishmentLevel

datatype ReplenishmentSourceIneligibility =
    TenantMismatch
  | InventoryOwnerMismatch
  | FacilityMismatch
  | SourceIsDestinationPickFace
  | SourceNotConfigured
  | ItemMismatch
  | UomMismatch
  | InventoryNotAvailable
  | NoFreeQuantity

datatype EligibleReplenishmentSource =
  EligibleReplenishmentSource (candidate: ReplenishmentSourceCandidate)

datatype ReplenishmentSourceEligibility =
    Eligible EligibleReplenishmentSource
  | Ineligible ReplenishmentSourceIneligibility

definition assess_replenishment_source ::
  "ReplenishmentPolicyDefinition \<Rightarrow> ReplenishmentSourceCandidate \<Rightarrow>
   ReplenishmentSourceEligibility" where
  "assess_replenishment_source policy cand =
     (let scope = policy_scope policy;
          rejection =
            (if src_tenant_id cand \<noteq> scope_tenant_id scope then Some TenantMismatch
             else if src_inventory_owner_id cand \<noteq> scope_inventory_owner_id scope
               then Some InventoryOwnerMismatch
             else if src_facility_id cand \<noteq> scope_facility_id scope then Some FacilityMismatch
             else if src_location_id cand = scope_pick_face_location_id scope
               then Some SourceIsDestinationPickFace
             else if \<not> contains (reserve_source_location_ids policy) (src_location_id cand)
               then Some SourceNotConfigured
             else if src_item_id cand \<noteq> scope_item_id scope then Some ItemMismatch
             else if src_uom cand \<noteq> scope_uom scope then Some UomMismatch
             else if src_inventory_status cand \<noteq> Available then Some InventoryNotAvailable
             else if src_free_quantity cand = ReplenishmentLevel_ZERO then Some NoFreeQuantity
             else None)
      in case rejection of
           Some reason \<Rightarrow> Ineligible reason
         | None \<Rightarrow> Eligible (EligibleReplenishmentSource cand))"

subsection \<open>Planning\<close>

record ReplenishmentPlanningSnapshot =
  pick_face_free :: ReplenishmentLevel
  active_inbound :: ReplenishmentLevel
  projected_free :: ReplenishmentLevel
  unallocated_demand :: ReplenishmentLevel
  reserve_free :: ReplenishmentLevel

definition ReplenishmentPlanningSnapshot_new ::
  "ReplenishmentLevel \<Rightarrow> ReplenishmentLevel \<Rightarrow> ReplenishmentLevel \<Rightarrow> ReplenishmentLevel \<Rightarrow>
   ReplenishmentError + ReplenishmentPlanningSnapshot" where
  "ReplenishmentPlanningSnapshot_new pick_face inbound demand reserve =
     and_then (ok_or (checked_add (ReplenishmentLevel_get pick_face) (ReplenishmentLevel_get inbound))
       ProjectedFreeOverflow) (\<lambda>projected.
     Ok \<lparr>pick_face_free = pick_face, active_inbound = inbound,
         projected_free = ReplenishmentLevel projected,
         unallocated_demand = demand, reserve_free = reserve\<rparr>)"

definition ReplenishmentPlanningSnapshot_deserialize ::
  "(ReplenishmentError \<Rightarrow> 'd) \<Rightarrow>
   'd + ReplenishmentLevel \<times> ReplenishmentLevel \<times> ReplenishmentLevel \<times> ReplenishmentLevel \<times>
     ReplenishmentLevel \<Rightarrow> 'd + ReplenishmentPlanningSnapshot" where
  "ReplenishmentPlanningSnapshot_deserialize custom raw =
     and_then raw (\<lambda>(raw_pick_face, raw_inbound, raw_projected, raw_demand, raw_reserve).
     and_then (map_err custom
       (ReplenishmentPlanningSnapshot_new raw_pick_face raw_inbound raw_demand raw_reserve))
       (\<lambda>snapshot.
     if projected_free snapshot \<noteq> raw_projected
       then Err (custom (InconsistentProjectedFree
         (ReplenishmentLevel_get (projected_free snapshot)) (ReplenishmentLevel_get raw_projected)))
     else Ok snapshot))"

datatype ReplenishmentPlanningOutcome =
    NotNeeded
  | InsufficientReserve
  | PartiallyPlanned
  | FullyPlanned

record ReplenishmentPlanDecision =
  decision_snapshot :: ReplenishmentPlanningSnapshot
  required_level :: ReplenishmentLevel
  target_gap :: ReplenishmentLevel
  decision_planned :: ReplenishmentLevel
  decision_remaining :: ReplenishmentLevel
  decision_outcome :: ReplenishmentPlanningOutcome

definition plan_replenishment ::
  "ReplenishmentPolicyThresholds \<Rightarrow> ReplenishmentPlanningSnapshot \<Rightarrow>
   ReplenishmentPlanDecision" where
  "plan_replenishment thresholds snapshot =
     (let projected = ReplenishmentLevel_get (projected_free snapshot);
          demand = ReplenishmentLevel_get (unallocated_demand snapshot);
          actionable = (projected < ReplenishmentLevel_get (minimum thresholds)
            \<or> projected < demand);
          required = ReplenishmentLevel (max (ReplenishmentLevel_get (target thresholds)) demand);
          gap = (if actionable
            then ReplenishmentLevel (saturating_sub (ReplenishmentLevel_get required) projected)
            else ReplenishmentLevel_ZERO);
          plan = ReplenishmentLevel (min (ReplenishmentLevel_get gap)
            (ReplenishmentLevel_get (reserve_free snapshot)));
          rest = ReplenishmentLevel (ReplenishmentLevel_get gap - ReplenishmentLevel_get plan);
          result = (if \<not> actionable then NotNeeded
            else if plan = ReplenishmentLevel_ZERO then InsufficientReserve
            else if ReplenishmentLevel_get plan < ReplenishmentLevel_get gap then PartiallyPlanned
            else FullyPlanned)
      in \<lparr>decision_snapshot = snapshot, required_level = required, target_gap = gap,
          decision_planned = plan, decision_remaining = rest, decision_outcome = result\<rparr>)"

record PlannedReplenishmentSource =
  planned_sequence :: nat
  planned_source_inventory_balance_id :: InventoryBalanceId
  planned_item_batch_id :: ItemBatchId
  planned_source_location_id :: LocationId
  planned_lot :: "rust_string option"
  planned_serial :: "rust_string option"
  planned_expiration :: "Timestamp option"
  planned_received_at :: Timestamp
  planned_quantity :: ReplenishmentMoveQuantity

definition compare_eligible_sources ::
  "EligibleReplenishmentSource \<Rightarrow> EligibleReplenishmentSource \<Rightarrow> ordering" where
  "compare_eligible_sources l r =
     (let left = candidate l; right = candidate r
      in then_with (then_with
           (case (src_expiration left, src_expiration right) of
              (Some left, Some right) \<Rightarrow> cmp_int left right
            | (Some _, None) \<Rightarrow> Less
            | (None, Some _) \<Rightarrow> Greater
            | (None, None) \<Rightarrow> Equal)
           (cmp_int (src_received_at left) (src_received_at right)))
         (cmp_int (src_inventory_balance_id left) (src_inventory_balance_id right)))"

definition planned_source ::
  "nat \<Rightarrow> ReplenishmentSourceCandidate \<Rightarrow> int \<Rightarrow> PlannedReplenishmentSource" where
  "planned_source sequence cand quantity =
     \<lparr>planned_sequence = sequence,
      planned_source_inventory_balance_id = src_inventory_balance_id cand,
      planned_item_batch_id = src_item_batch_id cand,
      planned_source_location_id = src_location_id cand,
      planned_lot = src_lot cand,
      planned_serial = src_serial cand,
      planned_expiration = src_expiration cand,
      planned_received_at = src_received_at cand,
      planned_quantity = ReplenishmentMoveQuantity quantity\<rparr>"

definition u32_max :: int where
  "u32_max = 2 ^ 32 - 1"

fun source_loop ::
  "int \<Rightarrow> PlannedReplenishmentSource list \<Rightarrow> EligibleReplenishmentSource list \<Rightarrow>
   ReplenishmentError + PlannedReplenishmentSource list \<times> int" where
  "source_loop remaining plan [] = Ok (plan, remaining)"
| "source_loop remaining plan (source # sources) =
     (if remaining = 0 then Ok (plan, remaining)
      else let cand = candidate source;
               quantity = min remaining (ReplenishmentLevel_get (src_free_quantity cand))
           in if int (length plan + 1) > u32_max then Err TooManySourceBalances
              else source_loop (remaining - quantity)
                     (plan @ [planned_source (length plan + 1) cand quantity]) sources)"

definition select_replenishment_sources ::
  "ReplenishmentPlanDecision \<Rightarrow> EligibleReplenishmentSource list \<Rightarrow>
   ReplenishmentError + PlannedReplenishmentSource list" where
  "select_replenishment_sources decision sources =
     (if decision_planned decision = ReplenishmentLevel_ZERO then Ok []
      else case first_duplicate [] (map (src_inventory_balance_id \<circ> candidate) sources) of
          Some balance_id \<Rightarrow> Err (DuplicateSourceBalance balance_id)
        | None \<Rightarrow>
            and_then (source_loop (ReplenishmentLevel_get (decision_planned decision)) []
              (sort_by compare_eligible_sources sources)) (\<lambda>(plan, remaining).
            if remaining \<noteq> 0 then Err (ReserveSnapshotMismatch remaining) else Ok plan))"

subsection \<open>Reference views\<close>

definition level_wf :: "ReplenishmentLevel \<Rightarrow> bool" where
  "level_wf l \<longleftrightarrow> 0 \<le> ReplenishmentLevel_get l \<and> ReplenishmentLevel_get l \<le> i64_max"

definition thresholds_wf :: "ReplenishmentPolicyThresholds \<Rightarrow> bool" where
  "thresholds_wf t \<longleftrightarrow> level_wf (minimum t) \<and> level_wf (target t) \<and>
     ReplenishmentLevel_get (minimum t) < ReplenishmentLevel_get (target t)"

definition snapshot_wf :: "ReplenishmentPlanningSnapshot \<Rightarrow> bool" where
  "snapshot_wf s \<longleftrightarrow> level_wf (pick_face_free s) \<and> level_wf (active_inbound s) \<and>
     level_wf (projected_free s) \<and> level_wf (unallocated_demand s) \<and> level_wf (reserve_free s) \<and>
     ReplenishmentLevel_get (projected_free s) =
       ReplenishmentLevel_get (pick_face_free s) + ReplenishmentLevel_get (active_inbound s)"

abbreviation free :: "EligibleReplenishmentSource \<Rightarrow> int" where
  "free s \<equiv> ReplenishmentLevel_get (src_free_quantity (candidate s))"

abbreviation balance :: "EligibleReplenishmentSource \<Rightarrow> InventoryBalanceId" where
  "balance s \<equiv> src_inventory_balance_id (candidate s)"

text \<open>
  \<open>EligibleReplenishmentSource\<close> has a private field and only the assessment builds it.
\<close>

definition sources_eligible ::
  "ReplenishmentPolicyDefinition \<Rightarrow> EligibleReplenishmentSource list \<Rightarrow> bool" where
  "sources_eligible policy sources \<longleftrightarrow>
     list_all (\<lambda>s. assess_replenishment_source policy (candidate s) = Eligible s \<and>
       level_wf (src_free_quantity (candidate s))) sources"

definition reserve_set_wf :: "ReplenishmentReserveSourceLocationIds \<Rightarrow> bool" where
  "reserve_set_wf r \<longleftrightarrow> as_slice r \<noteq> [] \<and> sorted_wrt (<) (as_slice r)"

definition policy_wf :: "ReplenishmentPolicyDefinition \<Rightarrow> bool" where
  "policy_wf p \<longleftrightarrow> thresholds_wf (policy_thresholds p) \<and>
     reserve_set_wf (reserve_source_location_ids p) \<and>
     scope_pick_face_location_id (policy_scope p) \<notin> set (as_slice (reserve_source_location_ids p))"

definition fefo_before :: "EligibleReplenishmentSource \<Rightarrow> EligibleReplenishmentSource \<Rightarrow> bool" where
  "fefo_before s s' \<longleftrightarrow>
     (case (src_expiration (candidate s), src_expiration (candidate s')) of
        (Some e, Some e') \<Rightarrow>
          e < e' \<or> e = e' \<and> src_received_at (candidate s) < src_received_at (candidate s')
      | (Some _, None) \<Rightarrow> True
      | (None, Some _) \<Rightarrow> False
      | (None, None) \<Rightarrow> src_received_at (candidate s) < src_received_at (candidate s'))"

definition numbered ::
  "nat \<Rightarrow> (EligibleReplenishmentSource \<times> int) list \<Rightarrow> PlannedReplenishmentSource list" where
  "numbered k sel = map (\<lambda>(i, s, q). planned_source (Suc i) (candidate s) q) (List.enumerate k sel)"

datatype work_event = Claim | Release | Confirm | Cancel

fun work_apply ::
  "work_event \<Rightarrow> ReplenishmentWorkStatus \<Rightarrow> ReplenishmentError + ReplenishmentWorkStatus" where
  "work_apply Claim s = ReplenishmentWorkStatus_claim s"
| "work_apply Release s = ReplenishmentWorkStatus_release s"
| "work_apply Confirm s = ReplenishmentWorkStatus_confirm s"
| "work_apply Cancel s = ReplenishmentWorkStatus_cancel s"

text \<open>A run of requests: the reached status and the requests that were accepted.\<close>

fun work_run ::
  "ReplenishmentWorkStatus \<Rightarrow> work_event list \<Rightarrow> ReplenishmentWorkStatus \<times> work_event list" where
  "work_run s [] = (s, [])"
| "work_run s (e # es) =
     (case work_apply e s of
        Inl _ \<Rightarrow> work_run s es
      | Inr s' \<Rightarrow> (let (t, accepted) = work_run s' es in (t, e # accepted)))"

definition sample_scope :: ReplenishmentPolicyScope where
  "sample_scope =
     \<lparr>scope_tenant_id = 1, scope_inventory_owner_id = 2, scope_facility_id = 3,
      scope_item_id = CatalogItemId 4, scope_uom = ReplenishmentUom (lit ''EA''),
      scope_pick_face_location_id = 50\<rparr>"

definition sample_policy :: ReplenishmentPolicyDefinition where
  "sample_policy =
     \<lparr>policy_scope = sample_scope,
      policy_thresholds = \<lparr>minimum = ReplenishmentLevel 5, target = ReplenishmentLevel 20\<rparr>,
      reserve_source_location_ids = ReplenishmentReserveSourceLocationIds [60, 70, 80]\<rparr>"

definition sample_snapshot :: ReplenishmentPlanningSnapshot where
  "sample_snapshot =
     \<lparr>pick_face_free = ReplenishmentLevel 1, active_inbound = ReplenishmentLevel 2,
      projected_free = ReplenishmentLevel 3, unallocated_demand = ReplenishmentLevel 4,
      reserve_free = ReplenishmentLevel 10\<rparr>"

definition sample_source ::
  "int \<Rightarrow> int \<Rightarrow> int option \<Rightarrow> int \<Rightarrow> EligibleReplenishmentSource" where
  "sample_source location balance_id expiration quantity = EligibleReplenishmentSource
     \<lparr>src_tenant_id = 1, src_inventory_owner_id = 2, src_facility_id = 3,
      src_location_id = location, src_inventory_balance_id = balance_id, src_item_batch_id = 9,
      src_item_id = CatalogItemId 4, src_uom = ReplenishmentUom (lit ''EA''), src_lot = None,
      src_serial = None, src_expiration = expiration, src_received_at = 1,
      src_inventory_status = Available, src_free_quantity = ReplenishmentLevel quantity\<rparr>"

definition sample_sources :: "EligibleReplenishmentSource list" where
  "sample_sources = [sample_source 80 11 None 6, sample_source 60 12 (Some 100) 7]"

abbreviation selected :: "ReplenishmentPlanDecision \<Rightarrow> EligibleReplenishmentSource list \<Rightarrow>
    (EligibleReplenishmentSource \<times> int) list \<times> int" where
  "selected d ss \<equiv> greedy free (ReplenishmentLevel_get (decision_planned d))
     (sort_by compare_eligible_sources ss)"

section \<open>Interpretations\<close>

lemma validate_text_Inr_iff:
  "validate_text v m = Inr u \<longleftrightarrow> bounded_text m v \<and> \<not> list_ex is_control v"
  by (auto simp: validate_text_def)

interpretation replenishment_uom: validated_newtype ReplenishmentUom_new ReplenishmentUom_as_str
  "\<lambda>v. bounded_text MAX_REPLENISHMENT_UOM_LENGTH v \<and> \<not> list_ex is_control v"
  by unfold_locales
    (auto simp: ReplenishmentUom_new_def is_ok_iff result_simps validate_text_Inr_iff
      intro: ReplenishmentUom.expand)

interpretation replenishment_cancellation_note: validated_newtype
  ReplenishmentWorkCancellationNote_new ReplenishmentWorkCancellationNote_as_str
  "\<lambda>v. bounded_text MAX_REPLENISHMENT_CANCELLATION_NOTE_LENGTH v \<and> \<not> list_ex is_control v"
  by unfold_locales
    (auto simp: ReplenishmentWorkCancellationNote_new_def is_ok_iff result_simps
      validate_text_Inr_iff intro: ReplenishmentWorkCancellationNote.expand)

interpretation replenishment_scan_value: validated_newtype ReplenishmentScanValue_new
  ReplenishmentScanValue_as_str
  "\<lambda>v. bounded_text MAX_REPLENISHMENT_SCAN_VALUE_LENGTH v \<and> \<not> list_ex is_control v"
  by unfold_locales
    (auto simp: ReplenishmentScanValue_new_def is_ok_iff result_simps validate_text_Inr_iff
      intro: ReplenishmentScanValue.expand)

interpretation replenishment_level:
  validated_newtype ReplenishmentLevel_new ReplenishmentLevel_get "\<lambda>v. 0 \<le> v"
  by unfold_locales
    (auto simp: ReplenishmentLevel_new_def split: if_splits intro: ReplenishmentLevel.expand)

interpretation replenishment_move_quantity:
  validated_newtype ReplenishmentMoveQuantity_new ReplenishmentMoveQuantity_get "\<lambda>v. 0 < v"
  by unfold_locales
    (auto simp: ReplenishmentMoveQuantity_new_def split: if_splits
      intro: ReplenishmentMoveQuantity.expand)

interpretation replenishment_policy_revision: revision_newtype ReplenishmentPolicyRevision_new
  ReplenishmentPolicyRevision_get ReplenishmentPolicyRevision_checked_next
  by unfold_locales
    (auto simp: ReplenishmentPolicyRevision_new_def ReplenishmentPolicyRevision_checked_next_def
      checked_add_def split: if_splits option.splits intro: ReplenishmentPolicyRevision.expand)

interpretation fefo: stock_rotation compare_eligible_sources free
proof (intro stock_rotation.intro)
  have eq: "compare_eligible_sources = (\<lambda>l r. then_with (then_with
      (case (src_expiration (candidate l), src_expiration (candidate r)) of
         (Some left, Some right) \<Rightarrow> cmp_int left right
       | (Some _, None) \<Rightarrow> Less
       | (None, Some _) \<Rightarrow> Greater
       | (None, None) \<Rightarrow> Equal)
      (cmp_int (src_received_at (candidate l)) (src_received_at (candidate r))))
      (cmp_int (balance l) (balance r)))"
    by (simp add: compare_eligible_sources_def Let_def fun_eq_iff)
  show "total_comparison compare_eligible_sources"
    unfolding eq
    by (intro total_comparison_then_with total_comparison_cmp_int total_comparison_nulls_last)
qed

section \<open>Lemmas\<close>

declare binary_search_base.simps [simp del]

lemma binary_search_base_range:
  "0 < n \<Longrightarrow> base \<le> binary_search_base xs k base n \<and> binary_search_base xs k base n < base + n"
proof (induction xs k base n rule: binary_search_base.induct)
  case (1 xs k base n)
  show ?case
  proof (cases "n \<le> 1")
    case True
    with "1.prems" show ?thesis by (subst (1 2) binary_search_base.simps) simp
  next
    case False
    with "1.IH" [OF False refl refl] show ?thesis
      by (subst (1 2) binary_search_base.simps) (auto simp: Let_def)
  qed
qed

lemma binary_search_base_finds:
  assumes "sorted xs" "base + n \<le> length xs"
    and "base \<le> i" "i < base + n" "xs ! i = k"
  shows "xs ! binary_search_base xs k base n = k"
  using assms
proof (induction xs k base n arbitrary: i rule: binary_search_base.induct)
  case (1 xs k base n)
  show ?case
  proof (cases "n \<le> 1")
    case True
    then have "i = base" using "1.prems" by auto
    with True "1.prems"(5) show ?thesis by (subst binary_search_base.simps) simp
  next
    case False
    let ?mid = "base + n div 2"
    have mid: "?mid < length xs" using False "1.prems" by linarith
    let ?base = "if xs ! ?mid > k then base else ?mid"
    have "xs ! binary_search_base xs k ?base (n - n div 2) = k"
    proof (cases "xs ! ?mid > k")
      case True
      then have "i < ?mid"
        using "1.prems" mid sorted_nth_mono [of xs ?mid i] by (cases "i < ?mid") auto
      then show ?thesis
        using "1.IH" [OF False refl refl, of i] True "1.prems" by auto
    next
      case less: False
      obtain j where "?mid \<le> j" "j < base + n" "xs ! j = k"
      proof (cases "i < ?mid")
        case True
        then have "xs ! i \<le> xs ! ?mid" using "1.prems" mid by (intro sorted_nth_mono) auto
        then have "xs ! ?mid = k" using "1.prems" less by simp
        with that [of ?mid] False show ?thesis by auto
      qed (use that [of i] "1.prems" in auto)
      then show ?thesis
        using "1.IH" [OF False refl refl, of j] less False "1.prems" by auto
    qed
    with False show ?thesis by (subst binary_search_base.simps) (simp add: Let_def)
  qed
qed

lemma contains_iff:
  assumes "sorted (as_slice r)"
  shows "contains r l \<longleftrightarrow> l \<in> set (as_slice r)"
proof (cases "as_slice r = []")
  case True
  then show ?thesis by (simp add: contains_def binary_search_def)
next
  case False
  let ?b = "binary_search_base (as_slice r) l 0 (length (as_slice r))"
  have "?b < length (as_slice r)"
    using False binary_search_base_range [of "length (as_slice r)" 0] by simp
  moreover have "as_slice r ! ?b = l" if "l \<in> set (as_slice r)"
    using that assms by (auto simp: in_set_conv_nth intro: binary_search_base_finds)
  moreover have "l \<in> set (as_slice r)" if "as_slice r ! ?b = l"
    using that calculation(1) by (metis nth_mem)
  ultimately show ?thesis
    using False by (auto simp: contains_def binary_search_def Let_def)
qed

lemma u32_max_nonneg [simp]: "0 \<le> u32_max"
  by (simp add: u32_max_def)

lemma strict_sorted_remdups_adj: "sorted xs \<Longrightarrow> sorted_wrt (<) (remdups_adj xs)"
  by (induction xs rule: remdups_adj.induct) (auto simp: le_less)

lemma contains_new:
  "ReplenishmentReserveSourceLocationIds_new ids = Inr r \<Longrightarrow> contains r l \<longleftrightarrow> l \<in> set ids"
  by (subst contains_iff)
    (auto simp: ReplenishmentReserveSourceLocationIds_new_def Let_def sorted_remdups_adj
      split: if_splits)

lemma numbered_Nil [simp]: "numbered k [] = []"
  by (simp add: numbered_def)

lemma numbered_Cons [simp]:
  "numbered k ((s, q) # sel) = planned_source (Suc k) (candidate s) q # numbered (Suc k) sel"
  by (simp add: numbered_def)

lemma source_loop_greedy:
  "int (length plan) \<le> u32_max \<Longrightarrow> source_loop r plan ss =
     (if int (length plan + length (fst (greedy free r ss))) \<le> u32_max
      then Inr (plan @ numbered (length plan) (fst (greedy free r ss)), snd (greedy free r ss))
      else Inl TooManySourceBalances)"
proof (induction ss arbitrary: r plan)
  case (Cons s ss)
  show ?case
  proof (cases "r = 0 \<or> u32_max < int (length plan + 1)")
    case True
    with Cons.prems show ?thesis by (auto simp: greedy_split Let_def)
  next
    case False
    then show ?thesis
      using Cons.IH [of "plan @ [planned_source (length plan + 1) (candidate s) (min r (free s))]"
          "r - min r (free s)"]
      by (simp add: greedy_split Let_def)
  qed
qed simp

lemma select_Inr_iff:
  assumes "decision_planned d \<noteq> ReplenishmentLevel_ZERO"
  shows "select_replenishment_sources d ss = Inr plan \<longleftrightarrow>
    distinct (map balance ss) \<and> snd (selected d ss) = 0 \<and>
    int (length (fst (selected d ss))) \<le> u32_max \<and> plan = numbered 0 (fst (selected d ss))"
  using assms
  by (auto simp: select_replenishment_sources_def source_loop_greedy result_simps comp_def
      first_duplicate_distinct_iff split: option.splits if_splits)

lemma sources_eligible_free:
  assumes "sources_eligible policy ss" "s \<in> set ss"
  shows "0 < free s"
proof -
  have "assess_replenishment_source policy (candidate s) = Eligible s" "level_wf (src_free_quantity (candidate s))"
    using assms by (auto simp: sources_eligible_def list_all_iff)
  then have "src_free_quantity (candidate s) \<noteq> ReplenishmentLevel 0" "0 \<le> free s"
    by (auto simp: assess_replenishment_source_def Let_def ReplenishmentLevel_ZERO_def level_wf_def
        split: if_splits)
  then show ?thesis by (cases "src_free_quantity (candidate s)") auto
qed

lemma selected_left:
  assumes "sources_eligible policy ss" "0 \<le> ReplenishmentLevel_get (decision_planned d)"
  shows "snd (selected d ss) = max 0 (ReplenishmentLevel_get (decision_planned d) - sum_list (map free ss))"
  using assms sources_eligible_free [OF assms(1)] by (intro fefo.selection_left) (auto intro: less_imp_le)

lemma compare_Less_iff:
  "compare_eligible_sources s s' = Less \<longleftrightarrow>
     fefo_before s s' \<or> src_expiration (candidate s) = src_expiration (candidate s') \<and>
       src_received_at (candidate s) = src_received_at (candidate s') \<and> balance s < balance s'"
  by (auto simp: compare_eligible_sources_def fefo_before_def Let_def split: option.splits)

lemma compare_Equal_balance:
  "compare_eligible_sources s s' = Equal \<Longrightarrow> balance s = balance s'"
  by (auto simp: compare_eligible_sources_def Let_def)

lemma planned_source_simps [simp]:
  "planned_source_inventory_balance_id (planned_source i c q) = src_inventory_balance_id c"
  "planned_source_location_id (planned_source i c q) = src_location_id c"
  "planned_quantity (planned_source i c q) = ReplenishmentMoveQuantity q"
  "planned_sequence (planned_source i c q) = i"
  by (simp_all add: planned_source_def)

lemma numbered_map:
  "map planned_sequence (numbered k sel) = [Suc k..<Suc k + length sel]"
  "map (ReplenishmentMoveQuantity_get \<circ> planned_quantity) (numbered k sel) = map snd sel"
  "map planned_source_inventory_balance_id (numbered k sel) = map (balance \<circ> fst) sel"
  by (induction sel arbitrary: k) (auto simp: upt_conv_Cons simp del: upt_Suc)

lemma length_numbered [simp]: "length (numbered k sel) = length sel"
  by (simp add: numbered_def)

lemma numbered_in_set:
  "x \<in> set (numbered k sel) \<Longrightarrow> \<exists>i s q. (s, q) \<in> set sel \<and> x = planned_source i (candidate s) q"
  by (induction sel arbitrary: k) (auto, blast+)

lemma set_numbered:
  "(s, q) \<in> set sel \<Longrightarrow> \<exists>i. planned_source i (candidate s) q \<in> set (numbered k sel)"
  by (induction sel arbitrary: k) (auto, blast+)

lemma work_apply_Inr_iff:
  "work_apply e s = Inr t \<longleftrightarrow>
     (e, s, t) \<in> {(Claim, Pending, Claimed), (Release, Claimed, Pending),
                  (Confirm, Claimed, Completed), (Cancel, Pending, Cancelled)}"
  by (cases e; cases s)
    (auto simp: ReplenishmentWorkStatus_claim_def ReplenishmentWorkStatus_release_def
      ReplenishmentWorkStatus_confirm_def ReplenishmentWorkStatus_cancel_def)

lemma work_run_counts:
  "work_run s es = (t, accepted) \<Longrightarrow>
     count_list accepted Claim + (if s \<in> {Claimed, Completed} then 1 else 0) =
       count_list accepted Release + (if t \<in> {Claimed, Completed} then 1 else 0) \<and>
     count_list accepted Confirm + (if s = Completed then 1 else 0) = (if t = Completed then 1 else 0) \<and>
     count_list accepted Cancel + (if s = Cancelled then 1 else 0) = (if t = Cancelled then 1 else 0)"
proof (induction es arbitrary: s accepted)
  case (Cons e es)
  show ?case
  proof (cases "work_apply e s")
    case (Inl err)
    then show ?thesis using Cons by simp
  next
    case (Inr s')
    obtain acc where acc: "work_run s' es = (t, acc)" "accepted = e # acc"
      using Cons.prems Inr by (auto split: prod.splits)
    show ?thesis
      using Cons.IH [OF acc(1)] Inr unfolding work_apply_Inr_iff acc(2)
      by (auto split: if_splits)
  qed
qed simp

lemma sample_eligible: "sources_eligible sample_policy sample_sources"
  by (simp add: sources_eligible_def sample_sources_def sample_source_def sample_policy_def
      sample_scope_def assess_replenishment_source_def contains_iff level_wf_def i64_max_def
      ReplenishmentLevel_ZERO_def)

lemma plan_replenishment_values:
  assumes "thresholds_wf t" "snapshot_wf s"
  shows "ReplenishmentLevel_get (required_level (plan_replenishment t s)) =
      max (ReplenishmentLevel_get (target t)) (ReplenishmentLevel_get (unallocated_demand s))"
    and "ReplenishmentLevel_get (target_gap (plan_replenishment t s)) =
      (if ReplenishmentLevel_get (minimum t) \<le> ReplenishmentLevel_get (projected_free s) \<and>
          ReplenishmentLevel_get (unallocated_demand s) \<le> ReplenishmentLevel_get (projected_free s)
       then 0
       else max (ReplenishmentLevel_get (target t)) (ReplenishmentLevel_get (unallocated_demand s)) -
         ReplenishmentLevel_get (projected_free s))"
    and "ReplenishmentLevel_get (decision_planned (plan_replenishment t s)) =
      min (ReplenishmentLevel_get (target_gap (plan_replenishment t s)))
        (ReplenishmentLevel_get (reserve_free s))"
    and "ReplenishmentLevel_get (decision_remaining (plan_replenishment t s)) =
      ReplenishmentLevel_get (target_gap (plan_replenishment t s)) -
      min (ReplenishmentLevel_get (target_gap (plan_replenishment t s)))
        (ReplenishmentLevel_get (reserve_free s))"
    and "decision_outcome (plan_replenishment t s) =
      (if ReplenishmentLevel_get (minimum t) \<le> ReplenishmentLevel_get (projected_free s) \<and>
          ReplenishmentLevel_get (unallocated_demand s) \<le> ReplenishmentLevel_get (projected_free s)
       then NotNeeded
       else if min (ReplenishmentLevel_get (target_gap (plan_replenishment t s)))
         (ReplenishmentLevel_get (reserve_free s)) = 0 then InsufficientReserve
       else if ReplenishmentLevel_get (reserve_free s) <
         ReplenishmentLevel_get (target_gap (plan_replenishment t s)) then PartiallyPlanned
       else FullyPlanned)"
proof -
  have sat: "saturating_sub
      (max (ReplenishmentLevel_get (target t)) (ReplenishmentLevel_get (unallocated_demand s)))
      (ReplenishmentLevel_get (projected_free s)) =
    max (ReplenishmentLevel_get (target t)) (ReplenishmentLevel_get (unallocated_demand s)) -
      ReplenishmentLevel_get (projected_free s)"
    using assms
    by (intro saturating_sub_in in_i64_diff) (auto simp: thresholds_wf_def snapshot_wf_def level_wf_def)
  show "ReplenishmentLevel_get (required_level (plan_replenishment t s)) =
      max (ReplenishmentLevel_get (target t)) (ReplenishmentLevel_get (unallocated_demand s))"
    by (simp add: plan_replenishment_def Let_def)
  show "ReplenishmentLevel_get (target_gap (plan_replenishment t s)) =
      (if ReplenishmentLevel_get (minimum t) \<le> ReplenishmentLevel_get (projected_free s) \<and>
          ReplenishmentLevel_get (unallocated_demand s) \<le> ReplenishmentLevel_get (projected_free s)
       then 0
       else max (ReplenishmentLevel_get (target t)) (ReplenishmentLevel_get (unallocated_demand s)) -
         ReplenishmentLevel_get (projected_free s))"
    by (simp add: plan_replenishment_def Let_def sat ReplenishmentLevel_ZERO_def)
  show "ReplenishmentLevel_get (decision_planned (plan_replenishment t s)) =
      min (ReplenishmentLevel_get (target_gap (plan_replenishment t s)))
        (ReplenishmentLevel_get (reserve_free s))"
    and "ReplenishmentLevel_get (decision_remaining (plan_replenishment t s)) =
      ReplenishmentLevel_get (target_gap (plan_replenishment t s)) -
      min (ReplenishmentLevel_get (target_gap (plan_replenishment t s)))
        (ReplenishmentLevel_get (reserve_free s))"
    by (simp_all add: plan_replenishment_def Let_def)
  show "decision_outcome (plan_replenishment t s) =
      (if ReplenishmentLevel_get (minimum t) \<le> ReplenishmentLevel_get (projected_free s) \<and>
          ReplenishmentLevel_get (unallocated_demand s) \<le> ReplenishmentLevel_get (projected_free s)
       then NotNeeded
       else if min (ReplenishmentLevel_get (target_gap (plan_replenishment t s)))
         (ReplenishmentLevel_get (reserve_free s)) = 0 then InsufficientReserve
       else if ReplenishmentLevel_get (reserve_free s) <
         ReplenishmentLevel_get (target_gap (plan_replenishment t s)) then PartiallyPlanned
       else FullyPlanned)"
    by (auto simp: plan_replenishment_def Let_def ReplenishmentLevel_ZERO_def min_less_iff_disj)
qed

section \<open>Properties\<close>

text \<open>
  C15. The planning decision. For valid thresholds and a valid snapshot, replenishment is not
  needed exactly when the projected stock covers both the minimum and the open demand;
  otherwise the gap lifts the projection to the larger of target and demand and is positive.
  The planned quantity is the part of the gap that the reserve covers, planned and remaining
  add up to the gap, no value leaves the i64 range, and the outcome names the case exactly.
\<close>

theorem plan_replenishment_correct:
  fixes t s
  defines "d \<equiv> plan_replenishment t s"
    and "projected \<equiv> ReplenishmentLevel_get (projected_free s)"
    and "demand \<equiv> ReplenishmentLevel_get (unallocated_demand s)"
    and "reserve \<equiv> ReplenishmentLevel_get (reserve_free s)"
  assumes wf: "thresholds_wf t" "snapshot_wf s"
  shows "(decision_outcome d = NotNeeded \<longleftrightarrow>
      ReplenishmentLevel_get (minimum t) \<le> projected \<and> demand \<le> projected) \<and>
    (decision_outcome d = NotNeeded \<longrightarrow> ReplenishmentLevel_get (target_gap d) = 0) \<and>
    (decision_outcome d \<noteq> NotNeeded \<longrightarrow> 0 < ReplenishmentLevel_get (target_gap d) \<and>
      projected + ReplenishmentLevel_get (target_gap d) =
        max (ReplenishmentLevel_get (target t)) demand) \<and>
    ReplenishmentLevel_get (decision_planned d) =
      min (ReplenishmentLevel_get (target_gap d)) reserve \<and>
    ReplenishmentLevel_get (decision_planned d) + ReplenishmentLevel_get (decision_remaining d) =
      ReplenishmentLevel_get (target_gap d) \<and>
    list_all level_wf [required_level d, target_gap d, decision_planned d, decision_remaining d] \<and>
    (decision_outcome d = FullyPlanned \<longleftrightarrow>
      decision_outcome d \<noteq> NotNeeded \<and> ReplenishmentLevel_get (target_gap d) \<le> reserve) \<and>
    (decision_outcome d = InsufficientReserve \<longleftrightarrow> decision_outcome d \<noteq> NotNeeded \<and> reserve = 0)"
proof -
  let ?gap = "ReplenishmentLevel_get (target_gap d)"
  note v = plan_replenishment_values [OF wf, folded d_def projected_def demand_def reserve_def]
  have bounds: "0 \<le> projected" "0 \<le> demand" "0 \<le> reserve" "demand \<le> i64_max"
      "0 \<le> ReplenishmentLevel_get (minimum t)" "ReplenishmentLevel_get (target t) \<le> i64_max"
      "ReplenishmentLevel_get (minimum t) < ReplenishmentLevel_get (target t)"
    using wf by (simp_all add: thresholds_wf_def snapshot_wf_def level_wf_def projected_def
        demand_def reserve_def)
  have gap: "0 \<le> ?gap" "?gap \<le> i64_max"
    "\<not> (ReplenishmentLevel_get (minimum t) \<le> projected \<and> demand \<le> projected) \<Longrightarrow> 0 < ?gap"
    using bounds unfolding v(2) by (auto simp: i64_max_def)
  show ?thesis
    using gap bounds v(2)
    by (intro conjI) (auto simp: v level_wf_def)
qed

theorem plan_replenishment_correct_witness:
  "ReplenishmentLevel_get (decision_planned
     (plan_replenishment (policy_thresholds sample_policy) sample_snapshot)) = 10 \<and>
   decision_outcome (plan_replenishment (policy_thresholds sample_policy) sample_snapshot)
     \<noteq> NotNeeded"
  using plan_replenishment_correct [of "policy_thresholds sample_policy" sample_snapshot]
  by (simp add: sample_policy_def sample_snapshot_def thresholds_wf_def snapshot_wf_def level_wf_def
      i64_max_def)

text \<open>
  C16. Exact source selection. When every source was assessed eligible and there are no more
  sources than a u32 can number, selecting sources for a positive planned quantity succeeds
  exactly when no balance repeats and the sources cover the quantity, and otherwise reports
  the shortfall. On success the movements sum to the planned quantity, are numbered from one
  without gaps, use no balance twice, and each takes a positive quantity of at most the free
  stock of one eligible source.
\<close>

theorem select_sources_exact:
  assumes el: "sources_eligible policy ss" and few: "int (length ss) \<le> u32_max"
    and pos: "0 < ReplenishmentLevel_get (decision_planned d)"
  shows "((\<exists>plan. select_replenishment_sources d ss = Inr plan) \<longleftrightarrow>
      distinct (map balance ss) \<and>
      ReplenishmentLevel_get (decision_planned d) \<le> sum_list (map free ss)) \<and>
    (select_replenishment_sources d ss = Inl (ReserveSnapshotMismatch k) \<longleftrightarrow>
      distinct (map balance ss) \<and> 0 < k \<and>
      k = ReplenishmentLevel_get (decision_planned d) - sum_list (map free ss)) \<and>
    (\<forall>plan. select_replenishment_sources d ss = Inr plan \<longrightarrow>
      sum_list (map (ReplenishmentMoveQuantity_get \<circ> planned_quantity) plan) =
        ReplenishmentLevel_get (decision_planned d) \<and>
      map planned_sequence plan = [1..<Suc (length plan)] \<and>
      distinct (map planned_source_inventory_balance_id plan) \<and>
      (\<forall>x \<in> set plan. \<exists>s \<in> set ss. \<exists>q. x = planned_source (planned_sequence x) (candidate s) q \<and>
         0 < q \<and> q \<le> free s))"
proof -
  let ?sel = "fst (selected d ss)" and ?left = "snd (selected d ss)"
  have nz: "decision_planned d \<noteq> ReplenishmentLevel_ZERO"
    using pos by (auto simp: ReplenishmentLevel_ZERO_def)
  have left: "?left = max 0 (ReplenishmentLevel_get (decision_planned d) - sum_list (map free ss))"
    using el pos by (intro selected_left) auto
  have len: "int (length ?sel) \<le> u32_max"
    using few greedy_length [of free "ReplenishmentLevel_get (decision_planned d)"
        "sort_by compare_eligible_sources ss"] by simp
  have inr: "select_replenishment_sources d ss = Inr plan \<longleftrightarrow>
      distinct (map balance ss) \<and> ?left = 0 \<and> plan = numbered 0 ?sel" for plan
    using select_Inr_iff [OF nz] len by auto
  have inl: "select_replenishment_sources d ss = Inl (ReserveSnapshotMismatch k) \<longleftrightarrow>
      distinct (map balance ss) \<and> ?left \<noteq> 0 \<and> k = ?left"
    using nz len by (auto simp: select_replenishment_sources_def source_loop_greedy result_simps
        comp_def first_duplicate_distinct_iff split: option.splits if_splits)
  have quality: "sum_list (map (ReplenishmentMoveQuantity_get \<circ> planned_quantity) plan) =
        ReplenishmentLevel_get (decision_planned d) \<and>
      map planned_sequence plan = [1..<Suc (length plan)] \<and>
      distinct (map planned_source_inventory_balance_id plan) \<and>
      (\<forall>x \<in> set plan. \<exists>s \<in> set ss. \<exists>q. x = planned_source (planned_sequence x) (candidate s) q \<and>
         0 < q \<and> q \<le> free s)"
    if ok: "select_replenishment_sources d ss = Inr plan" for plan
  proof -
    have plan: "plan = numbered 0 ?sel" "?left = 0" "distinct (map balance ss)"
      using ok inr by auto
    have seqs: "map planned_sequence plan = [1..<Suc (length ?sel)]" "length plan = length ?sel"
      unfolding plan(1) by (simp_all add: numbered_map del: upt_Suc)
    have "\<exists>s \<in> set ss. \<exists>q. x = planned_source (planned_sequence x) (candidate s) q \<and> 0 < q \<and> q \<le> free s"
      if x: "x \<in> set plan" for x
    proof -
      obtain i s q where "(s, q) \<in> set ?sel" "x = planned_source i (candidate s) q"
        using x plan(1) numbered_in_set by blast
      moreover have "s \<in> set ss \<and> 0 < q \<and> q \<le> free s"
        using calculation(1) pos sources_eligible_free [OF el]
          fefo.selection_bounds [of "ReplenishmentLevel_get (decision_planned d)" ss s q] by auto
      ultimately show ?thesis by auto
    qed
    moreover have "sum_list (map (ReplenishmentMoveQuantity_get \<circ> planned_quantity) plan) =
        ReplenishmentLevel_get (decision_planned d)"
      unfolding plan(1) numbered_map using plan(2) by (simp add: greedy_sum)
    moreover have "distinct (map planned_source_inventory_balance_id plan)"
      unfolding plan(1) numbered_map using plan(3) by (intro fefo.selection_distinct)
    ultimately show ?thesis using seqs by metis
  qed
  show ?thesis using inr inl left quality by auto
qed

theorem select_sources_exact_witness:
  "\<exists>plan. select_replenishment_sources
     (plan_replenishment (policy_thresholds sample_policy) sample_snapshot) sample_sources = Inr plan \<and>
     sum_list (map (ReplenishmentMoveQuantity_get \<circ> planned_quantity) plan) = 10"
proof -
  let ?d = "plan_replenishment (policy_thresholds sample_policy) sample_snapshot"
  have d: "decision_planned ?d = ReplenishmentLevel 10" by code_simp
  have "distinct (map balance sample_sources)" "sum_list (map free sample_sources) = 13"
    "int (length sample_sources) \<le> u32_max"
    by (simp_all add: sample_sources_def sample_source_def u32_max_def)
  then show ?thesis
    using select_sources_exact [OF sample_eligible, of ?d 0] d by auto
qed



text \<open>
  C18. Reserve locations. The canonical reserve set keeps exactly the supplied locations,
  strictly ascending; the binary search used for membership finds exactly those locations;
  and a valid policy never lists its own pick face, so an assessed source always lies in a
  configured reserve location other than the pick face, in the policy's tenant, owner,
  facility, item and unit, with available free stock.
\<close>

theorem reserve_sources_exact:
  assumes new: "ReplenishmentReserveSourceLocationIds_new ids = Inr r"
    and policy: "ReplenishmentPolicyDefinition_new scope thresholds r = Inr p"
    and level: "level_wf (src_free_quantity c)"
  shows "reserve_set_wf r \<and> set (as_slice r) = set ids \<and> (contains r l \<longleftrightarrow> l \<in> set ids) \<and>
    scope_pick_face_location_id scope \<notin> set ids \<and>
    (assess_replenishment_source p c = Eligible (EligibleReplenishmentSource c) \<longleftrightarrow>
      src_tenant_id c = scope_tenant_id scope \<and>
      src_inventory_owner_id c = scope_inventory_owner_id scope \<and>
      src_facility_id c = scope_facility_id scope \<and> src_location_id c \<in> set ids \<and>
      src_item_id c = scope_item_id scope \<and> src_uom c = scope_uom scope \<and>
      src_inventory_status c = Available \<and> 0 < ReplenishmentLevel_get (src_free_quantity c))"
proof -
  have r: "as_slice r = remdups_adj (sort ids)" "as_slice r \<noteq> []"
    using new by (auto simp: ReplenishmentReserveSourceLocationIds_new_def Let_def split: if_splits)
  have "reserve_set_wf r"
    using r by (simp add: reserve_set_wf_def strict_sorted_remdups_adj)
  moreover have p: "p = \<lparr>policy_scope = scope, policy_thresholds = thresholds,
      reserve_source_location_ids = r\<rparr>" "scope_pick_face_location_id scope \<notin> set ids"
    using policy contains_new [OF new]
    by (auto simp: ReplenishmentPolicyDefinition_new_def split: if_splits)
  moreover have "src_free_quantity c \<noteq> ReplenishmentLevel 0 \<longleftrightarrow>
      0 < ReplenishmentLevel_get (src_free_quantity c)"
    using level by (cases "src_free_quantity c") (auto simp: level_wf_def)
  ultimately show ?thesis
    using contains_new [OF new] r(1)
    by (auto simp: assess_replenishment_source_def Let_def ReplenishmentLevel_ZERO_def
        split: option.splits if_splits)
qed

theorem reserve_sources_exact_witness:
  "contains (ReplenishmentReserveSourceLocationIds [60, 70, 80]) 70 \<and>
   scope_pick_face_location_id sample_scope \<notin> set [80, 60, 70, 60]"
proof -
  have new: "ReplenishmentReserveSourceLocationIds_new [80, 60, 70, 60] =
      Inr (ReplenishmentReserveSourceLocationIds [60, 70, 80])"
    by code_simp
  have "ReplenishmentPolicyDefinition_new sample_scope (policy_thresholds sample_policy)
      (ReplenishmentReserveSourceLocationIds [60, 70, 80]) = Inr sample_policy"
    by (simp add: ReplenishmentPolicyDefinition_new_def sample_scope_def sample_policy_def contains_iff)
  from reserve_sources_exact [OF new this, of "candidate (sample_source 60 12 None 7)" 70]
  show ?thesis by (simp add: sample_source_def level_wf_def i64_max_def)
qed

text \<open>
  C19. Work bookkeeping. Whatever requests reach a piece of work, the accepted ones balance:
  it was claimed once more than released exactly while claimed or completed, confirmed once
  exactly when completed, cancelled once exactly when cancelled; and completed or cancelled
  work accepts nothing more.
\<close>

theorem work_run_balanced:
  assumes "work_run Pending es = (s, accepted)"
  shows "count_list accepted Claim =
      count_list accepted Release + (if s \<in> {Claimed, Completed} then 1 else 0) \<and>
    count_list accepted Confirm = (if s = Completed then 1 else 0) \<and>
    count_list accepted Cancel = (if s = Cancelled then 1 else 0) \<and>
    (s \<in> {Completed, Cancelled} \<longrightarrow> (\<forall>e t. work_apply e s \<noteq> Inr t))"
  using work_run_counts [OF assms] by (auto simp: work_apply_Inr_iff)

theorem work_run_balanced_witness:
  "work_run Pending [Claim, Cancel, Release, Claim, Confirm, Claim] =
     (Completed, [Claim, Release, Claim, Confirm]) \<and>
   count_list [Claim, Release, Claim, Confirm] Claim =
     count_list [Claim, Release, Claim, Confirm] Release + 1"
proof -
  have run: "work_run Pending [Claim, Cancel, Release, Claim, Confirm, Claim] =
     (Completed, [Claim, Release, Claim, Confirm])"
    by code_simp
  from work_run_balanced [OF run] run show ?thesis by simp
qed

end
