(* ===== verification/Barcodes.thy ===== *)
theory Barcodes
  imports Wareboxes_Prelude
begin

text \<open>
  The linear barcode encoders of \<open>crates/barcodes/src/lib.rs\<close>: Code 128-B, GS1-128 and
  UPC-A, with the tables of the source. Characters are Unicode scalar values, module widths
  are u8 values (\<open>mod 256\<close> where the code adds without a check) and checksums are u32 sums
  (\<open>mod 2 ^ 32\<close>). The reference scanners at the end of the definitions read the printed
  modules back; they exist only to state that what is printed can be scanned.
\<close>

section \<open>Definitions\<close>

datatype BarcodeError =
    Empty
  | UnsupportedKind rust_string
  | UnsupportedCharacter rust_char
  | InvalidLength string string
  | InvalidChecksum string
  | InvalidGs1Ai rust_string
  | DataTooLong nat

datatype BarcodeKind = Code128 | Gs1_128 | UpcA | Qr

definition to_ascii_lowercase :: "rust_string \<Rightarrow> rust_string" where
  "to_ascii_lowercase s = map (\<lambda>c. if 65 \<le> c \<and> c \<le> 90 then c + 32 else c) s"

definition BarcodeKind_parse :: "rust_string \<Rightarrow> BarcodeError + BarcodeKind" where
  "BarcodeKind_parse value =
     (let other = to_ascii_lowercase (trim value)
      in if other \<in> set (map lit [''code128'', ''code-128'', ''128'']) then Ok Code128
         else if other \<in> set (map lit [''gs1-128'', ''gs1128'', ''gs1_128'', ''ucc128'', ''ucc-128''])
           then Ok Gs1_128
         else if other \<in> set (map lit [''upc-a'', ''upca'', ''upc'']) then Ok UpcA
         else if other \<in> set (map lit [''qr'', ''qrcode'', ''qr-code'']) then Ok Qr
         else Err (UnsupportedKind other))"

record Module =
  black :: bool
  width :: nat

record EncodedBarcode =
  modules :: "Module list"

definition total_modules :: "EncodedBarcode \<Rightarrow> int" where
  "total_modules self = sum_list (map (int \<circ> width) (modules self)) mod 2 ^ 32"

subsection \<open>Tables\<close>

definition CODE128_PATTERNS :: "string list" where
  "CODE128_PATTERNS =
     [''212222'', ''222122'', ''222221'', ''121223'', ''121322'', ''131222'',
      ''122213'', ''122312'', ''132212'', ''221213'', ''221312'', ''231212'',
      ''112232'', ''122132'', ''122231'', ''113222'', ''123122'', ''123221'',
      ''223211'', ''221132'', ''221231'', ''213212'', ''223112'', ''312131'',
      ''311222'', ''321122'', ''321221'', ''312212'', ''322112'', ''322211'',
      ''212123'', ''212321'', ''232121'', ''111323'', ''131123'', ''131321'',
      ''112313'', ''132113'', ''132311'', ''211313'', ''231113'', ''231311'',
      ''112133'', ''112331'', ''132131'', ''113123'', ''113321'', ''133121'',
      ''313121'', ''211331'', ''231131'', ''213113'', ''213311'', ''213131'',
      ''311123'', ''311321'', ''331121'', ''312113'', ''312311'', ''332111'',
      ''314111'', ''221411'', ''431111'', ''111224'', ''111422'', ''121124'',
      ''121421'', ''141122'', ''141221'', ''112214'', ''112412'', ''122114'',
      ''122411'', ''142112'', ''142211'', ''241211'', ''221114'', ''413111'',
      ''241112'', ''134111'', ''111242'', ''121142'', ''121241'', ''114212'',
      ''124112'', ''124211'', ''411212'', ''421112'', ''421211'', ''212141'',
      ''214121'', ''412121'', ''111143'', ''111341'', ''131141'', ''114113'',
      ''114311'', ''411113'', ''411311'', ''113141'', ''114131'', ''311141'',
      ''411131'', ''211412'', ''211214'', ''211232'', ''2331112'']"

definition UPC_LEFT_PATTERNS :: "string list" where
  "UPC_LEFT_PATTERNS =
     [''0001101'', ''0011001'', ''0010011'', ''0111101'', ''0100011'',
      ''0110001'', ''0101111'', ''0111011'', ''0110111'', ''0001011'']"

definition UPC_RIGHT_PATTERNS :: "string list" where
  "UPC_RIGHT_PATTERNS =
     [''1110010'', ''1100110'', ''1101100'', ''1000010'', ''1011100'',
      ''1001110'', ''1010000'', ''1000100'', ''1001000'', ''1110100'']"

subsection \<open>Bars\<close>

fun pattern_modules :: "bool \<Rightarrow> string \<Rightarrow> Module list" where
  "pattern_modules b [] = []"
| "pattern_modules b (w # ws) = \<lparr>black = b, width = of_char w - 48\<rparr> # pattern_modules (\<not> b) ws"

definition append_pattern :: "Module list \<Rightarrow> string \<Rightarrow> Module list" where
  "append_pattern ms pattern = ms @ pattern_modules True pattern"

definition code128_modules :: "nat list \<Rightarrow> Module list" where
  "code128_modules codes =
     foldl (\<lambda>ms code. append_pattern ms (CODE128_PATTERNS ! code)) [] codes"

text \<open>The \<open>for bit in bits\<close> loop and the final push of \<open>modules\_from\_bits\<close>.\<close>

fun module_loop :: "bool \<Rightarrow> nat \<Rightarrow> bool list \<Rightarrow> Module list" where
  "module_loop b w [] = (if w > 0 then [\<lparr>black = b, width = w\<rparr>] else [])"
| "module_loop b w (x # bits) =
     (if x = b then module_loop b ((w + 1) mod 256) bits
      else \<lparr>black = b, width = w\<rparr> # module_loop x 1 bits)"

definition modules_from_bits :: "bool list \<Rightarrow> Module list" where
  "modules_from_bits bits = module_loop True 0 bits"

definition push_barcode_bits :: "bool list \<Rightarrow> string \<Rightarrow> bool list" where
  "push_barcode_bits bits pattern = bits @ map (\<lambda>byte. byte = CHR ''1'') pattern"

subsection \<open>Code 128\<close>

text \<open>
  The checksum: a u32 sum of u32 products, reduced modulo 103. Wrapping every addition and
  multiplication is the same as reducing the exact sum modulo \<open>2 ^ 32\<close> once.
\<close>

definition code128_checksum :: "nat list \<Rightarrow> nat" where
  "code128_checksum codes =
     nat ((sum_list (map (\<lambda>(idx, code). if idx = 0 then int code else int code * int idx)
             (List.enumerate 0 codes)) mod 2 ^ 32) mod 103)"

definition append_code128_checksum_and_stop :: "nat list \<Rightarrow> nat list" where
  "append_code128_checksum_and_stop codes = codes @ [code128_checksum codes, 106]"

fun code128_b_codes :: "rust_string \<Rightarrow> BarcodeError + nat list" where
  "code128_b_codes [] = Ok []"
| "code128_b_codes (ch # chs) =
     (if \<not> (32 \<le> ch \<and> ch \<le> 127) then Err (UnsupportedCharacter ch)
      else and_then (code128_b_codes chs) (\<lambda>codes. Ok ((ch - 32) # codes)))"

definition encode_code128_b :: "rust_string \<Rightarrow> BarcodeError + EncodedBarcode" where
  "encode_code128_b value =
     (if trim value = [] then Err Empty
      else and_then (code128_b_codes (trim value)) (\<lambda>data.
        let codes = append_code128_checksum_and_stop (104 # data)
        in Ok \<lparr>modules = code128_modules codes\<rparr>))"

subsection \<open>GS1\<close>

datatype Gs1Symbol = Char rust_char | Fnc1

record Gs1AiSpec =
  fixed :: bool
  len :: nat

definition is_ascii_digit :: "rust_char \<Rightarrow> bool" where
  "is_ascii_digit c \<longleftrightarrow> 48 \<le> c \<and> c \<le> 57"

definition is_ascii_whitespace :: "rust_char \<Rightarrow> bool" where
  "is_ascii_whitespace c \<longleftrightarrow> c \<in> {9, 10, 12, 13, 32}"

definition gs1_ai_spec :: "rust_string \<Rightarrow> Gs1AiSpec option" where
  "gs1_ai_spec ai =
     (if ai = lit ''00'' then Some \<lparr>fixed = True, len = 18\<rparr>
      else if ai \<in> set (map lit [''01'', ''02'']) then Some \<lparr>fixed = True, len = 14\<rparr>
      else if ai \<in> set (map lit [''10'', ''21'', ''22'', ''30'', ''37''])
        then Some \<lparr>fixed = False, len = (if ai = lit ''30'' \<or> ai = lit ''37'' then 8 else 20)\<rparr>
      else if ai \<in> set (map lit [''11'', ''12'', ''13'', ''15'', ''16'', ''17''])
        then Some \<lparr>fixed = True, len = 6\<rparr>
      else if ai = lit ''20'' then Some \<lparr>fixed = True, len = 2\<rparr>
      else if ai \<in> set (map lit [''240'', ''241'', ''242'', ''243'', ''250'', ''251'', ''253'',
          ''254'', ''400'', ''401'', ''403'', ''420'', ''421'', ''422'', ''423'', ''424'', ''425'',
          ''426''])
        then Some \<lparr>fixed = False,
          len = (if ai \<in> set (map lit [''242'', ''422'', ''424'', ''425'', ''426'']) then 6
                 else if ai = lit ''420'' then 20
                 else if ai = lit ''421'' then 12
                 else if ai = lit ''423'' then 15
                 else 30)\<rparr>
      else if length ai = 4 \<and> list_all is_ascii_digit ai \<and>
          take 2 ai \<in> set (map lit [''31'', ''32'', ''33'', ''34'', ''35'', ''36''])
        then Some \<lparr>fixed = True, len = 6\<rparr>
      else None)"

definition validate_gs1_char :: "rust_char \<Rightarrow> BarcodeError + Gs1Symbol" where
  "validate_gs1_char ch =
     (if ch = 29 then Ok Fnc1
      else if ch < 128 \<and> \<not> (ch < 32 \<or> ch = 127) then Ok (Char ch)
      else Err (UnsupportedCharacter ch))"

fun validate_gs1_chars :: "rust_string \<Rightarrow> BarcodeError + Gs1Symbol list" where
  "validate_gs1_chars [] = Ok []"
| "validate_gs1_chars (ch # chs) =
     and_then (validate_gs1_char ch) (\<lambda>symbol.
     and_then (validate_gs1_chars chs) (\<lambda>symbols. Ok (symbol # symbols)))"

definition validate_gs1_data_length ::
  "rust_string \<Rightarrow> rust_string \<Rightarrow> Gs1AiSpec \<Rightarrow> BarcodeError + unit" where
  "validate_gs1_data_length ai data spec =
     (let n = length data;
          valid = (if fixed spec then n = len spec else n > 0 \<and> n \<le> len spec)
      in if valid then Ok () else Err (InvalidGs1Ai ai))"

text \<open>
  The \<open>while index < bytes.len()\<close> loop of \<open>normalize\_parenthesized\_gs1\<close>, on the
  remaining text instead of an index into it; 40 is an opening and 41 a closing parenthesis.
  The code only ever stops at ASCII bytes, so its slices are at character boundaries.
\<close>

function gs1_loop :: "Gs1Symbol list \<Rightarrow> rust_string \<Rightarrow> BarcodeError + Gs1Symbol list" where
  "gs1_loop symbols value =
     (let rest = dropWhile is_ascii_whitespace value
      in if rest = [] then Ok symbols
         else if hd rest \<noteq> 40 then Err (InvalidGs1Ai rest)
         else if 41 \<notin> set (tl rest) then Err (InvalidGs1Ai (tl rest))
         else let ai = takeWhile (\<lambda>c. c \<noteq> 41) (tl rest);
                  after = tl (dropWhile (\<lambda>c. c \<noteq> 41) (tl rest));
                  data = trim (takeWhile (\<lambda>c. c \<noteq> 40) after);
                  next_value = dropWhile (\<lambda>c. c \<noteq> 40) after
              in and_then (ok_or (gs1_ai_spec ai) (InvalidGs1Ai ai)) (\<lambda>spec.
                 and_then (validate_gs1_chars ai) (\<lambda>ai_symbols.
                 and_then (validate_gs1_data_length ai data spec) (\<lambda>_.
                 and_then (validate_gs1_chars data) (\<lambda>data_symbols.
                 gs1_loop (symbols @ ai_symbols @ data_symbols @
                   (if \<not> fixed spec \<and> next_value \<noteq> [] then [Fnc1] else [])) next_value)))))"
  by auto
termination
proof (relation "measure (\<lambda>(_, value). length value)", goal_cases)
  case (2 symbols v rest ai after data next_value spec ai_symbols u data_symbols)
  have "length rest \<le> length v" using 2(1) by (simp add: length_dropWhile_le)
  moreover have "length next_value \<le> length (tl rest)"
    using 2(6,8) length_dropWhile_le [of "\<lambda>c. c \<noteq> 40" after]
      length_dropWhile_le [of "\<lambda>c. c \<noteq> 41" "tl rest"] by simp
  moreover have "length (tl rest) < length rest" using 2(2) by (cases rest) auto
  ultimately show ?case by simp
qed simp

definition normalize_parenthesized_gs1 :: "rust_string \<Rightarrow> BarcodeError + Gs1Symbol list" where
  "normalize_parenthesized_gs1 value =
     and_then (gs1_loop [] value) (\<lambda>symbols. if symbols = [] then Err Empty else Ok symbols)"

definition normalize_gs1_payload :: "rust_string \<Rightarrow> BarcodeError + Gs1Symbol list" where
  "normalize_gs1_payload value =
     (let trimmed = trim value
      in if trimmed = [] then Err Empty
         else if 40 \<in> set trimmed \<or> 41 \<in> set trimmed then normalize_parenthesized_gs1 trimmed
         else validate_gs1_chars trimmed)"

definition gs1_symbols_to_string :: "Gs1Symbol list \<Rightarrow> rust_string" where
  "gs1_symbols_to_string symbols =
     map (\<lambda>symbol. case symbol of Char ch \<Rightarrow> ch | Fnc1 \<Rightarrow> 29) symbols"

fun gs1_codes :: "Gs1Symbol list \<Rightarrow> BarcodeError + nat list" where
  "gs1_codes [] = Ok []"
| "gs1_codes (Char ch # symbols) =
     (if \<not> (32 \<le> ch \<and> ch \<le> 127) then Err (UnsupportedCharacter ch)
      else and_then (gs1_codes symbols) (\<lambda>codes. Ok ((ch - 32) # codes)))"
| "gs1_codes (Fnc1 # symbols) = and_then (gs1_codes symbols) (\<lambda>codes. Ok (102 # codes))"

definition encode_gs1_128 :: "rust_string \<Rightarrow> BarcodeError + EncodedBarcode" where
  "encode_gs1_128 value =
     and_then (normalize_gs1_payload value) (\<lambda>payload.
     and_then (gs1_codes payload) (\<lambda>codes.
     Ok \<lparr>modules = code128_modules (append_code128_checksum_and_stop (104 # 102 # codes))\<rparr>))"

subsection \<open>UPC-A\<close>

text \<open>The sum over eleven digits stays far below the u32 range.\<close>

definition upc_a_check_digit :: "rust_string \<Rightarrow> nat" where
  "upc_a_check_digit first_11_digits =
     (10 - sum_list (map (\<lambda>(idx, byte). if idx mod 2 = 0 then (byte - 48) * 3 else byte - 48)
             (List.enumerate 0 first_11_digits)) mod 10) mod 10"

definition upc_a_digits :: "rust_string \<Rightarrow> BarcodeError + rust_string" where
  "upc_a_digits value =
     (let digits = filter (\<lambda>ch. \<not> is_whitespace ch \<and> ch \<noteq> 45) (trim value)
      in if digits = [] then Err Empty
         else case List.find (\<lambda>ch. \<not> is_ascii_digit ch) digits of
             Some ch \<Rightarrow> Err (UnsupportedCharacter ch)
           | None \<Rightarrow>
               if length digits = 11 then Ok (digits @ [48 + upc_a_check_digit digits])
               else if length digits = 12 then
                 (if digits ! 11 - 48 = upc_a_check_digit (take 11 digits) then Ok digits
                  else Err (InvalidChecksum ''UPC-A''))
               else Err (InvalidLength ''UPC-A''
                 ''11 digits without a check digit or 12 digits with a valid check digit''))"

definition upc_bits :: "rust_string \<Rightarrow> bool list" where
  "upc_bits digits =
     (let b1 = push_barcode_bits [] ''101'';
          b2 = foldl (\<lambda>bits digit. push_barcode_bits bits (UPC_LEFT_PATTERNS ! (digit - 48)))
                 b1 (take 6 digits);
          b3 = push_barcode_bits b2 ''01010'';
          b4 = foldl (\<lambda>bits digit. push_barcode_bits bits (UPC_RIGHT_PATTERNS ! (digit - 48)))
                 b3 (drop 6 digits)
      in push_barcode_bits b4 ''101'')"

definition encode_upc_a :: "rust_string \<Rightarrow> BarcodeError + EncodedBarcode" where
  "encode_upc_a value =
     and_then (upc_a_digits value) (\<lambda>digits. Ok \<lparr>modules = modules_from_bits (upc_bits digits)\<rparr>)"

definition encode :: "rust_string \<Rightarrow> rust_string \<Rightarrow> BarcodeError + EncodedBarcode" where
  "encode kind value =
     and_then (BarcodeKind_parse kind) (\<lambda>k.
     case k of
       Code128 \<Rightarrow> encode_code128_b value
     | Gs1_128 \<Rightarrow> encode_gs1_128 value
     | UpcA \<Rightarrow> encode_upc_a value
     | Qr \<Rightarrow> Err (UnsupportedKind (lit ''qr is a 2D barcode; use encode_qr'')))"

subsection \<open>Reference scanners\<close>

fun index_of :: "'a list \<Rightarrow> 'a \<Rightarrow> nat option" where
  "index_of [] y = None"
| "index_of (x # xs) y = (if x = y then Some 0 else map_option Suc (index_of xs y))"

definition printed_bits :: "EncodedBarcode \<Rightarrow> bool list" where
  "printed_bits b = concat (map (\<lambda>m. replicate (width m) (black m)) (modules b))"

abbreviation pattern_bits :: "string \<Rightarrow> bool list" where
  "pattern_bits p \<equiv> map (\<lambda>c. c = CHR ''1'') p"

definition upc_scan :: "bool list \<Rightarrow> rust_string option" where
  "upc_scan bits =
     (if length bits = 95 \<and> take 3 bits = pattern_bits ''101'' \<and>
         take 5 (drop 45 bits) = pattern_bits ''01010'' \<and> drop 92 bits = pattern_bits ''101''
      then those
        (map (\<lambda>i. map_option ((+) 48) (index_of (map pattern_bits UPC_LEFT_PATTERNS)
            (take 7 (drop (7 * i) (drop 3 bits))))) [0..<6] @
         map (\<lambda>i. map_option ((+) 48) (index_of (map pattern_bits UPC_RIGHT_PATTERNS)
            (take 7 (drop (7 * i) (drop 50 bits))))) [0..<6])
      else None)"

abbreviation pattern_widths :: "string \<Rightarrow> nat list" where
  "pattern_widths p \<equiv> map (\<lambda>c. of_char c - 48) p"

text \<open>Six widths are one symbol; the last seven are the stop pattern.\<close>

fun scan_codes :: "nat list \<Rightarrow> nat list option" where
  "scan_codes (a # b # c # d # e # f # rest) =
     (if length rest = 1
      then (if a # b # c # d # e # f # rest = pattern_widths (CODE128_PATTERNS ! 106)
            then Some [] else None)
      else case index_of (map pattern_widths CODE128_PATTERNS) [a, b, c, d, e, f] of
          None \<Rightarrow> None
        | Some code \<Rightarrow> map_option ((#) code) (scan_codes rest))"
| "scan_codes _ = None"

text \<open>The check a scanner applies: the exact weighted sum modulo 103.\<close>

definition weighted_sum :: "nat list \<Rightarrow> int" where
  "weighted_sum codes =
     sum_list (map (\<lambda>(idx, code). int code * int (max 1 idx)) (List.enumerate 0 codes))"

definition code128_scan :: "EncodedBarcode \<Rightarrow> Gs1Symbol list option" where
  "code128_scan b =
     (case scan_codes (map width (modules b)) of
        Some codes \<Rightarrow>
          if 2 \<le> length codes \<and> hd codes = 104 \<and>
             int (last codes) = weighted_sum (butlast codes) mod 103
          then Some (map (\<lambda>code. if code = 102 then Fnc1 else Char (code + 32)) (tl (butlast codes)))
          else None
      | None \<Rightarrow> None)"

definition upc_weight :: "rust_string \<Rightarrow> nat" where
  "upc_weight ds =
     sum_list (map (\<lambda>(idx, d). if idx mod 2 = 0 then (d - 48) * 3 else d - 48) (List.enumerate 0 ds))"

abbreviation digits_ok :: "rust_string \<Rightarrow> bool" where
  "digits_ok ds \<equiv> list_all is_ascii_digit ds"

definition gs1_symbol_ok :: "Gs1Symbol \<Rightarrow> bool" where
  "gs1_symbol_ok symbol \<longleftrightarrow> (case symbol of Char ch \<Rightarrow> 32 \<le> ch \<and> ch < 127 | Fnc1 \<Rightarrow> True)"

section \<open>Lemmas\<close>

subsection \<open>Tables\<close>

lemma index_of_nth: "distinct xs \<Longrightarrow> i < length xs \<Longrightarrow> index_of xs (xs ! i) = Some i"
  by (induction xs arbitrary: i) (auto simp: nth_Cons split: nat.splits)

lemma code128_table:
  "length CODE128_PATTERNS = 107"
  "distinct (map pattern_widths CODE128_PATTERNS)"
  "list_all (\<lambda>p. length p = 6 \<and> sum_list (pattern_widths p) = 11) (take 106 CODE128_PATTERNS)"
  "length (CODE128_PATTERNS ! 106) = 7 \<and> sum_list (pattern_widths (CODE128_PATTERNS ! 106)) = 13"
  by code_simp+

lemma code128_pattern:
  assumes "code < 106"
  shows "length (CODE128_PATTERNS ! code) = 6"
    and "sum_list (pattern_widths (CODE128_PATTERNS ! code)) = 11"
    and "index_of (map pattern_widths CODE128_PATTERNS) (pattern_widths (CODE128_PATTERNS ! code)) = Some code"
proof -
  have "take 106 CODE128_PATTERNS ! code \<in> set (take 106 CODE128_PATTERNS)"
    using assms code128_table(1) by (intro nth_mem) simp
  then show "length (CODE128_PATTERNS ! code) = 6"
    and "sum_list (pattern_widths (CODE128_PATTERNS ! code)) = 11"
    using code128_table(3) assms by (auto simp: list_all_iff)
  show "index_of (map pattern_widths CODE128_PATTERNS) (pattern_widths (CODE128_PATTERNS ! code)) = Some code"
    using index_of_nth [OF code128_table(2), of code] assms code128_table(1) by simp
qed

lemma upc_table:
  "length UPC_LEFT_PATTERNS = 10" "length UPC_RIGHT_PATTERNS = 10"
  "distinct (map pattern_bits UPC_LEFT_PATTERNS)" "distinct (map pattern_bits UPC_RIGHT_PATTERNS)"
  "list_all (\<lambda>p. length p = 7) UPC_LEFT_PATTERNS" "list_all (\<lambda>p. length p = 7) UPC_RIGHT_PATTERNS"
  by code_simp+

subsection \<open>Bars\<close>

lemma module_loop_bits:
  "w + length bits \<le> 255 \<Longrightarrow>
     concat (map (\<lambda>m. replicate (width m) (black m)) (module_loop b w bits)) = replicate w b @ bits"
proof (induction bits arbitrary: b w)
  case (Cons x bits)
  then show ?case by (auto simp: replicate_app_Cons_same)
qed simp

lemma printed_bits_modules_from_bits:
  "length bits \<le> 255 \<Longrightarrow> printed_bits \<lparr>modules = modules_from_bits bits\<rparr> = bits"
  using module_loop_bits [of 0 bits True] by (simp add: printed_bits_def modules_from_bits_def)

lemma module_loop_widths:
  "w + length bits \<le> 255 \<Longrightarrow> sum_list (map width (module_loop b w bits)) = w + length bits"
  by (induction bits arbitrary: b w) auto

lemma foldl_push_bits:
  "foldl (\<lambda>bits d. push_barcode_bits bits (f d)) acc ds = acc @ concat (map (pattern_bits \<circ> f) ds)"
  by (induction ds arbitrary: acc) (auto simp: push_barcode_bits_def)

lemma upc_bits_eq:
  "upc_bits ds = pattern_bits ''101'' @
     concat (map (\<lambda>d. pattern_bits (UPC_LEFT_PATTERNS ! (d - 48))) (take 6 ds)) @
     pattern_bits ''01010'' @
     concat (map (\<lambda>d. pattern_bits (UPC_RIGHT_PATTERNS ! (d - 48))) (drop 6 ds)) @
     pattern_bits ''101''"
  unfolding upc_bits_def Let_def foldl_push_bits by (simp add: push_barcode_bits_def comp_def)

lemma length_concat_const:
  "list_all (\<lambda>x. length (f x) = k) xs \<Longrightarrow> length (concat (map f xs)) = k * length xs"
  by (induction xs) auto

lemma chunk_concat:
  assumes "list_all (\<lambda>x. length (f x) = k) xs" "i < length xs"
  shows "take k (drop (k * i) (concat (map f xs) @ ys)) = f (xs ! i)"
  using assms by (induction xs arbitrary: i) (auto simp: nth_Cons split: nat.splits)

lemma those_map_Some: "those (map Some xs) = Some xs"
  by (induction xs) auto

subsection \<open>UPC-A\<close>

lemma digit_not_space: "is_ascii_digit c \<Longrightarrow> \<not> is_whitespace c \<and> c \<noteq> 45"
  by (auto simp: is_ascii_digit_def is_whitespace_def)

lemma digits_trim: "digits_ok ds \<Longrightarrow> trim ds = ds"
  by (cases "ds = []") (auto simp: trim_eq_iff list_all_iff digit_not_space)

lemma digits_filter: "digits_ok ds \<Longrightarrow> filter (\<lambda>ch. \<not> is_whitespace ch \<and> ch \<noteq> 45) ds = ds"
  by (auto simp: list_all_iff digit_not_space)

lemma find_nondigit_None: "List.find (\<lambda>ch. \<not> is_ascii_digit ch) ds = None \<longleftrightarrow> digits_ok ds"
  by (auto simp: find_None_iff list_all_iff)

lemma upc_weight_sum:
  "upc_weight ds = (\<Sum>i<length ds. (if even i then 3 else 1) * (ds ! i - 48))"
  by (simp add: upc_weight_def sum_list_sum_nth nth_enumerate_eq lessThan_atLeast0)
    (intro sum.cong; auto simp: even_iff_mod_2_eq_zero)

lemma check_digit_weight:
  assumes "length ds = 11"
  shows "upc_weight (ds @ [48 + c]) = upc_weight ds + c"
    and "upc_a_check_digit ds = (10 - upc_weight ds mod 10) mod 10"
  using assms by (simp_all add: upc_weight_def upc_a_check_digit_def enumerate_append_eq)

lemma check_digit_iff: "(c::nat) < 10 \<Longrightarrow> c = (10 - w mod 10) mod 10 \<longleftrightarrow> (w + c) mod 10 = 0"
proof -
  assume c: "c < 10"
  define m where "m = w mod 10"
  have m: "m < 10" by (simp add: m_def)
  have "(w + c) mod 10 = (m + c) mod 10" by (simp add: m_def mod_add_left_eq)
  also have "(m + c) mod 10 = 0 \<longleftrightarrow> m + c = 0 \<or> m + c = 10"
    using c m by (cases "m + c < 10") (auto simp: le_mod_geq)
  finally have sum: "(w + c) mod 10 = 0 \<longleftrightarrow> m + c = 0 \<or> m + c = 10" .
  have check: "(10 - w mod 10) mod 10 = (if m = 0 then 0 else 10 - m)"
    using m by (auto simp: m_def)
  show ?thesis unfolding sum check using c m by auto
qed

lemma check_digit_zero: "((w :: nat) + (10 - w mod 10) mod 10) mod 10 = 0"
  by (rule check_digit_iff [THEN iffD1, OF _ refl]) simp

lemma digit_change:
  fixes a b k r :: nat
  assumes "a < 10" "b < 10" "a \<noteq> b" "k = 3 \<or> k = 1" "(k * b + r) mod 10 = 0"
  shows "(k * a + r) mod 10 \<noteq> 0"
proof
  assume "(k * a + r) mod 10 = 0"
  with assms(5) have "int 10 dvd int (k * a + r) - int (k * b + r)"
    by (intro dvd_diff) (simp_all only: of_nat_dvd_iff mod_eq_0_iff_dvd)
  then have x: "10 dvd int k * (int a - int b)" by (simp add: algebra_simps)
  have "10 dvd int a - int b"
  proof (cases "k = 3")
    case True
    have "10 dvd 7 * (int k * (int a - int b)) - 10 * (2 * (int a - int b))"
      using dvd_mult [OF x, of 7] dvd_triv_left by (rule dvd_diff)
    then show ?thesis using True by simp
  next
    case False
    then show ?thesis using x assms(4) by simp
  qed
  then show False
    using assms(1-3) dvd_imp_le_int [of "int a - int b" 10] by linarith
qed

lemma upc_12_digits:
  assumes "digits_ok ds" "length ds = 12"
  shows "upc_a_digits ds =
    (if upc_weight ds mod 10 = 0 then Inr ds else Inl (InvalidChecksum ''UPC-A''))"
proof -
  have ds: "ds = take 11 ds @ [48 + (ds ! 11 - 48)]"
    using assms by (auto simp: is_ascii_digit_def list_all_length take_Suc_conv_app_nth [of 11 ds, symmetric])
  let ?w = "upc_weight (take 11 ds)" and ?c = "ds ! 11 - 48"
  have "upc_weight ds = ?w + ?c"
    using check_digit_weight(1) [of "take 11 ds" ?c] ds assms(2) by simp
  moreover have "is_ascii_digit (ds ! 11)" using assms by (simp add: list_all_length)
  then have "?c < 10" by (auto simp: is_ascii_digit_def)
  ultimately have "?c = upc_a_check_digit (take 11 ds) \<longleftrightarrow> upc_weight ds mod 10 = 0"
    using check_digit_weight(2) [of "take 11 ds"] assms(2) check_digit_iff [of ?c ?w] by simp
  then show ?thesis
    using assms find_nondigit_None [of ds]
    by (auto simp: upc_a_digits_def digits_trim digits_filter Let_def split: option.splits)
qed

lemma upc_a_digits_Inr:
  assumes "upc_a_digits v = Inr ds"
  shows "digits_ok ds \<and> length ds = 12 \<and> upc_weight ds mod 10 = 0"
proof -
  let ?d = "filter (\<lambda>ch. \<not> is_whitespace ch \<and> ch \<noteq> 45) (trim v)"
  have ok: "digits_ok ?d" and cases: "length ?d = 11 \<and> ds = ?d @ [48 + upc_a_check_digit ?d] \<or>
      length ?d = 12 \<and> ds = ?d \<and> ?d ! 11 - 48 = upc_a_check_digit (take 11 ?d)"
    using assms find_nondigit_None [of ?d]
    by (auto simp: upc_a_digits_def Let_def split: option.splits if_splits)
  from cases show ?thesis
  proof
    assume 1: "length ?d = 11 \<and> ds = ?d @ [48 + upc_a_check_digit ?d]"
    define c where "c = upc_a_check_digit ?d"
    have "c < 10" by (simp add: c_def upc_a_check_digit_def)
    moreover have "(upc_weight ?d + c) mod 10 = 0"
      using 1 check_digit_weight(2) [of ?d] check_digit_zero [of "upc_weight ?d"] by (simp add: c_def)
    ultimately show ?thesis
      using 1 ok check_digit_weight(1) [of ?d c] by (simp add: is_ascii_digit_def flip: c_def)
  next
    assume 2: "length ?d = 12 \<and> ds = ?d \<and> ?d ! 11 - 48 = upc_a_check_digit (take 11 ?d)"
    then have "upc_a_digits ?d = Inr ?d"
      using ok find_nondigit_None [of ?d]
      by (auto simp: upc_a_digits_def digits_trim digits_filter Let_def split: option.splits)
    with 2 ok upc_12_digits [of ?d] show ?thesis by (auto split: if_splits)
  qed
qed

lemma weight_update:
  assumes "i < length ds" "digits_ok ds" "is_ascii_digit d" "d \<noteq> ds ! i"
    and "upc_weight ds mod 10 = 0"
  shows "upc_weight (ds[i := d]) mod 10 \<noteq> 0"
proof -
  let ?f = "\<lambda>ds j. (if even j then 3 else 1) * (ds ! j - 48 :: nat)"
  define k :: nat where "k = (if even i then 3 else 1)"
  define r where "r = (\<Sum>j\<in>{..<length ds} - {i}. ?f ds j)"
  have "(\<Sum>j\<in>{..<length ds} - {i}. ?f (ds[i := d]) j) = r"
    unfolding r_def by (intro sum.cong) auto
  then have new: "upc_weight (ds[i := d]) = k * (d - 48) + r"
    and old: "upc_weight ds = k * (ds ! i - 48) + r"
    using assms(1) unfolding upc_weight_sum k_def r_def
    by (simp_all add: sum.remove [of "{..<length ds}" i])
  have range: "48 \<le> d" "d < 58" "48 \<le> ds ! i" "ds ! i < 58"
    using assms(1-3) by (auto simp: is_ascii_digit_def list_all_length)
  define a b where "a = d - 48" and "b = ds ! i - 48"
  have ab: "a < 10" "b < 10" "a \<noteq> b" using range assms(4) by (auto simp: a_def b_def)
  have "(k * b + r) mod 10 = 0" using assms(5) old by (simp add: b_def)
  moreover have "k = 3 \<or> k = 1" by (simp add: k_def)
  ultimately have "(k * a + r) mod 10 \<noteq> 0" using ab by (intro digit_change) auto
  then show ?thesis unfolding new a_def .
qed

lemma upc_pattern_length:
  "i < 10 \<Longrightarrow> length (UPC_LEFT_PATTERNS ! i) = 7" "i < 10 \<Longrightarrow> length (UPC_RIGHT_PATTERNS ! i) = 7"
  using upc_table by (simp_all add: list_all_length)

lemma upc_scan_bits:
  assumes ok: "digits_ok ds" and len: "length ds = 12"
  shows "length (upc_bits ds) = 95 \<and> upc_scan (upc_bits ds) = Some ds"
proof -
  let ?L = "\<lambda>d. pattern_bits (UPC_LEFT_PATTERNS ! (d - 48))"
  let ?R = "\<lambda>d. pattern_bits (UPC_RIGHT_PATTERNS ! (d - 48))"
  have digit: "48 \<le> d \<and> d - 48 < 10" if "d \<in> set ds" for d
    using that ok by (auto simp: list_all_iff is_ascii_digit_def)
  have sets: "d \<in> set ds" if "d \<in> set (take 6 ds) \<or> d \<in> set (drop 6 ds)" for d
    using that by (auto dest: in_set_takeD in_set_dropD)
  have lens: "list_all (\<lambda>d. length (?L d) = 7) (take 6 ds)" "list_all (\<lambda>d. length (?R d) = 7) (drop 6 ds)"
    using digit sets upc_pattern_length by (auto simp: list_all_iff)
  let ?l = "concat (map ?L (take 6 ds))" and ?r = "concat (map ?R (drop 6 ds))"
  have l42: "length ?l = 42" "length ?r = 42"
    using length_concat_const [OF lens(1)] length_concat_const [OF lens(2)] len by simp_all
  have parts: "take 3 (upc_bits ds) = pattern_bits ''101''"
      "drop 3 (upc_bits ds) = ?l @ pattern_bits ''01010'' @ ?r @ pattern_bits ''101''"
      "take 5 (drop 45 (upc_bits ds)) = pattern_bits ''01010''"
      "drop 50 (upc_bits ds) = ?r @ pattern_bits ''101''"
      "drop 92 (upc_bits ds) = pattern_bits ''101''" "length (upc_bits ds) = 95"
    using l42 by (simp_all add: upc_bits_eq)
  have left: "map_option ((+) 48) (index_of (map pattern_bits UPC_LEFT_PATTERNS)
      (take 7 (drop (7 * i) (drop 3 (upc_bits ds))))) = Some (ds ! i)" if "i < 6" for i
  proof -
    have "take 7 (drop (7 * i) (drop 3 (upc_bits ds))) = ?L (ds ! i)"
      unfolding parts using chunk_concat [OF lens(1), of i] that len by simp
    moreover have "ds ! i \<in> set ds" using that len by simp
    ultimately show ?thesis
      using digit index_of_nth [OF upc_table(3), of "ds ! i - 48"] upc_table(1) by simp
  qed
  have right: "map_option ((+) 48) (index_of (map pattern_bits UPC_RIGHT_PATTERNS)
      (take 7 (drop (7 * i) (drop 50 (upc_bits ds))))) = Some (ds ! (6 + i))" if "i < 6" for i
  proof -
    have "take 7 (drop (7 * i) (drop 50 (upc_bits ds))) = ?R (drop 6 ds ! i)"
      unfolding parts using chunk_concat [OF lens(2), of i] that len by simp
    moreover have "ds ! (6 + i) \<in> set ds" using that len by simp
    ultimately show ?thesis
      using digit index_of_nth [OF upc_table(4), of "ds ! (6 + i) - 48"] upc_table(2) len by simp
  qed
  have "map (\<lambda>i. Some (ds ! i)) [0..<6] @ map (\<lambda>i. Some (ds ! (6 + i))) [0..<6] = map Some ds"
    using len by (intro nth_equalityI) (auto simp: nth_append)
  then have "those (map (\<lambda>i. Some (ds ! i)) [0..<6] @ map (\<lambda>i. Some (ds ! (6 + i))) [0..<6]) = Some ds"
    by (simp only: those_map_Some)
  moreover have "map (\<lambda>i. map_option ((+) 48) (index_of (map pattern_bits UPC_LEFT_PATTERNS)
      (take 7 (drop (7 * i) (drop 3 (upc_bits ds)))))) [0..<6] = map (\<lambda>i. Some (ds ! i)) [0..<6]"
    by (intro map_cong refl left) simp
  moreover have "map (\<lambda>i. map_option ((+) 48) (index_of (map pattern_bits UPC_RIGHT_PATTERNS)
      (take 7 (drop (7 * i) (drop 50 (upc_bits ds)))))) [0..<6] = map (\<lambda>i. Some (ds ! (6 + i))) [0..<6]"
    by (intro map_cong refl right) simp
  ultimately have "upc_scan (upc_bits ds) = Some ds"
    unfolding upc_scan_def by (simp only: parts(1,3,5,6) simp_thms if_True)
  with parts show ?thesis by simp
qed

subsection \<open>Code 128\<close>

lemma pattern_modules_widths: "map width (pattern_modules b p) = pattern_widths p"
  by (induction p arbitrary: b) auto

lemma code128_modules_eq:
  "code128_modules codes = concat (map (\<lambda>code. pattern_modules True (CODE128_PATTERNS ! code)) codes)"
proof -
  have "foldl (\<lambda>ms code. append_pattern ms (CODE128_PATTERNS ! code)) acc codes =
      acc @ concat (map (\<lambda>code. pattern_modules True (CODE128_PATTERNS ! code)) codes)" for acc
    by (induction codes arbitrary: acc) (auto simp: append_pattern_def)
  then show ?thesis by (simp add: code128_modules_def)
qed

lemma code128_widths:
  "map width (code128_modules codes) =
     concat (map (\<lambda>code. pattern_widths (CODE128_PATTERNS ! code)) codes)"
  by (simp add: code128_modules_eq map_concat comp_def pattern_modules_widths)

lemma length_code128_widths:
  "list_all (\<lambda>code. code < 106) codes \<Longrightarrow>
     length (concat (map (\<lambda>code. pattern_widths (CODE128_PATTERNS ! code)) codes)) = 6 * length codes"
  by (induction codes) (auto simp: code128_pattern)

lemma sum_code128_widths:
  "list_all (\<lambda>code. code < 106) codes \<Longrightarrow>
     sum_list (concat (map (\<lambda>code. pattern_widths (CODE128_PATTERNS ! code)) codes)) = 11 * length codes"
  by (induction codes) (auto simp: code128_pattern)

lemma length_6_conv: "length xs = 6 \<Longrightarrow> \<exists>a b c d e f. xs = [a, b, c, d, e, f]"
  by (auto simp: eval_nat_numeral length_Suc_conv)

lemma scan_stop: "scan_codes (pattern_widths (CODE128_PATTERNS ! 106)) = Some []"
  by code_simp

lemma scan_code128_widths:
  assumes "list_all (\<lambda>code. code < 106) codes"
  shows "scan_codes (concat (map (\<lambda>code. pattern_widths (CODE128_PATTERNS ! code)) codes) @
      pattern_widths (CODE128_PATTERNS ! 106)) = Some codes"
  using assms
proof (induction codes)
  case Nil
  then show ?case by (simp add: scan_stop)
next
  case (Cons code codes)
  let ?rest = "concat (map (\<lambda>code. pattern_widths (CODE128_PATTERNS ! code)) codes) @
      pattern_widths (CODE128_PATTERNS ! 106)"
  obtain a b c d e f where p: "pattern_widths (CODE128_PATTERNS ! code) = [a, b, c, d, e, f]"
    using Cons.prems code128_pattern(1) [of code] length_6_conv [of "pattern_widths (CODE128_PATTERNS ! code)"]
    by auto
  have "index_of (map pattern_widths CODE128_PATTERNS) [a, b, c, d, e, f] = Some code"
    using Cons.prems code128_pattern(3) [of code] p by simp
  moreover have "length ?rest \<noteq> 1"
    using code128_table(4) by simp
  moreover have "scan_codes ?rest = Some codes" using Cons by simp
  ultimately show ?case by (simp add: p del: length_append)
qed

lemma weighted_sum_Suc:
  "code128_checksum codes = nat ((weighted_sum codes mod 2 ^ 32) mod 103)"
proof -
  have "map (\<lambda>(idx, code). if idx = 0 then int code else int code * int idx) (List.enumerate 0 codes) =
      map (\<lambda>(idx, code). int code * int (max 1 idx)) (List.enumerate 0 codes)"
    by (auto simp: max_def)
  then show ?thesis by (simp only: code128_checksum_def weighted_sum_def)
qed

lemma weighted_sum_bounds:
  assumes "list_all (\<lambda>code. code \<le> 104) codes"
  shows "0 \<le> weighted_sum codes \<and> weighted_sum codes \<le> 104 * int (length codes) * int (length codes)"
proof -
  let ?xs = "map (\<lambda>(idx, code). int code * int (max 1 idx)) (List.enumerate 0 codes)"
  have *: "0 \<le> x \<and> x \<le> 104 * int (length codes)" if x: "x \<in> set ?xs" for x
  proof -
    obtain idx where idx: "idx < length codes" "x = int (codes ! idx) * int (max 1 idx)"
      using x by (auto simp: in_set_enumerate_eq)
    have "int (codes ! idx) * int (max 1 idx) \<le> 104 * int (length codes)"
      using assms idx(1) by (intro mult_mono) (auto simp: list_all_length)
    with idx(2) show ?thesis by simp
  qed
  have "0 \<le> sum_list ?xs" using * by (intro sum_list_nonneg) auto
  moreover have "sum_list ys \<le> 104 * int (length codes) * int (length ys)"
    if "\<And>x. x \<in> set ys \<Longrightarrow> x \<le> 104 * int (length codes)" for ys :: "int list"
    using that by (induction ys) (auto simp: algebra_simps, smt (verit))
  from this [of ?xs] have "sum_list ?xs \<le> 104 * int (length codes) * int (length codes)"
    using * by simp
  ultimately show ?thesis
    by (simp only: weighted_sum_def)
qed

lemma code128_checksum_exact:
  assumes "list_all (\<lambda>code. code \<le> 104) codes" "length codes \<le> 6001"
  shows "int (code128_checksum codes) = weighted_sum codes mod 103" "code128_checksum codes < 103"
proof -
  have "104 * int (length codes) * int (length codes) \<le> 104 * 6001 * 6001"
    using assms(2) by (intro mult_mono) auto
  then have "weighted_sum codes mod 2 ^ 32 = weighted_sum codes"
    using weighted_sum_bounds [OF assms(1)] by (intro mod_pos_pos_trivial) auto
  then show "int (code128_checksum codes) = weighted_sum codes mod 103" "code128_checksum codes < 103"
    using pos_mod_bound [of 103 "weighted_sum codes"] by (auto simp: weighted_sum_Suc nat_less_iff)
qed

lemma int_sum_widths: "sum_list (map (int \<circ> width) ms) = int (sum_list (map width ms))"
  by (induction ms) auto

text \<open>What is printed for a start code and data codes scans back to the data.\<close>

lemma code128_print_scan:
  assumes "list_all (\<lambda>code. code \<le> 104) data" "length data \<le> 6000"
  defines "b \<equiv> \<lparr>modules = code128_modules (append_code128_checksum_and_stop (104 # data))\<rparr>"
  shows "code128_scan b = Some (map (\<lambda>code. if code = 102 then Fnc1 else Char (code + 32)) data)"
    and "total_modules b = 11 * int (length data + 2) + 13"
proof -
  let ?codes = "104 # data"
  let ?w = "\<lambda>code. pattern_widths (CODE128_PATTERNS ! code)"
  have sum: "int (code128_checksum ?codes) = weighted_sum ?codes mod 103" "code128_checksum ?codes < 103"
    using assms(1,2) by (auto intro!: code128_checksum_exact)
  have small: "list_all (\<lambda>code. code < 106) (?codes @ [code128_checksum ?codes])"
    using assms(1) sum(2) by (auto simp: list_all_iff)
  have widths: "map width (modules b) = concat (map ?w (?codes @ [code128_checksum ?codes])) @ ?w 106"
    by (simp add: b_def code128_widths append_code128_checksum_and_stop_def)
  have "scan_codes (map width (modules b)) = Some (?codes @ [code128_checksum ?codes])"
    unfolding widths by (rule scan_code128_widths [OF small])
  then show "code128_scan b = Some (map (\<lambda>code. if code = 102 then Fnc1 else Char (code + 32)) data)"
    using sum(1) by (simp add: code128_scan_def butlast_append)
  have "sum_list (map width (modules b)) = 11 * (length data + 2) + 13"
    unfolding widths sum_list_append sum_code128_widths [OF small] using code128_table(4) by simp
  then have "sum_list (map (int \<circ> width) (modules b)) = 11 * int (length data + 2) + 13"
    unfolding int_sum_widths by simp
  then show "total_modules b = 11 * int (length data + 2) + 13"
    using assms(2) by (simp add: total_modules_def)
qed

lemma code128_b_codes_Inr_iff:
  "code128_b_codes chs = Inr codes \<longleftrightarrow>
     list_all (\<lambda>ch. 32 \<le> ch \<and> ch \<le> 127) chs \<and> codes = map (\<lambda>ch. ch - 32) chs"
  by (induction chs arbitrary: codes) (auto simp: result_simps)

subsection \<open>GS1\<close>

lemma validate_gs1_char_ok: "validate_gs1_char ch = Inr symbol \<Longrightarrow> gs1_symbol_ok symbol"
  by (auto simp: validate_gs1_char_def gs1_symbol_ok_def split: if_splits)

lemma validate_gs1_chars_ok: "validate_gs1_chars chs = Inr symbols \<Longrightarrow> list_all gs1_symbol_ok symbols"
  by (induction chs arbitrary: symbols) (auto simp: result_simps intro: validate_gs1_char_ok)

lemma validate_gs1_chars_string:
  "validate_gs1_chars chs = Inr symbols \<Longrightarrow> gs1_symbols_to_string symbols = chs"
  by (induction chs arbitrary: symbols)
    (auto simp: result_simps gs1_symbols_to_string_def validate_gs1_char_def split: if_splits)

lemma validate_gs1_chars_symbols:
  "list_all gs1_symbol_ok symbols \<Longrightarrow> list_all (\<lambda>s. s \<noteq> Char 29) symbols \<Longrightarrow>
     validate_gs1_chars (gs1_symbols_to_string symbols) = Inr symbols"
  by (induction symbols)
    (auto simp: gs1_symbols_to_string_def gs1_symbol_ok_def validate_gs1_char_def
      split: Gs1Symbol.splits)

declare gs1_loop.simps [simp del]

lemma gs1_loop_step:
  assumes loop: "gs1_loop symbols v = Inr result"
  shows "dropWhile is_ascii_whitespace v = [] \<and> result = symbols \<or>
    (\<exists>extra v'. length v' < length v \<and> list_all gs1_symbol_ok extra \<and>
       gs1_loop (symbols @ extra) v' = Inr result)"
proof -
  let ?rest = "dropWhile is_ascii_whitespace v"
  let ?ai = "takeWhile (\<lambda>c. c \<noteq> 41) (tl ?rest)"
  let ?after = "tl (dropWhile (\<lambda>c. c \<noteq> 41) (tl ?rest))"
  let ?data = "trim (takeWhile (\<lambda>c. c \<noteq> 40) ?after)" and ?next = "dropWhile (\<lambda>c. c \<noteq> 40) ?after"
  consider "?rest = []" | "?rest \<noteq> []" "hd ?rest = 40" "41 \<in> set (tl ?rest)"
    using loop by (auto simp: gs1_loop.simps [of symbols v] Let_def split: if_splits)
  then show ?thesis
  proof cases
    case 1
    with loop show ?thesis by (simp add: gs1_loop.simps [of symbols v] Let_def)
  next
    case 2
    let ?sep = "\<lambda>spec :: Gs1AiSpec. if \<not> fixed spec \<and> ?next \<noteq> [] then [Fnc1] else []"
    have eq: "gs1_loop symbols v =
        and_then (ok_or (gs1_ai_spec ?ai) (InvalidGs1Ai ?ai)) (\<lambda>spec.
        and_then (validate_gs1_chars ?ai) (\<lambda>ai_symbols.
        and_then (validate_gs1_data_length ?ai ?data spec) (\<lambda>_.
        and_then (validate_gs1_chars ?data) (\<lambda>data_symbols.
        gs1_loop (symbols @ ai_symbols @ data_symbols @ ?sep spec) ?next))))"
      unfolding gs1_loop.simps [of symbols v] using 2 by (simp only: Let_def if_False if_True simp_thms)
    have "\<exists>spec A D. validate_gs1_chars ?ai = Inr A \<and> validate_gs1_chars ?data = Inr D \<and>
        gs1_loop (symbols @ A @ D @ ?sep spec) ?next = Inr result"
      using loop unfolding eq and_then_eq_Inr by blast
    then obtain spec A D where "validate_gs1_chars ?ai = Inr A" "validate_gs1_chars ?data = Inr D"
        "gs1_loop (symbols @ A @ D @ ?sep spec) ?next = Inr result"
      by blast
    moreover have "length ?next < length v"
    proof -
      have "length ?next \<le> length (tl ?rest)"
        using length_dropWhile_le [of "\<lambda>c. c \<noteq> 40" ?after]
          length_dropWhile_le [of "\<lambda>c. c \<noteq> 41" "tl ?rest"] by simp
      moreover have "length (tl ?rest) < length ?rest" using 2(1) by (cases ?rest) auto
      ultimately show ?thesis using length_dropWhile_le [of is_ascii_whitespace v] by linarith
    qed
    moreover have "list_all gs1_symbol_ok (?sep spec)" by (simp add: gs1_symbol_ok_def)
    ultimately show ?thesis
      by (intro disjI2 exI [of _ "A @ D @ ?sep spec"] exI [of _ ?next])
        (auto dest: validate_gs1_chars_ok)
  qed
qed

lemma gs1_loop_ok:
  "gs1_loop symbols v = Inr result \<Longrightarrow> list_all gs1_symbol_ok symbols \<Longrightarrow> list_all gs1_symbol_ok result"
proof (induction "length v" arbitrary: symbols v rule: less_induct)
  case less
  from gs1_loop_step [OF less.prems(1)] show ?case
  proof
    assume "\<exists>extra v'. length v' < length v \<and> list_all gs1_symbol_ok extra \<and>
       gs1_loop (symbols @ extra) v' = Inr result"
    then obtain extra v' where "length v' < length v" "list_all gs1_symbol_ok extra"
        "gs1_loop (symbols @ extra) v' = Inr result" by blast
    with less.hyps [of v' "symbols @ extra"] less.prems(2) show ?thesis by simp
  qed (use less.prems in simp)
qed

lemma normalize_gs1_payload_ok:
  "normalize_gs1_payload v = Inr payload \<Longrightarrow> list_all gs1_symbol_ok payload"
  by (auto simp: normalize_gs1_payload_def normalize_parenthesized_gs1_def Let_def result_simps
      intro: validate_gs1_chars_ok gs1_loop_ok split: if_splits)

lemma gs1_codes_ok:
  "list_all gs1_symbol_ok payload \<Longrightarrow> \<exists>codes. gs1_codes payload = Inr codes \<and>
     length codes = length payload \<and> list_all (\<lambda>code. code \<le> 104) codes \<and>
     map (\<lambda>code. if code = 102 then Fnc1 else Char (code + 32)) codes = payload"
proof (induction payload)
  case (Cons symbol payload)
  then show ?case by (cases symbol) (auto simp: gs1_symbol_ok_def)
qed simp

subsection \<open>Sample values\<close>

lemma sample_upc: "upc_a_digits (lit ''036000-29145'') = Inr (lit ''036000291452'')"
  by (simp add: upc_a_digits_def Let_def lit_def trim_def is_whitespace_def is_ascii_digit_def
      upc_a_check_digit_def)

lemma sample_text: "trim (lit '' AB '') = [65, 66]"
  by (simp add: lit_def trim_def is_whitespace_def)

lemma sample_gs1:
  "normalize_gs1_payload (lit ''(10)AB(17)260101'') =
     Inr (map Char (lit ''10AB'') @ [Fnc1] @ map Char (lit ''17260101''))"
  by (simp add: normalize_gs1_payload_def normalize_parenthesized_gs1_def gs1_loop.simps Let_def
      lit_def trim_def is_whitespace_def is_ascii_whitespace_def gs1_ai_spec_def
      validate_gs1_char_def validate_gs1_data_length_def)

section \<open>Properties\<close>

text \<open>
  C20. UPC-A normalisation. A value that is accepted becomes twelve ASCII digits whose
  weighted sum (weight three on the even positions counted from zero, one on the odd) is a
  multiple of ten; the first eleven digits are those of the value without spaces and hyphens,
  and normalising the result again returns it unchanged.
\<close>

theorem upc_a_digits_valid:
  assumes "upc_a_digits v = Inr ds"
  shows "length ds = 12 \<and> list_all is_ascii_digit ds \<and> upc_weight ds mod 10 = 0 \<and>
    take 11 ds = take 11 (filter (\<lambda>ch. \<not> is_whitespace ch \<and> ch \<noteq> 45) (trim v)) \<and>
    upc_a_digits ds = Inr ds"
proof -
  have ok: "digits_ok ds" "length ds = 12" "upc_weight ds mod 10 = 0"
    using upc_a_digits_Inr [OF assms] by auto
  moreover have "take 11 ds = take 11 (filter (\<lambda>ch. \<not> is_whitespace ch \<and> ch \<noteq> 45) (trim v))"
    using assms by (auto simp: upc_a_digits_def Let_def split: option.splits if_splits)
  ultimately show ?thesis using upc_12_digits by simp
qed

theorem upc_a_digits_valid_witness:
  "upc_a_digits (lit ''036000-29145'') = Inr (lit ''036000291452'') \<and>
   upc_weight (lit ''036000291452'') mod 10 = 0"
  using upc_a_digits_valid [OF sample_upc] sample_upc by simp

text \<open>
  C21. Error detection. Changing any single digit of a normalised UPC-A value, the check digit
  included, is always rejected with the checksum error.
\<close>

theorem upc_a_detects_single_error:
  assumes "upc_a_digits v = Inr ds" "i < 12" "is_ascii_digit d" "d \<noteq> ds ! i"
  shows "upc_a_digits (ds[i := d]) = Inl (InvalidChecksum ''UPC-A'')"
proof -
  have ok: "digits_ok ds" "length ds = 12" "upc_weight ds mod 10 = 0"
    using upc_a_digits_Inr [OF assms(1)] by auto
  then have "upc_weight (ds[i := d]) mod 10 \<noteq> 0"
    using assms by (intro weight_update) auto
  moreover have "digits_ok (ds[i := d])"
    using ok(1) assms(3) set_update_subset_insert [of ds i d] by (auto simp: list_all_iff)
  ultimately show ?thesis using ok(2) upc_12_digits [of "ds[i := d]"] by simp
qed

theorem upc_a_detects_single_error_witness:
  "upc_a_digits ((lit ''036000291452'')[3 := 55]) = Inl (InvalidChecksum ''UPC-A'')"
  by (rule upc_a_detects_single_error [OF sample_upc]) (simp_all add: is_ascii_digit_def lit_def)

text \<open>
  C22. UPC-A round trip. Whatever value is accepted, the symbol printed for it has 95 modules
  and reading its bars back through the pattern tables yields the normalised digits.
\<close>

theorem upc_a_round_trip:
  assumes "upc_a_digits v = Inr ds"
  shows "\<exists>b. encode_upc_a v = Inr b \<and> total_modules b = 95 \<and> upc_scan (printed_bits b) = Some ds"
proof -
  let ?b = "\<lparr>modules = modules_from_bits (upc_bits ds)\<rparr>"
  have scan: "length (upc_bits ds) = 95" "upc_scan (upc_bits ds) = Some ds"
    using upc_a_digits_Inr [OF assms] upc_scan_bits by auto
  have "encode_upc_a v = Inr ?b" using assms by (simp add: encode_upc_a_def)
  moreover have "printed_bits ?b = upc_bits ds"
    using scan by (intro printed_bits_modules_from_bits) simp
  moreover have "total_modules ?b = 95"
    using scan module_loop_widths [of 0 "upc_bits ds" True]
    unfolding total_modules_def int_sum_widths by (simp add: modules_from_bits_def)
  ultimately show ?thesis using scan by auto
qed

theorem upc_a_round_trip_witness:
  "\<exists>b. encode_upc_a (lit ''036000-29145'') = Inr b \<and>
     upc_scan (printed_bits b) = Some (lit ''036000291452'')"
  using upc_a_round_trip [OF sample_upc] by auto





end
