(* ===== verification/Shipping.thy ===== *)
theory Shipping
  imports Packing
begin

text \<open>
  Parcel shipments, \<open>crates/domain/src/shipping.rs\<close>: identifiers and text values, shipment
  creation from a packed session, the manual carrier manifest, cancellation and the incremental
  departure of cartons, with the way the departure command
  (\<open>crates/api/src/repo/shipping/departure.rs\<close>) derives the remaining cartons from the
  ones already confirmed.
\<close>

section \<open>Definitions\<close>

subsection \<open>Values\<close>

definition MAX_CARRIER_CODE_LENGTH :: nat where "MAX_CARRIER_CODE_LENGTH = 100"
definition MAX_CARRIER_SERVICE_CODE_LENGTH :: nat where "MAX_CARRIER_SERVICE_CODE_LENGTH = 100"
definition MAX_MANIFEST_REFERENCE_LENGTH :: nat where "MAX_MANIFEST_REFERENCE_LENGTH = 200"
definition MAX_TRACKING_NUMBER_LENGTH :: nat where "MAX_TRACKING_NUMBER_LENGTH = 200"
definition MAX_SHIPMENT_SCAN_VALUE_LENGTH :: nat where "MAX_SHIPMENT_SCAN_VALUE_LENGTH = 200"
definition MAX_SHIPMENT_CANCELLATION_NOTE_LENGTH :: nat where
  "MAX_SHIPMENT_CANCELLATION_NOTE_LENGTH = 500"

datatype ShipmentDocumentType = PackingSlip | CartonLabelSet

definition ShipmentDocumentType_as_str :: "ShipmentDocumentType \<Rightarrow> string" where
  "ShipmentDocumentType_as_str self =
     (case self of PackingSlip \<Rightarrow> ''packing_slip'' | CartonLabelSet \<Rightarrow> ''carton_label_set'')"

definition ShipmentDocumentType_parse :: "string \<Rightarrow> ShipmentDocumentType option" where
  "ShipmentDocumentType_parse value =
     (if value = ''packing_slip'' then Some PackingSlip
      else if value = ''carton_label_set'' then Some CartonLabelSet
      else None)"

datatype ShipmentStatus = AwaitingManifest | Manifested | PartiallyDeparted | Departed | Cancelled

definition ShipmentStatus_as_str :: "ShipmentStatus \<Rightarrow> string" where
  "ShipmentStatus_as_str self =
     (case self of
        AwaitingManifest \<Rightarrow> ''awaiting manifest''
      | Manifested \<Rightarrow> ''manifested''
      | PartiallyDeparted \<Rightarrow> ''partially departed''
      | Departed \<Rightarrow> ''departed''
      | ShipmentStatus.Cancelled \<Rightarrow> ''cancelled'')"

definition ShipmentStatus_parse :: "string \<Rightarrow> ShipmentStatus option" where
  "ShipmentStatus_parse value =
     (if value = ''awaiting manifest'' then Some AwaitingManifest
      else if value = ''manifested'' then Some Manifested
      else if value = ''partially departed'' then Some PartiallyDeparted
      else if value = ''departed'' then Some Departed
      else if value = ''cancelled'' then Some ShipmentStatus.Cancelled
      else None)"

datatype ShipmentCancellationReason =
    PackingCorrection
  | ShippingDataCorrection
  | DuplicateShipment
  | OperatorError
  | Other

datatype ShippingTextField =
    CarrierCodeField
  | CarrierServiceCodeField
  | ManifestReferenceField
  | TrackingNumberField
  | ShipmentScanValueField

definition ShippingTextField_fmt :: "ShippingTextField \<Rightarrow> string" where
  "ShippingTextField_fmt self =
     (case self of
        CarrierCodeField \<Rightarrow> ''carrier code''
      | CarrierServiceCodeField \<Rightarrow> ''carrier service code''
      | ManifestReferenceField \<Rightarrow> ''manifest reference''
      | TrackingNumberField \<Rightarrow> ''tracking number''
      | ShipmentScanValueField \<Rightarrow> ''shipment scan value'')"

datatype ShippingError =
    InvalidRevision int
  | InvalidText ShippingTextField
  | TextTooLong ShippingTextField nat
  | OrderNotAwaitingShipment OrderStatus
  | PackSessionNotReady
  | EmptyShipment
  | DuplicateShipmentCarton
  | ShipmentNotAwaitingManifest ShipmentStatus
  | TrackingAssignmentSetMismatch
  | DuplicateTrackingNumber
  | ShipmentNotManifested ShipmentStatus
  | ShipmentNotCancellable ShipmentStatus
  | InvalidCancellationNote
  | CancellationNoteRequired
  | DepartureCartonSetMismatch

datatype ShipmentCancellationNote =
  ShipmentCancellationNote (ShipmentCancellationNote_as_str: rust_string)

definition ShipmentCancellationNote_new ::
  "rust_string \<Rightarrow> ShippingError + ShipmentCancellationNote" where
  "ShipmentCancellationNote_new value =
     (if value = [] \<or> trim value \<noteq> value
         \<or> length value > MAX_SHIPMENT_CANCELLATION_NOTE_LENGTH \<or> list_ex is_control value
        then Err InvalidCancellationNote
      else Ok (ShipmentCancellationNote value))"

record ShipmentCancellationDetails =
  shipment_cancellation_reason :: ShipmentCancellationReason
  shipment_cancellation_note :: "ShipmentCancellationNote option"

definition ShipmentCancellationDetails_new ::
  "ShipmentCancellationReason \<Rightarrow> ShipmentCancellationNote option \<Rightarrow>
   ShippingError + ShipmentCancellationDetails" where
  "ShipmentCancellationDetails_new reason note =
     (if reason = ShipmentCancellationReason.Other \<and> note = None then Err CancellationNoteRequired
      else Ok \<lparr>shipment_cancellation_reason = reason, shipment_cancellation_note = note\<rparr>)"

datatype ShipmentRevision = ShipmentRevision (ShipmentRevision_get: int)

definition ShipmentRevision_new :: "int \<Rightarrow> ShippingError + ShipmentRevision" where
  "ShipmentRevision_new value =
     (if value > 0 then Ok (ShipmentRevision value) else Err (ShippingError.InvalidRevision value))"

definition ShipmentRevision_checked_next :: "ShipmentRevision \<Rightarrow> ShipmentRevision option" where
  "ShipmentRevision_checked_next self =
     (case checked_add (ShipmentRevision_get self) 1 of
        Some value \<Rightarrow> Some (ShipmentRevision value)
      | None \<Rightarrow> None)"

definition ShipmentRevision_deserialize ::
  "(ShippingError \<Rightarrow> 'e) \<Rightarrow> 'e + int \<Rightarrow> 'e + ShipmentRevision" where
  "ShipmentRevision_deserialize = deserialize_with ShipmentRevision_new"

definition shipping_validate_text ::
  "rust_string \<Rightarrow> ShippingTextField \<Rightarrow> nat \<Rightarrow> ShippingError + rust_string" where
  "shipping_validate_text value field maximum =
     (if value = [] \<or> trim value \<noteq> value \<or> list_ex is_control value
        then Err (ShippingError.InvalidText field)
      else if length value > maximum then Err (ShippingError.TextTooLong field maximum)
      else Ok value)"

datatype CarrierCode = CarrierCode (CarrierCode_as_str: rust_string)

definition CarrierCode_new :: "rust_string \<Rightarrow> ShippingError + CarrierCode" where
  "CarrierCode_new value =
     and_then (shipping_validate_text value CarrierCodeField MAX_CARRIER_CODE_LENGTH)
       (\<lambda>v. Ok (CarrierCode v))"

datatype CarrierServiceCode = CarrierServiceCode (CarrierServiceCode_as_str: rust_string)

definition CarrierServiceCode_new :: "rust_string \<Rightarrow> ShippingError + CarrierServiceCode" where
  "CarrierServiceCode_new value =
     and_then (shipping_validate_text value CarrierServiceCodeField MAX_CARRIER_SERVICE_CODE_LENGTH)
       (\<lambda>v. Ok (CarrierServiceCode v))"

datatype ManifestReference = ManifestReference (ManifestReference_as_str: rust_string)

definition ManifestReference_new :: "rust_string \<Rightarrow> ShippingError + ManifestReference" where
  "ManifestReference_new value =
     and_then (shipping_validate_text value ManifestReferenceField MAX_MANIFEST_REFERENCE_LENGTH)
       (\<lambda>v. Ok (ManifestReference v))"

datatype TrackingNumber = TrackingNumber (TrackingNumber_as_str: rust_string)

definition TrackingNumber_new :: "rust_string \<Rightarrow> ShippingError + TrackingNumber" where
  "TrackingNumber_new value =
     and_then (shipping_validate_text value TrackingNumberField MAX_TRACKING_NUMBER_LENGTH)
       (\<lambda>v. Ok (TrackingNumber v))"

datatype ShipmentScanValue = ShipmentScanValue (ShipmentScanValue_as_str: rust_string)

definition ShipmentScanValue_new :: "rust_string \<Rightarrow> ShippingError + ShipmentScanValue" where
  "ShipmentScanValue_new value =
     and_then (shipping_validate_text value ShipmentScanValueField MAX_SHIPMENT_SCAN_VALUE_LENGTH)
       (\<lambda>v. Ok (ShipmentScanValue v))"

subsection \<open>Shipment transitions\<close>

type_synonym CartonId = int

record ShipmentCartonIdentity =
  carton_id :: CartonId
  carton_barcode :: ShipmentScanValue

record CartonTrackingAssignment =
  assigned_carton_id :: CartonId
  tracking_number :: TrackingNumber

record ShipmentDepartureTransition =
  departure_shipment_status :: ShipmentStatus
  departure_order_status :: OrderStatus

abbreviation barcodes :: "ShipmentCartonIdentity list \<Rightarrow> rust_string list" where
  "barcodes cartons \<equiv> map (ShipmentScanValue_as_str \<circ> carton_barcode) cartons"

definition validate_carton_set :: "ShipmentCartonIdentity list \<Rightarrow> ShippingError + unit" where
  "validate_carton_set cartons =
     (if cartons = [] then Err EmptyShipment
      else let carton_ids = set (map carton_id cartons);
               carton_barcodes = set (barcodes cartons)
           in if card carton_ids \<noteq> length cartons \<or> card carton_barcodes \<noteq> length cartons
                then Err DuplicateShipmentCarton
              else Ok ())"

definition create_shipment ::
  "OrderStatus \<Rightarrow> PackSessionStatus \<Rightarrow> ShipmentCartonIdentity list \<Rightarrow> ShippingError + ShipmentStatus" where
  "create_shipment order_status pack_session_status cartons =
     (if order_status \<noteq> AwaitingShipment then Err (OrderNotAwaitingShipment order_status)
      else if pack_session_status \<noteq> ReadyToManifest then Err PackSessionNotReady
      else and_then (validate_carton_set cartons) (\<lambda>_. Ok AwaitingManifest))"

text \<open>The assignment loop; the two hash sets grow as assignments are accepted.\<close>

fun assignment_loop ::
  "CartonId set \<Rightarrow> CartonId set \<Rightarrow> rust_string set \<Rightarrow> CartonTrackingAssignment list \<Rightarrow>
   ShippingError + CartonId set" where
  "assignment_loop carton_ids assigned_carton_ids tracking_numbers [] = Ok assigned_carton_ids"
| "assignment_loop carton_ids assigned_carton_ids tracking_numbers (assignment # rest) =
     (if assigned_carton_id assignment \<notin> carton_ids
          \<or> assigned_carton_id assignment \<in> assigned_carton_ids
        then Err TrackingAssignmentSetMismatch
      else if TrackingNumber_as_str (tracking_number assignment) \<in> tracking_numbers
        then Err DuplicateTrackingNumber
      else assignment_loop carton_ids (insert (assigned_carton_id assignment) assigned_carton_ids)
        (insert (TrackingNumber_as_str (tracking_number assignment)) tracking_numbers) rest)"

definition record_manual_manifest ::
  "ShipmentStatus \<Rightarrow> ShipmentCartonIdentity list \<Rightarrow> CartonTrackingAssignment list \<Rightarrow>
   ShippingError + ShipmentStatus" where
  "record_manual_manifest status cartons assignments =
     (if status \<noteq> AwaitingManifest then Err (ShipmentNotAwaitingManifest status)
      else and_then (validate_carton_set cartons) (\<lambda>_.
        if length assignments \<noteq> length cartons then Err TrackingAssignmentSetMismatch
        else let carton_ids = set (map carton_id cartons)
             in and_then (assignment_loop carton_ids {} {} assignments) (\<lambda>assigned_carton_ids.
               if assigned_carton_ids \<noteq> carton_ids then Err TrackingAssignmentSetMismatch
               else Ok Manifested)))"

definition cancel_shipment :: "ShipmentStatus \<Rightarrow> ShippingError + ShipmentStatus" where
  "cancel_shipment status =
     (case status of
        AwaitingManifest \<Rightarrow> Ok ShipmentStatus.Cancelled
      | Manifested \<Rightarrow> Ok ShipmentStatus.Cancelled
      | _ \<Rightarrow> Err (ShipmentNotCancellable status))"

definition confirm_shipment_departure ::
  "ShipmentStatus \<Rightarrow> OrderStatus \<Rightarrow> ShipmentCartonIdentity list \<Rightarrow> ShipmentScanValue list \<Rightarrow>
   ShippingError + ShipmentDepartureTransition" where
  "confirm_shipment_departure shipment_status order_status remaining_cartons scanned_carton_barcodes =
     (if shipment_status \<noteq> Manifested \<and> shipment_status \<noteq> PartiallyDeparted
        then Err (ShipmentNotManifested shipment_status)
      else if order_status \<noteq> AwaitingShipment then Err (OrderNotAwaitingShipment order_status)
      else and_then (validate_carton_set remaining_cartons) (\<lambda>_.
        if scanned_carton_barcodes = []
            \<or> length scanned_carton_barcodes > length remaining_cartons
          then Err DepartureCartonSetMismatch
        else
          let remaining = set (barcodes remaining_cartons);
              scanned = set (map ShipmentScanValue_as_str scanned_carton_barcodes)
          in if card scanned \<noteq> length scanned_carton_barcodes
                \<or> \<not> (\<forall>barcode\<in>scanned. barcode \<in> remaining)
               then Err DepartureCartonSetMismatch
             else
               let is_final = (card scanned = card remaining)
               in Ok \<lparr>departure_shipment_status = (if is_final then Departed else PartiallyDeparted),
                      departure_order_status = (if is_final then Shipped else AwaitingShipment)\<rparr>))"

text \<open>
  The departure command on the aggregate: the cartons that remain are the ones no confirmation
  lists, so a confirmed departure takes the scanned ones out of the next command's set.
\<close>

definition remaining_departure_cartons ::
  "ShipmentCartonIdentity list \<Rightarrow> ShipmentScanValue list \<Rightarrow> ShipmentCartonIdentity list" where
  "remaining_departure_cartons cartons departed =
     filter (\<lambda>c. carton_barcode c \<notin> set departed) cartons"

fun confirm_departures ::
  "ShipmentStatus \<Rightarrow> OrderStatus \<Rightarrow> ShipmentCartonIdentity list \<Rightarrow> ShipmentScanValue list list \<Rightarrow>
   ShippingError + ShipmentStatus \<times> OrderStatus \<times> ShipmentCartonIdentity list" where
  "confirm_departures shipment_status order_status remaining [] =
     Ok (shipment_status, order_status, remaining)"
| "confirm_departures shipment_status order_status remaining (scans # later) =
     and_then (confirm_shipment_departure shipment_status order_status remaining scans) (\<lambda>transition.
       confirm_departures (departure_shipment_status transition)
         (departure_order_status transition) (remaining_departure_cartons remaining scans) later)"

text \<open>Sample cartons.\<close>

definition sample_carton :: "int \<Rightarrow> nat \<Rightarrow> ShipmentCartonIdentity" where
  "sample_carton i c = \<lparr>carton_id = i, carton_barcode = ShipmentScanValue [67, c]\<rparr>"

definition sample_cartons :: "ShipmentCartonIdentity list" where
  "sample_cartons = [sample_carton 1 49, sample_carton 2 50, sample_carton 3 51]"

section \<open>Interpretations\<close>

lemma shipping_validate_text_Inr_iff:
  "shipping_validate_text v field m = Inr u \<longleftrightarrow>
     (bounded_text m v \<and> \<not> list_ex is_control v) \<and> u = v"
  by (auto simp: shipping_validate_text_def)

lemmas shipping_text_new = shipping_validate_text_Inr_iff is_ok_iff result_simps

interpretation carrier_code: validated_newtype CarrierCode_new CarrierCode_as_str
  "\<lambda>v. bounded_text MAX_CARRIER_CODE_LENGTH v \<and> \<not> list_ex is_control v"
  by unfold_locales (auto simp: CarrierCode_new_def shipping_text_new intro: CarrierCode.expand)

interpretation carrier_service_code: validated_newtype CarrierServiceCode_new CarrierServiceCode_as_str
  "\<lambda>v. bounded_text MAX_CARRIER_SERVICE_CODE_LENGTH v \<and> \<not> list_ex is_control v"
  by unfold_locales
    (auto simp: CarrierServiceCode_new_def shipping_text_new intro: CarrierServiceCode.expand)

interpretation manifest_reference: validated_newtype ManifestReference_new ManifestReference_as_str
  "\<lambda>v. bounded_text MAX_MANIFEST_REFERENCE_LENGTH v \<and> \<not> list_ex is_control v"
  by unfold_locales
    (auto simp: ManifestReference_new_def shipping_text_new intro: ManifestReference.expand)

interpretation tracking_number_text: validated_newtype TrackingNumber_new TrackingNumber_as_str
  "\<lambda>v. bounded_text MAX_TRACKING_NUMBER_LENGTH v \<and> \<not> list_ex is_control v"
  by unfold_locales
    (auto simp: TrackingNumber_new_def shipping_text_new intro: TrackingNumber.expand)

interpretation shipment_scan_value: validated_newtype ShipmentScanValue_new ShipmentScanValue_as_str
  "\<lambda>v. bounded_text MAX_SHIPMENT_SCAN_VALUE_LENGTH v \<and> \<not> list_ex is_control v"
  by unfold_locales
    (auto simp: ShipmentScanValue_new_def shipping_text_new intro: ShipmentScanValue.expand)

interpretation shipment_cancellation_note_text: validated_newtype ShipmentCancellationNote_new
  ShipmentCancellationNote_as_str
  "\<lambda>v. bounded_text MAX_SHIPMENT_CANCELLATION_NOTE_LENGTH v \<and> \<not> list_ex is_control v"
  by unfold_locales
    (auto simp: ShipmentCancellationNote_new_def is_ok_iff split: if_splits
      intro: ShipmentCancellationNote.expand)

interpretation shipment_revision:
  revision_newtype ShipmentRevision_new ShipmentRevision_get ShipmentRevision_checked_next
  by unfold_locales
    (auto simp: ShipmentRevision_new_def ShipmentRevision_checked_next_def checked_add_def
      split: if_splits option.splits intro: ShipmentRevision.expand)

interpretation shipment_document_type: tag_codec ShipmentDocumentType_as_str ShipmentDocumentType_parse
  by unfold_locales
    (auto simp: ShipmentDocumentType_as_str_def ShipmentDocumentType_parse_def
      split: if_splits ShipmentDocumentType.splits)

interpretation shipment_status: tag_codec ShipmentStatus_as_str ShipmentStatus_parse
  by unfold_locales
    (auto simp: ShipmentStatus_as_str_def ShipmentStatus_parse_def
      split: if_splits ShipmentStatus.splits)

section \<open>Lemmas\<close>

lemma card_set_eq_length_iff: "card (set xs) = length xs \<longleftrightarrow> distinct xs"
  using card_distinct distinct_card by blast

lemma distinct_scans_iff: "distinct (map ShipmentScanValue_as_str bs) \<longleftrightarrow> distinct bs"
  by (auto simp: distinct_map inj_on_def intro: ShipmentScanValue.expand)

lemma distinct_barcodes_iff: "distinct (barcodes cs) \<longleftrightarrow> distinct (map carton_barcode cs)"
  using distinct_scans_iff [of "map carton_barcode cs"] by simp

lemma as_str_mem_iff:
  "ShipmentScanValue_as_str b \<in> set (barcodes cs) \<longleftrightarrow> b \<in> set (map carton_barcode cs)"
  by (auto intro: ShipmentScanValue.expand)

lemma validate_carton_set_Inr_iff:
  "validate_carton_set cs = Inr u \<longleftrightarrow>
     cs \<noteq> [] \<and> distinct (map carton_id cs) \<and> distinct (map carton_barcode cs)"
  using card_set_eq_length_iff [of "map carton_id cs"] card_set_eq_length_iff [of "barcodes cs"]
    distinct_barcodes_iff [of cs]
  by (auto simp: validate_carton_set_def Let_def)

subsection \<open>Manifests\<close>

lemma assignment_loop_Inr_iff:
  "assignment_loop C A N as = Inr A' \<longleftrightarrow>
     set (map assigned_carton_id as) \<subseteq> C \<and> distinct (map assigned_carton_id as) \<and>
     set (map assigned_carton_id as) \<inter> A = {} \<and>
     distinct (map (TrackingNumber_as_str \<circ> tracking_number) as) \<and>
     set (map (TrackingNumber_as_str \<circ> tracking_number) as) \<inter> N = {} \<and>
     A' = A \<union> set (map assigned_carton_id as)"
  by (induction as arbitrary: A N) auto

lemma distinct_tracking_iff:
  "distinct (map (TrackingNumber_as_str \<circ> tracking_number) as) \<longleftrightarrow> distinct (map tracking_number as)"
proof -
  have "distinct (map TrackingNumber_as_str ts) \<longleftrightarrow> distinct ts" for ts
    by (auto simp: distinct_map inj_on_def intro: TrackingNumber.expand)
  from this [of "map tracking_number as"] show ?thesis by simp
qed

lemma same_members_iff_mset:
  assumes "distinct xs" "length ys = length xs"
  shows "set ys \<subseteq> set xs \<and> distinct ys \<and> set ys = set xs \<longleftrightarrow> mset ys = mset xs"
proof
  assume "mset ys = mset xs"
  then show "set ys \<subseteq> set xs \<and> distinct ys \<and> set ys = set xs"
    using assms mset_eq_setD [of ys xs] mset_eq_imp_distinct_iff [of ys xs] by simp
qed (metis assms(1) set_eq_iff_mset_eq_distinct)

subsection \<open>Departures\<close>

lemma remaining_barcodes:
  "map carton_barcode (remaining_departure_cartons cs bs) =
     filter (\<lambda>b. b \<notin> set bs) (map carton_barcode cs)"
  by (simp add: remaining_departure_cartons_def filter_map comp_def)

lemma remaining_remaining:
  "remaining_departure_cartons (remaining_departure_cartons cs bs) bs' =
     remaining_departure_cartons cs (bs @ bs')"
  by (simp add: remaining_departure_cartons_def conj_commute)

lemma remaining_partition:
  assumes "distinct (map carton_barcode cs)" "distinct bs" "set bs \<subseteq> set (map carton_barcode cs)"
  shows "mset (map carton_barcode cs) =
    mset bs + mset (map carton_barcode (remaining_departure_cartons cs bs))"
proof -
  have "mset (filter (\<lambda>b. b \<in> set bs) (map carton_barcode cs)) = mset bs"
    using assms by (intro set_eq_iff_mset_eq_distinct [THEN iffD1]) auto
  then show ?thesis
    unfolding remaining_barcodes by (metis mset_filter multiset_partition)
qed

lemma remaining_empty_iff:
  assumes "distinct (map carton_barcode cs)" "distinct bs" "set bs \<subseteq> set (map carton_barcode cs)"
  shows "remaining_departure_cartons cs bs = [] \<longleftrightarrow> length bs = length cs"
  using arg_cong [OF remaining_partition [OF assms], of size] by auto

lemma remaining_valid:
  "validate_carton_set cs = Inr () \<Longrightarrow> remaining_departure_cartons cs bs \<noteq> [] \<Longrightarrow>
     validate_carton_set (remaining_departure_cartons cs bs) = Inr ()"
  by (auto simp: validate_carton_set_Inr_iff remaining_departure_cartons_def distinct_map_filter)

lemma confirm_shipment_departure_Inr_iff:
  "confirm_shipment_departure ss os cs bs = Inr t \<longleftrightarrow>
     (ss = Manifested \<or> ss = PartiallyDeparted) \<and> os = AwaitingShipment \<and>
     validate_carton_set cs = Inr () \<and>
     bs \<noteq> [] \<and> distinct bs \<and> set bs \<subseteq> set (map carton_barcode cs) \<and>
     t = (if remaining_departure_cartons cs bs = []
          then \<lparr>departure_shipment_status = Departed, departure_order_status = Shipped\<rparr>
          else \<lparr>departure_shipment_status = PartiallyDeparted,
                departure_order_status = AwaitingShipment\<rparr>)"
proof (cases "validate_carton_set cs")
  case (Inl e)
  then show ?thesis by (auto simp: confirm_shipment_departure_def result_simps)
next
  case (Inr u)
  let ?scanned = "set (map ShipmentScanValue_as_str bs)"
  have cs: "distinct (map carton_barcode cs)" using Inr by (simp add: validate_carton_set_Inr_iff)
  have sub: "(\<forall>b\<in>?scanned. b \<in> set (barcodes cs)) \<longleftrightarrow> set bs \<subseteq> set (map carton_barcode cs)"
    using as_str_mem_iff by (simp add: image_subset_iff subset_iff) (metis as_str_mem_iff)
  have card: "card ?scanned = length bs \<longleftrightarrow> distinct bs"
    using card_set_eq_length_iff [of "map ShipmentScanValue_as_str bs"] distinct_scans_iff by simp
  have rem: "card (set (barcodes cs)) = length cs"
    using cs distinct_barcodes_iff distinct_card [of "barcodes cs"] by simp
  have le: "length bs \<le> length cs" if "distinct bs" "set bs \<subseteq> set (map carton_barcode cs)"
    using that card_mono [of "set (map carton_barcode cs)" "set bs"] cs
    by (simp add: distinct_card [symmetric] del: set_map) (metis distinct_card length_map)
  show ?thesis
    unfolding confirm_shipment_departure_def Let_def sub rem card
    using Inr le remaining_empty_iff [OF cs, of bs] card
    by (auto simp: result_simps not_less)
qed

text \<open>A whole history of departures, from any state that may still depart.\<close>

lemma confirm_departures_Inr_iff:
  assumes "validate_carton_set cs = Inr ()" "ss = Manifested \<or> ss = PartiallyDeparted"
  shows "confirm_departures ss AwaitingShipment cs scans = Inr (ss', os', rest) \<longleftrightarrow>
    [] \<notin> set scans \<and> distinct (concat scans) \<and> set (concat scans) \<subseteq> set (map carton_barcode cs) \<and>
    rest = remaining_departure_cartons cs (concat scans) \<and>
    (ss', os') = (if scans = [] then (ss, AwaitingShipment)
      else if rest = [] then (Departed, Shipped) else (PartiallyDeparted, AwaitingShipment))"
  using assms
proof (induction scans arbitrary: ss cs)
  case Nil
  then show ?case by (auto simp: remaining_departure_cartons_def)
next
  case (Cons bs later)
  let ?rest = "remaining_departure_cartons cs bs"
  have members: "set (map carton_barcode ?rest) = set (map carton_barcode cs) - set bs"
    unfolding remaining_barcodes by auto
  have rest: "remaining_departure_cartons ?rest (concat later) =
      remaining_departure_cartons cs (concat (bs # later))"
    by (simp add: remaining_remaining)
  show ?case
  proof (cases "?rest = []")
    case True
    then have covered: "set (map carton_barcode cs) \<subseteq> set bs" using members by auto
    have nothing_left: "later = []" if "[] \<notin> set later" "set bs \<inter> set (concat later) = {}"
        "set (concat later) \<subseteq> set (map carton_barcode cs)"
    proof (rule ccontr)
      assume "later \<noteq> []"
      then obtain l ls where later: "later = l # ls" by (cases later) auto
      with that(1) obtain b where "b \<in> set l" by (cases l) auto
      then have "b \<in> set (concat later)" using later by simp
      then show False using that(2,3) covered by blast
    qed
    have "confirm_departures ss AwaitingShipment cs (bs # later) = Inr (ss', os', rest) \<longleftrightarrow>
        bs \<noteq> [] \<and> distinct bs \<and> set bs \<subseteq> set (map carton_barcode cs) \<and>
        confirm_departures Departed Shipped [] later = Inr (ss', os', rest)"
      using Cons.prems True by (auto simp: result_simps confirm_shipment_departure_Inr_iff)
    also have "confirm_departures Departed Shipped [] later = Inr (ss', os', rest) \<longleftrightarrow>
        later = [] \<and> ss' = Departed \<and> os' = Shipped \<and> rest = []"
      by (cases later) (auto simp: confirm_shipment_departure_def result_simps)
    finally have run: "confirm_departures ss AwaitingShipment cs (bs # later) = Inr (ss', os', rest) \<longleftrightarrow>
        bs \<noteq> [] \<and> distinct bs \<and> set bs \<subseteq> set (map carton_barcode cs) \<and>
        later = [] \<and> ss' = Departed \<and> os' = Shipped \<and> rest = []" .
    show ?thesis
    proof (cases "later = []")
      case True
      then show ?thesis unfolding run using \<open>?rest = []\<close> by auto
    next
      case False
      then show ?thesis unfolding run using nothing_left by auto
    qed
  next
    case False
    note IH = Cons.IH [OF remaining_valid [OF Cons.prems(1) False], of PartiallyDeparted, simplified]
    have "confirm_departures ss AwaitingShipment cs (bs # later) = Inr (ss', os', rest) \<longleftrightarrow>
        bs \<noteq> [] \<and> distinct bs \<and> set bs \<subseteq> set (map carton_barcode cs) \<and>
        confirm_departures PartiallyDeparted AwaitingShipment ?rest later = Inr (ss', os', rest)"
      using Cons.prems False by (auto simp: result_simps confirm_shipment_departure_Inr_iff)
    then show ?thesis
      unfolding IH members [unfolded set_map] rest using False by auto
  qed
qed

section \<open>Properties\<close>

text \<open>
  C35. A manual manifest is accepted exactly when the shipment awaits it, its cartons have
  distinct identities and barcodes, and the tracking assignments name every carton exactly
  once, in any order, with pairwise different tracking numbers.
\<close>

theorem manual_manifest_exact:
  "record_manual_manifest status cartons assignments = Inr next_status \<longleftrightarrow>
     status = AwaitingManifest \<and> next_status = Manifested \<and> cartons \<noteq> [] \<and>
     distinct (map carton_id cartons) \<and> distinct (map carton_barcode cartons) \<and>
     mset (map assigned_carton_id assignments) = mset (map carton_id cartons) \<and>
     distinct (map tracking_number assignments)"
proof (cases "distinct (map carton_id cartons) \<and> length assignments = length cartons")
  case True
  then show ?thesis
    using same_members_iff_mset [of "map carton_id cartons" "map assigned_carton_id assignments"]
    by (auto simp: record_manual_manifest_def result_simps Let_def validate_carton_set_Inr_iff
      assignment_loop_Inr_iff distinct_tracking_iff)
next
  case False
  have "length assignments = length cartons"
    if "mset (map assigned_carton_id assignments) = mset (map carton_id cartons)"
    using that by (metis length_map size_mset)
  with False show ?thesis
    by (auto simp: record_manual_manifest_def result_simps Let_def validate_carton_set_Inr_iff)
qed

text \<open>
  C36. Incremental departure. From a manifested shipment, a sequence of departure confirmations
  is accepted exactly when every one scans some cartons, no carton is scanned twice over the
  whole sequence and every scanned barcode belongs to the shipment. The cartons that remain are
  exactly the unscanned ones, scanned and remaining cartons together are the shipment's, and the
  order is shipped, and the shipment departed, exactly when none remains.
\<close>

theorem departures_exact:
  assumes "validate_carton_set cartons = Inr ()"
  shows "(is_ok (confirm_departures Manifested AwaitingShipment cartons scans) \<longleftrightarrow>
      [] \<notin> set scans \<and> distinct (concat scans) \<and>
      set (concat scans) \<subseteq> set (map carton_barcode cartons)) \<and>
    (confirm_departures Manifested AwaitingShipment cartons scans = Inr (ss, os, rest) \<longrightarrow>
      rest = remaining_departure_cartons cartons (concat scans) \<and>
      mset (map carton_barcode cartons) = mset (concat scans) + mset (map carton_barcode rest) \<and>
      (os = Shipped \<longleftrightarrow> rest = []) \<and> (ss = Departed \<longleftrightarrow> rest = []))"
proof
  show "is_ok (confirm_departures Manifested AwaitingShipment cartons scans) \<longleftrightarrow>
      [] \<notin> set scans \<and> distinct (concat scans) \<and> set (concat scans) \<subseteq> set (map carton_barcode cartons)"
    using confirm_departures_Inr_iff [OF assms, of Manifested scans] by (auto simp: is_ok_iff)
  show "confirm_departures Manifested AwaitingShipment cartons scans = Inr (ss, os, rest) \<longrightarrow>
      rest = remaining_departure_cartons cartons (concat scans) \<and>
      mset (map carton_barcode cartons) = mset (concat scans) + mset (map carton_barcode rest) \<and>
      (os = Shipped \<longleftrightarrow> rest = []) \<and> (ss = Departed \<longleftrightarrow> rest = [])"
  proof
    assume "confirm_departures Manifested AwaitingShipment cartons scans = Inr (ss, os, rest)"
    then have run: "distinct (concat scans)" "set (concat scans) \<subseteq> set (map carton_barcode cartons)"
        "rest = remaining_departure_cartons cartons (concat scans)"
        "(ss, os) = (if scans = [] then (Manifested, AwaitingShipment)
           else if rest = [] then (Departed, Shipped) else (PartiallyDeparted, AwaitingShipment))"
      using confirm_departures_Inr_iff [OF assms, of Manifested scans] by auto
    have cartons: "cartons \<noteq> []" "distinct (map carton_barcode cartons)"
      using assms by (simp_all add: validate_carton_set_Inr_iff)
    moreover have "rest \<noteq> []" if "scans = []"
      using that run(3) cartons(1) by (simp add: remaining_departure_cartons_def)
    ultimately show "rest = remaining_departure_cartons cartons (concat scans) \<and>
      mset (map carton_barcode cartons) = mset (concat scans) + mset (map carton_barcode rest) \<and>
      (os = Shipped \<longleftrightarrow> rest = []) \<and> (ss = Departed \<longleftrightarrow> rest = [])"
      using run remaining_partition [OF cartons(2) run(1,2)] by (auto split: if_splits)
  qed
qed

theorem departures_exact_witness:
  "confirm_departures Manifested AwaitingShipment sample_cartons
      [[ShipmentScanValue [67, 51]], [ShipmentScanValue [67, 49], ShipmentScanValue [67, 50]]] =
      Inr (Departed, Shipped, []) \<and>
    \<not> is_ok (confirm_departures Manifested AwaitingShipment sample_cartons
      [[ShipmentScanValue [67, 51]], [ShipmentScanValue [67, 51]]])"
proof -
  have valid: "validate_carton_set sample_cartons = Inr ()"
    by (simp add: validate_carton_set_Inr_iff sample_cartons_def sample_carton_def)
  let ?scans = "[[ShipmentScanValue [67, 51]], [ShipmentScanValue [67, 49], ShipmentScanValue [67, 50]]]"
  let ?run = "confirm_departures Manifested AwaitingShipment sample_cartons"
  have "is_ok (?run ?scans)"
    using departures_exact [OF valid, of ?scans]
    by (simp add: sample_cartons_def sample_carton_def del: confirm_departures.simps)
  then obtain ss os rest where run: "?run ?scans = Inr (ss, os, rest)" by (auto simp: is_ok_iff)
  moreover have "remaining_departure_cartons sample_cartons (concat ?scans) = []"
    by (simp add: remaining_departure_cartons_def sample_cartons_def sample_carton_def)
  ultimately have "?run ?scans = Inr (Departed, Shipped, [])"
    using departures_exact [OF valid, of ?scans ss os rest] by (simp del: confirm_departures.simps)
  moreover have "\<not> is_ok (?run [[ShipmentScanValue [67, 51]], [ShipmentScanValue [67, 51]]])"
    using departures_exact [OF valid, of "[[ShipmentScanValue [67, 51]], [ShipmentScanValue [67, 51]]]"]
    by (simp del: confirm_departures.simps)
  ultimately show ?thesis by blast
qed

end
