(* ===== verification/Outbox_Store.thy ===== *)
theory Outbox_Store
  imports Orders
begin

text \<open>
  The transactional outbox, \<open>crates/persistence-postgres/src/outbox.rs\<close>, over the rows
  the migration declares: events with their lease columns, the permanent event keys, the
  sequence of every ordering key, the append-only journal of delivery attempts and results,
  and the evidence of dead-letter replays and discards. A public function of the file is one
  transaction, so it is one function on the whole database: an error leaves the database
  as it was (rollback), success returns the committed one.
  The clock is read once per transaction (\<open>now\<close>, in microseconds); rows another
  transaction has locked are the argument \<open>locked\<close> of the queries that skip them. Whether a
  foreign key into another component's table holds is an argument too. The history of the
  database is the step relation \<open>outbox\_step\<close>: any transaction of any tenant, with a
  clock that never runs backwards.
\<close>

section \<open>Definitions\<close>

subsection \<open>Rows\<close>

datatype PersistenceError =
    Database string
  | AuthorizationContextConflict
  | InvalidInput string
  | Conflict string
  | InvalidData string

record NewOutboxEvent =
  new_tenant_id :: TenantId
  new_inventory_owner_id :: "InventoryOwnerId option"
  new_facility_id :: "FacilityId option"
  new_actor_user_id :: "int option"
  new_event_key :: rust_string
  new_aggregate_type :: rust_string
  new_aggregate_id :: rust_string
  new_ordering_key :: rust_string
  new_aggregate_sequence :: int
  new_event_type :: rust_string
  new_schema_version :: int
  new_payload :: rust_string
  new_occurred_at :: Timestamp

record OutboxEvent =
  event_id :: int
  event_tenant_id :: TenantId
  event_inventory_owner_id :: "InventoryOwnerId option"
  event_facility_id :: "FacilityId option"
  event_actor_user_id :: "int option"
  event_created :: Timestamp
  event_key :: rust_string
  event_aggregate_type :: rust_string
  event_aggregate_id :: rust_string
  event_ordering_key :: rust_string
  event_aggregate_sequence :: int
  event_type :: rust_string
  event_schema_version :: int
  event_payload :: rust_string
  event_occurred_at :: Timestamp
  event_available_at :: Timestamp
  event_claimed_at :: "Timestamp option"
  event_claimed_by :: "rust_string option"
  event_lease_expires_at :: "Timestamp option"
  event_claim_version :: int
  event_attempts :: int
  event_last_error :: "rust_string option"
  event_dead_lettered_at :: "Timestamp option"
  event_replay_count :: int
  event_discarded_at :: "Timestamp option"
  event_discard_reason :: "rust_string option"
  event_discarded_by_user_id :: "int option"
  event_published_at :: "Timestamp option"

datatype DeliveryFailureClass = Retryable | Permanent

datatype DeliveryAttemptOutcome =
    Published
  | RetryScheduled
  | PermanentFailure
  | RetryExhausted
  | LeaseLost

text \<open>A row of \<open>outbox\_delivery\_attempts\<close> and one of \<open>outbox\_delivery\_attempt\_results\<close>.\<close>

record attempt_row =
  attempt_tenant_id :: TenantId
  attempt_event_id :: int
  attempt_event_key :: rust_string
  attempt_event_type :: rust_string
  attempt_claim_version :: int
  attempt_replay_count :: int
  attempt_number :: int
  attempt_worker_id :: rust_string
  attempt_publisher_name :: rust_string
  attempt_claimed_at :: Timestamp
  attempt_lease_expires_at :: Timestamp

record attempt_result_row =
  result_tenant_id :: TenantId
  result_event_id :: int
  result_claim_version :: int
  result_outcome :: string
  result_completed_at :: Timestamp
  result_error :: "rust_string option"
  result_retry_after_seconds :: "int option"

record DeliveryAttempt = attempt_row +
  delivery_outcome :: "DeliveryAttemptOutcome option"
  delivery_completed_at :: "Timestamp option"
  delivery_error :: "rust_string option"
  delivery_retry_after_seconds :: "int option"

record FailOutboxEvent =
  fail_tenant_id :: TenantId
  fail_event_id :: int
  fail_worker_id :: rust_string
  fail_claim_version :: int
  fail_failure_class :: DeliveryFailureClass
  fail_error :: rust_string
  fail_retry_after_seconds :: int
  fail_max_attempts :: int

record RecordDeliveryResult =
  rec_tenant_id :: TenantId
  rec_event_id :: int
  rec_worker_id :: rust_string
  rec_claim_version :: int
  rec_outcome :: string
  rec_error :: "rust_string option"
  rec_retry_after_seconds :: "int option"

text \<open>The evidence rows, without the columns copied from the event's envelope.\<close>

record replay_row =
  replay_tenant_id :: TenantId
  replay_event_id :: int
  replay_previous_count :: int
  replay_resulting_count :: int
  replay_previous_attempts :: int
  replay_last_error :: "rust_string option"
  replay_user_id :: int
  replay_at :: Timestamp

record discard_row =
  discard_tenant_id :: TenantId
  discard_event_id :: int
  discard_replay_count :: int
  discard_previous_attempts :: int
  discard_last_error :: "rust_string option"
  discard_row_reason :: rust_string
  discard_user_id :: int
  discard_at :: Timestamp

record outbox_db =
  outbox_events :: "OutboxEvent list"
  outbox_next_id :: int
  outbox_event_keys :: "(TenantId \<times> rust_string) list"
  outbox_sequences :: "TenantId \<times> rust_string \<Rightarrow> int option"
  outbox_attempts :: "attempt_row list"
  outbox_results :: "attempt_result_row list"
  outbox_replays :: "replay_row list"
  outbox_discards :: "discard_row list"

definition outbox_empty :: outbox_db where
  "outbox_empty =
     \<lparr>outbox_events = [], outbox_next_id = 1, outbox_event_keys = [],
      outbox_sequences = (\<lambda>_. None), outbox_attempts = [], outbox_results = [],
      outbox_replays = [], outbox_discards = []\<rparr>"

definition SECOND :: int where "SECOND = 1000000"

definition i32_max :: int where "i32_max = 2147483647"

subsection \<open>Validation and decoding\<close>

definition failure_class_database_value :: "DeliveryFailureClass \<Rightarrow> string" where
  "failure_class_database_value failure_class =
     (case failure_class of Retryable \<Rightarrow> ''retryable'' | Permanent \<Rightarrow> ''permanent'')"

definition delivery_attempt_outcome :: "string \<Rightarrow> PersistenceError + DeliveryAttemptOutcome" where
  "delivery_attempt_outcome value =
     (if value = ''published'' then Ok Published
      else if value = ''retry_scheduled'' then Ok RetryScheduled
      else if value = ''permanent_failure'' then Ok PermanentFailure
      else if value = ''retry_exhausted'' then Ok RetryExhausted
      else if value = ''lease_lost'' then Ok LeaseLost
      else Err (InvalidData
        (''database returned an invalid delivery attempt outcome: '' @ value)))"

definition required_text :: "rust_string \<Rightarrow> string \<Rightarrow> PersistenceError + unit" where
  "required_text value label =
     (if trim value = [] then Err (InvalidInput (label @ '' cannot be blank'')) else Ok ())"

text \<open>Decimal digits, as \<open>format!\<close> prints an unsigned integer.\<close>

fun decimal :: "nat \<Rightarrow> string" where
  "decimal n = (if n < 10 then [char_of (48 + n)]
                else decimal (n div 10) @ [char_of (48 + n mod 10)])"

declare decimal.simps [simp del]

definition outbox_bounded_text :: "rust_string \<Rightarrow> string \<Rightarrow> nat \<Rightarrow> PersistenceError + unit" where
  "outbox_bounded_text value label maximum_characters =
     and_then (required_text value label) (\<lambda>_.
     if length value > maximum_characters
       then Err (InvalidInput (label @ '' cannot exceed '' @ decimal maximum_characters
         @ '' characters''))
     else Ok ())"

text \<open>The transaction-local settings that row-level security reads.\<close>

record tx_context =
  session_token_hash :: "rust_string option"
  bound_tenant :: "TenantId option"

definition fresh_context :: tx_context where
  "fresh_context = \<lparr>session_token_hash = None, bound_tenant = None\<rparr>"

definition bind_tenant_context :: "tx_context \<Rightarrow> TenantId \<Rightarrow> PersistenceError + tx_context" where
  "bind_tenant_context tx tenant_id =
     (if session_token_hash tx \<noteq> None then Err AuthorizationContextConflict
      else case bound_tenant tx of
             None \<Rightarrow> Ok (tx\<lparr>bound_tenant := Some tenant_id\<rparr>)
           | Some current \<Rightarrow>
               if current = tenant_id then Ok tx else Err AuthorizationContextConflict)"

subsection \<open>Enqueueing\<close>

definition enqueued_event :: "int \<Rightarrow> Timestamp \<Rightarrow> NewOutboxEvent \<Rightarrow> OutboxEvent" where
  "enqueued_event new_id now event =
     \<lparr>event_id = new_id, event_tenant_id = new_tenant_id event,
      event_inventory_owner_id = new_inventory_owner_id event,
      event_facility_id = new_facility_id event,
      event_actor_user_id = new_actor_user_id event, event_created = now,
      event_key = new_event_key event, event_aggregate_type = new_aggregate_type event,
      event_aggregate_id = new_aggregate_id event,
      event_ordering_key = new_ordering_key event,
      event_aggregate_sequence = new_aggregate_sequence event,
      event_type = new_event_type event, event_schema_version = new_schema_version event,
      event_payload = new_payload event, event_occurred_at = new_occurred_at event,
      event_available_at = now, event_claimed_at = None, event_claimed_by = None,
      event_lease_expires_at = None, event_claim_version = 0, event_attempts = 0,
      event_last_error = None, event_dead_lettered_at = None, event_replay_count = 0,
      event_discarded_at = None, event_discard_reason = None,
      event_discarded_by_user_id = None, event_published_at = None\<rparr>"

definition enqueue_validate ::
  "(rust_string \<Rightarrow> bool) \<Rightarrow> NewOutboxEvent \<Rightarrow> PersistenceError + unit" where
  "enqueue_validate is_object event =
     and_then (required_text (new_event_key event) ''event key'') (\<lambda>_.
     and_then (required_text (new_aggregate_type event) ''aggregate type'') (\<lambda>_.
     and_then (required_text (new_aggregate_id event) ''aggregate ID'') (\<lambda>_.
     and_then (required_text (new_ordering_key event) ''ordering key'') (\<lambda>_.
     and_then (required_text (new_event_type event) ''event type'') (\<lambda>_.
     if new_aggregate_sequence event \<le> 0
       then Err (InvalidInput ''aggregate sequence must be positive'')
     else if new_schema_version event \<le> 0
       then Err (InvalidInput ''schema version must be positive'')
     else if \<not> is_object (new_payload event)
       then Err (InvalidInput ''outbox payload must be an object'')
     else Ok ())))))"

definition enqueue ::
  "(rust_string \<Rightarrow> bool) \<Rightarrow> bool \<Rightarrow> tx_context \<Rightarrow> Timestamp \<Rightarrow> NewOutboxEvent \<Rightarrow> outbox_db \<Rightarrow>
   PersistenceError + int \<times> tx_context \<times> outbox_db" where
  "enqueue is_object references_exist tx now event db =
     and_then (enqueue_validate is_object event) (\<lambda>_.
     and_then (bind_tenant_context tx (new_tenant_id event)) (\<lambda>tx'.
     let event_key = (new_tenant_id event, new_event_key event);
         ordering = (new_tenant_id event, new_ordering_key event);
         expected_sequence = (case outbox_sequences db ordering of
             None \<Rightarrow> 1 | Some sequence \<Rightarrow> wrap_i64 (sequence + 1));
         new_id = outbox_next_id db
     in if event_key \<in> set (outbox_event_keys db)
          then Err (Database ''outbox_event_keys_pkey'')
        else if new_aggregate_sequence event \<noteq> expected_sequence
          then Err (Conflict ''outbox aggregate sequence must be contiguous'')
        else if \<not> references_exist then Err (Database ''foreign key'')
        else Ok (new_id, tx',
          db\<lparr>outbox_event_keys := event_key # outbox_event_keys db,
             outbox_sequences := (outbox_sequences db)(ordering \<mapsto> new_aggregate_sequence event),
             outbox_events := outbox_events db @ [enqueued_event new_id now event],
             outbox_next_id := new_id + 1\<rparr>)))"

subsection \<open>Reading\<close>

definition compare_ids :: "OutboxEvent \<Rightarrow> OutboxEvent \<Rightarrow> ordering" where
  "compare_ids a b = cmp_int (event_id a) (event_id b)"

definition get_events ::
  "TenantId \<Rightarrow> int option \<Rightarrow> int \<Rightarrow> outbox_db \<Rightarrow> PersistenceError + OutboxEvent list" where
  "get_events tenant_id after_id limit db =
     (if \<not> (1 \<le> limit \<and> limit \<le> 1000)
        then Err (InvalidInput ''outbox history limit must be between 1 and 1000'')
      else Ok (take (nat limit) (sort_by compare_ids
        (filter (\<lambda>e. event_tenant_id e = tenant_id \<and>
           event_id e > (case after_id of None \<Rightarrow> 0 | Some i \<Rightarrow> i)) (outbox_events db)))))"

definition compare_attempts :: "attempt_row \<Rightarrow> attempt_row \<Rightarrow> ordering" where
  "compare_attempts a b = cmp_int (attempt_claim_version a) (attempt_claim_version b)"

text \<open>The left join of an attempt with its result, decoded.\<close>

definition map_delivery_attempt ::
  "attempt_result_row list \<Rightarrow> attempt_row \<Rightarrow> PersistenceError + DeliveryAttempt" where
  "map_delivery_attempt results attempt =
     (let result = find (\<lambda>r. result_tenant_id r = attempt_tenant_id attempt \<and>
             result_event_id r = attempt_event_id attempt \<and>
             result_claim_version r = attempt_claim_version attempt) results;
          decoded = (case result of None \<Rightarrow> Ok None
             | Some r \<Rightarrow> and_then (delivery_attempt_outcome (result_outcome r)) (\<lambda>v. Ok (Some v)))
      in and_then decoded (\<lambda>outcome. Ok (attempt_row.extend attempt
           (DeliveryAttempt.fields outcome (map_option result_completed_at result)
             (Option.bind result result_error)
             (Option.bind result result_retry_after_seconds)))))"

fun collect_results :: "('e + 'a) list \<Rightarrow> 'e + 'a list" where
  "collect_results [] = Ok []"
| "collect_results (r # rs) =
     and_then r (\<lambda>x. and_then (collect_results rs) (\<lambda>xs. Ok (x # xs)))"

definition get_delivery_attempts ::
  "TenantId \<Rightarrow> int \<Rightarrow> int \<Rightarrow> outbox_db \<Rightarrow> PersistenceError + DeliveryAttempt list" where
  "get_delivery_attempts tenant_id outbox_event_id limit db =
     (if outbox_event_id \<le> 0 then Err (InvalidInput ''outbox event ID must be positive'')
      else if \<not> (1 \<le> limit \<and> limit \<le> 1000)
        then Err (InvalidInput ''delivery attempt history limit must be between 1 and 1000'')
      else collect_results (map (map_delivery_attempt (outbox_results db))
        (take (nat limit) (sort_by compare_attempts
          (filter (\<lambda>a. attempt_tenant_id a = tenant_id \<and>
             attempt_event_id a = outbox_event_id) (outbox_attempts db))))))"


subsection \<open>Claiming\<close>

text \<open>An \<open>UPDATE ... SET ... WHERE\<close>: the rows that match are replaced in place.\<close>

definition update_where :: "('a \<Rightarrow> bool) \<Rightarrow> ('a \<Rightarrow> 'a) \<Rightarrow> 'a list \<Rightarrow> 'a list" where
  "update_where P f rows = map (\<lambda>e. if P e then f e else e) rows"

definition event_settled :: "OutboxEvent \<Rightarrow> bool" where
  "event_settled e \<longleftrightarrow> event_published_at e \<noteq> None \<or> event_discarded_at e \<noteq> None"

definition precedes :: "OutboxEvent \<Rightarrow> OutboxEvent \<Rightarrow> bool" where
  "precedes p e \<longleftrightarrow> event_tenant_id p = event_tenant_id e \<and>
     event_ordering_key p = event_ordering_key e \<and>
     event_aggregate_sequence p < event_aggregate_sequence e"

definition claimable :: "Timestamp \<Rightarrow> TenantId \<Rightarrow> OutboxEvent list \<Rightarrow> OutboxEvent \<Rightarrow> bool" where
  "claimable now tenant_id rows e \<longleftrightarrow>
     event_tenant_id e = tenant_id \<and> event_published_at e = None \<and>
     event_dead_lettered_at e = None \<and> event_discarded_at e = None \<and>
     event_available_at e \<le> now \<and>
     (event_claimed_at e = None \<or>
      (case event_lease_expires_at e of None \<Rightarrow> False | Some t \<Rightarrow> t \<le> now)) \<and>
     \<not> list_ex (\<lambda>p. precedes p e \<and> event_published_at p = None \<and>
         event_discarded_at p = None) rows"

definition compare_available :: "OutboxEvent \<Rightarrow> OutboxEvent \<Rightarrow> ordering" where
  "compare_available a b =
     then_with (cmp_int (event_available_at a) (event_available_at b))
       (cmp_int (event_id a) (event_id b))"

definition claim_candidates ::
  "int list \<Rightarrow> Timestamp \<Rightarrow> TenantId \<Rightarrow> int \<Rightarrow> OutboxEvent list \<Rightarrow> OutboxEvent list" where
  "claim_candidates locked now tenant_id batch_size rows =
     take (nat batch_size) (sort_by compare_available
       (filter (\<lambda>e. claimable now tenant_id rows e \<and> event_id e \<notin> set locked) rows))"

definition claim_row :: "Timestamp \<Rightarrow> rust_string \<Rightarrow> int \<Rightarrow> OutboxEvent \<Rightarrow> OutboxEvent" where
  "claim_row now worker_id lease_seconds e =
     e\<lparr>event_claimed_at := Some now, event_claimed_by := Some worker_id,
       event_lease_expires_at := Some (now + lease_seconds * SECOND),
       event_claim_version := event_claim_version e + 1,
       event_attempts := event_attempts e + 1\<rparr>"

definition attempt_of :: "rust_string \<Rightarrow> OutboxEvent \<Rightarrow> attempt_row" where
  "attempt_of publisher_name e =
     \<lparr>attempt_tenant_id = event_tenant_id e, attempt_event_id = event_id e,
      attempt_event_key = event_key e, attempt_event_type = event_type e,
      attempt_claim_version = event_claim_version e,
      attempt_replay_count = event_replay_count e, attempt_number = event_attempts e,
      attempt_worker_id = (case event_claimed_by e of None \<Rightarrow> [] | Some w \<Rightarrow> w),
      attempt_publisher_name = publisher_name,
      attempt_claimed_at = (case event_claimed_at e of None \<Rightarrow> 0 | Some t \<Rightarrow> t),
      attempt_lease_expires_at = (case event_lease_expires_at e of None \<Rightarrow> 0 | Some t \<Rightarrow> t)\<rparr>"

text \<open>The primary key and the two unique constraints of the attempt journal.\<close>

definition attempts_conflict :: "attempt_row \<Rightarrow> attempt_row \<Rightarrow> bool" where
  "attempts_conflict a b \<longleftrightarrow>
     attempt_tenant_id a = attempt_tenant_id b \<and>
     (attempt_event_id a = attempt_event_id b \<and>
        attempt_claim_version a = attempt_claim_version b \<or>
      attempt_event_key a = attempt_event_key b \<and>
        attempt_claim_version a = attempt_claim_version b \<or>
      attempt_event_key a = attempt_event_key b \<and>
        attempt_replay_count a = attempt_replay_count b \<and>
        attempt_number a = attempt_number b)"

fun insert_attempts :: "attempt_row list \<Rightarrow> attempt_row list \<Rightarrow> PersistenceError + attempt_row list" where
  "insert_attempts existing [] = Ok existing"
| "insert_attempts existing (a # rows) =
     (if list_ex (attempts_conflict a) existing
        then Err (Database ''outbox_delivery_attempts unique constraint'')
      else insert_attempts (existing @ [a]) rows)"

definition claim_events ::
  "int list \<Rightarrow> Timestamp \<Rightarrow> TenantId \<Rightarrow> rust_string \<Rightarrow> rust_string \<Rightarrow> int \<Rightarrow> int \<Rightarrow> outbox_db \<Rightarrow>
   PersistenceError + OutboxEvent list \<times> outbox_db" where
  "claim_events locked now tenant_id worker_id publisher_name batch_size lease_seconds db =
     and_then (outbox_bounded_text worker_id ''worker ID'' 200) (\<lambda>_.
     and_then (outbox_bounded_text publisher_name ''publisher name'' 200) (\<lambda>_.
     if \<not> (1 \<le> batch_size \<and> batch_size \<le> 1000)
       then Err (InvalidInput ''outbox batch size must be between 1 and 1000'')
     else if lease_seconds \<le> 0
       then Err (InvalidInput ''outbox claim lease must be positive'')
     else
       let candidates = claim_candidates locked now tenant_id batch_size (outbox_events db);
           ids = map event_id candidates;
           rows = update_where (\<lambda>e. event_id e \<in> set ids)
             (claim_row now worker_id lease_seconds) (outbox_events db);
           events = sort_by compare_ids (map (claim_row now worker_id lease_seconds) candidates)
       in if list_ex (\<lambda>e. event_attempts e = i32_max \<or> event_claim_version e = i64_max) candidates
            then Err (Database ''integer out of range'')
          else if events = [] then Ok (events, db)
          else
            let journal = map (attempt_of publisher_name)
                  (filter (\<lambda>e. event_tenant_id e = tenant_id \<and>
                     event_claimed_by e = Some worker_id \<and>
                     event_id e \<in> set (map event_id events)) rows)
            in and_then (insert_attempts (outbox_attempts db) journal) (\<lambda>attempts.
               if length journal \<noteq> length events
                 then Err (InvalidData
                   ''delivery attempt journal did not record every claimed event'')
               else Ok (events, db\<lparr>outbox_events := rows, outbox_attempts := attempts\<rparr>))))"

subsection \<open>Settling a claim\<close>

text \<open>The guard both updates share: the caller still holds the claim it names.\<close>

definition holds_claim :: "Timestamp \<Rightarrow> TenantId \<Rightarrow> int \<Rightarrow> rust_string \<Rightarrow> int \<Rightarrow> OutboxEvent \<Rightarrow> bool" where
  "holds_claim now tenant_id target worker_id claim_version e \<longleftrightarrow>
     event_tenant_id e = tenant_id \<and> event_id e = target \<and>
     event_claimed_by e = Some worker_id \<and> event_claim_version e = claim_version \<and>
     (case event_lease_expires_at e of None \<Rightarrow> False | Some t \<Rightarrow> now < t) \<and>
     event_dead_lettered_at e = None \<and> event_discarded_at e = None \<and>
     event_published_at e = None"

text \<open>\<open>INSERT ... SELECT ... ON CONFLICT DO NOTHING\<close>: the inserted rows and the new table.\<close>

definition record_delivery_result ::
  "Timestamp \<Rightarrow> RecordDeliveryResult \<Rightarrow> outbox_db \<Rightarrow> nat \<times> outbox_db" where
  "record_delivery_result now r db =
     (let matching = filter (\<lambda>a. attempt_tenant_id a = rec_tenant_id r \<and>
              attempt_event_id a = rec_event_id r \<and> attempt_worker_id a = rec_worker_id r \<and>
              attempt_claim_version a = rec_claim_version r) (outbox_attempts db);
          taken = list_ex (\<lambda>q. result_tenant_id q = rec_tenant_id r \<and>
              result_event_id q = rec_event_id r \<and>
              result_claim_version q = rec_claim_version r) (outbox_results db);
          inserted = (if taken then [] else map (\<lambda>a.
              \<lparr>result_tenant_id = attempt_tenant_id a, result_event_id = attempt_event_id a,
               result_claim_version = attempt_claim_version a, result_outcome = rec_outcome r,
               result_completed_at = now, result_error = rec_error r,
               result_retry_after_seconds = rec_retry_after_seconds r\<rparr>) (take 1 matching))
      in (length inserted, db\<lparr>outbox_results := outbox_results db @ inserted\<rparr>))"

definition publish_row :: "Timestamp \<Rightarrow> OutboxEvent \<Rightarrow> OutboxEvent" where
  "publish_row now e =
     e\<lparr>event_published_at := Some now, event_claimed_at := None, event_claimed_by := None,
       event_lease_expires_at := None, event_last_error := None\<rparr>"

definition publish_record :: "TenantId \<Rightarrow> int \<Rightarrow> rust_string \<Rightarrow> int \<Rightarrow> bool \<Rightarrow> RecordDeliveryResult" where
  "publish_record tenant_id target worker_id claim_version published =
     \<lparr>rec_tenant_id = tenant_id, rec_event_id = target, rec_worker_id = worker_id,
      rec_claim_version = claim_version,
      rec_outcome = (if published then ''published'' else ''lease_lost''),
      rec_error = None, rec_retry_after_seconds = None\<rparr>"

definition mark_published ::
  "Timestamp \<Rightarrow> TenantId \<Rightarrow> int \<Rightarrow> rust_string \<Rightarrow> int \<Rightarrow> outbox_db \<Rightarrow>
   PersistenceError + bool \<times> outbox_db" where
  "mark_published now tenant_id target worker_id claim_version db =
     and_then (outbox_bounded_text worker_id ''worker ID'' 200) (\<lambda>_.
     let held = holds_claim now tenant_id target worker_id claim_version;
         published = (length (filter held (outbox_events db)) = 1);
         db' = db\<lparr>outbox_events := update_where held (publish_row now) (outbox_events db)\<rparr>;
         (journal_rows, db'') = record_delivery_result now
           (publish_record tenant_id target worker_id claim_version published) db'
     in if published \<and> journal_rows \<noteq> 1
          then Err (InvalidData ''published event is missing its delivery attempt result'')
        else Ok (published, db''))"

definition fail_row :: "Timestamp \<Rightarrow> FailOutboxEvent \<Rightarrow> OutboxEvent \<Rightarrow> OutboxEvent" where
  "fail_row now failure e =
     (let dead = (failure_class_database_value (fail_failure_class failure) = ''permanent'' \<or>
            event_attempts e \<ge> fail_max_attempts failure)
      in e\<lparr>event_available_at := (if dead then event_available_at e
             else now + fail_retry_after_seconds failure * SECOND),
           event_claimed_at := None, event_claimed_by := None, event_lease_expires_at := None,
           event_last_error := Some (trim (fail_error failure)),
           event_dead_lettered_at := (if dead then Some now else None)\<rparr>)"

definition failure_outcome :: "FailOutboxEvent \<Rightarrow> int option \<Rightarrow> string" where
  "failure_outcome failure result = (case result of
       None \<Rightarrow> ''lease_lost''
     | Some attempts \<Rightarrow> (case fail_failure_class failure of
           Permanent \<Rightarrow> ''permanent_failure''
         | Retryable \<Rightarrow> if attempts \<ge> fail_max_attempts failure
             then ''retry_exhausted'' else ''retry_scheduled''))"

definition failure_record :: "FailOutboxEvent \<Rightarrow> int option \<Rightarrow> RecordDeliveryResult" where
  "failure_record failure result =
     (let outcome = failure_outcome failure result in
      \<lparr>rec_tenant_id = fail_tenant_id failure, rec_event_id = fail_event_id failure,
       rec_worker_id = fail_worker_id failure,
       rec_claim_version = fail_claim_version failure, rec_outcome = outcome,
       rec_error = Some (trim (fail_error failure)),
       rec_retry_after_seconds = (if outcome = ''retry_scheduled''
         then Some (fail_retry_after_seconds failure) else None)\<rparr>)"

definition failure_attempts :: "Timestamp \<Rightarrow> FailOutboxEvent \<Rightarrow> OutboxEvent list \<Rightarrow> int option" where
  "failure_attempts now failure rows =
     (case filter (holds_claim now (fail_tenant_id failure) (fail_event_id failure)
            (fail_worker_id failure) (fail_claim_version failure)) rows of
        [] \<Rightarrow> None | e # _ \<Rightarrow> Some (event_attempts (fail_row now failure e)))"

definition mark_failed ::
  "Timestamp \<Rightarrow> FailOutboxEvent \<Rightarrow> outbox_db \<Rightarrow> PersistenceError + bool \<times> outbox_db" where
  "mark_failed now failure db =
     and_then (outbox_bounded_text (fail_worker_id failure) ''worker ID'' 200) (\<lambda>_.
     and_then (outbox_bounded_text (fail_error failure) ''delivery error'' 4000) (\<lambda>_.
     if fail_retry_after_seconds failure < 0
       then Err (InvalidInput ''outbox retry delay cannot be negative'')
     else if fail_max_attempts failure \<le> 0
       then Err (InvalidInput ''outbox maximum attempts must be positive'')
     else
       let held = holds_claim now (fail_tenant_id failure) (fail_event_id failure)
             (fail_worker_id failure) (fail_claim_version failure);
           result = failure_attempts now failure (outbox_events db);
           db' = db\<lparr>outbox_events := update_where held (fail_row now failure) (outbox_events db)\<rparr>;
           (journal_rows, db'') = record_delivery_result now (failure_record failure result) db'
       in if result \<noteq> None \<and> journal_rows \<noteq> 1
            then Err (InvalidData ''failed event is missing its delivery attempt result'')
          else Ok (result \<noteq> None, db'')))"

subsection \<open>Dead letters\<close>

text \<open>SQL's \<open>btrim\<close> with its default argument strips spaces only.\<close>

definition btrim :: "rust_string \<Rightarrow> rust_string" where
  "btrim v = rev (dropWhile (\<lambda>c. c = 32) (rev (dropWhile (\<lambda>c. c = 32) v)))"

definition evidence_text_ok :: "nat \<Rightarrow> rust_string \<Rightarrow> bool" where
  "evidence_text_ok maximum v \<longleftrightarrow> btrim v = v \<and> v \<noteq> [] \<and> length v \<le> maximum"

text \<open>The row a dead-letter command selects, and the check constraints of its evidence.\<close>

definition dead_letter_target :: "TenantId \<Rightarrow> int \<Rightarrow> int \<Rightarrow> OutboxEvent \<Rightarrow> bool" where
  "dead_letter_target tenant_id target expected_replay_count e \<longleftrightarrow>
     event_tenant_id e = tenant_id \<and> event_id e = target \<and>
     event_replay_count e = expected_replay_count \<and> event_dead_lettered_at e \<noteq> None \<and>
     event_last_error e \<noteq> None \<and> event_published_at e = None \<and>
     event_discarded_at e = None \<and> event_claimed_at e = None"

definition evidence_ok :: "OutboxEvent \<Rightarrow> bool" where
  "evidence_ok e \<longleftrightarrow>
     evidence_text_ok 500 (event_key e) \<and> evidence_text_ok 500 (event_type e) \<and>
     0 \<le> event_replay_count e \<and> 0 < event_attempts e \<and>
     (case event_last_error e of None \<Rightarrow> False | Some error \<Rightarrow> evidence_text_ok 4000 error)"

definition replay_row_update :: "Timestamp \<Rightarrow> int \<Rightarrow> OutboxEvent \<Rightarrow> OutboxEvent" where
  "replay_row_update replayed_at generation e =
     e\<lparr>event_available_at := replayed_at, event_attempts := 0, event_last_error := None,
       event_dead_lettered_at := None, event_replay_count := generation,
       event_claimed_at := None, event_claimed_by := None, event_lease_expires_at := None\<rparr>"

definition replay_dead_letter ::
  "bool \<Rightarrow> Timestamp \<Rightarrow> TenantId \<Rightarrow> int \<Rightarrow> int \<Rightarrow> int \<Rightarrow> outbox_db \<Rightarrow>
   PersistenceError + bool \<times> outbox_db" where
  "replay_dead_letter is_member now tenant_id target user_id expected_replay_count db =
     (if target \<le> 0 \<or> user_id \<le> 0 \<or> expected_replay_count < 0
        then Err (InvalidInput ''dead-letter replay identity and expected generation are invalid'')
      else case filter (dead_letter_target tenant_id target expected_replay_count)
                  (outbox_events db) of
        [] \<Rightarrow> Ok (False, db)
      | e # _ \<Rightarrow>
          if event_replay_count e = i32_max then Err (Database ''integer out of range'')
          else if \<not> is_member then Err (Database
            ''outbox dead-letter replay actor is not an active tenant member'')
          else if \<not> evidence_ok e then Err (Database ''outbox_dead_letter_replays check'')
          else if list_ex (\<lambda>r. replay_tenant_id r = tenant_id \<and> replay_event_id r = target \<and>
              replay_resulting_count r = event_replay_count e + 1) (outbox_replays db)
            then Err (Database ''outbox_dead_letter_replays_event_generation_unique'')
          else
            let changed = (\<lambda>e. event_tenant_id e = tenant_id \<and> event_id e = target \<and>
                  event_replay_count e = expected_replay_count)
            in if length (filter changed (outbox_events db)) \<noteq> 1
                 then Err (Conflict ''outbox dead-letter replay target changed'')
               else Ok (True,
                 db\<lparr>outbox_events := update_where changed
                      (replay_row_update now (event_replay_count e + 1)) (outbox_events db),
                    outbox_replays := outbox_replays db @
                      [\<lparr>replay_tenant_id = tenant_id, replay_event_id = target,
                        replay_previous_count = event_replay_count e,
                        replay_resulting_count = event_replay_count e + 1,
                        replay_previous_attempts = event_attempts e,
                        replay_last_error = event_last_error e,
                        replay_user_id = user_id, replay_at = now\<rparr>]\<rparr>))"

definition discard_row_update :: "Timestamp \<Rightarrow> rust_string \<Rightarrow> int \<Rightarrow> OutboxEvent \<Rightarrow> OutboxEvent" where
  "discard_row_update discarded_at reason user_id e =
     e\<lparr>event_discarded_at := Some discarded_at, event_discard_reason := Some reason,
       event_discarded_by_user_id := Some user_id\<rparr>"

definition discard_dead_letter ::
  "bool \<Rightarrow> Timestamp \<Rightarrow> TenantId \<Rightarrow> int \<Rightarrow> int \<Rightarrow> int \<Rightarrow> rust_string \<Rightarrow> outbox_db \<Rightarrow>
   PersistenceError + bool \<times> outbox_db" where
  "discard_dead_letter is_member now tenant_id target user_id expected_replay_count reason db =
     and_then (outbox_bounded_text reason ''discard reason'' 1000) (\<lambda>_.
     if trim reason \<noteq> reason \<or> list_ex is_control reason
       then Err (InvalidInput ''discard reason must be trimmed and control-free'')
     else if target \<le> 0 \<or> user_id \<le> 0 \<or> expected_replay_count < 0
       then Err (InvalidInput ''dead-letter discard identity and expected generation are invalid'')
     else case filter (dead_letter_target tenant_id target expected_replay_count)
                 (outbox_events db) of
        [] \<Rightarrow> Ok (False, db)
      | e # _ \<Rightarrow>
          if \<not> is_member then Err (Database
            ''outbox dead-letter discard actor is not an active tenant member'')
          else if \<not> evidence_ok e then Err (Database ''outbox_dead_letter_discards check'')
          else if list_ex (\<lambda>r. discard_tenant_id r = tenant_id \<and> discard_event_id r = target)
              (outbox_discards db)
            then Err (Database ''outbox_dead_letter_discards_event_unique'')
          else
            let changed = (\<lambda>e. event_tenant_id e = tenant_id \<and> event_id e = target \<and>
                  event_replay_count e = expected_replay_count)
            in if length (filter changed (outbox_events db)) \<noteq> 1
                 then Err (Conflict ''outbox dead-letter discard target changed'')
               else Ok (True,
                 db\<lparr>outbox_events := update_where changed
                      (discard_row_update now reason user_id) (outbox_events db),
                    outbox_discards := outbox_discards db @
                      [\<lparr>discard_tenant_id = tenant_id, discard_event_id = target,
                        discard_replay_count = event_replay_count e,
                        discard_previous_attempts = event_attempts e,
                        discard_last_error = event_last_error e,
                        discard_row_reason = reason, discard_user_id = user_id,
                        discard_at = now\<rparr>]\<rparr>))"

subsection \<open>Purging\<close>

definition settled_at :: "OutboxEvent \<Rightarrow> Timestamp option" where
  "settled_at e = (case event_published_at e of Some t \<Rightarrow> Some t | None \<Rightarrow> event_discarded_at e)"

definition compare_settled :: "OutboxEvent \<Rightarrow> OutboxEvent \<Rightarrow> ordering" where
  "compare_settled a b =
     then_with (cmp_int (the (settled_at a)) (the (settled_at b)))
       (cmp_int (event_id a) (event_id b))"

definition purge_published ::
  "int list \<Rightarrow> Timestamp \<Rightarrow> TenantId \<Rightarrow> int \<Rightarrow> int \<Rightarrow> outbox_db \<Rightarrow>
   PersistenceError + nat \<times> outbox_db" where
  "purge_published locked now tenant_id retention_seconds batch_size db =
     (if retention_seconds < 0
        then Err (InvalidInput ''outbox retention period cannot be negative'')
      else if \<not> (1 \<le> batch_size \<and> batch_size \<le> 10000)
        then Err (InvalidInput ''outbox purge batch size must be between 1 and 10000'')
      else
        let expired = take (nat batch_size) (sort_by compare_settled
              (filter (\<lambda>e. event_tenant_id e = tenant_id \<and>
                 (case settled_at e of None \<Rightarrow> False
                   | Some t \<Rightarrow> t \<le> now - retention_seconds * SECOND) \<and>
                 event_id e \<notin> set locked) (outbox_events db)));
            doomed = (\<lambda>e. event_tenant_id e = tenant_id \<and> event_id e \<in> set (map event_id expired))
        in Ok (length (filter doomed (outbox_events db)),
             db\<lparr>outbox_events := filter (\<lambda>e. \<not> doomed e) (outbox_events db)\<rparr>))"

subsection \<open>Histories\<close>

text \<open>
  The committed transactions of any number of workers, operators and producers, in the
  order they commit, interleaved with the passage of time. A transaction that fails rolls
  back and is no step.
\<close>

inductive outbox_step :: "Timestamp \<times> outbox_db \<Rightarrow> Timestamp \<times> outbox_db \<Rightarrow> bool" where
  tick: "now \<le> now' \<Longrightarrow> outbox_step (now, db) (now', db)"
| enqueued: "enqueue is_object references_exist tx now event db = Inr (new_id, tx', db') \<Longrightarrow>
    outbox_step (now, db) (now, db')"
| claimed: "claim_events locked now tenant_id worker_id publisher_name batch_size lease_seconds db
      = Inr (events, db') \<Longrightarrow> outbox_step (now, db) (now, db')"
| published: "mark_published now tenant_id target worker_id claim_version db = Inr (b, db') \<Longrightarrow>
    outbox_step (now, db) (now, db')"
| failed: "mark_failed now failure db = Inr (b, db') \<Longrightarrow> outbox_step (now, db) (now, db')"
| replayed: "replay_dead_letter is_member now tenant_id target user_id expected db = Inr (b, db') \<Longrightarrow>
    outbox_step (now, db) (now, db')"
| discarded: "discard_dead_letter is_member now tenant_id target user_id expected reason db
      = Inr (b, db') \<Longrightarrow> outbox_step (now, db) (now, db')"
| purged: "purge_published locked now tenant_id retention_seconds batch_size db = Inr (n, db') \<Longrightarrow>
    outbox_step (now, db) (now, db')"

definition outbox_reachable :: "Timestamp \<times> outbox_db \<Rightarrow> bool" where
  "outbox_reachable s \<longleftrightarrow> (\<exists>start. outbox_step\<^sup>*\<^sup>* (start, outbox_empty) s)"

section \<open>Lemmas\<close>

lemma set_update_where:
  "x \<in> set (update_where P f rows) \<longleftrightarrow> (\<exists>e\<in>set rows. x = (if P e then f e else e))"
  by (auto simp: update_where_def)

lemma ball_update_where:
  "(\<forall>x\<in>set (update_where P f rows). Q x) \<longleftrightarrow> (\<forall>e\<in>set rows. Q (if P e then f e else e))"
  by (auto simp: update_where_def)

lemma map_update_where:
  "(\<And>e. e \<in> set rows \<Longrightarrow> P e \<Longrightarrow> h (f e) = h e) \<Longrightarrow> map h (update_where P f rows) = map h rows"
  by (auto simp: update_where_def)

lemma update_where_none: "(\<And>e. e \<in> set rows \<Longrightarrow> \<not> P e) \<Longrightarrow> update_where P f rows = rows"
  by (simp add: update_where_def map_idI)

text \<open>Rows found by a primary key: a match is the only one.\<close>

lemma filter_by_key:
  "distinct (map event_id rows) \<Longrightarrow> (\<And>x. P x \<Longrightarrow> event_id x = k) \<Longrightarrow> e \<in> set rows \<Longrightarrow> P e \<Longrightarrow>
     filter P rows = [e]"
proof (induction rows)
  case (Cons x rows)
  show ?case
  proof (cases "P x")
    case True
    have "\<not> P y" if "y \<in> set rows" for y
      using Cons.prems(1,2) True that by (force simp: image_iff)
    then have "filter P rows = []" by (simp add: filter_empty_conv)
    moreover have "e = x" using Cons.prems(3,4) \<open>\<And>y. y \<in> set rows \<Longrightarrow> \<not> P y\<close> by auto
    ultimately show ?thesis using True by simp
  next
    case False
    with Cons show ?thesis by auto
  qed
qed simp

lemma required_text_Inr_iff [simp]: "required_text v label = Inr u \<longleftrightarrow> trim v \<noteq> []"
  by (simp add: required_text_def)

lemma outbox_bounded_text_Inr_iff [simp]:
  "outbox_bounded_text v label n = Inr u \<longleftrightarrow> trim v \<noteq> [] \<and> length v \<le> n"
  by (auto simp: outbox_bounded_text_def result_simps)

lemma collect_results_Inr_iff:
  "collect_results rs = Inr xs \<longleftrightarrow> rs = map Inr xs"
  by (induction rs arbitrary: xs) (auto simp: result_simps Cons_eq_map_conv)

text \<open>What a settlement commits: the rows its claim holds, and one journal entry.\<close>

lemma mark_published_Inr:
  assumes "mark_published now tenant_id target w v db = Inr (b, db')"
  shows "b \<longleftrightarrow> length (filter (holds_claim now tenant_id target w v) (outbox_events db)) = 1"
    "db' = snd (record_delivery_result now (publish_record tenant_id target w v b)
      (db\<lparr>outbox_events := update_where (holds_claim now tenant_id target w v) (publish_row now)
        (outbox_events db)\<rparr>))"
  using assms by (auto simp: mark_published_def Let_def result_simps split: prod.splits if_splits)

lemma mark_failed_Inr:
  assumes "mark_failed now failure db = Inr (b, db')"
  shows "trim (fail_error failure) \<noteq> []" "length (fail_error failure) \<le> 4000"
    "b \<longleftrightarrow> failure_attempts now failure (outbox_events db) \<noteq> None"
    "db' = snd (record_delivery_result now
      (failure_record failure (failure_attempts now failure (outbox_events db)))
      (db\<lparr>outbox_events := update_where (holds_claim now (fail_tenant_id failure)
        (fail_event_id failure) (fail_worker_id failure) (fail_claim_version failure))
        (fail_row now failure) (outbox_events db)\<rparr>))"
  using assms by (auto simp: mark_failed_def Let_def result_simps split: prod.splits if_splits)

end
