(* ===== verification/Outbox_Invariant.thy ===== *)
theory Outbox_Invariant
  imports Outbox_Store
begin

text \<open>
  The invariant of the outbox: the check and unique constraints of the schema hold of every
  row, sequences are contiguous, no event has been claimed before its predecessors are
  settled, and the delivery journal and the dead-letter evidence agree with the events. One
  lemma per transaction says that it is preserved.
\<close>

section \<open>Definitions\<close>

text \<open>
  The check constraints of \<open>outbox\_events\<close> and what the operations add to them: the lease
  columns are set together and only on a live event that counts an attempt; settlement and
  dead-lettering exclude each other and a lease; the counters stay in range.
\<close>

definition lease_columns_ok :: "OutboxEvent \<Rightarrow> bool" where
  "lease_columns_ok e = (case event_claimed_by e of
     None \<Rightarrow> event_claimed_at e = None \<and> event_lease_expires_at e = None
   | Some w \<Rightarrow> event_claimed_at e \<noteq> None \<and> event_lease_expires_at e \<noteq> None \<and>
       0 < event_attempts e \<and> 0 < event_claim_version e \<and>
       event_dead_lettered_at e = None \<and> event_discarded_at e = None \<and>
       event_published_at e = None)"

definition settlement_columns_ok :: "OutboxEvent \<Rightarrow> bool" where
  "settlement_columns_ok e \<longleftrightarrow>
     (event_published_at e \<noteq> None \<longrightarrow> event_last_error e = None \<and>
        event_dead_lettered_at e = None \<and> event_discarded_at e = None \<and> 0 < event_claim_version e) \<and>
     (event_dead_lettered_at e \<noteq> None \<longrightarrow> 0 < event_attempts e \<and> 0 < event_claim_version e \<and>
        event_last_error e \<noteq> None) \<and>
     (event_discarded_at e \<noteq> None \<longrightarrow> event_dead_lettered_at e \<noteq> None)"

definition discard_columns_ok :: "OutboxEvent \<Rightarrow> bool" where
  "discard_columns_ok e = (case event_discarded_at e of
     None \<Rightarrow> event_discard_reason e = None \<and> event_discarded_by_user_id e = None
   | Some t \<Rightarrow> event_discard_reason e \<noteq> None \<and> event_discarded_by_user_id e \<noteq> None)"

definition counters_ok :: "OutboxEvent \<Rightarrow> bool" where
  "counters_ok e \<longleftrightarrow> 0 \<le> event_claim_version e \<and> 0 \<le> event_attempts e \<and>
     0 \<le> event_replay_count e \<and> 0 < event_aggregate_sequence e \<and>
     (case event_last_error e of None \<Rightarrow> True | Some error \<Rightarrow> evidence_text_ok 4000 error)"

definition event_row_ok :: "OutboxEvent \<Rightarrow> bool" where
  "event_row_ok e \<longleftrightarrow> lease_columns_ok e \<and> settlement_columns_ok e \<and> discard_columns_ok e \<and>
     counters_ok e"

definition event_identity :: "OutboxEvent \<Rightarrow> int \<times> TenantId \<times> rust_string \<times> rust_string \<times> int" where
  "event_identity e = (event_id e, event_tenant_id e, event_key e, event_ordering_key e,
     event_aggregate_sequence e)"

definition keys_ok :: "outbox_db \<Rightarrow> bool" where
  "keys_ok db \<longleftrightarrow>
     0 < outbox_next_id db \<and>
     distinct (map event_id (outbox_events db)) \<and>
     distinct (map (\<lambda>e. (event_tenant_id e, event_key e)) (outbox_events db)) \<and>
     distinct (map (\<lambda>e. (event_tenant_id e, event_ordering_key e, event_aggregate_sequence e))
       (outbox_events db)) \<and>
     (\<forall>k n. outbox_sequences db k = Some n \<longrightarrow> 0 < n \<and> in_i64 n) \<and>
     (\<forall>e\<in>set (outbox_events db). 0 < event_id e \<and> event_id e < outbox_next_id db \<and>
        (event_tenant_id e, event_key e) \<in> set (outbox_event_keys db) \<and>
        (\<exists>n. outbox_sequences db (event_tenant_id e, event_ordering_key e) = Some n \<and>
           event_aggregate_sequence e \<le> n))"

text \<open>No event is claimed before every predecessor on its ordering key is settled.\<close>

definition in_order :: "OutboxEvent list \<Rightarrow> bool" where
  "in_order rows \<longleftrightarrow> (\<forall>p\<in>set rows. \<forall>e\<in>set rows.
     precedes p e \<and> 0 < event_claim_version e \<longrightarrow> event_settled p)"

definition attempt_for :: "OutboxEvent \<Rightarrow> attempt_row \<Rightarrow> bool" where
  "attempt_for e a \<longleftrightarrow> attempt_tenant_id a = event_tenant_id e \<and> attempt_event_id a = event_id e"

definition result_for :: "OutboxEvent \<Rightarrow> attempt_result_row \<Rightarrow> bool" where
  "result_for e r \<longleftrightarrow> result_tenant_id r = event_tenant_id e \<and> result_event_id r = event_id e"

definition attempt_pk :: "attempt_row \<Rightarrow> TenantId \<times> int \<times> int" where
  "attempt_pk a = (attempt_tenant_id a, attempt_event_id a, attempt_claim_version a)"

definition result_pk :: "attempt_result_row \<Rightarrow> TenantId \<times> int \<times> int" where
  "result_pk r = (result_tenant_id r, result_event_id r, result_claim_version r)"

definition attempts_ok :: "outbox_db \<Rightarrow> bool" where
  "attempts_ok db \<longleftrightarrow>
     distinct (map attempt_pk (outbox_attempts db)) \<and>
     (\<forall>a\<in>set (outbox_attempts db). attempt_event_id a < outbox_next_id db \<and>
        (attempt_tenant_id a, attempt_event_key a) \<in> set (outbox_event_keys db))"

definition results_ok :: "Timestamp \<Rightarrow> outbox_db \<Rightarrow> bool" where
  "results_ok now db \<longleftrightarrow>
     distinct (map result_pk (outbox_results db)) \<and>
     (\<forall>r\<in>set (outbox_results db). result_completed_at r \<le> now \<and>
        result_pk r \<in> attempt_pk ` set (outbox_attempts db)) \<and>
     distinct (map (\<lambda>r. (result_tenant_id r, result_event_id r))
       (filter (\<lambda>r. result_outcome r = ''published'') (outbox_results db)))"

definition evidence_rows_ok :: "outbox_db \<Rightarrow> bool" where
  "evidence_rows_ok db \<longleftrightarrow>
     (\<forall>r\<in>set (outbox_replays db). replay_event_id r < outbox_next_id db) \<and>
     (\<forall>d\<in>set (outbox_discards db). discard_event_id d < outbox_next_id db)"

text \<open>How the journals agree with one event.\<close>

definition event_attempts_ok :: "attempt_row list \<Rightarrow> OutboxEvent \<Rightarrow> bool" where
  "event_attempts_ok attempts e \<longleftrightarrow>
     (\<forall>a\<in>set attempts. attempt_tenant_id a = event_tenant_id e \<longrightarrow>
        (attempt_event_key a = event_key e \<longleftrightarrow> attempt_event_id a = event_id e)) \<and>
     (\<forall>a\<in>set attempts. attempt_for e a \<longrightarrow>
        attempt_claim_version a \<le> event_claim_version e \<and>
        (attempt_replay_count a < event_replay_count e \<or>
         attempt_replay_count a = event_replay_count e \<and> attempt_number a \<le> event_attempts e)) \<and>
     (\<forall>w. event_claimed_by e = Some w \<longrightarrow>
        (\<exists>a\<in>set attempts. attempt_for e a \<and> attempt_worker_id a = w \<and>
           attempt_claim_version a = event_claim_version e))"

definition event_results_ok :: "attempt_result_row list \<Rightarrow> OutboxEvent \<Rightarrow> bool" where
  "event_results_ok results e \<longleftrightarrow>
     (\<forall>r\<in>set results. result_for e r \<longrightarrow>
        (\<forall>t. result_claim_version r = event_claim_version e \<longrightarrow>
           event_lease_expires_at e = Some t \<longrightarrow> t \<le> result_completed_at r) \<and>
        (result_outcome r = ''published'' \<longrightarrow> event_published_at e \<noteq> None))"

definition event_evidence_ok :: "replay_row list \<Rightarrow> discard_row list \<Rightarrow> OutboxEvent \<Rightarrow> bool" where
  "event_evidence_ok replays discards e \<longleftrightarrow>
     (\<forall>r\<in>set replays. replay_event_id r = event_id e \<longrightarrow>
        replay_resulting_count r \<le> event_replay_count e) \<and>
     (\<forall>d\<in>set discards. discard_event_id d = event_id e \<longrightarrow> event_discarded_at e \<noteq> None)"

definition event_ok :: "outbox_db \<Rightarrow> OutboxEvent \<Rightarrow> bool" where
  "event_ok db e \<longleftrightarrow>
     event_row_ok e \<and> event_attempts_ok (outbox_attempts db) e \<and>
     event_results_ok (outbox_results db) e \<and>
     event_evidence_ok (outbox_replays db) (outbox_discards db) e"

definition outbox_inv :: "Timestamp \<times> outbox_db \<Rightarrow> bool" where
  "outbox_inv s = (case s of (now, db) \<Rightarrow>
     (\<forall>e\<in>set (outbox_events db). event_ok db e) \<and> keys_ok db \<and> in_order (outbox_events db) \<and>
     attempts_ok db \<and> results_ok now db \<and> evidence_rows_ok db)"

text \<open>Changing one event: its journals still agree when its history only moves forward.\<close>

definition event_advances :: "OutboxEvent \<Rightarrow> OutboxEvent \<Rightarrow> bool" where
  "event_advances e e' \<longleftrightarrow>
     event_identity e' = event_identity e \<and> event_claim_version e' = event_claim_version e \<and>
     (event_replay_count e < event_replay_count e' \<or>
      event_replay_count e = event_replay_count e' \<and> event_attempts e \<le> event_attempts e') \<and>
     (event_claimed_by e' = None \<or> event_claimed_by e' = event_claimed_by e) \<and>
     (event_lease_expires_at e' = None \<or> event_lease_expires_at e' = event_lease_expires_at e) \<and>
     (event_published_at e \<noteq> None \<longrightarrow> event_published_at e' \<noteq> None) \<and>
     (event_discarded_at e \<noteq> None \<longrightarrow> event_discarded_at e' \<noteq> None)"

text \<open>The journal entries of a claim, and what they say of one event.\<close>

definition claim_journal ::
  "rust_string \<Rightarrow> (OutboxEvent \<Rightarrow> OutboxEvent) \<Rightarrow> OutboxEvent list \<Rightarrow> OutboxEvent list \<Rightarrow> attempt_row list" where
  "claim_journal publisher_name f C rows =
     map (\<lambda>e. attempt_of publisher_name (f e)) (filter (\<lambda>e. event_id e \<in> event_id ` set C) rows)"

section \<open>Lemmas\<close>

lemmas row_ok_defs = event_row_ok_def lease_columns_ok_def settlement_columns_ok_def
  discard_columns_ok_def counters_ok_def

subsection \<open>How an update of rows keeps each clause\<close>

lemma keys_ok_same_identity:
  assumes "keys_ok db"
    and "map event_identity (outbox_events db') = map event_identity (outbox_events db)"
    and "outbox_next_id db' = outbox_next_id db" "outbox_event_keys db' = outbox_event_keys db"
    and "outbox_sequences db' = outbox_sequences db"
  shows "keys_ok db'"
proof -
  have transfer: "map (\<lambda>e. h (event_identity e)) (outbox_events db') =
      map (\<lambda>e. h (event_identity e)) (outbox_events db)" for h :: "_ \<Rightarrow> 'z"
    using arg_cong [OF assms(2), of "map h"] by (simp add: comp_def)
  have ids: "map event_id (outbox_events db') = map event_id (outbox_events db)"
    using transfer [of fst] by (simp add: event_identity_def)
  have keys: "map (\<lambda>e. (event_tenant_id e, event_key e)) (outbox_events db') =
      map (\<lambda>e. (event_tenant_id e, event_key e)) (outbox_events db)"
    using transfer [of "\<lambda>(i, t, k, g, n). (t, k)"] by (simp add: event_identity_def)
  have seqs: "map (\<lambda>e. (event_tenant_id e, event_ordering_key e, event_aggregate_sequence e))
        (outbox_events db') =
      map (\<lambda>e. (event_tenant_id e, event_ordering_key e, event_aggregate_sequence e))
        (outbox_events db)"
    using transfer [of "\<lambda>(i, t, k, g, n). (t, g, n)"] by (simp add: event_identity_def)
  have "\<exists>x\<in>set (outbox_events db). event_identity x = event_identity e"
    if "e \<in> set (outbox_events db')" for e
    using arg_cong [OF assms(2), of set] that by (metis image_iff image_set)
  with assms(1) show ?thesis
    unfolding keys_ok_def ids keys seqs assms(3-5) by (fastforce simp: event_identity_def)
qed

lemma in_order_update:
  assumes "in_order rows"
    and "\<And>e. e \<in> set rows \<Longrightarrow> P e \<Longrightarrow> event_identity (f e) = event_identity e"
    and "\<And>e. e \<in> set rows \<Longrightarrow> P e \<Longrightarrow> event_settled e \<Longrightarrow> event_settled (f e)"
    and "\<And>e p. e \<in> set rows \<Longrightarrow> P e \<Longrightarrow> 0 < event_claim_version (f e) \<Longrightarrow>
      p \<in> set rows \<Longrightarrow> precedes p e \<Longrightarrow> event_settled p"
  shows "in_order (update_where P f rows)"
proof -
  let ?g = "\<lambda>e. if P e then f e else e"
  have id: "precedes (?g p) (?g e) \<longleftrightarrow> precedes p e" if "p \<in> set rows" "e \<in> set rows" for p e
    using assms(2) [OF that(1)] assms(2) [OF that(2)]
    by (auto simp: precedes_def event_identity_def)
  have "event_settled (?g p)"
    if p: "p \<in> set rows" and e: "e \<in> set rows" and pe: "precedes (?g p) (?g e)"
      and v: "0 < event_claim_version (?g e)" for p e
  proof -
    have pre: "precedes p e" using pe id [OF p e] by simp
    have "event_settled p"
    proof (cases "P e")
      case True
      with v show ?thesis using assms(4) [OF e _ _ p pre] by simp
    next
      case False
      with v pre p e assms(1) show ?thesis unfolding in_order_def by auto
    qed
    then show ?thesis using assms(3) [OF p] by simp
  qed
  then show ?thesis unfolding in_order_def by (auto simp: set_update_where)
qed

lemma event_advances_identity:
  "event_advances e e' \<Longrightarrow> event_id e' = event_id e \<and> event_tenant_id e' = event_tenant_id e \<and>
     event_key e' = event_key e \<and> event_ordering_key e' = event_ordering_key e \<and>
     event_aggregate_sequence e' = event_aggregate_sequence e"
  by (simp add: event_advances_def event_identity_def)

lemma event_attempts_ok_advances:
  assumes "event_advances e e'" "event_attempts_ok attempts e"
  shows "event_attempts_ok attempts e'"
proof -
  note same = event_advances_identity [OF assms(1)]
  have "attempt_for e' = attempt_for e" using same by (simp add: attempt_for_def fun_eq_iff)
  then show ?thesis
    using assms same unfolding event_attempts_ok_def event_advances_def
    by (elim conjE disjE; intro conjI ballI allI impI) auto
qed

lemma event_results_ok_advances:
  assumes "event_advances e e'" "event_results_ok results e"
  shows "event_results_ok results e'"
proof -
  have "result_for e' = result_for e"
    using event_advances_identity [OF assms(1)] by (simp add: result_for_def fun_eq_iff)
  then show ?thesis
    using assms unfolding event_results_ok_def event_advances_def by auto
qed

lemma event_evidence_ok_advances:
  assumes "event_advances e e'" "event_evidence_ok replays discards e"
  shows "event_evidence_ok replays discards e'"
  using assms event_advances_identity [OF assms(1)]
  unfolding event_evidence_ok_def event_advances_def by fastforce

lemma event_ok_advances:
  "event_advances e e' \<Longrightarrow> event_ok db e \<Longrightarrow> event_row_ok e' \<Longrightarrow> event_ok db e'"
  unfolding event_ok_def
  using event_attempts_ok_advances event_results_ok_advances event_evidence_ok_advances by blast

text \<open>An update whose rows only move forward keeps the invariant.\<close>

lemma inv_update:
  assumes inv: "outbox_inv (now, db)"
    and adv: "\<And>e. e \<in> set (outbox_events db) \<Longrightarrow> P e \<Longrightarrow> event_advances e (f e) \<and> event_row_ok (f e)"
  shows "outbox_inv (now, db\<lparr>outbox_events := update_where P f (outbox_events db)\<rparr>)"
proof -
  let ?db = "db\<lparr>outbox_events := update_where P f (outbox_events db)\<rparr>"
  have ev: "\<forall>e\<in>set (outbox_events db). event_ok db e" and keys: "keys_ok db"
    and order: "in_order (outbox_events db)"
    and rest: "attempts_ok db" "results_ok now db" "evidence_rows_ok db"
    using inv by (auto simp: outbox_inv_def)
  have "event_ok db (if P e then f e else e)" if "e \<in> set (outbox_events db)" for e
    using ev that adv [OF that] event_ok_advances by auto
  then have "\<forall>e\<in>set (outbox_events ?db). event_ok ?db e"
    by (simp add: ball_update_where event_ok_def)
  moreover have "keys_ok ?db"
    by (rule keys_ok_same_identity [OF keys])
      (auto intro!: map_update_where dest: adv simp: event_advances_def)
  moreover have "in_order (outbox_events ?db)"
  proof -
    have "in_order (update_where P f (outbox_events db))"
    proof (rule in_order_update [OF order])
      fix e p
      assume e: "e \<in> set (outbox_events db)" "P e" and v: "0 < event_claim_version (f e)"
        and p: "p \<in> set (outbox_events db)" "precedes p e"
      from v adv [OF e] have "0 < event_claim_version e" by (simp add: event_advances_def)
      with order e p show "event_settled p" by (auto simp: in_order_def)
    qed (use adv in \<open>auto simp: event_advances_def event_settled_def\<close>)
    then show ?thesis by simp
  qed
  ultimately show ?thesis
    using rest by (simp add: outbox_inv_def attempts_ok_def results_ok_def evidence_rows_ok_def)
qed

subsection \<open>Recording a delivery result\<close>

text \<open>The attempts a result refers to, and whether it has been recorded before.\<close>

lemma record_result_cases:
  obtains (kept) "record_delivery_result now r db = (0, db)"
      "(\<forall>a\<in>set (outbox_attempts db). \<not> (attempt_pk a = (rec_tenant_id r, rec_event_id r, rec_claim_version r)
          \<and> attempt_worker_id a = rec_worker_id r)) \<or>
       (rec_tenant_id r, rec_event_id r, rec_claim_version r) \<in> result_pk ` set (outbox_results db)"
    | (added) a q where "a \<in> set (outbox_attempts db)"
      "attempt_pk a = (rec_tenant_id r, rec_event_id r, rec_claim_version r)"
      "attempt_worker_id a = rec_worker_id r"
      "result_pk q = attempt_pk a" "result_completed_at q = now" "result_outcome q = rec_outcome r"
      "result_pk q \<notin> result_pk ` set (outbox_results db)"
      "record_delivery_result now r db = (1, db\<lparr>outbox_results := outbox_results db @ [q]\<rparr>)"
proof -
  let ?M = "\<lambda>a. attempt_tenant_id a = rec_tenant_id r \<and> attempt_event_id a = rec_event_id r \<and>
    attempt_worker_id a = rec_worker_id r \<and> attempt_claim_version a = rec_claim_version r"
  let ?T = "list_ex (\<lambda>q. result_tenant_id q = rec_tenant_id r \<and>
    result_event_id q = rec_event_id r \<and> result_claim_version q = rec_claim_version r)
    (outbox_results db)"
  have taken: "?T \<longleftrightarrow>
      (rec_tenant_id r, rec_event_id r, rec_claim_version r) \<in> result_pk ` set (outbox_results db)"
    unfolding list_ex_iff image_iff result_pk_def prod.inject by metis
  show thesis
  proof (cases "?T \<or> filter ?M (outbox_attempts db) = []")
    case True
    then have "record_delivery_result now r db = (0, db)"
      by (auto simp: record_delivery_result_def)
    moreover have "(\<forall>a\<in>set (outbox_attempts db).
        \<not> (attempt_pk a = (rec_tenant_id r, rec_event_id r, rec_claim_version r)
          \<and> attempt_worker_id a = rec_worker_id r)) \<or>
       (rec_tenant_id r, rec_event_id r, rec_claim_version r) \<in> result_pk ` set (outbox_results db)"
      using True taken by (auto simp: filter_empty_conv attempt_pk_def)
    ultimately show thesis by (rule kept)
  next
    case False
    then obtain a rest where m: "filter ?M (outbox_attempts db) = a # rest"
      by (cases "filter ?M (outbox_attempts db)") auto
    then have "a \<in> set (filter ?M (outbox_attempts db))" by simp
    then have a: "a \<in> set (outbox_attempts db)" "?M a" by simp_all
    let ?q = "\<lparr>result_tenant_id = attempt_tenant_id a, result_event_id = attempt_event_id a,
      result_claim_version = attempt_claim_version a, result_outcome = rec_outcome r,
      result_completed_at = now, result_error = rec_error r,
      result_retry_after_seconds = rec_retry_after_seconds r\<rparr>"
    have "record_delivery_result now r db = (1, db\<lparr>outbox_results := outbox_results db @ [?q]\<rparr>)"
      using False m by (simp add: record_delivery_result_def)
    then show thesis
      using a False taken by (intro added [of a ?q]) (auto simp: attempt_pk_def result_pk_def)
  qed
qed

lemma inv_record_result:
  assumes inv: "outbox_inv (now, db)"
    and expired: "\<And>a e t. a \<in> set (outbox_attempts db) \<Longrightarrow> e \<in> set (outbox_events db) \<Longrightarrow>
      attempt_for e a \<Longrightarrow> attempt_pk a = (rec_tenant_id r, rec_event_id r, rec_claim_version r) \<Longrightarrow>
      attempt_worker_id a = rec_worker_id r \<Longrightarrow>
      attempt_claim_version a = event_claim_version e \<Longrightarrow> event_lease_expires_at e = Some t \<Longrightarrow> t \<le> now"
    and published: "\<And>e. rec_outcome r = ''published'' \<Longrightarrow> e \<in> set (outbox_events db) \<Longrightarrow>
      event_tenant_id e = rec_tenant_id r \<Longrightarrow> event_id e = rec_event_id r \<Longrightarrow> event_published_at e \<noteq> None"
    and first: "\<And>q. rec_outcome r = ''published'' \<Longrightarrow> q \<in> set (outbox_results db) \<Longrightarrow>
      result_tenant_id q = rec_tenant_id r \<Longrightarrow> result_event_id q = rec_event_id r \<Longrightarrow>
      result_outcome q \<noteq> ''published''"
  shows "outbox_inv (now, snd (record_delivery_result now r db))"
proof (cases rule: record_result_cases [of now r db])
  case kept
  with inv show ?thesis by simp
next
  case (added a q)
  have pk: "result_tenant_id q = rec_tenant_id r" "result_event_id q = rec_event_id r"
    "result_claim_version q = rec_claim_version r"
    "attempt_tenant_id a = rec_tenant_id r" "attempt_event_id a = rec_event_id r"
    "attempt_claim_version a = rec_claim_version r"
    using added(2,4) by (simp_all add: result_pk_def attempt_pk_def)
  have "event_ok (db\<lparr>outbox_results := outbox_results db @ [q]\<rparr>) e"
    if e: "e \<in> set (outbox_events db)" for e
  proof -
    have "event_ok db e" using inv e by (simp add: outbox_inv_def)
    moreover have "t \<le> now" if "result_for e q" "result_claim_version q = event_claim_version e"
      "event_lease_expires_at e = Some t" for t
      using expired [OF added(1) e _ added(2,3)] that pk by (simp add: attempt_for_def result_for_def)
    moreover have "event_published_at e \<noteq> None" if "result_for e q" "result_outcome q = ''published''"
      using published [OF _ e] that pk added(6) by (simp add: result_for_def)
    ultimately show ?thesis using added(5) by (auto simp: event_ok_def event_results_ok_def)
  qed
  moreover have "(rec_tenant_id r, rec_event_id r) \<notin>
      (\<lambda>r. (result_tenant_id r, result_event_id r)) `
        {q \<in> set (outbox_results db). result_outcome q = ''published''}"
    if "rec_outcome r = ''published''"
    using first [OF that] by auto
  then have "results_ok now (db\<lparr>outbox_results := outbox_results db @ [q]\<rparr>)"
    using inv added(1,4,5,6,7) pk by (auto simp: results_ok_def outbox_inv_def)
  ultimately show ?thesis
    using inv added(8) by (simp add: outbox_inv_def keys_ok_def attempts_ok_def evidence_rows_ok_def)
qed

subsection \<open>Settling a claim\<close>

text \<open>A live claim has its attempt on the journal and no result yet.\<close>

lemma held_claim_recorded:
  assumes inv: "outbox_inv (now, db)" and e: "e \<in> set (outbox_events db)"
    and held: "holds_claim now tenant_id target worker_id claim_version e"
    and r: "rec_tenant_id r = tenant_id" "rec_event_id r = target" "rec_worker_id r = worker_id"
      "rec_claim_version r = claim_version"
    and db': "outbox_attempts db' = outbox_attempts db" "outbox_results db' = outbox_results db"
  shows "fst (record_delivery_result now r db') = 1"
proof (cases rule: record_result_cases [of now r db'])
  case kept
  have ok: "event_attempts_ok (outbox_attempts db) e" "event_results_ok (outbox_results db) e"
    using inv e by (auto simp: outbox_inv_def event_ok_def)
  from held have h: "event_claimed_by e = Some worker_id" "event_claim_version e = claim_version"
    "event_tenant_id e = tenant_id" "event_id e = target"
    by (auto simp: holds_claim_def)
  from held obtain t where t: "event_lease_expires_at e = Some t" "now < t"
    by (auto simp: holds_claim_def split: option.splits)
  obtain a where "a \<in> set (outbox_attempts db)" "attempt_for e a" "attempt_worker_id a = worker_id"
    "attempt_claim_version a = claim_version"
    using ok(1) h by (auto simp: event_attempts_ok_def)
  with kept(2) r h db' obtain q where q: "q \<in> set (outbox_results db)"
    "result_pk q = (tenant_id, target, claim_version)"
    by (auto simp: attempt_pk_def attempt_for_def)
  with ok(2) h t have "t \<le> result_completed_at q"
    by (auto simp: event_results_ok_def result_for_def result_pk_def)
  moreover have "result_completed_at q \<le> now"
    using inv q by (auto simp: outbox_inv_def results_ok_def)
  ultimately show ?thesis using t by simp
next
  case added
  then show ?thesis by simp
qed

lemma claimed_row_live:
  "event_row_ok e \<Longrightarrow> event_claimed_by e = Some w \<Longrightarrow>
     event_dead_lettered_at e = None \<and> event_discarded_at e = None \<and> event_published_at e = None"
  by (simp add: event_row_ok_def lease_columns_ok_def)

text \<open>When the guard fails, a claim the journal knows has expired.\<close>

lemma unheld_claim_expired:
  assumes inv: "outbox_inv (now, db)" and e: "e \<in> set (outbox_events db)"
    and a: "a \<in> set (outbox_attempts db)" "attempt_for e a"
      "attempt_claim_version a = event_claim_version e"
    and t: "event_lease_expires_at e = Some t"
    and unheld: "\<not> holds_claim now (attempt_tenant_id a) (attempt_event_id a) (attempt_worker_id a)
      (attempt_claim_version a) e"
  shows "t \<le> now"
proof -
  have ok: "event_row_ok e" "event_attempts_ok (outbox_attempts db) e"
    using inv e by (auto simp: outbox_inv_def event_ok_def)
  from ok(1) t obtain w where w: "event_claimed_by e = Some w"
    by (auto simp: row_ok_defs split: option.splits)
  with ok(2) obtain b where b: "b \<in> set (outbox_attempts db)" "attempt_for e b"
    "attempt_worker_id b = w" "attempt_claim_version b = event_claim_version e"
    by (auto simp: event_attempts_ok_def)
  have "distinct (map attempt_pk (outbox_attempts db))"
    using inv by (simp add: outbox_inv_def attempts_ok_def)
  moreover have "attempt_pk a = attempt_pk b"
    using a b by (simp add: attempt_pk_def attempt_for_def)
  ultimately have "a = b" using a(1) b(1) by (meson distinct_map inj_onD)
  moreover have "event_dead_lettered_at e = None \<and> event_discarded_at e = None \<and>
      event_published_at e = None"
    using claimed_row_live [OF ok(1)] w by simp
  ultimately have "holds_claim now (attempt_tenant_id a) (attempt_event_id a) (attempt_worker_id a)
      (attempt_claim_version a) e \<longleftrightarrow> now < t"
    using b w t by (simp add: holds_claim_def attempt_for_def)
  with unheld show ?thesis by simp
qed

lemma holds_claim_key: "holds_claim now tenant_id target worker_id claim_version e \<Longrightarrow> event_id e = target"
  by (simp add: holds_claim_def)

lemma inv_distinct: "outbox_inv (now, db) \<Longrightarrow> distinct (map event_id (outbox_events db))"
  by (simp add: outbox_inv_def keys_ok_def)

lemma inv_row_ok: "outbox_inv (now, db) \<Longrightarrow> e \<in> set (outbox_events db) \<Longrightarrow> event_row_ok e"
  by (simp add: outbox_inv_def event_ok_def)

lemma publish_row_advances:
  "event_row_ok e \<Longrightarrow> holds_claim now tenant_id target worker_id claim_version e \<Longrightarrow>
     event_advances e (publish_row now e) \<and> event_row_ok (publish_row now e)"
  by (simp add: event_advances_def event_identity_def publish_row_def holds_claim_def row_ok_defs)

text \<open>An update that ends every matching claim, followed by its journal entry.\<close>

lemma inv_settle:
  assumes inv: "outbox_inv (now, db)"
    and held: "held = holds_claim now (rec_tenant_id r) (rec_event_id r) (rec_worker_id r)
      (rec_claim_version r)"
    and adv: "\<And>e. e \<in> set (outbox_events db) \<Longrightarrow> held e \<Longrightarrow> event_advances e (f e) \<and>
      event_row_ok (f e) \<and> event_lease_expires_at (f e) = None"
    and published: "\<And>e. rec_outcome r = ''published'' \<Longrightarrow> e \<in> set (outbox_events db) \<Longrightarrow> held e \<Longrightarrow>
      event_published_at (f e) \<noteq> None"
    and exists: "rec_outcome r = ''published'' \<Longrightarrow> \<exists>e\<in>set (outbox_events db). held e"
  shows "outbox_inv (now, snd (record_delivery_result now r
    (db\<lparr>outbox_events := update_where held f (outbox_events db)\<rparr>)))"
proof (rule inv_record_result)
  let ?db = "db\<lparr>outbox_events := update_where held f (outbox_events db)\<rparr>"
  show "outbox_inv (now, ?db)" using inv adv by (intro inv_update) auto
  have key: "event_id e = rec_event_id r" if "held e" for e
    using that by (simp add: held holds_claim_def)
  have only: "held e" if pub: "rec_outcome r = ''published''" and e: "e \<in> set (outbox_events db)"
    and k: "event_id e = rec_event_id r" for e
  proof -
    obtain e' where e': "e' \<in> set (outbox_events db)" "held e'" using exists [OF pub] by blast
    then have "event_id e' = event_id e" using key k by simp
    then have "e' = e" using inv_distinct [OF inv] e'(1) e by (meson distinct_map inj_onD)
    with e' show ?thesis by simp
  qed
  show "t \<le> now" if "a \<in> set (outbox_attempts ?db)" "e \<in> set (outbox_events ?db)" "attempt_for e a"
    "attempt_pk a = (rec_tenant_id r, rec_event_id r, rec_claim_version r)"
    "attempt_worker_id a = rec_worker_id r" "attempt_claim_version a = event_claim_version e"
    "event_lease_expires_at e = Some t" for a e t
  proof -
    from that(2) obtain x where x: "x \<in> set (outbox_events db)" "e = (if held x then f x else x)"
      by (auto simp: set_update_where)
    with that(7) adv have "\<not> held x" by fastforce
    with x that show ?thesis
      using unheld_claim_expired [OF inv x(1), of a t] by (simp add: held attempt_pk_def)
  qed
  show "event_published_at e \<noteq> None" if pub: "rec_outcome r = ''published''"
    and "e \<in> set (outbox_events ?db)" "event_id e = rec_event_id r" for e
  proof -
    from that(2) obtain x where x: "x \<in> set (outbox_events db)" "e = (if held x then f x else x)"
      by (auto simp: set_update_where)
    have "event_id x = rec_event_id r"
      using x that(3) adv [OF x(1)] event_advances_identity by (auto split: if_splits)
    with only [OF pub x(1)] have "held x" by simp
    with published [OF pub x(1)] x(2) show ?thesis by simp
  qed
  show "result_outcome q \<noteq> ''published''" if pub: "rec_outcome r = ''published''"
    and "q \<in> set (outbox_results ?db)" "result_tenant_id q = rec_tenant_id r"
      "result_event_id q = rec_event_id r" for q
  proof
    assume "result_outcome q = ''published''"
    moreover obtain e where e: "e \<in> set (outbox_events db)" "held e" using exists [OF pub] by blast
    moreover have "result_for e q" using that e by (simp add: result_for_def held holds_claim_def)
    moreover have "event_results_ok (outbox_results db) e"
      using inv e by (simp add: outbox_inv_def event_ok_def)
    ultimately have "event_published_at e \<noteq> None"
      using that(2) by (simp add: event_results_ok_def)
    with e show False by (simp add: held holds_claim_def)
  qed
qed

lemma inv_mark_published:
  assumes inv: "outbox_inv (now, db)"
    and mark: "mark_published now tenant_id target w v db = Inr (b, db')"
  shows "outbox_inv (now, db')"
  unfolding mark_published_Inr(2) [OF mark]
proof (rule inv_settle [OF inv])
  show "\<exists>e\<in>set (outbox_events db). holds_claim now tenant_id target w v e"
    if "rec_outcome (publish_record tenant_id target w v b) = ''published''"
    using that mark_published_Inr(1) [OF mark]
    by (auto simp: publish_record_def length_Suc_conv filter_eq_Cons_iff split: if_splits)
qed (use inv_row_ok [OF inv] publish_row_advances in \<open>auto simp: publish_record_def publish_row_def\<close>)

lemma length_trim_le: "length (trim v) \<le> length v"
  unfolding trim_def length_rev
  by (metis length_dropWhile_le length_rev order_trans)

lemma btrim_trim: "btrim (trim v) = trim v"
proof (cases "trim v = []")
  case True
  then show ?thesis by (simp add: btrim_def)
next
  case False
  then have "\<not> is_whitespace (hd (trim v))" "\<not> is_whitespace (last (trim v))"
    using trim_eq_iff [of "trim v"] by auto
  then have "hd (trim v) \<noteq> 32" "last (trim v) \<noteq> 32"
    by (auto simp: is_whitespace_def)
  with False have "dropWhile (\<lambda>c. c = 32) (trim v) = trim v"
    "dropWhile (\<lambda>c. c = 32) (rev (trim v)) = rev (trim v)"
    unfolding dropWhile_eq_self_iff by (simp_all add: hd_rev)
  then show ?thesis by (simp add: btrim_def)
qed

lemma fail_row_advances:
  "event_row_ok e \<Longrightarrow> holds_claim now tenant_id target worker_id claim_version e \<Longrightarrow>
     trim (fail_error failure) \<noteq> [] \<Longrightarrow> length (fail_error failure) \<le> 4000 \<Longrightarrow>
     event_advances e (fail_row now failure e) \<and> event_row_ok (fail_row now failure e) \<and>
     event_lease_expires_at (fail_row now failure e) = None"
  using length_trim_le [of "fail_error failure"]
  by (simp add: event_advances_def event_identity_def fail_row_def Let_def holds_claim_def
    row_ok_defs evidence_text_ok_def btrim_trim)

lemma failure_record_simps [simp]:
  "rec_tenant_id (failure_record failure n) = fail_tenant_id failure"
  "rec_event_id (failure_record failure n) = fail_event_id failure"
  "rec_worker_id (failure_record failure n) = fail_worker_id failure"
  "rec_claim_version (failure_record failure n) = fail_claim_version failure"
  "rec_outcome (failure_record failure n) \<noteq> ''published''"
  by (auto simp: failure_record_def Let_def failure_outcome_def
    split: option.splits DeliveryFailureClass.splits)

lemma inv_mark_failed:
  assumes inv: "outbox_inv (now, db)" and mark: "mark_failed now failure db = Inr (b, db')"
  shows "outbox_inv (now, db')"
  unfolding mark_failed_Inr(4) [OF mark]
proof (rule inv_settle [OF inv])
  show "event_advances e (fail_row now failure e) \<and> event_row_ok (fail_row now failure e) \<and>
      event_lease_expires_at (fail_row now failure e) = None"
    if "e \<in> set (outbox_events db)" "holds_claim now (fail_tenant_id failure)
      (fail_event_id failure) (fail_worker_id failure) (fail_claim_version failure) e" for e
    using fail_row_advances [OF inv_row_ok [OF inv that(1)] that(2) mark_failed_Inr(1,2) [OF mark]] .
qed simp_all

subsection \<open>Dead letters\<close>

lemma inv_add_replay:
  assumes "outbox_inv (now, db)" "replay_event_id r < outbox_next_id db"
    and "\<And>e. e \<in> set (outbox_events db) \<Longrightarrow> event_id e = replay_event_id r \<Longrightarrow>
      replay_resulting_count r \<le> event_replay_count e"
  shows "outbox_inv (now, db\<lparr>outbox_replays := outbox_replays db @ [r]\<rparr>)"
  using assms
  by (auto simp: outbox_inv_def event_ok_def event_evidence_ok_def keys_ok_def attempts_ok_def
    results_ok_def evidence_rows_ok_def)

lemma inv_add_discard:
  assumes "outbox_inv (now, db)" "discard_event_id d < outbox_next_id db"
    and "\<And>e. e \<in> set (outbox_events db) \<Longrightarrow> event_id e = discard_event_id d \<Longrightarrow>
      event_discarded_at e \<noteq> None"
  shows "outbox_inv (now, db\<lparr>outbox_discards := outbox_discards db @ [d]\<rparr>)"
  using assms
  by (auto simp: outbox_inv_def event_ok_def event_evidence_ok_def keys_ok_def attempts_ok_def
    results_ok_def evidence_rows_ok_def)

lemma inv_unique: 
  "outbox_inv (now, db) \<Longrightarrow> e \<in> set (outbox_events db) \<Longrightarrow> x \<in> set (outbox_events db) \<Longrightarrow>
     event_id e = event_id x \<Longrightarrow> e = x"
  using inv_distinct by (meson distinct_map inj_onD)

lemma inv_id_bound:
  "outbox_inv (now, db) \<Longrightarrow> e \<in> set (outbox_events db) \<Longrightarrow> 0 < event_id e \<and> event_id e < outbox_next_id db"
  by (simp add: outbox_inv_def keys_ok_def)

lemma dead_letter_target_unclaimed:
  "event_row_ok e \<Longrightarrow> dead_letter_target tenant_id target n e \<Longrightarrow>
     event_claimed_by e = None \<and> event_lease_expires_at e = None"
  by (auto simp: row_ok_defs dead_letter_target_def split: option.splits)

lemma replay_row_advances:
  assumes "event_row_ok e" "dead_letter_target tenant_id target n e"
  shows "event_advances e (replay_row_update now (event_replay_count e + 1) e) \<and>
    event_row_ok (replay_row_update now (event_replay_count e + 1) e)"
  using assms dead_letter_target_unclaimed [OF assms]
  by (simp add: event_advances_def event_identity_def replay_row_update_def dead_letter_target_def
    row_ok_defs)

lemma discard_row_advances:
  assumes "event_row_ok e" "dead_letter_target tenant_id target n e"
  shows "event_advances e (discard_row_update now reason user_id e) \<and>
    event_row_ok (discard_row_update now reason user_id e)"
  using assms dead_letter_target_unclaimed [OF assms]
  by (simp add: event_advances_def event_identity_def discard_row_update_def dead_letter_target_def
    row_ok_defs)

text \<open>The row a dead-letter command finds is the row it changes.\<close>

lemma dead_letter_update:
  assumes inv: "outbox_inv (now, db)"
    and found: "filter (dead_letter_target tenant_id target n) (outbox_events db) = e # es"
    and adv: "dead_letter_target tenant_id target n e \<Longrightarrow> event_row_ok e \<Longrightarrow>
      event_advances e (f e) \<and> event_row_ok (f e)"
    and rows: "rows = update_where (\<lambda>e. event_tenant_id e = tenant_id \<and> event_id e = target \<and>
      event_replay_count e = n) f (outbox_events db)"
  shows "outbox_inv (now, db\<lparr>outbox_events := rows\<rparr>)" "target < outbox_next_id db"
    "\<And>x. x \<in> set rows \<Longrightarrow> event_id x = target \<Longrightarrow> x = f e"
proof -
  let ?P = "\<lambda>e. event_tenant_id e = tenant_id \<and> event_id e = target \<and> event_replay_count e = n"
  have "e \<in> set (filter (dead_letter_target tenant_id target n) (outbox_events db))"
    using found by simp
  then have e: "e \<in> set (outbox_events db)" "dead_letter_target tenant_id target n e" by simp_all
  then have id: "event_id e = target" and Pe: "?P e" by (simp_all add: dead_letter_target_def)
  have only: "event_id x = target \<longleftrightarrow> x = e" if "x \<in> set (outbox_events db)" for x
    using inv_unique [OF inv e(1) that] id by metis
  have P: "?P x \<longleftrightarrow> x = e" if "x \<in> set (outbox_events db)" for x
    using only [OF that] Pe by metis
  note step = adv [OF e(2) inv_row_ok [OF inv e(1)]]
  show "outbox_inv (now, db\<lparr>outbox_events := rows\<rparr>)"
    unfolding rows by (rule inv_update [OF inv]) (use P step in blast)
  show "target < outbox_next_id db" using inv_id_bound [OF inv e(1)] id by simp
  show "x = f e" if "x \<in> set rows" "event_id x = target" for x
  proof -
    from that(1) obtain y where y: "y \<in> set (outbox_events db)" "x = (if ?P y then f y else y)"
      by (auto simp: rows set_update_where)
    have "y = e"
    proof (cases "?P y")
      case True
      then show ?thesis using P [OF y(1)] by simp
    next
      case False
      with y(2) that(2) have "event_id y = target" by simp
      then show ?thesis using only [OF y(1)] by simp
    qed
    with y Pe show ?thesis by simp
  qed
qed

lemma inv_replay:
  assumes inv: "outbox_inv (now, db)"
    and replay: "replay_dead_letter is_member now tenant_id target user_id n db = Inr (b, db')"
  shows "outbox_inv (now, db')"
proof (cases "filter (dead_letter_target tenant_id target n) (outbox_events db)")
  case Nil
  with replay inv show ?thesis by (auto simp: replay_dead_letter_def split: if_splits)
next
  case (Cons e es)
  let ?f = "replay_row_update now (event_replay_count e + 1)"
  obtain rows where rows: "rows = update_where (\<lambda>e. event_tenant_id e = tenant_id \<and>
    event_id e = target \<and> event_replay_count e = n) ?f (outbox_events db)" by simp
  let ?db = "db\<lparr>outbox_events := rows\<rparr>"
  have "event_advances e (?f e) \<and> event_row_ok (?f e)"
    if "dead_letter_target tenant_id target n e" "event_row_ok e"
    using replay_row_advances [OF that(2,1)] .
  note update = dead_letter_update [OF inv Cons this rows]
  have "\<exists>r. db' = ?db\<lparr>outbox_replays := outbox_replays ?db @ [r]\<rparr> \<and>
    replay_event_id r = target \<and> replay_resulting_count r = event_replay_count e + 1"
    using replay Cons by (auto simp: replay_dead_letter_def Let_def rows split: if_splits)
  then obtain r where r: "db' = ?db\<lparr>outbox_replays := outbox_replays ?db @ [r]\<rparr>"
    "replay_event_id r = target" "replay_resulting_count r = event_replay_count e + 1" by blast
  show ?thesis
    unfolding r(1)
  proof (rule inv_add_replay)
    show "outbox_inv (now, ?db)" by (rule update(1))
    show "replay_event_id r < outbox_next_id ?db" using update(2) r(2) by auto
    show "replay_resulting_count r \<le> event_replay_count x"
      if "x \<in> set (outbox_events ?db)" "event_id x = replay_event_id r" for x
      using update(3) that r by (fastforce simp: replay_row_update_def)
  qed
qed

lemma inv_discard:
  assumes inv: "outbox_inv (now, db)"
    and discard: "discard_dead_letter is_member now tenant_id target user_id n reason db = Inr (b, db')"
  shows "outbox_inv (now, db')"
proof (cases "filter (dead_letter_target tenant_id target n) (outbox_events db)")
  case Nil
  with discard inv show ?thesis by (auto simp: discard_dead_letter_def result_simps split: if_splits)
next
  case (Cons e es)
  let ?f = "discard_row_update now reason user_id"
  obtain rows where rows: "rows = update_where (\<lambda>e. event_tenant_id e = tenant_id \<and>
    event_id e = target \<and> event_replay_count e = n) ?f (outbox_events db)" by simp
  let ?db = "db\<lparr>outbox_events := rows\<rparr>"
  have "event_advances e (?f e) \<and> event_row_ok (?f e)"
    if "dead_letter_target tenant_id target n e" "event_row_ok e"
    using discard_row_advances [OF that(2,1)] .
  note update = dead_letter_update [OF inv Cons this rows]
  have "\<exists>d. db' = ?db\<lparr>outbox_discards := outbox_discards ?db @ [d]\<rparr> \<and> discard_event_id d = target"
    using discard Cons
    by (auto simp: discard_dead_letter_def Let_def result_simps rows split: if_splits)
  then obtain d where d: "db' = ?db\<lparr>outbox_discards := outbox_discards ?db @ [d]\<rparr>"
    "discard_event_id d = target" by blast
  show ?thesis
    unfolding d(1)
  proof (rule inv_add_discard)
    show "outbox_inv (now, ?db)" by (rule update(1))
    show "discard_event_id d < outbox_next_id ?db" using update(2) d(2) by auto
    show "event_discarded_at x \<noteq> None"
      if "x \<in> set (outbox_events ?db)" "event_id x = discard_event_id d" for x
      using update(3) that d by (fastforce simp: discard_row_update_def)
  qed
qed

subsection \<open>Purging, waiting and enqueueing\<close>

lemma inv_filter:
  "outbox_inv (now, db) \<Longrightarrow> outbox_inv (now, db\<lparr>outbox_events := filter Q (outbox_events db)\<rparr>)"
  by (auto simp: outbox_inv_def event_ok_def keys_ok_def in_order_def attempts_ok_def results_ok_def
    evidence_rows_ok_def distinct_map_filter)

lemma inv_purge:
  "outbox_inv (now, db) \<Longrightarrow>
     purge_published locked now tenant_id retention batch_size db = Inr (n, db') \<Longrightarrow>
     outbox_inv (now, db')"
  by (auto simp: purge_published_def Let_def inv_filter split: if_splits)

lemma inv_tick: "outbox_inv (now, db) \<Longrightarrow> now \<le> now' \<Longrightarrow> outbox_inv (now', db)"
  by (auto simp: outbox_inv_def results_ok_def)

lemma wrap_next_sequence: "in_i64 n \<Longrightarrow> 0 < n \<Longrightarrow> 0 < wrap_i64 (n + 1) \<Longrightarrow> wrap_i64 (n + 1) = n + 1"
proof -
  assume n: "in_i64 n" "0 < n" and pos: "0 < wrap_i64 (n + 1)"
  have "n \<noteq> i64_max" using pos by (auto simp: wrap_i64_def i64_max_def)
  with n have "in_i64 (n + 1)" by (simp add: in_i64_def i64_min_def)
  then show ?thesis by (rule wrap_i64_id)
qed

text \<open>What a successful enqueue did: the next id, the next sequence of its ordering key.\<close>

lemma enqueue_Inr:
  assumes "enqueue is_object references_exist tx now event db = Inr (new_id, tx', db')" "keys_ok db"
  shows "0 < new_aggregate_sequence event"
    "(new_tenant_id event, new_event_key event) \<notin> set (outbox_event_keys db)"
    "(case outbox_sequences db (new_tenant_id event, new_ordering_key event) of
        None \<Rightarrow> new_aggregate_sequence event = 1
      | Some n \<Rightarrow> new_aggregate_sequence event = n + 1 \<and> in_i64 (n + 1))"
    "new_id = outbox_next_id db"
    "db' = db\<lparr>outbox_event_keys := (new_tenant_id event, new_event_key event) # outbox_event_keys db,
       outbox_sequences := (outbox_sequences db)((new_tenant_id event, new_ordering_key event) \<mapsto>
         new_aggregate_sequence event),
       outbox_events := outbox_events db @ [enqueued_event new_id now event],
       outbox_next_id := new_id + 1\<rparr>"
proof -
  have seq: "0 < n \<and> in_i64 n" if "outbox_sequences db k = Some n" for k n
    using assms(2) that unfolding keys_ok_def by blast
  show pos: "0 < new_aggregate_sequence event"
    using assms(1) by (auto simp: enqueue_def enqueue_validate_def result_simps split: if_splits)
  show "(new_tenant_id event, new_event_key event) \<notin> set (outbox_event_keys db)"
    "new_id = outbox_next_id db"
    "db' = db\<lparr>outbox_event_keys := (new_tenant_id event, new_event_key event) # outbox_event_keys db,
       outbox_sequences := (outbox_sequences db)((new_tenant_id event, new_ordering_key event) \<mapsto>
         new_aggregate_sequence event),
       outbox_events := outbox_events db @ [enqueued_event new_id now event],
       outbox_next_id := new_id + 1\<rparr>"
    using assms(1) by (auto simp: enqueue_def Let_def result_simps split: if_splits)
  have eq: "new_aggregate_sequence event =
      (case outbox_sequences db (new_tenant_id event, new_ordering_key event) of
         None \<Rightarrow> 1 | Some n \<Rightarrow> wrap_i64 (n + 1))"
    using assms(1) by (auto simp: enqueue_def Let_def result_simps split: if_splits)
  show "(case outbox_sequences db (new_tenant_id event, new_ordering_key event) of
        None \<Rightarrow> new_aggregate_sequence event = 1
      | Some n \<Rightarrow> new_aggregate_sequence event = n + 1 \<and> in_i64 (n + 1))"
  proof (cases "outbox_sequences db (new_tenant_id event, new_ordering_key event)")
    case None
    with eq show ?thesis by simp
  next
    case (Some n)
    then have "wrap_i64 (n + 1) = n + 1"
      using seq [OF Some] eq pos by (intro wrap_next_sequence) auto
    then show ?thesis using Some eq wrap_i64_range [of "n + 1"] by simp
  qed
qed

lemma enqueued_event_simps [simp]:
  "event_id (enqueued_event new_id now event) = new_id"
  "event_tenant_id (enqueued_event new_id now event) = new_tenant_id event"
  "event_key (enqueued_event new_id now event) = new_event_key event"
  "event_ordering_key (enqueued_event new_id now event) = new_ordering_key event"
  "event_aggregate_sequence (enqueued_event new_id now event) = new_aggregate_sequence event"
  "event_claim_version (enqueued_event new_id now event) = 0"
  by (simp_all add: enqueued_event_def)

text \<open>Everything already on the ordering key comes before the new event.\<close>

lemma enqueue_later:
  assumes enq: "enqueue is_object references_exist tx now event db = Inr (new_id, tx', db')"
    and keys: "keys_ok db" and e: "e \<in> set (outbox_events db)"
    and same: "event_tenant_id e = new_tenant_id event" "event_ordering_key e = new_ordering_key event"
  shows "event_aggregate_sequence e < new_aggregate_sequence event"
  using enqueue_Inr(3) [OF enq keys] keys e same by (auto simp: keys_ok_def split: option.splits)

lemma enqueue_row_keys:
  assumes enq: "enqueue is_object references_exist tx now event db = Inr (new_id, tx', db')"
    and keys: "keys_ok db" and e: "e \<in> set (outbox_events db')"
  shows "0 < event_id e \<and> event_id e < outbox_next_id db' \<and>
    (event_tenant_id e, event_key e) \<in> set (outbox_event_keys db') \<and>
    (\<exists>n. outbox_sequences db' (event_tenant_id e, event_ordering_key e) = Some n \<and>
       event_aggregate_sequence e \<le> n)"
proof (cases "e \<in> set (outbox_events db)")
  case True
  note enqueued = enqueue_Inr [OF enq keys]
  from True keys have k: "0 < event_id e" "event_id e < outbox_next_id db"
    "(event_tenant_id e, event_key e) \<in> set (outbox_event_keys db)"
    "\<exists>n. outbox_sequences db (event_tenant_id e, event_ordering_key e) = Some n \<and>
      event_aggregate_sequence e \<le> n"
    by (simp_all add: keys_ok_def)
  have "\<exists>n. outbox_sequences db' (event_tenant_id e, event_ordering_key e) = Some n \<and>
      event_aggregate_sequence e \<le> n"
    using k(4) enqueue_later [OF enq keys True] by (auto simp: enqueued(5))
  with k enqueued(4) show ?thesis by (simp add: enqueued(5))
next
  case False
  note enqueued = enqueue_Inr [OF enq keys]
  from False e have "e = enqueued_event new_id now event" by (simp add: enqueued(5))
  then show ?thesis using keys enqueued(4) by (simp add: enqueued(5) keys_ok_def)
qed

lemma enqueue_keys_ok:
  assumes enq: "enqueue is_object references_exist tx now event db = Inr (new_id, tx', db')"
    and keys: "keys_ok db"
  shows "keys_ok db'"
proof -
  note enqueued = enqueue_Inr [OF enq keys]
  have new_key: "(new_tenant_id event, new_event_key event) \<notin>
      (\<lambda>e. (event_tenant_id e, event_key e)) ` set (outbox_events db)"
    using keys enqueued(2) by (auto simp: keys_ok_def)
  have new_seq: "(new_tenant_id event, new_ordering_key event, new_aggregate_sequence event) \<notin>
      (\<lambda>e. (event_tenant_id e, event_ordering_key e, event_aggregate_sequence e)) `
        set (outbox_events db)"
    using enqueue_later [OF enq keys] by fastforce
  have range: "0 < new_aggregate_sequence event \<and> in_i64 (new_aggregate_sequence event)"
    using enqueued(1,3) by (auto simp: in_i64_def i64_min_def i64_max_def split: option.splits)
  show ?thesis
    unfolding keys_ok_def
  proof (intro conjI)
    show "\<forall>k n. outbox_sequences db' k = Some n \<longrightarrow> 0 < n \<and> in_i64 n"
      using keys range unfolding enqueued(5) keys_ok_def by (auto split: if_splits)
    show "0 < outbox_next_id db'" using keys enqueued(4) by (simp add: enqueued(5) keys_ok_def)
    show "distinct (map event_id (outbox_events db'))"
      using keys enqueued(4) by (auto simp: enqueued(5) keys_ok_def)
    show "distinct (map (\<lambda>e. (event_tenant_id e, event_key e)) (outbox_events db'))"
      "distinct (map (\<lambda>e. (event_tenant_id e, event_ordering_key e, event_aggregate_sequence e))
        (outbox_events db'))"
      using keys new_key new_seq by (simp_all add: enqueued(5) keys_ok_def)
  qed (use enqueue_row_keys [OF enq keys] in blast)
qed

lemma enqueued_event_ok:
  assumes inv: "outbox_inv (now, db)"
    and enq: "enqueue is_object references_exist tx now event db = Inr (new_id, tx', db')"
  shows "event_ok db (enqueued_event new_id now event)"
proof -
  have keys: "keys_ok db" using inv by (simp add: outbox_inv_def)
  note enqueued = enqueue_Inr [OF enq keys]
  have journal: "\<forall>a\<in>set (outbox_attempts db). attempt_event_id a < new_id \<and>
      (attempt_tenant_id a, attempt_event_key a) \<in> set (outbox_event_keys db)"
    "\<forall>r\<in>set (outbox_results db). result_event_id r < new_id"
    using inv enqueued(4)
    by (auto simp: outbox_inv_def attempts_ok_def results_ok_def attempt_pk_def result_pk_def)
  have evidence: "\<forall>r\<in>set (outbox_replays db). replay_event_id r < new_id"
    "\<forall>d\<in>set (outbox_discards db). discard_event_id d < new_id"
    using inv enqueued(4) by (auto simp: outbox_inv_def evidence_rows_ok_def)
  show ?thesis
    unfolding event_ok_def
  proof (intro conjI)
    show "event_row_ok (enqueued_event new_id now event)"
      using enqueued(1) by (simp add: row_ok_defs enqueued_event_def)
    show "event_attempts_ok (outbox_attempts db) (enqueued_event new_id now event)"
      using journal(1) enqueued(2)
      by (fastforce simp: event_attempts_ok_def attempt_for_def enqueued_event_def)
    show "event_results_ok (outbox_results db) (enqueued_event new_id now event)"
      using journal(2) by (auto simp: event_results_ok_def result_for_def)
    show "event_evidence_ok (outbox_replays db) (outbox_discards db) (enqueued_event new_id now event)"
      using evidence by (fastforce simp: event_evidence_ok_def)
  qed
qed

lemma inv_enqueue:
  assumes inv: "outbox_inv (now, db)"
    and enq: "enqueue is_object references_exist tx now event db = Inr (new_id, tx', db')"
  shows "outbox_inv (now, db')"
proof -
  have keys: "keys_ok db" using inv by (simp add: outbox_inv_def)
  note enqueued = enqueue_Inr [OF enq keys]
  have "\<forall>e\<in>set (outbox_events db'). event_ok db' e"
    using inv enqueued_event_ok [OF inv enq] by (auto simp: enqueued(5) outbox_inv_def event_ok_def)
  moreover have "in_order (outbox_events db')"
    using inv enqueue_later [OF enq keys] unfolding enqueued(5)
    by (fastforce simp: in_order_def precedes_def outbox_inv_def)
  moreover have "attempts_ok db'" "results_ok now db'" "evidence_rows_ok db'"
    using inv enqueued(4)
    by (auto simp: enqueued(5) outbox_inv_def attempts_ok_def results_ok_def evidence_rows_ok_def)
  ultimately show ?thesis using enqueue_keys_ok [OF enq keys] by (simp add: outbox_inv_def)
qed

subsection \<open>Claiming\<close>

lemma attempts_conflict_sym: "attempts_conflict a b \<longleftrightarrow> attempts_conflict b a"
  by (auto simp: attempts_conflict_def)

lemma insert_attempts_Inr_iff:
  "insert_attempts existing rows = Inr all \<longleftrightarrow>
     all = existing @ rows \<and> (\<forall>a\<in>set rows. \<forall>b\<in>set existing. \<not> attempts_conflict a b) \<and>
     sorted_wrt (\<lambda>a b. \<not> attempts_conflict a b) rows"
proof (induction existing rows arbitrary: all rule: insert_attempts.induct)
  case (2 existing a rows)
  then show ?case
    using attempts_conflict_sym by (auto simp: list_ex_iff)
qed auto

lemma attempts_conflict_pk: "attempt_pk a = attempt_pk b \<Longrightarrow> attempts_conflict a b"
  by (simp add: attempt_pk_def attempts_conflict_def)

lemma insert_attempts_distinct:
  assumes "insert_attempts existing rows = Inr all" "distinct (map attempt_pk existing)"
  shows "distinct (map attempt_pk all)"
proof -
  have "sorted_wrt (\<lambda>a b. \<not> attempts_conflict a b) rows"
    using assms(1) by (simp add: insert_attempts_Inr_iff)
  then have "distinct (map attempt_pk rows)"
    by (induction rows) (auto dest: attempts_conflict_pk)
  moreover have "attempt_pk a \<noteq> attempt_pk b" if "a \<in> set rows" "b \<in> set existing" for a b
    using assms(1) that attempts_conflict_pk by (auto simp: insert_attempts_Inr_iff)
  ultimately show ?thesis
    using assms by (auto simp: insert_attempts_Inr_iff)
qed

lemma claim_candidates_facts:
  assumes "distinct (map event_id rows)"
  shows "set (claim_candidates locked now tenant_id n rows) \<subseteq>
      {e \<in> set rows. claimable now tenant_id rows e \<and> event_id e \<notin> set locked}"
    "distinct (map event_id (claim_candidates locked now tenant_id n rows))"
    "length (claim_candidates locked now tenant_id n rows) \<le> nat n"
proof -
  show "set (claim_candidates locked now tenant_id n rows) \<subseteq>
      {e \<in> set rows. claimable now tenant_id rows e \<and> event_id e \<notin> set locked}"
    by (auto simp: claim_candidates_def dest: in_set_takeD)
  show "distinct (map event_id (claim_candidates locked now tenant_id n rows))"
    using assms by (simp add: claim_candidates_def take_map [symmetric] distinct_map_filter)
qed (simp add: claim_candidates_def)

lemma candidate_iff:
  assumes ids: "distinct (map event_id rows)" and x: "x \<in> set rows"
  shows "event_id x \<in> event_id ` set (claim_candidates locked now tenant_id n rows) \<longleftrightarrow>
    x \<in> set (claim_candidates locked now tenant_id n rows)"
proof
  assume "event_id x \<in> event_id ` set (claim_candidates locked now tenant_id n rows)"
  then obtain y where y: "y \<in> set (claim_candidates locked now tenant_id n rows)"
    "event_id x = event_id y" by auto
  then have "y \<in> set rows" using claim_candidates_facts(1) [OF ids] by blast
  then have "x = y" using ids x y(2) by (meson distinct_map inj_onD)
  with y show "x \<in> set (claim_candidates locked now tenant_id n rows)" by simp
qed simp

lemma claim_row_simps [simp]:
  "event_id (claim_row now w l e) = event_id e"
  "event_tenant_id (claim_row now w l e) = event_tenant_id e"
  "event_key (claim_row now w l e) = event_key e"
  "event_identity (claim_row now w l e) = event_identity e"
  "event_claimed_by (claim_row now w l e) = Some w"
  "event_claim_version (claim_row now w l e) = event_claim_version e + 1"
  "event_settled (claim_row now w l e) = event_settled e"
  by (simp_all add: claim_row_def event_identity_def event_settled_def)

lemma candidate_tenant:
  "distinct (map event_id rows) \<Longrightarrow> x \<in> set rows \<Longrightarrow>
     event_id x \<in> event_id ` set (claim_candidates locked now tenant_id n rows) \<Longrightarrow>
     event_tenant_id x = tenant_id"
  using candidate_iff claim_candidates_facts(1) unfolding claimable_def by blast

lemma claim_journal_rows:
  assumes "\<And>x. x \<in> set rows \<Longrightarrow> event_id x \<in> event_id ` set C \<Longrightarrow> event_tenant_id x = tenant_id"
  shows "map (attempt_of p) (filter (\<lambda>e. event_tenant_id e = tenant_id \<and> event_claimed_by e = Some w \<and>
      event_id e \<in> event_id ` set C)
        (update_where (\<lambda>e. event_id e \<in> event_id ` set C) (claim_row now w l) rows)) =
    claim_journal p (claim_row now w l) C rows"
  using assms unfolding claim_journal_def update_where_def by (induction rows) auto

text \<open>A successful claim, in one equation: the candidates are leased and journalled.\<close>

lemma claim_events_Inr:
  assumes claim: "claim_events locked now tenant_id worker_id publisher_name n l db = Inr (events, db')"
    and ids: "distinct (map event_id (outbox_events db))"
    and C: "C = claim_candidates locked now tenant_id n (outbox_events db)"
    and J: "J = claim_journal publisher_name (claim_row now worker_id l) C (outbox_events db)"
  shows "events = sort_by compare_ids (map (claim_row now worker_id l) C)"
    "insert_attempts (outbox_attempts db) J = Inr (outbox_attempts db')"
    "db' = db\<lparr>outbox_events := update_where (\<lambda>e. event_id e \<in> event_id ` set C)
        (claim_row now worker_id l) (outbox_events db), outbox_attempts := outbox_attempts db @ J\<rparr>"
proof -
  let ?rows = "update_where (\<lambda>e. event_id e \<in> event_id ` set C) (claim_row now worker_id l)
    (outbox_events db)"
  show ev: "events = sort_by compare_ids (map (claim_row now worker_id l) C)"
    using claim by (auto simp: claim_events_def Let_def C result_simps split: if_splits)
  have journal: "map (attempt_of publisher_name) (filter (\<lambda>e. event_tenant_id e = tenant_id \<and>
      event_claimed_by e = Some worker_id \<and> event_id e \<in> event_id ` set C) ?rows) = J"
    unfolding J by (rule claim_journal_rows) (use candidate_tenant [OF ids] C in blast)
  have empty: "sort_by compare_ids (map (claim_row now worker_id l) C) = [] \<longleftrightarrow> C = []"
    by (metis length_0_conv length_map length_sort_by)
  have set_ids: "set (map event_id events) = event_id ` set C"
    by (simp add: ev image_image)
  show db': "db' = db\<lparr>outbox_events := ?rows, outbox_attempts := outbox_attempts db @ J\<rparr>"
  proof (cases "C = []")
    case True
    then have "db' = db" using claim ev by (auto simp: claim_events_def Let_def C result_simps split: if_splits)
    with True show ?thesis by (simp add: J claim_journal_def update_where_none)
  next
    case False
    with claim ev journal set_ids show ?thesis
      by (auto simp: claim_events_def Let_def C [symmetric] empty result_simps insert_attempts_Inr_iff
        split: if_splits)
  qed
  show "insert_attempts (outbox_attempts db) J = Inr (outbox_attempts db')"
  proof (cases "C = []")
    case True
    then show ?thesis by (simp add: db' J claim_journal_def)
  next
    case False
    with claim ev journal set_ids show ?thesis
      by (auto simp: claim_events_def Let_def C [symmetric] empty result_simps insert_attempts_Inr_iff
        split: if_splits)
  qed
qed

lemma attempt_of_claim_simps [simp]:
  "attempt_tenant_id (attempt_of p (claim_row now w l e)) = event_tenant_id e"
  "attempt_event_id (attempt_of p (claim_row now w l e)) = event_id e"
  "attempt_event_key (attempt_of p (claim_row now w l e)) = event_key e"
  "attempt_claim_version (attempt_of p (claim_row now w l e)) = event_claim_version e + 1"
  "attempt_replay_count (attempt_of p (claim_row now w l e)) = event_replay_count e"
  "attempt_number (attempt_of p (claim_row now w l e)) = event_attempts e + 1"
  "attempt_worker_id (attempt_of p (claim_row now w l e)) = w"
  by (simp_all add: attempt_of_def claim_row_def)

lemma inv_key_unique:
  "outbox_inv (now, db) \<Longrightarrow> e \<in> set (outbox_events db) \<Longrightarrow> x \<in> set (outbox_events db) \<Longrightarrow>
     event_tenant_id e = event_tenant_id x \<Longrightarrow> event_key e = event_key x \<longleftrightarrow> event_id e = event_id x"
proof -
  assume inv: "outbox_inv (now, db)" and e: "e \<in> set (outbox_events db)"
    and x: "x \<in> set (outbox_events db)" and t: "event_tenant_id e = event_tenant_id x"
  have "distinct (map (\<lambda>e. (event_tenant_id e, event_key e)) (outbox_events db))"
    using inv by (simp add: outbox_inv_def keys_ok_def)
  then have "event_key e = event_key x \<Longrightarrow> e = x"
    using e x t by (auto simp: distinct_map dest: inj_onD)
  with inv_unique [OF inv e x] show ?thesis by auto
qed

lemma claim_row_ok: "event_row_ok e \<Longrightarrow> claimable now tenant_id rows e \<Longrightarrow> event_row_ok (claim_row now w l e)"
  by (simp add: row_ok_defs claimable_def claim_row_def)

lemma claimed_attempts_ok:
  assumes inv: "outbox_inv (now, db)" and e: "e \<in> set (outbox_events db)"
    and J: "J = claim_journal p (claim_row now w l) C (outbox_events db)"
  shows "event_attempts_ok (outbox_attempts db @ J)
    (if event_id e \<in> event_id ` set C then claim_row now w l e else e)"
proof -
  have old: "event_attempts_ok (outbox_attempts db) e"
    using inv e by (simp add: outbox_inv_def event_ok_def)
  let ?e = "if event_id e \<in> event_id ` set C then claim_row now w l e else e"
  have in_J: "\<exists>x\<in>set (outbox_events db). event_id x \<in> event_id ` set C \<and>
      a = attempt_of p (claim_row now w l x)" if "a \<in> set J" for a
    using that by (auto simp: J claim_journal_def)
  have keys: "attempt_event_key a = event_key e \<longleftrightarrow> attempt_event_id a = event_id e"
    if "a \<in> set J" "attempt_tenant_id a = event_tenant_id e" for a
    using in_J [OF that(1)] that(2) inv_key_unique [OF inv _ e] by auto
  have mine: "event_id e \<in> event_id ` set C \<and> a = attempt_of p (claim_row now w l e)"
    if a: "a \<in> set J" and for_e: "attempt_for e a" for a
  proof -
    obtain x where x: "x \<in> set (outbox_events db)" "event_id x \<in> event_id ` set C"
      "a = attempt_of p (claim_row now w l x)" using in_J [OF a] by blast
    with for_e have "event_id x = event_id e" by (simp add: attempt_for_def)
    with inv_unique [OF inv x(1) e] x show ?thesis by simp
  qed
  show ?thesis
  proof (cases "event_id e \<in> event_id ` set C")
    case True
    then have "attempt_of p (claim_row now w l e) \<in> set J" using e by (auto simp: J claim_journal_def)
    moreover have "attempt_for e (attempt_of p (claim_row now w l e))" by (simp add: attempt_for_def)
    moreover have "event_attempts (claim_row now w l e) = event_attempts e + 1"
      "event_replay_count (claim_row now w l e) = event_replay_count e"
      "attempt_for (claim_row now w l e) = attempt_for e"
      by (simp_all add: claim_row_def attempt_for_def fun_eq_iff)
    moreover have "attempt_claim_version a \<le> event_claim_version e + 1 \<and>
        (attempt_replay_count a < event_replay_count e \<or>
         attempt_replay_count a = event_replay_count e \<and> attempt_number a \<le> event_attempts e + 1)"
      if "a \<in> set (outbox_attempts db) \<union> set J" "attempt_for e a" for a
      using that(1)
    proof
      assume "a \<in> set (outbox_attempts db)"
      with old that(2) show ?thesis unfolding event_attempts_ok_def by fastforce
    next
      assume "a \<in> set J"
      from mine [OF this that(2)] show ?thesis by simp
    qed
    ultimately show ?thesis
      using True old keys by (auto simp: event_attempts_ok_def)
  next
    case False
    then have none: "\<not> attempt_for e a" if "a \<in> set J" for a using mine [OF that] by blast
    have "\<exists>a\<in>set (outbox_attempts db @ J). attempt_for e a \<and> attempt_worker_id a = v \<and>
        attempt_claim_version a = event_claim_version e" if "event_claimed_by e = Some v" for v
      using old that by (auto simp: event_attempts_ok_def)
    with False old keys none show ?thesis by (simp add: event_attempts_ok_def ball_Un)
  qed
qed

lemma claimed_results_ok:
  assumes inv: "outbox_inv (now, db)" and e: "e \<in> set (outbox_events db)"
  shows "event_results_ok (outbox_results db) (claim_row now w l e)"
proof -
  have ok: "event_results_ok (outbox_results db) e" "event_attempts_ok (outbox_attempts db) e"
    using inv e by (simp_all add: outbox_inv_def event_ok_def)
  have "result_claim_version r \<noteq> event_claim_version e + 1"
    if r: "r \<in> set (outbox_results db)" "result_for e r" for r
  proof -
    obtain a where "a \<in> set (outbox_attempts db)" "attempt_pk a = result_pk r"
      using inv r(1) by (force simp: outbox_inv_def results_ok_def)
    with ok(2) r(2) have "result_claim_version r \<le> event_claim_version e"
      by (auto simp: event_attempts_ok_def attempt_for_def result_for_def attempt_pk_def result_pk_def)
    then show ?thesis by simp
  qed
  with ok(1) show ?thesis
    by (auto simp: event_results_ok_def result_for_def claim_row_def)
qed

lemma inv_claim:
  assumes inv: "outbox_inv (now, db)"
    and claim: "claim_events locked now tenant_id w p n l db = Inr (events, db')"
  shows "outbox_inv (now, db')"
proof -
  note ids = inv_distinct [OF inv]
  let ?C = "claim_candidates locked now tenant_id n (outbox_events db)"
  let ?f = "claim_row now w l"
  let ?P = "\<lambda>e. event_id e \<in> event_id ` set ?C"
  let ?J = "claim_journal p ?f ?C (outbox_events db)"
  note step = claim_events_Inr [OF claim ids refl refl]
  have cand: "claimable now tenant_id (outbox_events db) e" if "e \<in> set (outbox_events db)" "?P e" for e
    using claim_candidates_facts(1) [OF ids] candidate_iff [OF ids that(1)] that by blast
  have "event_ok db' (if ?P e then ?f e else e)" if e: "e \<in> set (outbox_events db)" for e
  proof -
    have old: "event_ok db e" using inv e by (simp add: outbox_inv_def)
    have "event_row_ok (if ?P e then ?f e else e)"
      using old cand [OF e] claim_row_ok by (auto simp: event_ok_def)
    moreover have "event_results_ok (outbox_results db) (if ?P e then ?f e else e)"
      using old claimed_results_ok [OF inv e] by (simp add: event_ok_def)
    moreover have "event_evidence_ok (outbox_replays db) (outbox_discards db) (if ?P e then ?f e else e)"
      using old by (simp add: event_ok_def event_evidence_ok_def claim_row_def)
    ultimately show ?thesis
      using claimed_attempts_ok [OF inv e refl] by (simp add: event_ok_def step(3))
  qed
  moreover have "keys_ok db'"
    by (rule keys_ok_same_identity [of db]) (use inv in \<open>auto simp: step(3) outbox_inv_def intro!: map_update_where\<close>)
  moreover have "in_order (outbox_events db')"
  proof -
    have "in_order (update_where ?P ?f (outbox_events db))"
    proof (rule in_order_update)
      show "event_settled q" if "e \<in> set (outbox_events db)" "?P e" "q \<in> set (outbox_events db)"
        "precedes q e" for e q
        using cand [OF that(1,2)] that(3,4) by (auto simp: claimable_def list_ex_iff event_settled_def)
    qed (use inv in \<open>simp_all add: outbox_inv_def\<close>)
    then show ?thesis by (simp add: step(3))
  qed
  moreover have "attempts_ok db'"
    unfolding attempts_ok_def
  proof (intro conjI)
    show "distinct (map attempt_pk (outbox_attempts db'))"
      using insert_attempts_distinct [OF step(2)] inv by (simp add: outbox_inv_def attempts_ok_def)
  qed (use inv in \<open>auto simp: step(3) claim_journal_def outbox_inv_def attempts_ok_def keys_ok_def\<close>)
  moreover have "results_ok now db'" "evidence_rows_ok db'"
    using inv by (auto simp: step(3) outbox_inv_def results_ok_def evidence_rows_ok_def)
  ultimately show ?thesis by (simp add: outbox_inv_def step(3) ball_update_where)
qed

end
