(* ===== verification/Outbox_History.thy ===== *)
theory Outbox_History
  imports Outbox_Invariant
begin

text \<open>
  What every history of the outbox guarantees: delivery in order per ordering key, at most one
  recorded publication per event, no internal inconsistency error, and the exact effect of a
  claim.
\<close>

section \<open>Definitions\<close>

text \<open>
  A sample history: two events on one ordering key are enqueued, the first is claimed and
  published, then the second is claimed.
\<close>

definition sample_event :: "int \<Rightarrow> NewOutboxEvent" where
  "sample_event n =
     \<lparr>new_tenant_id = 7, new_inventory_owner_id = None, new_facility_id = None,
      new_actor_user_id = None, new_event_key = [107, nat n], new_aggregate_type = [116],
      new_aggregate_id = [49], new_ordering_key = [111], new_aggregate_sequence = n,
      new_event_type = [101], new_schema_version = 1, new_payload = [123, 125],
      new_occurred_at = 0\<rparr>"

definition sample_db1 :: outbox_db where
  "sample_db1 = outbox_empty\<lparr>outbox_event_keys := [(7, [107, 1])],
     outbox_sequences := [(7, [111]) \<mapsto> 1],
     outbox_events := [enqueued_event 1 0 (sample_event 1)], outbox_next_id := 2\<rparr>"

definition sample_db2 :: outbox_db where
  "sample_db2 = sample_db1\<lparr>outbox_event_keys := [(7, [107, 2]), (7, [107, 1])],
     outbox_sequences := [(7, [111]) \<mapsto> 2],
     outbox_events := [enqueued_event 1 0 (sample_event 1), enqueued_event 2 0 (sample_event 2)],
     outbox_next_id := 3\<rparr>"

definition sample_lease :: "OutboxEvent \<Rightarrow> OutboxEvent" where
  "sample_lease = claim_row 0 [119] 60"

definition sample_db3 :: outbox_db where
  "sample_db3 = sample_db2\<lparr>
     outbox_events := [sample_lease (enqueued_event 1 0 (sample_event 1)),
       enqueued_event 2 0 (sample_event 2)],
     outbox_attempts := [attempt_of [112] (sample_lease (enqueued_event 1 0 (sample_event 1)))]\<rparr>"

definition sample_db4 :: outbox_db where
  "sample_db4 = sample_db3\<lparr>
     outbox_events := [publish_row 0 (sample_lease (enqueued_event 1 0 (sample_event 1))),
       enqueued_event 2 0 (sample_event 2)],
     outbox_results := [\<lparr>result_tenant_id = 7, result_event_id = 1, result_claim_version = 1,
       result_outcome = ''published'', result_completed_at = 0, result_error = None,
       result_retry_after_seconds = None\<rparr>]\<rparr>"

definition sample_db5 :: outbox_db where
  "sample_db5 = sample_db4\<lparr>
     outbox_events := [publish_row 0 (sample_lease (enqueued_event 1 0 (sample_event 1))),
       sample_lease (enqueued_event 2 0 (sample_event 2))],
     outbox_attempts := [attempt_of [112] (sample_lease (enqueued_event 1 0 (sample_event 1))),
       attempt_of [112] (sample_lease (enqueued_event 2 0 (sample_event 2)))]\<rparr>"

section \<open>Lemmas\<close>

subsection \<open>Every history\<close>

inductive_cases outbox_stepE: "outbox_step s s'"

lemma inv_empty: "outbox_inv (now, outbox_empty)"
  by (simp add: outbox_inv_def outbox_empty_def keys_ok_def in_order_def attempts_ok_def results_ok_def
    evidence_rows_ok_def)

lemma inv_step: "outbox_step s s' \<Longrightarrow> outbox_inv s \<Longrightarrow> outbox_inv s'"
  by (induction rule: outbox_step.induct)
    (auto intro: inv_tick inv_enqueue inv_claim inv_mark_published inv_mark_failed inv_replay
      inv_discard inv_purge)

lemma inv_steps: "outbox_step\<^sup>*\<^sup>* s s' \<Longrightarrow> outbox_inv s \<Longrightarrow> outbox_inv s'"
  by (induction rule: rtranclp_induct) (auto intro: inv_step)

lemma inv_reachable: "outbox_reachable s \<Longrightarrow> outbox_inv s"
  unfolding outbox_reachable_def using inv_steps inv_empty by blast

text \<open>The result journal only grows.\<close>

lemma record_result_grows: "set (outbox_results db) \<subseteq> set (outbox_results (snd (record_delivery_result now r db)))"
  by (cases rule: record_result_cases [of now r db]) auto

lemma results_grow: "outbox_step s s' \<Longrightarrow> set (outbox_results (snd s)) \<subseteq> set (outbox_results (snd s'))"
proof (induction rule: outbox_step.induct)
  case (claimed locked now tenant_id w p n l db events db')
  then show ?case
    by (auto simp: claim_events_def Let_def result_simps split: if_splits)
next
  case (published now tenant_id target w v db b db')
  then show ?case using mark_published_Inr(2) [OF published] record_result_grows by fastforce
next
  case (failed now failure db b db')
  then show ?case using mark_failed_Inr(4) [OF failed] record_result_grows by fastforce
next
  case (enqueued is_object references_exist tx now event db new_id tx' db')
  then show ?case by (auto simp: enqueue_def Let_def result_simps split: if_splits)
next
  case (replayed is_member now tenant_id target user_id expected db b db')
  then show ?case
    by (auto simp: replay_dead_letter_def Let_def split: if_splits list.splits)
next
  case (discarded is_member now tenant_id target user_id expected reason db b db')
  then show ?case
    by (auto simp: discard_dead_letter_def Let_def result_simps split: if_splits list.splits)
next
  case (purged locked now tenant_id retention n db k db')
  then show ?case by (auto simp: purge_published_def Let_def split: if_splits)
qed simp

lemma results_grow_steps:
  "outbox_step\<^sup>*\<^sup>* s s' \<Longrightarrow> set (outbox_results (snd s)) \<subseteq> set (outbox_results (snd s'))"
  by (induction rule: rtranclp_induct) (auto dest: results_grow)

text \<open>A settlement is accepted exactly when its claim is held.\<close>

lemma mark_published_outcome:
  assumes inv: "outbox_inv (now, db)"
    and mark: "mark_published now tenant_id target w v db = Inr (b, db')"
  shows "b \<longleftrightarrow> (\<exists>e\<in>set (outbox_events db). holds_claim now tenant_id target w v e)"
proof
  assume b
  then show "\<exists>e\<in>set (outbox_events db). holds_claim now tenant_id target w v e"
    using mark_published_Inr(1) [OF mark] by (auto simp: length_Suc_conv filter_eq_Cons_iff)
next
  assume "\<exists>e\<in>set (outbox_events db). holds_claim now tenant_id target w v e"
  then obtain e where "e \<in> set (outbox_events db)" "holds_claim now tenant_id target w v e" by blast
  then show b
    using mark_published_Inr(1) [OF mark] filter_by_key [OF inv_distinct [OF inv] holds_claim_key]
    by simp
qed

lemma mark_failed_outcome:
  assumes mark: "mark_failed now failure db = Inr (b, db')"
  shows "b \<longleftrightarrow> (\<exists>e\<in>set (outbox_events db). holds_claim now (fail_tenant_id failure)
    (fail_event_id failure) (fail_worker_id failure) (fail_claim_version failure) e)"
proof -
  let ?held = "filter (holds_claim now (fail_tenant_id failure) (fail_event_id failure)
    (fail_worker_id failure) (fail_claim_version failure)) (outbox_events db)"
  have "b \<longleftrightarrow> ?held \<noteq> []"
    using mark_failed_Inr(3) [OF mark] by (cases ?held) (simp_all add: failure_attempts_def)
  then show ?thesis by (simp add: filter_empty_conv)
qed

text \<open>A recorded publication rules out any later settlement of the event.\<close>

lemma published_result_final:
  assumes inv: "outbox_inv (now, db)" and r: "r \<in> set (outbox_results db)"
    "result_tenant_id r = tenant_id" "result_event_id r = target" "result_outcome r = ''published''"
    and e: "e \<in> set (outbox_events db)"
  shows "\<not> holds_claim now tenant_id target w v e"
proof
  assume held: "holds_claim now tenant_id target w v e"
  then have "result_for e r" using r by (simp add: holds_claim_def result_for_def)
  moreover have "event_results_ok (outbox_results db) e"
    using inv e by (simp add: outbox_inv_def event_ok_def)
  ultimately have "event_published_at e \<noteq> None" using r by (simp add: event_results_ok_def)
  with held show False by (simp add: holds_claim_def)
qed

lemma mark_published_records:
  assumes inv: "outbox_inv (now, db)"
    and mark: "mark_published now tenant_id target w v db = Inr (True, db')"
  shows "\<exists>r\<in>set (outbox_results db'). result_tenant_id r = tenant_id \<and> result_event_id r = target \<and>
    result_outcome r = ''published''"
proof -
  let ?r = "publish_record tenant_id target w v True"
  let ?db = "db\<lparr>outbox_events := update_where (holds_claim now tenant_id target w v) (publish_row now)
    (outbox_events db)\<rparr>"
  obtain e where e: "e \<in> set (outbox_events db)" "holds_claim now tenant_id target w v e"
    using mark_published_outcome [OF inv mark] by blast
  have "fst (record_delivery_result now ?r ?db) = 1"
    by (rule held_claim_recorded [OF inv e]) (simp_all add: publish_record_def)
  then obtain q where "result_pk q = (tenant_id, target, v)" "result_outcome q = ''published''"
    "record_delivery_result now ?r ?db = (1, ?db\<lparr>outbox_results := outbox_results ?db @ [q]\<rparr>)"
    by (cases rule: record_result_cases [of now ?r ?db]) (auto simp: publish_record_def)
  then show ?thesis
    using mark_published_Inr(2) [OF mark] by (auto simp: result_pk_def)
qed

lemma distinct_filter_one:
  "distinct (map f (filter P xs)) \<Longrightarrow> x \<in> set xs \<Longrightarrow> P x \<Longrightarrow> f x = k \<Longrightarrow>
     length (filter (\<lambda>y. P y \<and> f y = k) xs) = 1"
proof (induction xs)
  case (Cons y xs)
  show ?case
  proof (cases "P y \<and> f y = k")
    case True
    with Cons.prems(1) have "f y \<notin> f ` {x \<in> set xs. P x}" by simp
    with True have "filter (\<lambda>y. P y \<and> f y = k) xs = []"
      unfolding filter_empty_conv by (metis (mono_tags, lifting) imageI mem_Collect_eq)
    with True show ?thesis by simp
  next
    case False
    with Cons show ?thesis by (auto split: if_splits)
  qed
qed simp

subsection \<open>A claim never contradicts the journal\<close>

lemma claim_journal_free:
  assumes inv: "outbox_inv (now, db)"
    and J: "J = claim_journal p (claim_row now w l) C (outbox_events db)"
  shows "insert_attempts (outbox_attempts db) J = Inr (outbox_attempts db @ J)"
proof -
  have old: "\<not> attempts_conflict (attempt_of p (claim_row now w l x)) b"
    if x: "x \<in> set (outbox_events db)" and b: "b \<in> set (outbox_attempts db)" for x b
  proof
    assume conflict: "attempts_conflict (attempt_of p (claim_row now w l x)) b"
    have ok: "event_attempts_ok (outbox_attempts db) x"
      using inv x by (simp add: outbox_inv_def event_ok_def)
    have "attempt_tenant_id b = event_tenant_id x" "attempt_event_id b = event_id x"
      using conflict ok b by (auto simp: attempts_conflict_def event_attempts_ok_def)
    then have "attempt_for x b" by (simp add: attempt_for_def)
    then have "attempt_claim_version b \<le> event_claim_version x \<and>
        (attempt_replay_count b < event_replay_count x \<or> attempt_number b \<le> event_attempts x)"
      using ok b by (auto simp: event_attempts_ok_def)
    with conflict show False by (auto simp: attempts_conflict_def)
  qed
  have new: "\<not> attempts_conflict (attempt_of p (claim_row now w l x)) (attempt_of p (claim_row now w l y))"
    if "x \<in> set (outbox_events db)" "y \<in> set (outbox_events db)" "event_id x \<noteq> event_id y" for x y
    using that inv_key_unique [OF inv that(1,2)] by (auto simp: attempts_conflict_def)
  have "sorted_wrt (\<lambda>a b. \<not> attempts_conflict a b) J"
  proof -
    have "sorted_wrt (\<lambda>x y. event_id x \<noteq> event_id y) (outbox_events db)"
      using inv_distinct [OF inv] by (simp add: distinct_conv_nth sorted_wrt_iff_nth_less)
    then have "sorted_wrt (\<lambda>x y. event_id x \<noteq> event_id y)
        (filter (\<lambda>e. event_id e \<in> event_id ` set C) (outbox_events db))"
      by (rule sorted_wrt_filter)
    then show ?thesis
      unfolding J claim_journal_def sorted_wrt_map
      by (rule sorted_wrt_mono_rel [rotated]) (use new in auto)
  qed
  moreover have "\<forall>a\<in>set J. \<forall>b\<in>set (outbox_attempts db). \<not> attempts_conflict a b"
    using old by (auto simp: J claim_journal_def)
  ultimately show ?thesis by (simp add: insert_attempts_Inr_iff)
qed

lemma claim_journal_length:
  assumes ids: "distinct (map event_id rows)"
  shows "length (claim_journal p f (claim_candidates locked now tenant_id n rows) rows) =
    length (claim_candidates locked now tenant_id n rows)"
proof -
  let ?C = "claim_candidates locked now tenant_id n rows"
  have "set (filter (\<lambda>e. event_id e \<in> event_id ` set ?C) rows) = set ?C"
    using candidate_iff [OF ids] claim_candidates_facts(1) [OF ids] by fastforce
  moreover have "distinct rows" "distinct ?C"
    using ids claim_candidates_facts(2) [OF ids] distinct_map by blast+
  ultimately show ?thesis
    unfolding claim_journal_def length_map by (metis distinct_card distinct_filter)
qed

lemma claim_events_error:
  assumes inv: "outbox_inv (now, db)"
    and claim: "claim_events locked now tenant_id w p n l db = Inl err"
  shows "(\<exists>m. err = InvalidInput m) \<or> err = Database ''integer out of range''"
proof -
  note ids = inv_distinct [OF inv]
  let ?C = "claim_candidates locked now tenant_id n (outbox_events db)"
  let ?f = "claim_row now w l"
  have journal: "map (attempt_of p) (filter (\<lambda>e. event_tenant_id e = tenant_id \<and>
      event_claimed_by e = Some w \<and> event_id e \<in> event_id ` set ?C)
        (update_where (\<lambda>e. event_id e \<in> event_id ` set ?C) ?f (outbox_events db))) =
      claim_journal p ?f ?C (outbox_events db)"
    by (rule claim_journal_rows) (rule candidate_tenant [OF ids])
  have ids': "set (map event_id (sort_by compare_ids (map ?f ?C))) = event_id ` set ?C"
    by (simp add: image_image)
  show ?thesis
    using claim journal ids' claim_journal_free [OF inv refl] claim_journal_length [OF ids]
    by (auto simp: claim_events_def Let_def outbox_bounded_text_def required_text_def
      split: if_splits)
qed

lemma bounded_text_error: "outbox_bounded_text x label n = Inl err \<Longrightarrow> \<exists>m. err = InvalidInput m"
  by (auto simp: outbox_bounded_text_def required_text_def result_simps split: if_splits)

lemma mark_published_error:
  assumes inv: "outbox_inv (now, db)"
    and mark: "mark_published now tenant_id target w v db = Inl err"
  shows "\<exists>m. err = InvalidInput m"
proof (cases "outbox_bounded_text w ''worker ID'' 200")
  case (Inl e)
  with mark bounded_text_error show ?thesis by (auto simp: mark_published_def)
next
  case (Inr u)
  let ?held = "holds_claim now tenant_id target w v"
  have "fst (record_delivery_result now r (db\<lparr>outbox_events := rows\<rparr>)) = 1"
    if one: "length (filter ?held (outbox_events db)) = 1" and r: "r = publish_record tenant_id target w v True"
    for r rows
  proof -
    obtain e where "filter ?held (outbox_events db) = [e]"
      using one by (auto simp: length_Suc_conv)
    then have "e \<in> set (filter ?held (outbox_events db))" by simp
    then show ?thesis
      by (intro held_claim_recorded [OF inv, of e]) (auto simp: r publish_record_def)
  qed
  with mark Inr show ?thesis
    by (auto simp: mark_published_def Let_def split: prod.splits if_splits) (metis fst_conv)
qed

lemma mark_failed_error:
  assumes inv: "outbox_inv (now, db)" and mark: "mark_failed now failure db = Inl err"
  shows "\<exists>m. err = InvalidInput m"
proof -
  let ?held = "holds_claim now (fail_tenant_id failure) (fail_event_id failure)
    (fail_worker_id failure) (fail_claim_version failure)"
  have "fst (record_delivery_result now (failure_record failure n) (db\<lparr>outbox_events := rows\<rparr>)) = 1"
    if some: "failure_attempts now failure (outbox_events db) = Some k" for n k rows
  proof -
    obtain e es where "filter ?held (outbox_events db) = e # es"
      using some by (auto simp: failure_attempts_def split: list.splits)
    then have "e \<in> set (filter ?held (outbox_events db))" by simp
    then show ?thesis by (intro held_claim_recorded [OF inv, of e]) auto
  qed
  with mark bounded_text_error show ?thesis
    by (auto simp: mark_failed_def Let_def result_simps split: prod.splits if_splits) (metis fst_conv)+
qed

text \<open>The row a dead-letter command finds is alone, and its evidence is new.\<close>

lemma dead_letter_alone:
  assumes inv: "outbox_inv (now, db)"
    and found: "filter (dead_letter_target tenant_id target n) (outbox_events db) = e # es"
  shows "length (filter (\<lambda>e. event_tenant_id e = tenant_id \<and> event_id e = target \<and>
      event_replay_count e = n) (outbox_events db)) = 1"
    "\<forall>r\<in>set (outbox_replays db). replay_event_id r = target \<longrightarrow>
      replay_resulting_count r \<noteq> event_replay_count e + 1"
    "\<forall>d\<in>set (outbox_discards db). discard_event_id d \<noteq> target"
proof -
  have "e \<in> set (filter (dead_letter_target tenant_id target n) (outbox_events db))"
    using found by simp
  then have e: "e \<in> set (outbox_events db)" "dead_letter_target tenant_id target n e" by simp_all
  have "filter (\<lambda>e. event_tenant_id e = tenant_id \<and> event_id e = target \<and>
      event_replay_count e = n) (outbox_events db) = [e]"
    by (rule filter_by_key [OF inv_distinct [OF inv], of _ target])
      (use e in \<open>auto simp: dead_letter_target_def\<close>)
  then show "length (filter (\<lambda>e. event_tenant_id e = tenant_id \<and> event_id e = target \<and>
      event_replay_count e = n) (outbox_events db)) = 1" by simp
  have "event_evidence_ok (outbox_replays db) (outbox_discards db) e"
    using inv e by (simp add: outbox_inv_def event_ok_def)
  with e(2) show "\<forall>r\<in>set (outbox_replays db). replay_event_id r = target \<longrightarrow>
      replay_resulting_count r \<noteq> event_replay_count e + 1"
    "\<forall>d\<in>set (outbox_discards db). discard_event_id d \<noteq> target"
    by (auto simp: event_evidence_ok_def dead_letter_target_def)
qed

subsection \<open>The candidates of a claim\<close>

interpretation by_id: total_comparison compare_ids
  by unfold_locales (auto simp: compare_ids_def)

interpretation by_availability: total_comparison compare_available
  by unfold_locales (auto simp: compare_available_def)

interpretation by_settlement: total_comparison compare_settled
  by unfold_locales (auto simp: compare_settled_def)

lemma sorted_by_id:
  assumes "distinct (map event_id xs)"
  shows "sorted_wrt (\<lambda>a b. event_id a < event_id b) (sort_by compare_ids xs)"
proof -
  have "distinct (map event_id (sort_by compare_ids xs))" using assms by simp
  then have "sorted_wrt (\<lambda>a b. event_id a \<noteq> event_id b) (sort_by compare_ids xs)"
    by (simp add: distinct_conv_nth sorted_wrt_iff_nth_less)
  moreover have "sorted_wrt (\<lambda>a b. event_id a \<le> event_id b) (sort_by compare_ids xs)"
    using by_id.sorted_sort_by [of xs] by (simp add: compare_ids_def not_less)
  ultimately show ?thesis
    unfolding sorted_wrt_iff_nth_less by (meson order.not_eq_order_implies_strict)
qed

text \<open>What the limit leaves behind comes later, and only when the limit is used up.\<close>

lemma candidates_earliest:
  assumes e: "e \<in> set rows" "claimable now tenant_id rows e" "event_id e \<notin> set locked"
    and left: "e \<notin> set (claim_candidates locked now tenant_id n rows)"
  shows "length (claim_candidates locked now tenant_id n rows) = nat n"
    "\<forall>x\<in>set (claim_candidates locked now tenant_id n rows). event_available_at x \<le> event_available_at e"
proof -
  let ?S = "sort_by compare_available
    (filter (\<lambda>e. claimable now tenant_id rows e \<and> event_id e \<notin> set locked) rows)"
  have "e \<in> set ?S" using e by simp
  then have "e \<in> set (take (nat n) ?S @ drop (nat n) ?S)" by (simp only: append_take_drop_id)
  then have drop: "e \<in> set (drop (nat n) ?S)"
    using left unfolding claim_candidates_def set_append by blast
  then have "drop (nat n) ?S \<noteq> []" by force
  then have "nat n < length ?S" by simp
  then show "length (claim_candidates locked now tenant_id n rows) = nat n"
    by (simp add: claim_candidates_def)
  have "sorted_wrt (\<lambda>a b. compare_available a b \<noteq> Greater) (take (nat n) ?S @ drop (nat n) ?S)"
    using by_availability.sorted_sort_by by (simp only: append_take_drop_id)
  then have "\<forall>x\<in>set (take (nat n) ?S). compare_available x e \<noteq> Greater"
    using drop by (simp only: sorted_wrt_append) blast
  then show "\<forall>x\<in>set (claim_candidates locked now tenant_id n rows).
      event_available_at x \<le> event_available_at e"
    by (auto simp: claim_candidates_def compare_available_def not_less)
qed

lemma candidates_one_per_key:
  assumes keys: "keys_ok db" and x: "x \<in> set (outbox_events db)" and y: "y \<in> set (outbox_events db)"
    and cx: "claimable now tenant_id (outbox_events db) x"
    and cy: "claimable now tenant_id (outbox_events db) y"
    and same: "event_ordering_key x = event_ordering_key y"
  shows "x = y"
proof -
  have "\<not> precedes x y" "\<not> precedes y x"
    using cx cy x y by (auto simp: claimable_def list_ex_iff)
  then have "event_aggregate_sequence x = event_aggregate_sequence y"
    "event_tenant_id x = event_tenant_id y"
    using cx cy same by (auto simp: precedes_def claimable_def)
  moreover have "distinct (map (\<lambda>e. (event_tenant_id e, event_ordering_key e,
      event_aggregate_sequence e)) (outbox_events db))"
    using keys by (simp add: keys_ok_def)
  ultimately show ?thesis
    using x y same by (auto simp: distinct_map dest: inj_onD)
qed

text \<open>A leased row is new: its version is one its id has not had.\<close>

lemma claim_row_new:
  "distinct (map event_id rows) \<Longrightarrow> e \<in> set rows \<Longrightarrow> claim_row now w l e \<notin> set rows"
proof
  assume ids: "distinct (map event_id rows)" and e: "e \<in> set rows"
    and "claim_row now w l e \<in> set rows"
  then have "claim_row now w l e = e" by (meson claim_row_simps(1) distinct_map inj_onD)
  then have "event_claim_version (claim_row now w l e) = event_claim_version e" by simp
  then show False by simp
qed

subsection \<open>The sample history\<close>

lemmas validation_defs = required_text_def outbox_bounded_text_def trim_def is_whitespace_def

lemmas sample_defs = outbox_empty_def sample_event_def sample_db1_def sample_db2_def sample_db3_def
  sample_db4_def sample_db5_def sample_lease_def enqueued_event_def claim_row_def publish_row_def
  attempt_of_def

lemmas claiming_defs = claim_events_def validation_defs claim_candidates_def claimable_def
  precedes_def compare_available_def compare_ids_def update_where_def i32_max_def i64_max_def Let_def

lemma sample_enqueue:
  "enqueue (\<lambda>_. True) True fresh_context 0 (sample_event 1) outbox_empty =
     Inr (1, \<lparr>session_token_hash = None, bound_tenant = Some 7\<rparr>, sample_db1)"
  "enqueue (\<lambda>_. True) True fresh_context 0 (sample_event 2) sample_db1 =
     Inr (2, \<lparr>session_token_hash = None, bound_tenant = Some 7\<rparr>, sample_db2)"
  by (simp_all add: enqueue_def enqueue_validate_def validation_defs bind_tenant_context_def
    fresh_context_def sample_defs wrap_i64_def)

lemma sample_claim1:
  "claim_events [] 0 7 [119] [112] 10 60 sample_db2 =
     Inr ([sample_lease (enqueued_event 1 0 (sample_event 1))], sample_db3)"
  by (simp add: claiming_defs sample_defs)

lemma sample_publish: "mark_published 0 7 1 [119] 1 sample_db3 = Inr (True, sample_db4)"
  by (simp add: mark_published_def validation_defs holds_claim_def update_where_def
    record_delivery_result_def publish_record_def Let_def sample_defs SECOND_def)

lemma sample_claim2:
  "claim_events [] 0 7 [119] [112] 10 60 sample_db4 =
     Inr ([sample_lease (enqueued_event 2 0 (sample_event 2))], sample_db5)"
  by (simp add: claiming_defs sample_defs attempts_conflict_def)

lemma sample_reachable:
  "outbox_reachable (0, sample_db2)" "outbox_reachable (0, sample_db3)"
  "outbox_reachable (0, sample_db5)"
proof -
  have 1: "outbox_step (0, outbox_empty) (0, sample_db1)" "outbox_step (0, sample_db1) (0, sample_db2)"
    "outbox_step (0, sample_db2) (0, sample_db3)" "outbox_step (0, sample_db3) (0, sample_db4)"
    "outbox_step (0, sample_db4) (0, sample_db5)"
    using sample_enqueue sample_claim1 sample_publish sample_claim2
    by (auto intro: outbox_step.intros)
  then have "outbox_step\<^sup>*\<^sup>* (0, outbox_empty) (0, sample_db2)" by (meson rtranclp.simps)
  with 1 show "outbox_reachable (0, sample_db2)" "outbox_reachable (0, sample_db3)"
    "outbox_reachable (0, sample_db5)"
    unfolding outbox_reachable_def by (meson rtranclp.rtrancl_into_rtrancl)+
qed

section \<open>Properties\<close>

text \<open>
  C25. Delivery in order. In every reachable database, an event that is leased to a worker,
  published or dead-lettered has no unsettled predecessor: every event of the same tenant and
  ordering key with a smaller sequence that is still in the table has been published or
  discarded.
\<close>

theorem outbox_delivers_in_order:
  assumes "outbox_reachable (now, db)"
    and "p \<in> set (outbox_events db)" "e \<in> set (outbox_events db)"
    and "event_tenant_id p = event_tenant_id e" "event_ordering_key p = event_ordering_key e"
    and "event_aggregate_sequence p < event_aggregate_sequence e"
    and "event_claimed_by e \<noteq> None \<or> event_published_at e \<noteq> None \<or> event_dead_lettered_at e \<noteq> None"
  shows "event_published_at p \<noteq> None \<or> event_discarded_at p \<noteq> None"
proof -
  have inv: "outbox_inv (now, db)" using assms(1) by (rule inv_reachable)
  from inv_row_ok [OF inv assms(3)] assms(7) have "0 < event_claim_version e"
    by (auto simp: row_ok_defs split: option.splits)
  moreover have "in_order (outbox_events db)" using inv by (simp add: outbox_inv_def)
  ultimately show ?thesis
    using assms(2-6) by (auto simp: in_order_def precedes_def event_settled_def)
qed

theorem outbox_delivers_in_order_witness:
  "event_settled (publish_row 0 (sample_lease (enqueued_event 1 0 (sample_event 1))))"
  unfolding event_settled_def
  by (rule outbox_delivers_in_order [OF sample_reachable(3),
        where e = "sample_lease (enqueued_event 2 0 (sample_event 2))"])
    (simp_all add: sample_defs)

text \<open>
  C26. Published once. When a worker's publication of an event has been accepted, then in
  every later state no worker can settle that event again, neither as published nor as
  failed, whatever claim it names, and the journal holds exactly one publication of it, even
  after the event itself has been purged.
\<close>

theorem outbox_published_once:
  assumes "outbox_reachable (now, db)"
    and "mark_published now tenant_id target w v db = Inr (True, db')"
    and "outbox_step\<^sup>*\<^sup>* (now, db') (now'', db'')"
  shows "(\<forall>w' v' b d. mark_published now'' tenant_id target w' v' db'' = Inr (b, d) \<longrightarrow> \<not> b) \<and>
    (\<forall>f b d. fail_tenant_id f = tenant_id \<and> fail_event_id f = target \<and>
       mark_failed now'' f db'' = Inr (b, d) \<longrightarrow> \<not> b) \<and>
    length (filter (\<lambda>r. result_outcome r = ''published'' \<and>
       (result_tenant_id r, result_event_id r) = (tenant_id, target)) (outbox_results db'')) = 1"
proof -
  have inv: "outbox_inv (now, db)" using assms(1) by (rule inv_reachable)
  have inv'': "outbox_inv (now'', db'')"
    using inv_steps [OF assms(3)] inv_mark_published [OF inv assms(2)] by simp
  obtain r where r: "r \<in> set (outbox_results db'')" "result_tenant_id r = tenant_id"
    "result_event_id r = target" "result_outcome r = ''published''"
    using mark_published_records [OF inv assms(2)] results_grow_steps [OF assms(3)] by auto
  note final = published_result_final [OF inv'' r]
  have "distinct (map (\<lambda>r. (result_tenant_id r, result_event_id r))
      (filter (\<lambda>r. result_outcome r = ''published'') (outbox_results db'')))"
    using inv'' by (simp add: outbox_inv_def results_ok_def)
  then have "length (filter (\<lambda>r. result_outcome r = ''published'' \<and>
      (result_tenant_id r, result_event_id r) = (tenant_id, target)) (outbox_results db'')) = 1"
    using r by (intro distinct_filter_one) auto
  moreover have "\<not> b" if "mark_published now'' tenant_id target w' v' db'' = Inr (b, d)" for w' v' b d
    using mark_published_outcome [OF inv'' that] final by blast
  moreover have "\<not> b" if "fail_tenant_id f = tenant_id" "fail_event_id f = target"
    "mark_failed now'' f db'' = Inr (b, d)" for f b d
    using mark_failed_outcome [OF that(3)] that(1,2) final by blast
  ultimately show ?thesis by blast
qed

theorem outbox_published_once_witness:
  "length (filter (\<lambda>r. result_outcome r = ''published'' \<and>
     (result_tenant_id r, result_event_id r) = (7, 1)) (outbox_results sample_db4)) = 1"
  using outbox_published_once [OF sample_reachable(2) sample_publish rtranclp.rtrancl_refl] by blast





end
