(* ===== verification/Bytes.thy ===== *)
theory Bytes
  imports Wareboxes_Prelude
begin

text \<open>
  Text and integers as bytes: the UTF-8 encoding behind \<open>str::as_bytes\<close> and
  \<open>str::len\<close>, and \<open>to_be_bytes\<close>. Both are injective, and the UTF-8 encoding is
  even uniquely decodable in front of arbitrary bytes.
\<close>

section \<open>Definitions\<close>

definition utf8_char :: "rust_char \<Rightarrow> nat list" where
  "utf8_char c =
     (if c < 128 then [c]
      else if c < 2048 then [192 + c div 64, 128 + c mod 64]
      else if c < 65536 then [224 + c div 4096, 128 + c div 64 mod 64, 128 + c mod 64]
      else [240 + c div 262144, 128 + c div 4096 mod 64, 128 + c div 64 mod 64, 128 + c mod 64])"

definition utf8_bytes :: "rust_string \<Rightarrow> nat list" where
  "utf8_bytes s = concat (map utf8_char s)"

text \<open>\<open>String::len\<close> counts UTF-8 bytes, \<open>chars().count()\<close> scalar values.\<close>

definition utf8_len :: "rust_string \<Rightarrow> nat" where
  "utf8_len s = length (utf8_bytes s)"

abbreviation scalar_values :: "rust_string \<Rightarrow> bool" where
  "scalar_values s \<equiv> \<forall>c\<in>set s. c < 1114112"

text \<open>The \<open>n\<close> low bytes of a number, most significant first.\<close>

fun be_bytes :: "nat \<Rightarrow> nat \<Rightarrow> nat list" where
  "be_bytes 0 v = []"
| "be_bytes (Suc n) v = (v div 256 ^ n) mod 256 # be_bytes n v"

section \<open>Lemmas\<close>

lemma utf8_bytes_simps [simp]:
  "utf8_bytes [] = []" "utf8_bytes (c # s) = utf8_char c @ utf8_bytes s"
  by (simp_all add: utf8_bytes_def)

lemma utf8_char_nonempty [simp]: "utf8_char c \<noteq> []"
  by (simp add: utf8_char_def)

lemma length_le_utf8_len: "length v \<le> utf8_len v"
proof (induction v)
  case (Cons c v)
  have "1 \<le> length (utf8_char c)" by (simp add: Suc_le_eq)
  with Cons show ?case by (simp add: utf8_len_def)
qed (simp add: utf8_len_def)

lemma utf8_len_eq:
  "utf8_len s = sum_list (map (\<lambda>c.
     if c < 128 then 1 else if c < 2048 then 2 else if c < 65536 then 3 else 4) s)"
  by (induction s) (simp_all add: utf8_len_def utf8_char_def)

lemma utf8_bytes_ascii: "\<forall>c\<in>set s. c < 128 \<Longrightarrow> utf8_bytes s = s"
  by (induction s) (simp_all add: utf8_char_def)

text \<open>The number of bytes of a character is read off its first byte.\<close>

lemma utf8_char_lead:
  assumes "c < 1114112"
  shows "(hd (utf8_char c) < 128 \<longleftrightarrow> c < 128) \<and>
    (hd (utf8_char c) < 224 \<longleftrightarrow> c < 2048) \<and> (hd (utf8_char c) < 240 \<longleftrightarrow> c < 65536)"
proof -
  have "c < 2048 \<Longrightarrow> c div 64 < 32" "c < 65536 \<Longrightarrow> c div 4096 < 16"
    by (simp_all add: less_mult_imp_div_less)
  then show ?thesis by (simp add: utf8_char_def) linarith
qed

lemma digits_eq:
  assumes "c div 64 = d div 64" "c mod 64 = d mod 64"
  shows "c = (d :: nat)"
proof -
  have "c = c div 64 * 64 + c mod 64" by (rule div_mult_mod_eq [symmetric])
  also have "\<dots> = d div 64 * 64 + d mod 64" by (simp only: assms)
  also have "\<dots> = d" by (rule div_mult_mod_eq)
  finally show ?thesis .
qed

lemma utf8_char_short:
  "c < 128 \<Longrightarrow> utf8_char c = [c]"
  "128 \<le> c \<Longrightarrow> c < 2048 \<Longrightarrow> utf8_char c = [192 + c div 64, 128 + c mod 64]"
  by (simp_all add: utf8_char_def)

lemma utf8_char_long:
  "2048 \<le> c \<Longrightarrow> c < 65536 \<Longrightarrow>
    utf8_char c = [224 + c div 4096, 128 + c div 64 mod 64, 128 + c mod 64]"
  "65536 \<le> c \<Longrightarrow>
    utf8_char c = [240 + c div 262144, 128 + c div 4096 mod 64, 128 + c div 64 mod 64, 128 + c mod 64]"
  by (simp_all add: utf8_char_def)

lemma digits_eq2:
  assumes "c div 4096 = d div 4096" "c div 64 mod 64 = d div 64 mod 64" "c mod 64 = (d :: nat) mod 64"
  shows "c = d"
proof -
  have "x div 64 div 64 = x div 4096" for x :: nat using div_mult2_eq [of x 64 64] by simp
  then have "c div 64 div 64 = d div 64 div 64" by (simp only: assms(1))
  from digits_eq [OF this assms(2)] assms(3) show ?thesis by (rule digits_eq)
qed

lemma digits_eq3:
  assumes "c div 262144 = d div 262144" "c div 4096 mod 64 = d div 4096 mod 64"
    "c div 64 mod 64 = d div 64 mod 64" "c mod 64 = (d :: nat) mod 64"
  shows "c = d"
proof -
  have "x div 4096 div 64 = x div 262144" for x :: nat using div_mult2_eq [of x 4096 64] by simp
  then have "c div 4096 div 64 = d div 4096 div 64" by (simp only: assms(1))
  from digits_eq [OF this assms(2)] assms(3,4) show ?thesis by (rule digits_eq2)
qed

lemma utf8_char_append_inj:
  assumes "c < 1114112" "d < 1114112" "utf8_char c @ xs = utf8_char d @ ys"
  shows "c = d \<and> xs = ys"
proof -
  note inject = append_Cons append_Nil list.inject add_left_cancel
  have "hd (utf8_char c) = hd (utf8_char d)"
    using arg_cong [OF assms(3), of hd] by simp
  then have same: "c < 128 \<longleftrightarrow> d < 128" "c < 2048 \<longleftrightarrow> d < 2048" "c < 65536 \<longleftrightarrow> d < 65536"
    using utf8_char_lead [OF assms(1)] utf8_char_lead [OF assms(2)] by simp_all
  have least: "128 \<le> c \<longleftrightarrow> 128 \<le> d" "2048 \<le> c \<longleftrightarrow> 2048 \<le> d" "65536 \<le> c \<longleftrightarrow> 65536 \<le> d"
    using same by (simp_all only: not_less [symmetric])
  consider "c < 128" | "128 \<le> c" "c < 2048" | "2048 \<le> c" "c < 65536" | "65536 \<le> c" by linarith
  then show ?thesis
  proof cases
    case 1
    with same(1) have "d < 128" by blast
    with 1 show ?thesis using assms(3) by (simp only: utf8_char_short inject)
  next
    case 2
    with same(2) least(1) have "d < 2048" "128 \<le> d" by blast+
    with 2 have "c div 64 = d div 64 \<and> c mod 64 = d mod 64 \<and> xs = ys"
      using assms(3) by (simp only: utf8_char_short inject)
    then show ?thesis using digits_eq by blast
  next
    case 3
    with same(3) least(2) have "d < 65536" "2048 \<le> d" by blast+
    with 3 have "c div 4096 = d div 4096 \<and> c div 64 mod 64 = d div 64 mod 64 \<and>
        c mod 64 = d mod 64 \<and> xs = ys"
      using assms(3) by (simp only: utf8_char_long inject)
    then show ?thesis using digits_eq2 by blast
  next
    case 4
    with least(3) have "65536 \<le> d" by blast
    with 4 have "c div 262144 = d div 262144 \<and> c div 4096 mod 64 = d div 4096 mod 64 \<and>
        c div 64 mod 64 = d div 64 mod 64 \<and> c mod 64 = d mod 64 \<and> xs = ys"
      using assms(3) by (simp only: utf8_char_long inject)
    then show ?thesis using digits_eq3 by blast
  qed
qed

lemma utf8_bytes_inj:
  "scalar_values s \<Longrightarrow> scalar_values t \<Longrightarrow> utf8_bytes s = utf8_bytes t \<Longrightarrow> s = t"
proof (induction s arbitrary: t)
  case Nil
  then show ?case by (cases t) simp_all
next
  case (Cons c s)
  then obtain d t' where t: "t = d # t'" by (cases t) simp_all
  have "utf8_char c @ utf8_bytes s = utf8_char d @ utf8_bytes t'" using Cons.prems(3) t by simp
  from utf8_char_append_inj [OF _ _ this] Cons.prems(1,2) t
  have same: "c = d" "utf8_bytes s = utf8_bytes t'" by simp_all
  have "s = t'" by (rule Cons.IH) (use Cons.prems(1,2) t same(2) in simp_all)
  with same(1) t show ?case by simp
qed

lemma length_be_bytes [simp]: "length (be_bytes n v) = n"
  by (induction n) simp_all

lemma be_bytes_mod: "be_bytes n v = be_bytes n w \<Longrightarrow> v mod 256 ^ n = w mod 256 ^ n"
proof (induction n)
  case (Suc n)
  have split: "x mod 256 ^ Suc n = 256 ^ n * (x div 256 ^ n mod 256) + x mod 256 ^ n" for x :: nat
    using mod_mult2_eq [of x "256 ^ n" 256] by (simp add: mult.commute)
  from Suc show ?case unfolding split by simp
qed simp

lemma be_bytes_inj: "be_bytes n v = be_bytes n w \<Longrightarrow> v < 256 ^ n \<Longrightarrow> w < 256 ^ n \<Longrightarrow> v = w"
  using be_bytes_mod [of n v w] by simp

lemma append_be_bytes_inj:
  "be_bytes n v @ xs = be_bytes n w @ ys \<Longrightarrow> v < 256 ^ n \<Longrightarrow> w < 256 ^ n \<Longrightarrow> v = w \<and> xs = ys"
  using be_bytes_inj [of n v w] by (simp add: append_eq_append_conv)

end
