(* ===== verification/Outbox_Worker.thy ===== *)
theory Outbox_Worker
  imports Outbox_History Bytes
begin

text \<open>
  The outbox delivery worker, \<open>crates/worker/src/runner.rs\<close> with the trait interfaces of
  \<open>publisher.rs\<close> and \<open>store.rs\<close>, the PostgreSQL store behind them
  (\<open>apps/worker/src/store.rs\<close>) and the scheduled inventory reconciliation
  (\<open>reconciliation.rs\<close>). The store is a trait: its operations are arguments that thread a
  store state, instantiated by the outbox database; what the publisher's call yields is an
  argument. Event processing is a function; the concurrent part of a run (permits, spawned
  tasks, joins) is a step relation over the semaphore, the running and finished tasks, the
  summary and the first error; the two tenant-paging loops are partial functions over a
  store that may change between calls. Durations count nanoseconds.
\<close>

section \<open>Definitions\<close>

text \<open>\<open>anyhow::Error\<close>: a message, a context on another error, or what the database returned.\<close>

datatype WorkerError =
    Bail string
  | Context string WorkerError
  | TenantContext TenantId WorkerError
  | Persistence PersistenceError

definition MAX_PERSISTED_ERROR_CHARS :: nat where "MAX_PERSISTED_ERROR_CHARS = 1000"

record WorkerConfig =
  batch_size :: int
  max_in_flight :: nat
  tenant_page_size :: nat
  lease :: nat
  publish_timeout :: nat
  retry_delay :: nat
  retry_delay_cap :: nat
  max_attempts :: int

definition WorkerConfig_validate :: "WorkerConfig \<Rightarrow> WorkerError + unit" where
  "WorkerConfig_validate self =
     (if \<not> (1 \<le> batch_size self \<and> batch_size self \<le> 1000)
        then Err (Bail ''worker batch size must be between 1 and 1000'')
      else if \<not> (1 \<le> max_in_flight self \<and> max_in_flight self \<le> 1000)
        then Err (Bail ''maximum in-flight deliveries must be between 1 and 1000'')
      else if \<not> (1 \<le> tenant_page_size self \<and> tenant_page_size self \<le> 10000)
        then Err (Bail ''tenant page size must be between 1 and 10000'')
      else if lease self = 0 then Err (Bail ''worker lease must be positive'')
      else if publish_timeout self = 0 then Err (Bail ''publisher timeout must be positive'')
      else if publish_timeout self \<ge> lease self
        then Err (Bail ''publisher timeout must be shorter than the claim lease'')
      else if retry_delay_cap self < retry_delay self
        then Err (Bail ''retry delay cap must not be shorter than the base retry delay'')
      else if max_attempts self \<le> 0
        then Err (Bail ''maximum delivery attempts must be positive'')
      else Ok ())"

definition Worker_new :: "rust_string \<Rightarrow> WorkerConfig \<Rightarrow> WorkerError + rust_string \<times> WorkerConfig \<times> nat" where
  "Worker_new worker_id config =
     and_then (WorkerConfig_validate config) (\<lambda>_.
     if trim worker_id = [] \<or> utf8_len worker_id > 200
       then Err (Bail ''worker ID must contain between 1 and 200 characters'')
     else Ok (worker_id, config, max_in_flight config))"

record RunSummary =
  claimed :: nat
  published :: nat
  retryable_failures :: nat
  permanent_failures :: nat
  lost_claims :: nat

definition RunSummary_default :: RunSummary where
  "RunSummary_default =
     \<lparr>claimed = 0, published = 0, retryable_failures = 0, permanent_failures = 0,
      lost_claims = 0\<rparr>"

datatype EventOutcome = Published | RetryableFailure | PermanentFailure | LostClaim

fun RunSummary_record :: "RunSummary \<Rightarrow> EventOutcome \<Rightarrow> RunSummary" where
  "RunSummary_record self Published = self\<lparr>published := published self + 1\<rparr>"
| "RunSummary_record self RetryableFailure =
     self\<lparr>retryable_failures := retryable_failures self + 1\<rparr>"
| "RunSummary_record self PermanentFailure =
     self\<lparr>permanent_failures := permanent_failures self + 1\<rparr>"
| "RunSummary_record self LostClaim = self\<lparr>lost_claims := lost_claims self + 1\<rparr>"

subsection \<open>Publishing one event\<close>

datatype FailureClass = Retryable | Permanent

record PublishError =
  err_class :: FailureClass
  err_code :: rust_string
  err_message :: rust_string
  err_retry_after :: "nat option"

definition PublishError_retryable :: "rust_string \<Rightarrow> rust_string \<Rightarrow> PublishError" where
  "PublishError_retryable code message =
     \<lparr>err_class = Retryable, err_code = code, err_message = message, err_retry_after = None\<rparr>"

definition PublishError_permanent :: "rust_string \<Rightarrow> rust_string \<Rightarrow> PublishError" where
  "PublishError_permanent code message =
     \<lparr>err_class = Permanent, err_code = code, err_message = message, err_retry_after = None\<rparr>"

definition with_retry_after :: "PublishError \<Rightarrow> nat \<Rightarrow> PublishError" where
  "with_retry_after self delay = self\<lparr>err_retry_after := Some delay\<rparr>"

text \<open>What awaiting the spawned, time-limited publisher call can yield.\<close>

datatype publish_result =
    Delivered
  | Rejected PublishError
  | Elapsed
  | Panicked
  | TaskCancelled

text \<open>The two store calls that settle a claim, with the worker id already applied.\<close>

type_synonym 's mark_published = "'s \<Rightarrow> OutboxEvent \<Rightarrow> (WorkerError + bool) \<times> 's"
type_synonym 's mark_failed =
  "'s \<Rightarrow> OutboxEvent \<Rightarrow> rust_string \<Rightarrow> FailureClass \<Rightarrow> nat \<Rightarrow> int \<Rightarrow> (WorkerError + bool) \<times> 's"

definition retry_after :: "WorkerConfig \<Rightarrow> PublishError \<Rightarrow> nat" where
  "retry_after config error =
     min (max (case err_retry_after error of Some d \<Rightarrow> d | None \<Rightarrow> retry_delay config)
       (retry_delay config)) (retry_delay_cap config)"

definition bounded_diagnostic :: "rust_string \<Rightarrow> rust_string \<Rightarrow> rust_string" where
  "bounded_diagnostic code message =
     take MAX_PERSISTED_ERROR_CHARS (code @ lit '': '' @ message)"

definition record_runtime_failure ::
  "'s mark_failed \<Rightarrow> 's \<Rightarrow> OutboxEvent \<Rightarrow> WorkerConfig \<Rightarrow> rust_string \<Rightarrow> rust_string \<Rightarrow>
   (WorkerError + EventOutcome) \<times> 's" where
  "record_runtime_failure mark_fail store event config code message =
     (case mark_fail store event (bounded_diagnostic code message) Retryable
         (retry_delay config) (max_attempts config) of
        (Inl error, store') \<Rightarrow> (Err error, store')
      | (Inr recorded, store') \<Rightarrow>
          (if recorded then Ok RetryableFailure else Ok LostClaim, store'))"

definition process_event ::
  "'s mark_published \<Rightarrow> 's mark_failed \<Rightarrow> WorkerConfig \<Rightarrow> OutboxEvent \<Rightarrow> publish_result \<Rightarrow> 's \<Rightarrow>
   (WorkerError + EventOutcome) \<times> 's" where
  "process_event mark_pub mark_fail config event publish store =
     (case publish of
        Delivered \<Rightarrow>
          (case mark_pub store event of
             (Inl error, store') \<Rightarrow> (Err error, store')
           | (Inr settled, store') \<Rightarrow>
               (if settled then Ok EventOutcome.Published else Ok LostClaim, store'))
      | Rejected error \<Rightarrow>
          let attempts = (case err_class error of
                Retryable \<Rightarrow> max_attempts config
              | Permanent \<Rightarrow> max (event_attempts event) 1)
          in (case mark_fail store event
                  (bounded_diagnostic (err_code error) (err_message error))
                  (err_class error) (retry_after config error) attempts of
                (Inl error, store') \<Rightarrow> (Err error, store')
              | (Inr recorded, store') \<Rightarrow>
                  (if \<not> recorded then Ok LostClaim
                   else Ok (case err_class error of
                     Retryable \<Rightarrow> RetryableFailure | Permanent \<Rightarrow> EventOutcome.PermanentFailure),
                   store'))
      | Elapsed \<Rightarrow> record_runtime_failure mark_fail store event config
          (lit ''publisher_timeout'') (lit ''publisher exceeded its configured timeout'')
      | Panicked \<Rightarrow> record_runtime_failure mark_fail store event config
          (lit ''publisher_task_failed'') (lit ''publisher panicked'')
      | TaskCancelled \<Rightarrow> record_runtime_failure mark_fail store event config
          (lit ''publisher_task_failed'') (lit ''publisher task was cancelled''))"

subsection \<open>The PostgreSQL store\<close>

definition NANOS :: nat where "NANOS = 1000000000"

definition u64_max :: int where "u64_max = 2 ^ 64 - 1"

text \<open>Whole seconds, rounded up; the error carries the label.\<close>

definition duration_seconds :: "nat \<Rightarrow> string \<Rightarrow> WorkerError + int" where
  "duration_seconds duration label =
     (let seconds = int (duration div NANOS) + (if duration mod NANOS \<noteq> 0 then 1 else 0)
      in if seconds > u64_max then Err (Bail (label @ '' does not fit in whole seconds''))
         else if \<not> in_i64 seconds then Err (Bail (label @ '' does not fit in i64 seconds''))
         else Ok seconds)"

definition PostgresOutboxStore_mark_published ::
  "Timestamp \<Rightarrow> rust_string \<Rightarrow> outbox_db mark_published" where
  "PostgresOutboxStore_mark_published now worker_id db event =
     (case mark_published now (event_tenant_id event) (event_id event) worker_id
         (event_claim_version event) db of
        Inl error \<Rightarrow> (Err (Persistence error), db)
      | Inr (settled, db') \<Rightarrow> (Ok settled, db'))"

definition PostgresOutboxStore_mark_failed ::
  "Timestamp \<Rightarrow> rust_string \<Rightarrow> outbox_db mark_failed" where
  "PostgresOutboxStore_mark_failed now worker_id db event error failure_class delay attempts =
     (case duration_seconds delay ''outbox retry delay'' of
        Inl error \<Rightarrow> (Err error, db)
      | Inr retry_after_seconds \<Rightarrow>
          (case mark_failed now
              \<lparr>fail_tenant_id = event_tenant_id event, fail_event_id = event_id event,
               fail_worker_id = worker_id, fail_claim_version = event_claim_version event,
               fail_failure_class = (case failure_class of
                   Retryable \<Rightarrow> DeliveryFailureClass.Retryable
                 | Permanent \<Rightarrow> DeliveryFailureClass.Permanent),
               fail_error = error, fail_retry_after_seconds = retry_after_seconds,
               fail_max_attempts = attempts\<rparr> db of
             Inl error \<Rightarrow> (Err (Persistence error), db)
           | Inr (recorded, db') \<Rightarrow> (Ok recorded, db')))"

definition PostgresOutboxStore_claim ::
  "int list \<Rightarrow> Timestamp \<Rightarrow> TenantId \<Rightarrow> rust_string \<Rightarrow> rust_string \<Rightarrow> int \<Rightarrow> nat \<Rightarrow> outbox_db \<Rightarrow>
   (WorkerError + OutboxEvent list) \<times> outbox_db" where
  "PostgresOutboxStore_claim locked now tenant_id worker_id publisher_name n lease_time db =
     (case duration_seconds lease_time ''outbox lease'' of
        Inl error \<Rightarrow> (Err error, db)
      | Inr lease_seconds \<Rightarrow>
          (case claim_events locked now tenant_id worker_id publisher_name n lease_seconds db of
             Inl error \<Rightarrow> (Err (Persistence error), db)
           | Inr (events, db') \<Rightarrow> (Ok events, db')))"

text \<open>The columns of \<open>tenants\<close> the two discovery queries read.\<close>

record tenant_row =
  tenant_row_id :: TenantId
  tenant_deleted :: "Timestamp option"
  tenant_status :: string

definition cursor :: "TenantId option \<Rightarrow> int" where
  "cursor after = (case after of None \<Rightarrow> 0 | Some tenant_id \<Rightarrow> tenant_id)"

definition tenant_page :: "(tenant_row \<Rightarrow> bool) \<Rightarrow> tenant_row list \<Rightarrow> TenantId option \<Rightarrow> nat \<Rightarrow>
   WorkerError + TenantId list" where
  "tenant_page visible rows after limit =
     (if \<not> (1 \<le> limit \<and> limit \<le> 10000)
        then Err (Bail ''tenant page limit must be between 1 and 10000'')
      else Ok (take limit (sort_by cmp_int (map tenant_row_id
        (filter (\<lambda>t. tenant_deleted t = None \<and> visible t \<and> tenant_row_id t > cursor after) rows)))))"

definition PostgresOutboxStore_delivery_tenants ::
  "tenant_row list \<Rightarrow> TenantId option \<Rightarrow> nat \<Rightarrow> WorkerError + TenantId list" where
  "PostgresOutboxStore_delivery_tenants = tenant_page (\<lambda>_. True)"

definition active_tenants ::
  "tenant_row list \<Rightarrow> TenantId option \<Rightarrow> nat \<Rightarrow> WorkerError + TenantId list" where
  "active_tenants = tenant_page (\<lambda>t. tenant_status t = ''active'')"

text \<open>Whether the claim a worker's snapshot of an event names is still held.\<close>

definition claim_held :: "Timestamp \<Rightarrow> rust_string \<Rightarrow> OutboxEvent \<Rightarrow> outbox_db \<Rightarrow> bool" where
  "claim_held now worker_id e db \<longleftrightarrow> (\<exists>x\<in>set (outbox_events db).
     holds_claim now (event_tenant_id e) (event_id e) worker_id (event_claim_version e) x)"

subsection \<open>Claiming and spawning\<close>

record delivery_state =
  available_permits :: nat
  held_permits :: nat
  running :: "OutboxEvent list"
  finished :: "(WorkerError + EventOutcome) list"
  summary :: RunSummary
  first_error :: "WorkerError option"

definition delivery_start :: "WorkerConfig \<Rightarrow> delivery_state" where
  "delivery_start config =
     \<lparr>available_permits = max_in_flight config, held_permits = 0, running = [], finished = [],
      summary = RunSummary_default, first_error = None\<rparr>"

definition desired_capacity :: "WorkerConfig \<Rightarrow> nat" where
  "desired_capacity config = min (nat (batch_size config)) (max_in_flight config)"

definition record_first_error :: "WorkerError option \<Rightarrow> WorkerError \<Rightarrow> WorkerError option" where
  "record_first_error first error = (case first of None \<Rightarrow> Some error | Some e \<Rightarrow> Some e)"

text \<open>
  The rest of \<open>claim\_and\_spawn\<close> once \<open>reserve\_claim\_slots\<close> holds its permits and
  the store has answered: an error gives every held permit back; otherwise the unused permits
  are released and each claimed event becomes a task that owns one permit.
\<close>

definition claim_and_spawn ::
  "delivery_state \<Rightarrow> WorkerError + OutboxEvent list \<Rightarrow> (WorkerError + unit) \<times> delivery_state" where
  "claim_and_spawn s answer =
     (let released = s\<lparr>available_permits := available_permits s + held_permits s, held_permits := 0\<rparr>
      in case answer of
           Inl error \<Rightarrow> (Err error, released)
         | Inr events \<Rightarrow>
             if length events > held_permits s
               then (Err (Bail ''outbox store returned more events than the requested claim limit''),
                 released)
             else (Ok (),
               s\<lparr>available_permits := available_permits s + (held_permits s - length events),
                 held_permits := 0,
                 running := running s @ events,
                 summary := (summary s)\<lparr>claimed := claimed (summary s) + length events\<rparr>\<rparr>))"

text \<open>One turn of \<open>run\_tenants\<close>: a failed claim is recorded and the run goes on.\<close>

definition tenant_turn :: "TenantId \<Rightarrow> delivery_state \<Rightarrow> WorkerError + OutboxEvent list \<Rightarrow> delivery_state" where
  "tenant_turn tenant s answer =
     (case claim_and_spawn s answer of
        (Inl error, s') \<Rightarrow>
          s'\<lparr>first_error := record_first_error (first_error s') (TenantContext tenant error)\<rparr>
      | (Inr _, s') \<Rightarrow> s')"

definition record_task_result ::
  "WorkerError + EventOutcome \<Rightarrow> delivery_state \<Rightarrow> delivery_state" where
  "record_task_result result s =
     (case result of
        Inr outcome \<Rightarrow> s\<lparr>summary := RunSummary_record (summary s) outcome\<rparr>
      | Inl error \<Rightarrow> s\<lparr>first_error := record_first_error (first_error s) error\<rparr>)"

definition finish_summary :: "delivery_state \<Rightarrow> WorkerError + RunSummary" where
  "finish_summary s =
     (case first_error s of Some error \<Rightarrow> Err error | None \<Rightarrow> Ok (summary s))"

definition drain_tasks :: "delivery_state \<Rightarrow> delivery_state" where
  "drain_tasks s = fold record_task_result (finished s) (s\<lparr>finished := []\<rparr>)"

text \<open>
  \<open>run\_once\<close> on one tenant: the claim's error is returned as it is; otherwise the tasks run
  to completion (\<open>results\<close>, in the order they are joined) and the summary is finished.
\<close>

definition run_once ::
  "delivery_state \<Rightarrow> WorkerError + OutboxEvent list \<Rightarrow> (WorkerError + EventOutcome) list \<Rightarrow>
   WorkerError + RunSummary" where
  "run_once s answer results =
     (case claim_and_spawn s answer of
        (Inl error, s') \<Rightarrow> Err error
      | (Inr _, s') \<Rightarrow> finish_summary (drain_tasks (s'\<lparr>running := [], finished := results\<rparr>)))"

text \<open>
  The spawned tasks: a running task settles its event, or is aborted by the runtime, and gives
  its permit back; a finished task is joined.
\<close>

inductive task_step :: "WorkerConfig \<Rightarrow> delivery_state \<Rightarrow> delivery_state \<Rightarrow> bool" for config where
  settle: "running s = before @ event # after \<Longrightarrow>
    task_step config s (s\<lparr>running := before @ after,
      available_permits := available_permits s + 1,
      finished := finished s @ [fst (process_event mark_pub mark_fail config event publish
        (store :: outbox_db))]\<rparr>)"
| abort: "running s = before @ event # after \<Longrightarrow>
    task_step config s (s\<lparr>running := before @ after,
      available_permits := available_permits s + 1,
      finished := finished s @ [Inl (Context
        ''joining an outbox event task after publisher panic containment'' error)]\<rparr>)"
| join: "finished s = before @ result # after \<Longrightarrow>
    task_step config s (record_task_result result (s\<lparr>finished := before @ after\<rparr>))"

text \<open>
  One run of the worker, every interleaving of the claiming loop with the spawned tasks: the
  claimer acquires a first permit when one is available and merges further ones up to its
  desired capacity; then the store answers the claim.
\<close>

inductive worker_step :: "WorkerConfig \<Rightarrow> delivery_state \<Rightarrow> delivery_state \<Rightarrow> bool" for config where
  acquire: "held_permits s = 0 \<Longrightarrow> 0 < available_permits s \<Longrightarrow>
    worker_step config s (s\<lparr>available_permits := available_permits s - 1, held_permits := 1\<rparr>)"
| merge: "0 < held_permits s \<Longrightarrow> held_permits s < desired_capacity config \<Longrightarrow>
    0 < available_permits s \<Longrightarrow>
    worker_step config s (s\<lparr>available_permits := available_permits s - 1,
      held_permits := held_permits s + 1\<rparr>)"
| claim: "0 < held_permits s \<Longrightarrow> worker_step config s (tenant_turn tenant s answer)"
| task: "task_step config s s' \<Longrightarrow> worker_step config s s'"

subsection \<open>Tenant paging\<close>

fun page_increasing :: "int \<Rightarrow> TenantId list \<Rightarrow> bool" where
  "page_increasing previous_id [] \<longleftrightarrow> True"
| "page_increasing previous_id (t # ts) \<longleftrightarrow> previous_id < t \<and> page_increasing t ts"

definition validate_tenant_page :: "TenantId option \<Rightarrow> TenantId list \<Rightarrow> WorkerError + unit" where
  "validate_tenant_page after tenant_ids =
     (if page_increasing (cursor after) tenant_ids then Ok ()
      else Err (Bail ''tenant discovery page must be strictly increasing after its cursor''))"

text \<open>
  The discovery loop of \<open>run\_discovered\_cycle\<close>. The store may answer differently every
  time, so its state is threaded through; \<open>run\_tenants\<close> stands for the claims of one
  page. The result lists the tenants given a turn and the error that ended discovery, if any.
\<close>

partial_function (option) discover_loop ::
  "('s \<Rightarrow> TenantId option \<Rightarrow> nat \<Rightarrow> (WorkerError + TenantId list) \<times> 's) \<Rightarrow>
   ('s \<Rightarrow> TenantId list \<Rightarrow> 's) \<Rightarrow> nat \<Rightarrow> TenantId option \<Rightarrow> TenantId list \<Rightarrow> 's \<Rightarrow>
   (TenantId list \<times> WorkerError option \<times> 's) option" where
  "discover_loop delivery_tenants run_tenants page_size after visited s =
     (case delivery_tenants s after page_size of
        (Inl error, s') \<Rightarrow>
          Some (visited, Some (Context ''discovering tenants for outbox delivery'' error), s')
      | (Inr tenant_ids, s') \<Rightarrow>
          if tenant_ids = [] then Some (visited, None, s')
          else (case validate_tenant_page after tenant_ids of
                  Inl error \<Rightarrow> Some (visited, Some error, s')
                | Inr _ \<Rightarrow>
                    if length tenant_ids < page_size
                      then Some (visited @ tenant_ids, None, run_tenants s' tenant_ids)
                    else discover_loop delivery_tenants run_tenants page_size
                      (Some (last tenant_ids)) (visited @ tenant_ids) (run_tenants s' tenant_ids)))"

subsection \<open>Inventory reconciliation\<close>

record InventoryReconciliationConfig =
  interval_seconds :: int
  recon_tenant_page_size :: nat

definition InventoryReconciliationConfig_validate :: "InventoryReconciliationConfig \<Rightarrow> WorkerError + unit" where
  "InventoryReconciliationConfig_validate self =
     (if \<not> (60 \<le> interval_seconds self \<and> interval_seconds self \<le> 86400)
        then Err (Bail ''inventory reconciliation interval must be between 60 and 86400 seconds'')
      else if \<not> (1 \<le> recon_tenant_page_size self \<and> recon_tenant_page_size self \<le> 10000)
        then Err (Bail ''inventory reconciliation tenant page size must be between 1 and 10000'')
      else Ok ())"

datatype InventoryReconciliationHealth = Healthy | IssuesDetected

datatype InventoryReconciliationAlert = AlertIssuesDetected | AlertIssuesChanged | AlertRestored

record InventoryReconciliationRunResult =
  run_id :: int
  run_tenant_id :: TenantId
  run_scheduled_for :: Timestamp
  run_completed_at :: Timestamp
  run_next_due_at :: Timestamp
  run_interval_seconds :: int
  run_health :: InventoryReconciliationHealth
  run_previous_health :: "InventoryReconciliationHealth option"
  run_journal_projection_issue_count :: int
  run_commitment_issue_count :: int
  run_affected_inventory_owner_count :: int
  run_affected_facility_count :: int
  run_max_severity_quantity :: int
  run_issue_digest :: rust_string
  run_state_revision :: int
  run_created :: bool
  run_alert :: "InventoryReconciliationAlert option"

record InventoryReconciliationSummary =
  attempted :: nat
  completed :: nat
  replayed :: nat
  alerts :: nat
  failures :: "(TenantId \<times> WorkerError) list"

definition InventoryReconciliationSummary_default :: InventoryReconciliationSummary where
  "InventoryReconciliationSummary_default =
     \<lparr>attempted = 0, completed = 0, replayed = 0, alerts = 0, failures = []\<rparr>"

definition InventoryReconciliationWorker_new ::
  "rust_string \<Rightarrow> InventoryReconciliationConfig \<Rightarrow>
   WorkerError + rust_string \<times> InventoryReconciliationConfig" where
  "InventoryReconciliationWorker_new worker_id config =
     and_then (InventoryReconciliationConfig_validate config) (\<lambda>_.
     if trim worker_id = [] \<or> length worker_id > 200
       then Err (Bail
         ''inventory reconciliation worker ID must contain between 1 and 200 characters'')
     else Ok (worker_id, config))"

definition validate_reconciliation_page :: "TenantId option \<Rightarrow> TenantId list \<Rightarrow> WorkerError + unit" where
  "validate_reconciliation_page after tenant_ids =
     (if page_increasing (cursor after) tenant_ids then Ok ()
      else Err (Bail ''inventory reconciliation tenant page must be strictly increasing''))"

text \<open>One tenant of the inner loop; the store's \<open>reconcile\<close> threads its own state.\<close>

definition reconcile_tenant ::
  "('s \<Rightarrow> TenantId \<Rightarrow> (WorkerError + InventoryReconciliationRunResult) \<times> 's) \<Rightarrow> TenantId \<Rightarrow>
   InventoryReconciliationSummary \<times> 's \<Rightarrow> InventoryReconciliationSummary \<times> 's" where
  "reconcile_tenant reconcile tenant st = (case st of (sm, s) \<Rightarrow>
     let sm' = sm\<lparr>attempted := attempted sm + 1\<rparr>
     in case reconcile s tenant of
          (Inr result, s') \<Rightarrow>
            (if run_created result
               then sm'\<lparr>completed := completed sm' + 1,
                 alerts := alerts sm' + (if run_alert result \<noteq> None then 1 else 0)\<rparr>
             else sm'\<lparr>replayed := replayed sm' + 1\<rparr>, s')
        | (Inl error, s') \<Rightarrow> (sm'\<lparr>failures := failures sm' @ [(tenant, error)]\<rparr>, s'))"

partial_function (option) reconcile_loop ::
  "('s \<Rightarrow> TenantId option \<Rightarrow> nat \<Rightarrow> (WorkerError + TenantId list) \<times> 's) \<Rightarrow>
   ('s \<Rightarrow> TenantId \<Rightarrow> (WorkerError + InventoryReconciliationRunResult) \<times> 's) \<Rightarrow> nat \<Rightarrow>
   TenantId option \<Rightarrow> InventoryReconciliationSummary \<Rightarrow> 's \<Rightarrow>
   ((WorkerError + InventoryReconciliationSummary) \<times> 's) option" where
  "reconcile_loop tenants reconcile page_size after sm s =
     (case tenants s after page_size of
        (Inl error, s') \<Rightarrow>
          Some (Err (Context ''discovering tenants for inventory reconciliation'' error), s')
      | (Inr tenant_ids, s') \<Rightarrow>
          if tenant_ids = [] then Some (Ok sm, s')
          else (case validate_reconciliation_page after tenant_ids of
                  Inl error \<Rightarrow> Some (Err error, s')
                | Inr _ \<Rightarrow>
                    let (sm', s'') = fold (reconcile_tenant reconcile) tenant_ids (sm, s')
                    in if length tenant_ids < page_size then Some (Ok sm', s'')
                       else reconcile_loop tenants reconcile page_size (Some (last tenant_ids))
                         sm' s''))"


subsection \<open>What a run keeps\<close>

definition summary_total :: "RunSummary \<Rightarrow> nat" where
  "summary_total sm = published sm + retryable_failures sm + permanent_failures sm + lost_claims sm"

definition worker_inv :: "WorkerConfig \<Rightarrow> delivery_state \<Rightarrow> bool" where
  "worker_inv config s \<longleftrightarrow>
     available_permits s + held_permits s + length (running s) = max_in_flight config \<and>
     held_permits s \<le> max 1 (desired_capacity config) \<and>
     (first_error s = None \<longrightarrow>
        claimed (summary s) = summary_total (summary s) + length (running s) + length (finished s)) \<and>
     summary_total (summary s) + length (running s) + length (finished s) \<le> claimed (summary s)"

section \<open>Interfaces\<close>

text \<open>
  What the worker relies on when it settles a claim. \<open>ready\<close> is the store's invariant and
  \<open>holds\<close> whether the claim a snapshot names is still held; both calls report exactly that,
  keep the store ready and end the claim.
\<close>

locale settling_store =
  fixes ready :: "'s \<Rightarrow> bool"
    and holds :: "OutboxEvent \<Rightarrow> 's \<Rightarrow> bool"
    and text_ok :: "rust_string \<Rightarrow> bool"
    and delay_ok :: "nat \<Rightarrow> bool"
    and mark_pub :: "'s \<Rightarrow> OutboxEvent \<Rightarrow> (WorkerError + bool) \<times> 's"
    and mark_fail :: "'s \<Rightarrow> OutboxEvent \<Rightarrow> rust_string \<Rightarrow> FailureClass \<Rightarrow> nat \<Rightarrow> int \<Rightarrow>
      (WorkerError + bool) \<times> 's"
  assumes mark_pub_law:
      "ready s \<Longrightarrow> \<exists>s'. mark_pub s e = (Inr (holds e s), s') \<and> ready s' \<and> \<not> holds e s'"
    and mark_fail_law:
      "ready s \<Longrightarrow> text_ok d \<Longrightarrow> delay_ok t \<Longrightarrow> 0 < n \<Longrightarrow>
       \<exists>s'. mark_fail s e d c t n = (Inr (holds e s), s') \<and> ready s' \<and> \<not> holds e s'"
begin

text \<open>The outcome a worker reports when the claim is still its own.\<close>

lemma runtime_failure_settles:
  assumes "ready s" "text_ok (bounded_diagnostic code message)" "delay_ok (retry_delay config)"
    and "0 < max_attempts config"
  shows "\<exists>s'. record_runtime_failure mark_fail s e config code message =
      (Inr (if holds e s then RetryableFailure else LostClaim), s') \<and> ready s' \<and> \<not> holds e s'"
proof -
  obtain s' where "mark_fail s e (bounded_diagnostic code message) Retryable (retry_delay config)
      (max_attempts config) = (Inr (holds e s), s')" "ready s'" "\<not> holds e s'"
    using mark_fail_law [OF assms] by blast
  then show ?thesis by (simp add: record_runtime_failure_def)
qed

lemma publication_settles:
  assumes "ready s"
  shows "\<exists>s'. process_event mark_pub mark_fail config e Delivered s =
      (Inr (if holds e s then EventOutcome.Published else LostClaim), s') \<and> ready s' \<and> \<not> holds e s'"
proof -
  obtain s' where "mark_pub s e = (Inr (holds e s), s')" "ready s'" "\<not> holds e s'"
    using mark_pub_law [OF assms] by blast
  then show ?thesis by (simp add: process_event_def)
qed

lemma rejection_settles:
  assumes "ready s" "text_ok (bounded_diagnostic (err_code error) (err_message error))"
    and "delay_ok (retry_after config error)" "0 < max_attempts config"
  shows "\<exists>s'. process_event mark_pub mark_fail config e (Rejected error) s =
      (Inr (if holds e s then (case err_class error of Retryable \<Rightarrow> RetryableFailure
          | Permanent \<Rightarrow> EventOutcome.PermanentFailure) else LostClaim), s') \<and>
      ready s' \<and> \<not> holds e s'"
proof -
  let ?n = "case err_class error of Retryable \<Rightarrow> max_attempts config | Permanent \<Rightarrow> max (event_attempts e) 1"
  have "0 < ?n" using assms(4) by (cases "err_class error") auto
  then obtain s' where "mark_fail s e (bounded_diagnostic (err_code error) (err_message error))
      (err_class error) (retry_after config error) ?n = (Inr (holds e s), s')" "ready s'" "\<not> holds e s'"
    using mark_fail_law [OF assms(1-3)] by blast
  then show ?thesis by (simp add: process_event_def)
qed

end

text \<open>
  A discovery page is accepted exactly when it continues strictly after the cursor, so that
  every accepted, non-empty page brings the cursor closer to the largest identifier.
\<close>

locale tenant_paging =
  fixes validate :: "TenantId option \<Rightarrow> TenantId list \<Rightarrow> WorkerError + unit"
  assumes validate_iff: "validate after ids = Inr u \<longleftrightarrow> sorted_wrt (<) (cursor after # ids)"
begin

lemma page_progress:
  assumes "validate after ids = Inr u" "ids \<noteq> []" "\<forall>t\<in>set ids. in_i64 t"
  shows "nat (i64_max - cursor (Some (last ids))) < nat (i64_max - cursor after)"
proof -
  have "cursor after < last ids" using assms(1,2) by (simp add: validate_iff)
  moreover have "last ids \<le> i64_max" using assms(2,3) by (simp add: in_i64_def)
  ultimately show ?thesis by (simp add: cursor_def)
qed

lemma page_extends:
  assumes "validate after ids = Inr u" "sorted_wrt (<) seen" "\<forall>t\<in>set seen. t \<le> cursor after"
  shows "sorted_wrt (<) (seen @ ids)"
    "ids \<noteq> [] \<Longrightarrow> \<forall>t\<in>set (seen @ ids). t \<le> cursor (Some (last ids))"
proof -
  have ids: "sorted_wrt (<) (cursor after # ids)" using assms(1) by (simp add: validate_iff)
  have "x < y" if "x \<in> set seen" "y \<in> set ids" for x y
  proof -
    have "x \<le> cursor after" "cursor after < y" using assms(3) ids that by simp_all
    then show ?thesis by simp
  qed
  with ids assms(2) show "sorted_wrt (<) (seen @ ids)" by (simp add: sorted_wrt_append)
  show "\<forall>t\<in>set (seen @ ids). t \<le> cursor (Some (last ids))" if ne: "ids \<noteq> []"
  proof -
    obtain ys y where y: "ids = ys @ [y]" using ne by (cases ids rule: rev_cases) auto
    with ids have "\<forall>t\<in>set ys. t < y" "cursor after < y"
      by (auto simp: sorted_wrt_append)
    moreover have "t \<le> y" if "t \<in> set seen" for t
      using assms(3) that \<open>cursor after < y\<close> by fastforce
    ultimately show ?thesis using y by (auto simp: cursor_def)
  qed
qed

end

section \<open>Lemmas\<close>

subsection \<open>Configuration, durations and diagnostics\<close>

lemma WorkerConfig_validate_Inr_iff:
  "WorkerConfig_validate c = Inr u \<longleftrightarrow>
     1 \<le> batch_size c \<and> batch_size c \<le> 1000 \<and> 1 \<le> max_in_flight c \<and> max_in_flight c \<le> 1000 \<and>
     1 \<le> tenant_page_size c \<and> tenant_page_size c \<le> 10000 \<and> 0 < lease c \<and> 0 < publish_timeout c \<and>
     publish_timeout c < lease c \<and> retry_delay c \<le> retry_delay_cap c \<and> 0 < max_attempts c"
  by (auto simp: WorkerConfig_validate_def)

lemma Worker_new_Inr:
  "Worker_new w c = Inr wk \<Longrightarrow> WorkerConfig_validate c = Inr () \<and> trim w \<noteq> [] \<and> length w \<le> 200"
  using length_le_utf8_len [of w] by (auto simp: Worker_new_def result_simps split: if_splits)

lemma retry_after_bounds:
  "retry_delay c \<le> retry_delay_cap c \<Longrightarrow>
     retry_delay c \<le> retry_after c error \<and> retry_after c error \<le> retry_delay_cap c"
  by (simp add: retry_after_def)

lemma trim_nonempty: "x \<in> set v \<Longrightarrow> \<not> is_whitespace x \<Longrightarrow> trim v \<noteq> []"
proof
  assume x: "x \<in> set v" "\<not> is_whitespace x" and "trim v = []"
  then have "dropWhile is_whitespace (rev (dropWhile is_whitespace v)) = []"
    by (simp add: trim_def)
  then have "\<forall>y\<in>set (dropWhile is_whitespace v). is_whitespace y" by (simp add: dropWhile_eq_Nil_conv)
  moreover have "x \<in> set (dropWhile is_whitespace v)" using x by (induction v) auto
  ultimately show False using x by blast
qed

lemma bounded_diagnostic_ok:
  assumes "length code < 1000"
  shows "trim (bounded_diagnostic code message) \<noteq> []" "length (bounded_diagnostic code message) \<le> 4000"
proof -
  have "bounded_diagnostic code message = code @ 58 # take (999 - length code) (32 # message)"
    using assms by (simp add: bounded_diagnostic_def MAX_PERSISTED_ERROR_CHARS_def lit_def take_Cons')
  then have "58 \<in> set (bounded_diagnostic code message)" by simp
  then show "trim (bounded_diagnostic code message) \<noteq> []"
    by (rule trim_nonempty) (simp add: is_whitespace_def)
  show "length (bounded_diagnostic code message) \<le> 4000"
    by (simp add: bounded_diagnostic_def MAX_PERSISTED_ERROR_CHARS_def)
qed

lemma duration_seconds_mono:
  assumes "t \<le> t'" "duration_seconds t' label = Inr n"
  shows "\<exists>m. duration_seconds t label = Inr m \<and> 0 \<le> m \<and> m \<le> n"
proof -
  let ?up = "\<lambda>d. int (d div NANOS) + (if d mod NANOS \<noteq> 0 then 1 else 0)"
  have "?up t \<le> ?up t'"
  proof (cases "t div NANOS < t' div NANOS")
    case True
    then show ?thesis by simp
  next
    case False
    moreover have "t div NANOS \<le> t' div NANOS" using assms(1) by (rule div_le_mono)
    ultimately have q: "t div NANOS = t' div NANOS" by simp
    have "t mod NANOS \<le> t' mod NANOS"
      using assms(1) q by (metis add_le_cancel_left div_mult_mod_eq)
    with q show ?thesis by simp
  qed
  with assms(2) show ?thesis
    unfolding duration_seconds_def Let_def
    by (auto simp: in_i64_def i64_min_def split: if_splits)
qed

subsection \<open>The database as a settling store\<close>

lemma record_result_events [simp]:
  "outbox_events (snd (record_delivery_result now r db)) = outbox_events db"
  by (cases rule: record_result_cases [of now r db]) simp_all

lemma released_not_held:
  assumes "\<And>x. event_claimed_by (f x) = None"
  shows "\<not> (\<exists>x\<in>set (update_where (holds_claim now t i w v) f rows). holds_claim now t i w v x)"
  using assms by (auto simp: ball_update_where holds_claim_def)

lemma reachable_step: "outbox_reachable s \<Longrightarrow> outbox_step s s' \<Longrightarrow> outbox_reachable s'"
  unfolding outbox_reachable_def by (meson rtranclp.rtrancl_into_rtrancl)

lemma postgres_publish_law:
  assumes reach: "outbox_reachable (now, db)" and w: "trim w \<noteq> []" "length w \<le> 200"
  shows "\<exists>db'. PostgresOutboxStore_mark_published now w db e = (Inr (claim_held now w e db), db') \<and>
    outbox_reachable (now, db') \<and> \<not> claim_held now w e db'"
proof (cases "mark_published now (event_tenant_id e) (event_id e) w (event_claim_version e) db")
  case (Inl err)
  moreover obtain m where "err = InvalidInput m"
    using mark_published_error [OF inv_reachable [OF reach] Inl] by blast
  ultimately show ?thesis
    using w by (auto simp: mark_published_def outbox_bounded_text_def required_text_def Let_def
      split: prod.splits if_splits)
next
  case (Inr p)
  then obtain b db' where mark: "mark_published now (event_tenant_id e) (event_id e) w
      (event_claim_version e) db = Inr (b, db')" by (cases p) simp
  have "b \<longleftrightarrow> claim_held now w e db"
    using mark_published_outcome [OF inv_reachable [OF reach] mark] by (simp add: claim_held_def)
  moreover have "outbox_reachable (now, db')"
    using reachable_step [OF reach] mark outbox_step.published by blast
  moreover have "\<not> claim_held now w e db'"
    using released_not_held [of "publish_row now"] mark_published_Inr(2) [OF mark]
    by (simp add: claim_held_def publish_row_def)
  ultimately show ?thesis
    by (simp add: PostgresOutboxStore_mark_published_def mark)
qed

lemma postgres_fail_law:
  assumes reach: "outbox_reachable (now, db)" and w: "trim w \<noteq> []" "length w \<le> 200"
    and d: "trim d \<noteq> []" "length d \<le> 4000" and t: "is_ok (duration_seconds t ''outbox retry delay'')"
    and n: "0 < n"
  shows "\<exists>db'. PostgresOutboxStore_mark_failed now w db e d c t n = (Inr (claim_held now w e db), db') \<and>
    outbox_reachable (now, db') \<and> \<not> claim_held now w e db'"
proof -
  obtain secs where secs: "duration_seconds t ''outbox retry delay'' = Inr secs" "0 \<le> secs"
    using t duration_seconds_mono [of t t "''outbox retry delay''"] by (auto simp: is_ok_iff)
  let ?f = "\<lparr>fail_tenant_id = event_tenant_id e, fail_event_id = event_id e,
    fail_worker_id = w, fail_claim_version = event_claim_version e,
    fail_failure_class = (case c of Retryable \<Rightarrow> DeliveryFailureClass.Retryable
      | Permanent \<Rightarrow> DeliveryFailureClass.Permanent),
    fail_error = d, fail_retry_after_seconds = secs, fail_max_attempts = n\<rparr>"
  show ?thesis
  proof (cases "mark_failed now ?f db")
    case (Inl err)
    moreover obtain m where "err = InvalidInput m"
      using mark_failed_error [OF inv_reachable [OF reach] Inl] by blast
    ultimately show ?thesis
      using w d n secs(2) by (auto simp: mark_failed_def outbox_bounded_text_def required_text_def
        Let_def split: prod.splits if_splits)
  next
    case (Inr p)
    then obtain b db' where mark: "mark_failed now ?f db = Inr (b, db')" by (cases p) simp
    have "b \<longleftrightarrow> claim_held now w e db"
      using mark_failed_outcome [OF mark] by (simp add: claim_held_def)
    moreover have "outbox_reachable (now, db')"
      using reachable_step [OF reach] mark outbox_step.failed by blast
    moreover have "\<not> claim_held now w e db'"
      using released_not_held [of "fail_row now ?f"] mark_failed_Inr(4) [OF mark]
      by (simp add: claim_held_def fail_row_def Let_def)
    ultimately show ?thesis
      by (simp add: PostgresOutboxStore_mark_failed_def mark secs)
  qed
qed

interpretation postgres: settling_store
  "\<lambda>db. outbox_reachable (now, db) \<and> trim w \<noteq> [] \<and> length w \<le> 200" "claim_held now w"
  "\<lambda>d. trim d \<noteq> [] \<and> length d \<le> 4000" "\<lambda>t. is_ok (duration_seconds t ''outbox retry delay'')"
  "PostgresOutboxStore_mark_published now w" "PostgresOutboxStore_mark_failed now w" for now w
  by unfold_locales (use postgres_publish_law postgres_fail_law in blast)+

lemma page_increasing_iff: "page_increasing p ids \<longleftrightarrow> sorted_wrt (<) (p # ids)"
  by (induction p ids rule: page_increasing.induct) (auto intro: less_trans)

interpretation delivery_pages: tenant_paging validate_tenant_page
  by unfold_locales (simp add: validate_tenant_page_def page_increasing_iff)

interpretation reconciliation_pages: tenant_paging validate_reconciliation_page
  by unfold_locales (simp add: validate_reconciliation_page_def page_increasing_iff)

subsection \<open>Permits and accounting of a run\<close>

lemma summary_record [simp]:
  "claimed (RunSummary_record sm x) = claimed sm"
  "summary_total (RunSummary_record sm x) = summary_total sm + 1"
  by (cases x; simp add: summary_total_def)+

lemma summary_total_claimed [simp]: "summary_total (sm\<lparr>claimed := n\<rparr>) = summary_total sm"
  by (simp add: summary_total_def)

lemma record_first_error_Some [simp]: "record_first_error f e \<noteq> None"
  by (simp add: record_first_error_def split: option.splits)

lemma worker_inv_turn:
  "worker_inv config s \<Longrightarrow> worker_inv config (tenant_turn tenant s answer)"
  by (auto simp: worker_inv_def tenant_turn_def claim_and_spawn_def Let_def split: sum.splits)

lemma worker_inv_join:
  assumes "worker_inv config s" "finished s = before @ result # after"
  shows "worker_inv config (record_task_result result (s\<lparr>finished := before @ after\<rparr>))"
  using assms by (cases result) (auto simp: worker_inv_def record_task_result_def)

lemma worker_inv_task: "task_step config s s' \<Longrightarrow> worker_inv config s \<Longrightarrow> worker_inv config s'"
proof (induction rule: task_step.induct)
  case (join s before result after)
  then show ?case by (simp add: worker_inv_join)
qed (auto simp: worker_inv_def)

lemma worker_inv_step: "worker_step config s s' \<Longrightarrow> worker_inv config s \<Longrightarrow> worker_inv config s'"
proof (induction rule: worker_step.induct)
  case (claim s tenant answer)
  then show ?case by (simp add: worker_inv_turn)
next
  case (task s s')
  then show ?case by (simp add: worker_inv_task)
qed (auto simp: worker_inv_def)

lemma worker_inv_reachable: "(worker_step config)\<^sup>*\<^sup>* (delivery_start config) s \<Longrightarrow> worker_inv config s"
proof (induction rule: rtranclp_induct)
  case base
  then show ?case
    by (simp add: worker_inv_def delivery_start_def RunSummary_default_def summary_total_def)
qed (rule worker_inv_step)

end
