(* ===== verification/Worker_Runs.thy ===== *)
theory Worker_Runs
  imports Outbox_Worker
begin

text \<open>
  What a run of the delivery worker guarantees on top of the outbox database: every claimed
  event is settled exactly when its claim still stands, the in-flight bound and the accounting
  of the summary hold in every interleaving, the tasks always drain, and the two
  tenant-paging loops return and cover every tenant once.
\<close>

section \<open>Definitions\<close>

text \<open>The outcome a worker reports while its claim stands.\<close>

definition settled_outcome :: "publish_result \<Rightarrow> EventOutcome" where
  "settled_outcome publish = (case publish of
     Delivered \<Rightarrow> EventOutcome.Published
   | Rejected error \<Rightarrow> (case err_class error of
       FailureClass.Retryable \<Rightarrow> RetryableFailure
     | FailureClass.Permanent \<Rightarrow> EventOutcome.PermanentFailure)
   | _ \<Rightarrow> RetryableFailure)"

text \<open>Steps the tasks of a run still have to take: settle and join each running one, join each finished one.\<close>

definition outstanding :: "delivery_state \<Rightarrow> nat" where
  "outstanding s = 2 * length (running s) + length (finished s)"

text \<open>The tenants a discovery query can see, in the order it lists them.\<close>

definition visible_tenants :: "(tenant_row \<Rightarrow> bool) \<Rightarrow> tenant_row list \<Rightarrow> TenantId list" where
  "visible_tenants visible rows =
     sort (map tenant_row_id (filter (\<lambda>t. tenant_deleted t = None \<and> visible t) rows))"

text \<open>Every attempted tenant is accounted for once.\<close>

definition summary_balanced :: "InventoryReconciliationSummary \<Rightarrow> bool" where
  "summary_balanced sm \<longleftrightarrow>
     attempted sm = completed sm + replayed sm + length (failures sm) \<and> alerts sm \<le> completed sm"

text \<open>A configuration and a state to run the properties on.\<close>

definition sample_config :: WorkerConfig where
  "sample_config = \<lparr>batch_size = 10, max_in_flight = 4, tenant_page_size = 1,
     lease = 60 * NANOS, publish_timeout = 30 * NANOS, retry_delay = NANOS,
     retry_delay_cap = 300 * NANOS, max_attempts = 5\<rparr>"

definition sample_rejection :: PublishError where
  "sample_rejection = PublishError_permanent [52, 48, 52] [103, 111, 110, 101]"

definition sample_claim :: OutboxEvent where
  "sample_claim = sample_lease (enqueued_event 1 0 (sample_event 1))"

definition sample_running :: delivery_state where
  "sample_running = (delivery_start sample_config)\<lparr>available_permits := 3, running := [sample_claim],
     summary := RunSummary_default\<lparr>claimed := 1\<rparr>\<rparr>"

definition sample_tenants :: "tenant_row list" where
  "sample_tenants =
     [\<lparr>tenant_row_id = 9, tenant_deleted = None, tenant_status = ''active''\<rparr>,
      \<lparr>tenant_row_id = 4, tenant_deleted = Some 0, tenant_status = ''active''\<rparr>,
      \<lparr>tenant_row_id = 7, tenant_deleted = None, tenant_status = ''active''\<rparr>]"

section \<open>Lemmas\<close>

subsection \<open>Settling a claim\<close>

lemma runtime_diagnostics:
  "length (lit ''publisher_timeout'') < 1000" "length (lit ''publisher_task_failed'') < 1000"
  by (simp_all add: lit_def)

lemma postgres_process_event:
  assumes new: "Worker_new w config = Inr wk" and reach: "outbox_reachable (now, db)"
    and cap: "duration_seconds (retry_delay_cap config) ''outbox retry delay'' = Inr secs"
    and code: "\<And>error. publish = Rejected error \<Longrightarrow> length (err_code error) < 1000"
  shows "\<exists>db'. process_event (PostgresOutboxStore_mark_published now w)
      (PostgresOutboxStore_mark_failed now w) config e publish db =
      (Inr (if claim_held now w e db then settled_outcome publish else LostClaim), db') \<and>
    outbox_reachable (now, db') \<and> \<not> claim_held now w e db'"
proof -
  have config: "retry_delay config \<le> retry_delay_cap config" "0 < max_attempts config"
    and w: "trim w \<noteq> []" "length w \<le> 200"
    using Worker_new_Inr [OF new] by (simp_all add: WorkerConfig_validate_Inr_iff)
  have ready: "outbox_reachable (now, db) \<and> trim w \<noteq> [] \<and> length w \<le> 200" using reach w by simp
  have delay: "is_ok (duration_seconds t ''outbox retry delay'')" if "t \<le> retry_delay_cap config" for t
    using duration_seconds_mono [OF that cap] by (auto simp: is_ok_iff)
  have runtime: "\<exists>db'. record_runtime_failure (PostgresOutboxStore_mark_failed now w) db e config c m =
      (Inr (if claim_held now w e db then RetryableFailure else LostClaim), db') \<and>
      outbox_reachable (now, db') \<and> \<not> claim_held now w e db'" if "length c < 1000" for c m
    using postgres.runtime_failure_settles [OF ready, of c m config e] bounded_diagnostic_ok [OF that]
      delay [OF config(1)] config(2) by blast
  show ?thesis
  proof (cases publish)
    case Delivered
    then show ?thesis
      using postgres.publication_settles [OF ready, of config e] by (auto simp: settled_outcome_def)
  next
    case (Rejected error)
    have diagnostic: "trim (bounded_diagnostic (err_code error) (err_message error)) \<noteq> [] \<and>
        length (bounded_diagnostic (err_code error) (err_message error)) \<le> 4000"
      using bounded_diagnostic_ok [OF code [OF Rejected]] by blast
    have "is_ok (duration_seconds (retry_after config error) ''outbox retry delay'')"
      using delay retry_after_bounds [OF config(1)] by blast
    then show ?thesis
      using postgres.rejection_settles [OF ready diagnostic _ config(2), of e] Rejected
      by (auto simp: settled_outcome_def)
  next
    case Elapsed
    then show ?thesis
      unfolding process_event_def settled_outcome_def
      using runtime [OF runtime_diagnostics(1)] by (simp only: publish_result.case)
  next
    case Panicked
    then show ?thesis
      unfolding process_event_def settled_outcome_def
      using runtime [OF runtime_diagnostics(2)] by (simp only: publish_result.case)
  next
    case TaskCancelled
    then show ?thesis
      unfolding process_event_def settled_outcome_def
      using runtime [OF runtime_diagnostics(2)] by (simp only: publish_result.case)
  qed
qed

subsection \<open>Draining\<close>

inductive_cases task_stepE: "task_step config s s'"

lemma record_task_result_fields [simp]:
  "running (record_task_result r s) = running s" "finished (record_task_result r s) = finished s"
  "available_permits (record_task_result r s) = available_permits s"
  "held_permits (record_task_result r s) = held_permits s"
  by (simp_all add: record_task_result_def split: sum.splits)

lemma task_step_outstanding: "task_step config s s' \<Longrightarrow> outstanding s' < outstanding s"
  by (erule task_stepE) (simp_all add: outstanding_def)

lemma task_step_held: "task_step config s s' \<Longrightarrow> held_permits s' = held_permits s"
  by (erule task_stepE) simp_all

lemma task_step_possible:
  assumes "running s \<noteq> [] \<or> finished s \<noteq> []"
  shows "\<exists>s'. task_step config s s'"
proof (cases "running s")
  case Nil
  with assms obtain r rest where "finished s = [] @ r # rest" by (cases "finished s") auto
  then show ?thesis by (blast intro: task_step.join)
next
  case (Cons e rest)
  then have "running s = [] @ e # rest" by simp
  then show ?thesis by (blast intro: task_step.abort)
qed

lemma task_steps_bounded:
  "(task_step config ^^ n) s s' \<Longrightarrow> n + outstanding s' \<le> outstanding s \<and> held_permits s' = held_permits s"
proof (induction n arbitrary: s')
  case (Suc n)
  then obtain t where "(task_step config ^^ n) s t" "task_step config t s'" by auto
  then show ?case
    using Suc.IH [of t] task_step_outstanding [of config t s'] task_step_held [of config t s'] by simp
qed simp

lemma task_steps_worker: "(task_step config ^^ n) s s' \<Longrightarrow> (worker_step config)\<^sup>*\<^sup>* s s'"
proof (induction n arbitrary: s')
  case (Suc n)
  then obtain t where "(task_step config ^^ n) s t" "task_step config t s'" by auto
  then show ?case using Suc.IH by (meson rtranclp.rtrancl_into_rtrancl worker_step.task)
qed simp

subsection \<open>Tenant pages\<close>

lemma sort_by_cmp_int: "sort_by cmp_int xs = sort xs"
proof -
  have "total_comparison (\<lambda>x y. cmp_int (id x) (id y))" by (rule total_comparison_cmp_int)
  then have "sorted_wrt (\<lambda>a b. cmp_int a b \<noteq> Greater) (sort_by cmp_int xs)"
    using total_comparison.sorted_sort_by [of cmp_int xs] by simp
  then have "sorted (sort_by cmp_int xs)" by (simp add: not_less)
  then show ?thesis by (intro properties_for_sort [symmetric]) simp_all
qed

lemma tenant_page_visible:
  assumes "1 \<le> n" "n \<le> 10000"
  shows "tenant_page visible rows after n =
    Inr (take n (filter (\<lambda>t. cursor after < t) (visible_tenants visible rows)))"
proof -
  have "filter (\<lambda>t. cursor after < t) (visible_tenants visible rows) =
      sort (map tenant_row_id (filter (\<lambda>t. tenant_deleted t = None \<and> visible t \<and> tenant_row_id t > cursor after) rows))"
    unfolding visible_tenants_def filter_sort filter_map filter_filter comp_def 
    by (simp only: conj_ac)
  then show ?thesis using assms by (simp add: tenant_page_def sort_by_cmp_int)
qed

lemma sorted_visible:
  "distinct (map tenant_row_id rows) \<Longrightarrow> sorted_wrt (<) (visible_tenants visible rows)"
  by (simp add: visible_tenants_def strict_sorted_iff distinct_map_filter)

lemma filter_after_page:
  assumes "sorted_wrt (<) xs" "take n xs \<noteq> []"
  shows "filter (\<lambda>t. last (take n xs) < t) xs = drop n (xs :: int list)"
proof -
  obtain ys y where y: "take n xs = ys @ [y]" using assms(2) by (cases "take n xs" rule: rev_cases) auto
  have split: "sorted_wrt (<) (take n xs @ drop n xs)" using assms(1) by simp
  then have "\<forall>t\<in>set ys. t < y" "\<forall>t\<in>set (drop n xs). y < t"
    unfolding sorted_wrt_append y by auto
  then have "filter (\<lambda>t. y < t) (take n xs @ drop n xs) = drop n xs"
    unfolding filter_append y by (auto simp: filter_empty_conv)
  then show ?thesis unfolding append_take_drop_id by (simp only: y last_snoc)
qed

text \<open>One page of a query over an unchanged table, and what the next page starts from.\<close>

lemma page_split:
  assumes "sorted_wrt (<) V" "P = take n (filter (\<lambda>t. cursor after < t) V)" "P \<noteq> []"
  shows "sorted_wrt (<) (cursor after # P)"
    and "length P < n \<Longrightarrow> P = filter (\<lambda>t. cursor after < t) V"
    and "filter (\<lambda>t. cursor after < t) V = P @ filter (\<lambda>t. cursor (Some (last P)) < t) V"
proof -
  let ?F = "filter (\<lambda>t. cursor after < t) V"
  have F: "sorted_wrt (<) ?F" using assms(1) by (rule sorted_wrt_filter)
  have above: "\<forall>t\<in>set P. cursor after < t" using assms(2) by (auto dest: in_set_takeD)
  show "sorted_wrt (<) (cursor after # P)" using above sorted_wrt_take [OF F, of n, folded assms(2)] by simp
  show "P = ?F" if "length P < n"
  proof -
    have "length ?F < n" using that unfolding assms(2) length_take by linarith
    then show ?thesis unfolding assms(2) by (intro take_all) simp
  qed
  have "cursor after < last P" using above assms(3) by simp
  then have "(last P < t) = (cursor after < t \<and> last P < t)" for t by linarith
  then have "filter (\<lambda>t. last P < t) V = filter (\<lambda>t. last P < t) ?F" by (simp add: filter_filter)
  also have "\<dots> = drop n ?F"
    using assms(3) unfolding assms(2) by (rule filter_after_page [OF F])
  finally have "P @ filter (\<lambda>t. last P < t) V = ?F"
    by (metis append_take_drop_id assms(2))
  then show "?F = P @ filter (\<lambda>t. cursor (Some (last P)) < t) V"
    by (simp only: cursor_def option.case)
qed

lemma delivery_page_accepted: "sorted_wrt (<) (cursor after # P) \<Longrightarrow> validate_tenant_page after P = Inr ()"
  by (simp add: delivery_pages.validate_iff)

lemma reconciliation_page_accepted:
  "sorted_wrt (<) (cursor after # P) \<Longrightarrow> validate_reconciliation_page after P = Inr ()"
  by (simp add: reconciliation_pages.validate_iff)

lemma discover_loop_covers:
  assumes V: "sorted_wrt (<) (visible_tenants visible rows)" and n: "1 \<le> n" "n \<le> 10000"
  shows "discover_loop (\<lambda>s after k. (tenant_page visible rows after k, s)) (\<lambda>s page. fold turn page s)
      n after seen s =
    Some (seen @ filter (\<lambda>t. cursor after < t) (visible_tenants visible rows), None,
      fold turn (filter (\<lambda>t. cursor after < t) (visible_tenants visible rows)) s)"
proof (induction "length (filter (\<lambda>t. cursor after < t) (visible_tenants visible rows))"
    arbitrary: after seen s rule: less_induct)
  case less
  let ?V = "visible_tenants visible rows"
  define F where "F = filter (\<lambda>t. cursor after < t) ?V"
  define P where "P = take n F"
  have page: "tenant_page visible rows after n = Inr P"
    using tenant_page_visible [OF n] by (simp add: P_def F_def)
  show ?case
  proof (cases "P = []")
    case True
    then have "F = []" using n(1) by (simp add: P_def)
    then show ?thesis
      by (subst discover_loop.simps) (simp add: page True F_def)
  next
    case False
    note split = page_split [OF V P_def [unfolded F_def] False, folded F_def]
    let ?G = "filter (\<lambda>t. cursor (Some (last P)) < t) ?V"
    have "length ?G < length F" using split(3) False by (metis length_append less_add_same_cancel2 length_greater_0_conv)
    note IH = less.hyps [OF this [unfolded F_def], of "seen @ P" "fold turn P s"]
    show ?thesis
    proof (cases "length P < n")
      case True
      have "discover_loop (\<lambda>s after k. (tenant_page visible rows after k, s)) (\<lambda>s page. fold turn page s)
          n after seen s = Some (seen @ P, None, fold turn P s)"
        by (subst discover_loop.simps) (simp add: page delivery_page_accepted [OF split(1)] True False)
      then show ?thesis by (simp only: split(2) [OF True] F_def)
    next
      case more: False
      have "discover_loop (\<lambda>s after k. (tenant_page visible rows after k, s)) (\<lambda>s page. fold turn page s)
          n after seen s = Some (seen @ P @ ?G, None, fold turn (P @ ?G) s)"
        by (subst discover_loop.simps) (simp add: page delivery_page_accepted [OF split(1)] more False IH)
      then show ?thesis by (simp only: split(3) F_def [symmetric])
    qed
  qed
qed

lemma reconcile_loop_covers:
  assumes V: "sorted_wrt (<) (visible_tenants visible rows)" and n: "1 \<le> n" "n \<le> 10000"
  shows "reconcile_loop (\<lambda>s after k. (tenant_page visible rows after k, s)) reconcile n after sm s =
    Some (map_prod Inr id (fold (reconcile_tenant reconcile)
      (filter (\<lambda>t. cursor after < t) (visible_tenants visible rows)) (sm, s)))"
proof (induction "length (filter (\<lambda>t. cursor after < t) (visible_tenants visible rows))"
    arbitrary: after sm s rule: less_induct)
  case less
  let ?V = "visible_tenants visible rows" and ?f = "reconcile_tenant reconcile"
  let ?loop = "reconcile_loop (\<lambda>s after k. (tenant_page visible rows after k, s)) reconcile n"
  define F where "F = filter (\<lambda>t. cursor after < t) ?V"
  define P where "P = take n F"
  have page: "tenant_page visible rows after n = Inr P"
    using tenant_page_visible [OF n] by (simp add: P_def F_def)
  obtain sm' s' where turn: "fold ?f P (sm, s) = (sm', s')" by fastforce
  show ?case
  proof (cases "P = []")
    case True
    then have "F = []" using n(1) by (simp add: P_def)
    then show ?thesis
      by (subst reconcile_loop.simps) (simp add: page True F_def)
  next
    case False
    note split = page_split [OF V P_def [unfolded F_def] False, folded F_def]
    note accepted = reconciliation_page_accepted [OF split(1)]
    let ?G = "filter (\<lambda>t. cursor (Some (last P)) < t) ?V"
    have "length ?G < length F"
      using split(3) False by (metis length_append less_add_same_cancel2 length_greater_0_conv)
    note IH = less.hyps [OF this [unfolded F_def], of sm' s']
    show ?thesis
    proof (cases "length P < n")
      case True
      have "?loop after sm s = Some (map_prod Inr id (fold ?f P (sm, s)))"
        by (subst reconcile_loop.simps) (simp add: page accepted True False turn)
      then show ?thesis by (simp only: split(2) [OF True] F_def)
    next
      case more: False
      have "?loop after sm s = Some (map_prod Inr id (fold ?f ?G (sm', s')))"
        by (subst reconcile_loop.simps) (simp add: page accepted more False turn IH)
      then have "?loop after sm s = Some (map_prod Inr id (fold ?f (P @ ?G) (sm, s)))"
        by (simp only: fold_append turn comp_apply)
      then show ?thesis by (simp only: split(3) F_def [symmetric])
    qed
  qed
qed

text \<open>Any store, however its answers change: the cursor cannot pass the largest identifier.\<close>

lemma discover_loop_returns:
  assumes ids: "\<And>s after ids s'. dt s after n = (Inr ids, s') \<Longrightarrow> \<forall>t\<in>set ids. in_i64 t"
    and "sorted_wrt (<) (0 # seen)" "\<forall>t\<in>set seen. t \<le> cursor after" "0 \<le> cursor after"
  shows "\<exists>visited error s'. discover_loop dt rt n after seen s = Some (visited, error, s') \<and>
    sorted_wrt (<) (0 # visited)"
  using assms(2-)
proof (induction "nat (i64_max - cursor after)" arbitrary: after seen s rule: less_induct)
  case less
  show ?case
  proof (cases "\<exists>P s'. dt s after n = (Inr P, s') \<and> P \<noteq> [] \<and> validate_tenant_page after P = Inr ()")
    case False
    then show ?thesis
      using less.prems(1)
      by (subst discover_loop.simps) (auto split: prod.splits sum.splits)
  next
    case True
    then obtain P s' where P: "dt s after n = (Inr P, s')" "P \<noteq> []"
      "validate_tenant_page after P = Inr ()" by blast
    have seen: "sorted_wrt (<) seen" using less.prems(1) by simp
    have after: "0 < t" if "t \<in> set P" for t
      using P(3) less.prems(3) that by (fastforce simp: delivery_pages.validate_iff)
    note extends = delivery_pages.page_extends [OF P(3) seen less.prems(2)]
    have visited: "sorted_wrt (<) (0 # seen @ P)"
      using less.prems(1) extends(1) after by auto
    have "0 \<le> cursor (Some (last P))" using after [of "last P"] P(2) by (simp add: cursor_def)
    note IH = less.hyps [OF delivery_pages.page_progress [OF P(3,2) ids [OF P(1)]] visited
        extends(2) [OF P(2)] this]
    show ?thesis
      using P visited IH [of "rt s' P"] by (subst discover_loop.simps) simp
  qed
qed

lemma reconcile_tenant_balanced:
  "summary_balanced (fst st) \<Longrightarrow> summary_balanced (fst (reconcile_tenant reconcile t st))"
  by (cases st) (auto simp: reconcile_tenant_def summary_balanced_def Let_def split: prod.splits sum.splits)

lemma reconcile_tenant_attempted:
  "attempted (fst (reconcile_tenant reconcile t st)) = attempted (fst st) + 1"
  by (cases st) (auto simp: reconcile_tenant_def Let_def split: prod.splits sum.splits)

lemma fold_reconcile:
  "attempted (fst (fold (reconcile_tenant reconcile) ts st)) = attempted (fst st) + length ts"
  "summary_balanced (fst st) \<Longrightarrow> summary_balanced (fst (fold (reconcile_tenant reconcile) ts st))"
  by (induction ts arbitrary: st) (simp_all add: reconcile_tenant_attempted reconcile_tenant_balanced)

lemma reconcile_loop_returns:
  assumes ids: "\<And>s after ids s'. tenants s after n = (Inr ids, s') \<Longrightarrow> \<forall>t\<in>set ids. in_i64 t"
    and "summary_balanced sm"
  shows "\<exists>result s'. reconcile_loop tenants reconcile n after sm s = Some (result, s') \<and>
    (\<forall>sm'. result = Inr sm' \<longrightarrow> summary_balanced sm')"
  using assms(2)
proof (induction "nat (i64_max - cursor after)" arbitrary: after sm s rule: less_induct)
  case less
  show ?case
  proof (cases "\<exists>P s'. tenants s after n = (Inr P, s') \<and> P \<noteq> [] \<and> validate_reconciliation_page after P = Inr ()")
    case False
    then show ?thesis
      using less.prems by (subst reconcile_loop.simps) (auto split: prod.splits sum.splits)
  next
    case True
    then obtain P s' where P: "tenants s after n = (Inr P, s')" "P \<noteq> []"
      "validate_reconciliation_page after P = Inr ()" by blast
    obtain sm' s'' where turn: "fold (reconcile_tenant reconcile) P (sm, s') = (sm', s'')" by fastforce
    have "summary_balanced sm'" using fold_reconcile(2) [of "(sm, s')" reconcile P] less.prems turn by simp
    then show ?thesis
      using P turn less.hyps [OF reconciliation_pages.page_progress [OF P(3,2) ids [OF P(1)]], of sm' s'']
      by (subst reconcile_loop.simps) simp
  qed
qed

subsection \<open>The sample run\<close>

lemma sample_worker: "Worker_new [119] sample_config = Inr ([119], sample_config, 4)"
  by (simp add: Worker_new_def WorkerConfig_validate_def sample_config_def result_simps utf8_len_eq
    trim_def is_whitespace_def NANOS_def)

lemma sample_delay: "duration_seconds (retry_delay_cap sample_config) ''outbox retry delay'' = Inr 300"
  by (simp add: duration_seconds_def sample_config_def NANOS_def u64_max_def in_i64_def i64_min_def
    i64_max_def)

lemma sample_claim_held: "claim_held 0 [119] sample_claim sample_db3"
  by (simp add: claim_held_def sample_claim_def holds_claim_def sample_defs SECOND_def)

lemma sample_run: "(worker_step sample_config)\<^sup>*\<^sup>* (delivery_start sample_config) sample_running"
proof -
  let ?s = "(delivery_start sample_config)\<lparr>available_permits := 3, held_permits := 1\<rparr>"
  have "worker_step sample_config (delivery_start sample_config) ?s"
    using worker_step.acquire [of "delivery_start sample_config" sample_config]
    by (simp add: delivery_start_def sample_config_def)
  moreover have "worker_step sample_config ?s (tenant_turn 7 ?s (Inr [sample_claim]))"
    by (rule worker_step.claim) simp
  moreover have "tenant_turn 7 ?s (Inr [sample_claim]) = sample_running"
    by (simp add: tenant_turn_def claim_and_spawn_def sample_running_def delivery_start_def
      RunSummary_default_def)
  ultimately show ?thesis by (metis rtranclp.simps)
qed

section \<open>Properties\<close>



text \<open>
  C30. Capacity and accounting. In every interleaving of the claiming loop with the spawned
  tasks, permits are neither lost nor created, the claimer never holds more than its desired
  capacity, so at most \<open>max\_in\_flight\<close> deliveries run at once; and when a run with no
  remaining task finishes without error, its summary counts every claimed event under exactly
  one outcome.
\<close>

theorem worker_within_capacity:
  assumes "Worker_new w config = Inr wk"
    and "(worker_step config)\<^sup>*\<^sup>* (delivery_start config) s"
  shows "available_permits s + held_permits s + length (running s) = max_in_flight config \<and>
    held_permits s \<le> desired_capacity config \<and>
    (running s = [] \<and> finished s = [] \<and> finish_summary s = Inr sm \<longrightarrow>
       claimed sm = published sm + retryable_failures sm + permanent_failures sm + lost_claims sm)"
proof -
  have "1 \<le> desired_capacity config"
    using Worker_new_Inr [OF assms(1)] by (auto simp: WorkerConfig_validate_Inr_iff desired_capacity_def)
  with worker_inv_reachable [OF assms(2)] show ?thesis
    by (auto simp: worker_inv_def summary_total_def finish_summary_def split: option.splits)
qed

theorem worker_within_capacity_witness:
  "available_permits sample_running + held_permits sample_running + length (running sample_running) = 4 \<and>
   length (running sample_running) = 1"
  using worker_within_capacity [OF sample_worker sample_run]
  by (simp add: sample_running_def delivery_start_def sample_config_def)



text \<open>
  C32. The discovery loop of a delivery cycle returns for every store, whatever its answers and
  however they change from one page to the next, as long as the tenant identifiers it returns
  are 64-bit integers; the tenants given a turn are positive and strictly increasing, so that no
  tenant gets two turns in a cycle.
\<close>

theorem discovery_returns:
  assumes "\<forall>s after ids s'. delivery_tenants s after n = (Inr ids, s') \<longrightarrow> (\<forall>t\<in>set ids. in_i64 t)"
  shows "\<exists>visited error s'.
    discover_loop delivery_tenants run_tenants n None [] s = Some (visited, error, s') \<and>
    sorted_wrt (<) (0 # visited)"
  by (rule discover_loop_returns) (use assms in \<open>auto simp: cursor_def\<close>)

theorem discovery_returns_witness:
  "\<exists>visited error s'. discover_loop (\<lambda>s after n. (if s < 3 then Inr [int s + 1] else Inr [1], s + 1))
     (\<lambda>s page. s) 1 None [] (0 :: nat) = Some (visited, error, s') \<and> sorted_wrt (<) (0 # visited)"
  by (rule discovery_returns) (auto simp: in_i64_def i64_min_def i64_max_def)

text \<open>
  C33. Over the PostgreSQL store and an unchanged tenant table, one delivery cycle gives every
  tenant that is not deleted exactly one turn, in the order of their identifiers, whatever the
  page size, and ends discovery without error.
\<close>

theorem discovery_covers_tenants:
  assumes "1 \<le> n" "n \<le> 10000" "distinct (map tenant_row_id rows)"
    and "\<forall>t\<in>set rows. 0 < tenant_row_id t"
  shows "discover_loop (\<lambda>s after k. (PostgresOutboxStore_delivery_tenants rows after k, s))
      (\<lambda>s page. fold turn page s) n None [] s =
    Some (visible_tenants (\<lambda>_. True) rows, None, fold turn (visible_tenants (\<lambda>_. True) rows) s)"
proof -
  have "filter (\<lambda>t. cursor None < t) (visible_tenants (\<lambda>_. True) rows) = visible_tenants (\<lambda>_. True) rows"
    using assms(4) by (auto simp: cursor_def visible_tenants_def filter_id_conv)
  then show ?thesis
    using discover_loop_covers [OF sorted_visible [OF assms(3)] assms(1,2), of "\<lambda>_. True" turn None "[]"]
    by (simp add: PostgresOutboxStore_delivery_tenants_def)
qed

theorem discovery_covers_tenants_witness:
  "discover_loop (\<lambda>s after k. (PostgresOutboxStore_delivery_tenants sample_tenants after k, s))
      (\<lambda>s page. fold (\<lambda>t s. s @ [t]) page s) 1 None [] [] = Some ([7, 9], None, [7, 9])"
  using discovery_covers_tenants [of 1 sample_tenants "\<lambda>t s. s @ [t]" "[]"]
  by (simp add: sample_tenants_def visible_tenants_def)

text \<open>
  C34. A scheduled reconciliation cycle over the PostgreSQL tenant query reconciles every active
  tenant exactly once, in the order of their identifiers, and always returns a summary: a
  tenant whose reconciliation fails is listed and does not stop the others, every attempted
  tenant is completed, replayed or failed, and only completed runs raise alerts.
\<close>

theorem reconciliation_covers_tenants:
  assumes "1 \<le> n" "n \<le> 10000" "distinct (map tenant_row_id rows)"
    and "\<forall>t\<in>set rows. 0 < tenant_row_id t"
  shows "\<exists>sm s'. reconcile_loop (\<lambda>s after k. (active_tenants rows after k, s)) reconcile n None
      InventoryReconciliationSummary_default s = Some (Inr sm, s') \<and>
    (sm, s') = fold (reconcile_tenant reconcile)
      (visible_tenants (\<lambda>t. tenant_status t = ''active'') rows)
      (InventoryReconciliationSummary_default, s) \<and>
    attempted sm = length (filter (\<lambda>t. tenant_deleted t = None \<and> tenant_status t = ''active'') rows) \<and>
    attempted sm = completed sm + replayed sm + length (failures sm) \<and> alerts sm \<le> completed sm"
proof -
  let ?V = "visible_tenants (\<lambda>t. tenant_status t = ''active'') rows"
  let ?st = "fold (reconcile_tenant reconcile) ?V (InventoryReconciliationSummary_default, s)"
  have "filter (\<lambda>t. cursor None < t) ?V = ?V"
    using assms(4) by (auto simp: cursor_def visible_tenants_def filter_id_conv)
  then have "reconcile_loop (\<lambda>s after k. (active_tenants rows after k, s)) reconcile n None
      InventoryReconciliationSummary_default s = Some (Inr (fst ?st), snd ?st)"
    using reconcile_loop_covers [OF sorted_visible [OF assms(3)] assms(1,2),
        of "\<lambda>t. tenant_status t = ''active''" reconcile None]
    by (simp add: active_tenants_def map_prod_def split_beta)
  moreover have "attempted (fst ?st) =
      length (filter (\<lambda>t. tenant_deleted t = None \<and> tenant_status t = ''active'') rows)"
    by (simp add: fold_reconcile visible_tenants_def InventoryReconciliationSummary_default_def)
  moreover have "summary_balanced (fst ?st)"
    by (rule fold_reconcile) (simp add: InventoryReconciliationSummary_default_def summary_balanced_def)
  ultimately show ?thesis
    unfolding summary_balanced_def by (intro exI [of _ "fst ?st"] exI [of _ "snd ?st"]) simp
qed

theorem reconciliation_covers_tenants_witness:
  "\<exists>sm s'. reconcile_loop (\<lambda>s after k. (active_tenants sample_tenants after k, s))
      (\<lambda>s t. (Err (Bail ''offline''), s)) 1 None InventoryReconciliationSummary_default () =
      Some (Inr sm, s') \<and> attempted sm = 2"
proof -
  have "distinct (map tenant_row_id sample_tenants)" "\<forall>t\<in>set sample_tenants. 0 < tenant_row_id t"
    "length (filter (\<lambda>t. tenant_deleted t = None \<and> tenant_status t = ''active'') sample_tenants) = 2"
    by (simp_all add: sample_tenants_def)
  note sample = this
  let ?down = "\<lambda>s t. (Err (Bail ''offline''), s)"
  have "\<exists>sm s'. reconcile_loop (\<lambda>s after k. (active_tenants sample_tenants after k, s)) ?down 1 None
      InventoryReconciliationSummary_default () = Some (Inr sm, s') \<and>
    (sm, s') = fold (reconcile_tenant ?down)
      (visible_tenants (\<lambda>t. tenant_status t = ''active'') sample_tenants)
      (InventoryReconciliationSummary_default, ()) \<and>
    attempted sm = 2 \<and>
    attempted sm = completed sm + replayed sm + length (failures sm) \<and> alerts sm \<le> completed sm"
    using reconciliation_covers_tenants [OF _ _ sample(1,2), of 1 ?down "()", unfolded sample(3)]
    by (simp only: le_refl one_le_numeral simp_thms)
  then show ?thesis by blast
qed

end
