(* ===== verification/Idempotency.thy ===== *)
theory Idempotency
  imports Outbox_Store Bytes
begin

text \<open>
  Command idempotency, \<open>crates/application/src/idempotency.rs\<close> and its PostgreSQL adapter
  \<open>crates/persistence-postgres/src/idempotency.rs\<close>: the identity of a command, the
  fingerprint of its request, the stored result and the decision to replay it. The SHA-256
  digest printed in hexadecimal (\<open>digest\<close>) and serde's encodings of requests and results
  (\<open>to_vec\<close>, \<open>to_value\<close>, \<open>from_value\<close>) belong to other crates and are
  parameters; a stored result is the JSON value itself, since its text form is only its
  carrier in the table. The interface every idempotent command handler meets is the locale
  \<open>replayable\_command\<close>.
\<close>

section \<open>Definitions\<close>

text \<open>An \<open>i64\<close> as \<open>Display\<close> prints it.\<close>

definition format_i64 :: "int \<Rightarrow> string" where
  "format_i64 v = (if v < 0 then CHR ''-'' # decimal (nat (- v)) else decimal (nat v))"

subsection \<open>Errors\<close>

record ValidationIssue =
  issue_field :: rust_string
  issue_message :: rust_string

datatype ApplicationError =
    Unauthorized
  | Forbidden
  | NotFound string
  | Validation "ValidationIssue list"
  | Conflict string
  | IdempotencyKeyReused
  | IdempotencyKeyRequired
  | InvalidRequest string
  | Internal string

datatype CommandIdempotencyError =
    IdempotencyApplication ApplicationError
  | IdempotencyPersistence PersistenceError

datatype AppError =
    Application ApplicationError
  | RevisionConflict string
  | InvalidStateTransition string
  | Db string
  | Other string

definition AppError_from_persistence :: "PersistenceError \<Rightarrow> AppError" where
  "AppError_from_persistence error =
     (case error of
        Database e \<Rightarrow> Db e
      | AuthorizationContextConflict \<Rightarrow> Application Forbidden
      | InvalidInput message \<Rightarrow> Application (InvalidRequest message)
      | PersistenceError.Conflict message \<Rightarrow> Application (ApplicationError.Conflict message)
      | InvalidData message \<Rightarrow> Application (Internal message))"

definition AppError_from_idempotency :: "CommandIdempotencyError \<Rightarrow> AppError" where
  "AppError_from_idempotency error =
     (case error of
        IdempotencyApplication e \<Rightarrow> Application e
      | IdempotencyPersistence e \<Rightarrow> AppError_from_persistence e)"

subsection \<open>Command identities\<close>

type_synonym UserId = int

record CommandContext =
  ctx_tenant_id :: TenantId
  ctx_actor_id :: UserId
  ctx_request_id :: rust_string
  ctx_idempotency_key :: "rust_string option"

definition require_actor :: "CommandContext \<Rightarrow> TenantId \<Rightarrow> UserId \<Rightarrow> ApplicationError + unit" where
  "require_actor self tenant_id actor_id =
     (if ctx_tenant_id self = tenant_id \<and> ctx_actor_id self = actor_id then Ok () else Err Forbidden)"

definition MAX_IDEMPOTENCY_KEY_BYTES :: nat where "MAX_IDEMPOTENCY_KEY_BYTES = 200"

definition REQUEST_HASH_BYTES :: nat where "REQUEST_HASH_BYTES = 32"

record CommandSchemaVersion =
  schema_request :: nat
  schema_result :: nat

definition CommandSchemaVersion_V1 :: CommandSchemaVersion where
  "CommandSchemaVersion_V1 = \<lparr>schema_request = 1, schema_result = 1\<rparr>"

definition CommandSchemaVersion_new :: "nat \<Rightarrow> nat \<Rightarrow> ApplicationError + CommandSchemaVersion" where
  "CommandSchemaVersion_new request result =
     (if request = 0 \<or> result = 0 then Err (Internal ''command schema versions must be positive'')
      else Ok \<lparr>schema_request = request, schema_result = result\<rparr>)"

datatype CommandOperation = CommandOperation (CommandOperation_as_str: rust_string)

definition CommandOperation_new :: "rust_string \<Rightarrow> ApplicationError + CommandOperation" where
  "CommandOperation_new value =
     (if trim value = [] then Err (Internal ''command operation cannot be blank'')
      else Ok (CommandOperation value))"

datatype IdempotencyKey = IdempotencyKey (IdempotencyKey_as_str: rust_string)

definition IdempotencyKey_new :: "rust_string \<Rightarrow> ApplicationError + IdempotencyKey" where
  "IdempotencyKey_new value =
     (if trim value = [] then Err IdempotencyKeyRequired
      else if utf8_len value > MAX_IDEMPOTENCY_KEY_BYTES
        then Err (InvalidRequest ''idempotency key cannot exceed 200 characters'')
      else Ok (IdempotencyKey value))"

datatype CommandRequestHash = CommandRequestHash (CommandRequestHash_as_str: rust_string)

definition is_ascii_hexdigit :: "nat \<Rightarrow> bool" where
  "is_ascii_hexdigit b \<longleftrightarrow> 48 \<le> b \<and> b \<le> 57 \<or> 65 \<le> b \<and> b \<le> 70 \<or> 97 \<le> b \<and> b \<le> 102"

definition CommandRequestHash_from_stored :: "rust_string \<Rightarrow> ApplicationError + CommandRequestHash" where
  "CommandRequestHash_from_stored value =
     (if utf8_len value \<noteq> REQUEST_HASH_BYTES * 2 \<or> \<not> list_all is_ascii_hexdigit (utf8_bytes value)
        then Err (Internal ''stored command request hash is invalid'')
      else Ok (CommandRequestHash value))"

text \<open>The bytes the fingerprint is taken of.\<close>

definition hash_preimage ::
  "UserId \<Rightarrow> CommandOperation \<Rightarrow> CommandSchemaVersion \<Rightarrow> nat list \<Rightarrow> nat list" where
  "hash_preimage actor_id operation schema encoded =
     lit ''wareboxes-command-request-v1'' @ [0]
     @ be_bytes 8 (utf8_len (CommandOperation_as_str operation))
     @ utf8_bytes (CommandOperation_as_str operation)
     @ be_bytes 8 (nat (actor_id mod 2 ^ 64))
     @ be_bytes 4 (schema_request schema)
     @ encoded"

definition command_request_hash ::
  "(nat list \<Rightarrow> rust_string) \<Rightarrow> ('q \<Rightarrow> string + nat list) \<Rightarrow> UserId \<Rightarrow> CommandOperation \<Rightarrow>
   CommandSchemaVersion \<Rightarrow> 'q \<Rightarrow> ApplicationError + CommandRequestHash" where
  "command_request_hash digest to_vec actor_id operation schema request =
     (case to_vec request of
        Inl error \<Rightarrow> Err (Internal (''serializing command request: '' @ error))
      | Inr encoded \<Rightarrow>
          if utf8_len (CommandOperation_as_str operation) \<ge> 2 ^ 64
            then Err (Internal ''command operation length exceeds u64'')
          else Ok (CommandRequestHash (digest (hash_preimage actor_id operation schema encoded))))"

record PreparedCommand =
  prep_tenant_id :: TenantId
  prep_actor_id :: UserId
  prep_request_id :: "rust_string option"
  prep_operation :: CommandOperation
  prep_idempotency_key :: IdempotencyKey
  prep_request_hash :: CommandRequestHash
  prep_schema :: CommandSchemaVersion

definition PreparedCommand_new ::
  "(nat list \<Rightarrow> rust_string) \<Rightarrow> ('q \<Rightarrow> string + nat list) \<Rightarrow> CommandContext \<Rightarrow> rust_string \<Rightarrow>
   CommandSchemaVersion \<Rightarrow> 'q \<Rightarrow> ApplicationError + PreparedCommand" where
  "PreparedCommand_new digest to_vec ctx operation schema request =
     and_then (CommandOperation_new operation) (\<lambda>operation.
     and_then (and_then (ok_or (ctx_idempotency_key ctx) IdempotencyKeyRequired) IdempotencyKey_new)
       (\<lambda>idempotency_key.
     and_then (command_request_hash digest to_vec (ctx_actor_id ctx) operation schema request)
       (\<lambda>request_hash.
     Ok \<lparr>prep_tenant_id = ctx_tenant_id ctx, prep_actor_id = ctx_actor_id ctx,
         prep_request_id = Some (ctx_request_id ctx), prep_operation = operation,
         prep_idempotency_key = idempotency_key, prep_request_hash = request_hash,
         prep_schema = schema\<rparr>)))"

definition PreparedCommand_new_v1 ::
  "(nat list \<Rightarrow> rust_string) \<Rightarrow> ('q \<Rightarrow> string + nat list) \<Rightarrow> CommandContext \<Rightarrow> rust_string \<Rightarrow> 'q \<Rightarrow>
   ApplicationError + PreparedCommand" where
  "PreparedCommand_new_v1 digest to_vec ctx operation request =
     PreparedCommand_new digest to_vec ctx operation CommandSchemaVersion_V1 request"

definition PreparedCommand_from_parts_v1 ::
  "(nat list \<Rightarrow> rust_string) \<Rightarrow> ('q \<Rightarrow> string + nat list) \<Rightarrow> TenantId \<Rightarrow> UserId \<Rightarrow> rust_string option \<Rightarrow>
   rust_string \<Rightarrow> rust_string \<Rightarrow> 'q \<Rightarrow> ApplicationError + PreparedCommand" where
  "PreparedCommand_from_parts_v1 digest to_vec tenant_id actor_id request_id key operation request =
     and_then (CommandOperation_new operation) (\<lambda>operation.
     and_then (IdempotencyKey_new key) (\<lambda>idempotency_key.
     let schema = CommandSchemaVersion_V1
     in and_then (command_request_hash digest to_vec actor_id operation schema request)
       (\<lambda>request_hash.
     Ok \<lparr>prep_tenant_id = tenant_id, prep_actor_id = actor_id, prep_request_id = request_id,
         prep_operation = operation, prep_idempotency_key = idempotency_key,
         prep_request_hash = request_hash, prep_schema = schema\<rparr>)))"

subsection \<open>Stored results\<close>

record 'j StoredCommandResult =
  stored_request_hash :: CommandRequestHash
  stored_result_json :: 'j
  stored_actor_id :: UserId
  stored_result_schema_version :: nat
  stored_inventory_transaction_id :: "int option"

definition StoredCommandResult_from_persisted ::
  "CommandRequestHash \<Rightarrow> 'j \<Rightarrow> UserId \<Rightarrow> nat \<Rightarrow> int option \<Rightarrow>
   ApplicationError + 'j StoredCommandResult" where
  "StoredCommandResult_from_persisted request_hash result_json actor_id version inventory_transaction_id =
     (if version = 0 then Err (Internal ''stored command result schema version is invalid'')
      else if (case inventory_transaction_id of None \<Rightarrow> False | Some i \<Rightarrow> i \<le> 0)
        then Err (Internal ''stored command inventory transaction is invalid'')
      else Ok \<lparr>stored_request_hash = request_hash, stored_result_json = result_json,
               stored_actor_id = actor_id, stored_result_schema_version = version,
               stored_inventory_transaction_id = inventory_transaction_id\<rparr>)"

definition resolve_replay ::
  "('j \<Rightarrow> string + 'r) \<Rightarrow> PreparedCommand \<Rightarrow> 'j StoredCommandResult \<Rightarrow> ApplicationError + 'r" where
  "resolve_replay from_value self stored =
     (if stored_actor_id stored \<noteq> prep_actor_id self
          \<or> stored_request_hash stored \<noteq> prep_request_hash self
        then Err IdempotencyKeyReused
      else if stored_result_schema_version stored \<noteq> schema_result (prep_schema self)
        then Err (Internal (''stored command result schema version ''
          @ decimal (stored_result_schema_version stored) @ '' does not match expected version ''
          @ decimal (schema_result (prep_schema self))))
      else map_err (\<lambda>error. Internal (''decoding stored command result: '' @ error))
        (from_value (stored_result_json stored)))"

record 'j NewCommandResult =
  new_result_tenant_id :: TenantId
  new_result_actor_id :: UserId
  new_result_request_id :: "rust_string option"
  new_result_operation :: CommandOperation
  new_result_idempotency_key :: IdempotencyKey
  new_result_request_hash :: CommandRequestHash
  new_result_json :: 'j
  new_result_schema_version :: nat
  new_result_inventory_transaction_id :: "int option"

definition completed_result ::
  "('r \<Rightarrow> string + 'j) \<Rightarrow> PreparedCommand \<Rightarrow> 'r \<Rightarrow> int option \<Rightarrow> ApplicationError + 'j NewCommandResult" where
  "completed_result to_value self result inventory_transaction_id =
     and_then (map_err (\<lambda>error. Internal (''encoding command result: '' @ error)) (to_value result))
       (\<lambda>result_json.
     Ok \<lparr>new_result_tenant_id = prep_tenant_id self, new_result_actor_id = prep_actor_id self,
         new_result_request_id = prep_request_id self, new_result_operation = prep_operation self,
         new_result_idempotency_key = prep_idempotency_key self,
         new_result_request_hash = prep_request_hash self, new_result_json = result_json,
         new_result_schema_version = schema_result (prep_schema self),
         new_result_inventory_transaction_id = inventory_transaction_id\<rparr>)"

text \<open>A row of \<open>command\_idempotency\_records\<close>, without its generated id and its time.\<close>

record 'j command_record =
  record_tenant_id :: TenantId
  record_operation :: rust_string
  record_idempotency_key :: rust_string
  record_request_hash :: rust_string
  record_result_json :: 'j
  record_inventory_transaction_id :: "int option"
  record_actor_user_id :: "int option"
  record_request_id :: "rust_string option"
  record_result_schema_version :: int

definition map_stored_result ::
  "'j command_record \<Rightarrow> CommandIdempotencyError + 'j StoredCommandResult" where
  "map_stored_result row =
     map_err IdempotencyApplication
       (and_then (CommandRequestHash_from_stored (record_request_hash row)) (\<lambda>request_hash.
        and_then (and_then (ok_or (record_actor_user_id row)
            (Internal ''stored command result has no actor attribution''))
          (\<lambda>actor_id. map_err (\<lambda>_. Internal ''stored command result has invalid actor attribution'')
            (positive_id_new ''user'' actor_id))) (\<lambda>actor_id.
        if record_result_schema_version row < 0
          then Err (Internal ''stored command result schema version is invalid'')
        else StoredCommandResult_from_persisted request_hash (record_result_json row) actor_id
          (nat (record_result_schema_version row)) (record_inventory_transaction_id row))))"

definition record_matches :: "PreparedCommand \<Rightarrow> 'j command_record \<Rightarrow> bool" where
  "record_matches prepared row \<longleftrightarrow>
     record_tenant_id row = prep_tenant_id prepared \<and>
     record_operation row = CommandOperation_as_str (prep_operation prepared) \<and>
     record_idempotency_key row = IdempotencyKey_as_str (prep_idempotency_key prepared)"

definition load_stored_result ::
  "tx_context \<Rightarrow> PreparedCommand \<Rightarrow> 'j command_record list \<Rightarrow>
   CommandIdempotencyError + 'j StoredCommandResult option \<times> tx_context" where
  "load_stored_result tx prepared rows =
     and_then (map_err IdempotencyPersistence (bind_tenant_context tx (prep_tenant_id prepared)))
       (\<lambda>tx'. case find (record_matches prepared) rows of
          None \<Rightarrow> Ok (None, tx')
        | Some row \<Rightarrow> and_then (map_stored_result row) (\<lambda>stored. Ok (Some stored, tx')))"

text \<open>The check constraints, the unique key and the actor's foreign key of the table.\<close>

definition record_ok :: "'j command_record \<Rightarrow> bool" where
  "record_ok row \<longleftrightarrow>
     btrim (record_idempotency_key row) \<noteq> [] \<and> length (record_idempotency_key row) \<le> 200 \<and>
     btrim (record_operation row) \<noteq> [] \<and> btrim (record_request_hash row) \<noteq> [] \<and>
     (case record_request_id row of None \<Rightarrow> True
      | Some i \<Rightarrow> btrim i \<noteq> [] \<and> length i \<le> 128) \<and>
     0 < record_result_schema_version row"

definition insert_result ::
  "bool \<Rightarrow> tx_context \<Rightarrow> 'j NewCommandResult \<Rightarrow> 'j command_record list \<Rightarrow>
   PersistenceError + 'j command_record list" where
  "insert_result references_exist tx result rows =
     and_then (bind_tenant_context tx (new_result_tenant_id result)) (\<lambda>_.
     if int (new_result_schema_version result) > i32_max
       then Err (InvalidInput ''result schema version exceeds i32'')
     else
       let row = \<lparr>record_tenant_id = new_result_tenant_id result,
             record_operation = CommandOperation_as_str (new_result_operation result),
             record_idempotency_key = IdempotencyKey_as_str (new_result_idempotency_key result),
             record_request_hash = CommandRequestHash_as_str (new_result_request_hash result),
             record_result_json = new_result_json result,
             record_inventory_transaction_id = new_result_inventory_transaction_id result,
             record_actor_user_id = Some (new_result_actor_id result),
             record_request_id = new_result_request_id result,
             record_result_schema_version = int (new_result_schema_version result)\<rparr>
       in if \<not> record_ok row then Err (Database ''command_idempotency_records check'')
          else if list_ex (\<lambda>r. record_tenant_id r = record_tenant_id row \<and>
              record_operation r = record_operation row \<and>
              record_idempotency_key r = record_idempotency_key row) rows
            then Err (Database ''command_idempotency_records unique constraint'')
          else if \<not> references_exist then Err (Database ''foreign key'')
          else Ok (rows @ [row]))"

definition replayed ::
  "('j \<Rightarrow> string + 'r) \<Rightarrow> tx_context \<Rightarrow> PreparedCommand \<Rightarrow> 'j command_record list \<Rightarrow>
   CommandIdempotencyError + 'r option \<times> tx_context" where
  "replayed from_value tx self rows =
     and_then (load_stored_result tx self rows) (\<lambda>(stored, tx').
       case stored of
         None \<Rightarrow> Ok (None, tx')
       | Some s \<Rightarrow> and_then (map_err IdempotencyApplication (resolve_replay from_value self s))
           (\<lambda>result. Ok (Some result, tx')))"

definition commit_with_inventory_transaction ::
  "('r \<Rightarrow> string + 'j) \<Rightarrow> bool \<Rightarrow> tx_context \<Rightarrow> PreparedCommand \<Rightarrow> 'r \<Rightarrow> int option \<Rightarrow>
   'j command_record list \<Rightarrow> CommandIdempotencyError + 'r \<times> 'j command_record list" where
  "commit_with_inventory_transaction to_value references_exist tx self result inventory_transaction_id rows =
     and_then (map_err IdempotencyApplication
       (completed_result to_value self result inventory_transaction_id)) (\<lambda>completed.
     and_then (map_err IdempotencyPersistence (insert_result references_exist tx completed rows))
       (\<lambda>rows'. Ok (result, rows')))"

definition commit ::
  "('r \<Rightarrow> string + 'j) \<Rightarrow> bool \<Rightarrow> tx_context \<Rightarrow> PreparedCommand \<Rightarrow> 'r \<Rightarrow> 'j command_record list \<Rightarrow>
   CommandIdempotencyError + 'r \<times> 'j command_record list" where
  "commit to_value references_exist tx self result rows =
     commit_with_inventory_transaction to_value references_exist tx self result None rows"

text \<open>
  The row a committed command leaves, and when it can be read back: its fingerprint is
  \<open>2 * REQUEST\_HASH\_BYTES\<close> hexadecimal digits, its actor and its version are positive.
\<close>

definition completed_row :: "PreparedCommand \<Rightarrow> 'j \<Rightarrow> int option \<Rightarrow> 'j command_record" where
  "completed_row p json inventory_transaction_id =
     \<lparr>record_tenant_id = prep_tenant_id p,
      record_operation = CommandOperation_as_str (prep_operation p),
      record_idempotency_key = IdempotencyKey_as_str (prep_idempotency_key p),
      record_request_hash = CommandRequestHash_as_str (prep_request_hash p),
      record_result_json = json, record_inventory_transaction_id = inventory_transaction_id,
      record_actor_user_id = Some (prep_actor_id p), record_request_id = prep_request_id p,
      record_result_schema_version = int (schema_result (prep_schema p))\<rparr>"

definition prepared_storable :: "PreparedCommand \<Rightarrow> bool" where
  "prepared_storable p \<longleftrightarrow>
     is_ok (CommandRequestHash_from_stored (CommandRequestHash_as_str (prep_request_hash p))) \<and>
     0 < prep_actor_id p \<and> 0 < schema_result (prep_schema p)"

section \<open>Lemmas\<close>

lemma find_append_some: "find P xs = Some x \<Longrightarrow> find P (xs @ ys) = Some x"
  by (induction xs) (auto split: if_splits)

lemma find_append_match: "find P xs = None \<Longrightarrow> P y \<Longrightarrow> find P (xs @ [y]) = Some y"
  by (induction xs) (auto split: if_splits)

lemma find_append_match_more [simp]:
  "find P (xs @ [y]) = Some y \<Longrightarrow> find P (xs @ y # ys) = Some y"
  using find_append_some [of P "xs @ [y]" y ys] by simp

lemma completed_row_matches [simp]: "record_matches p (completed_row p json t)"
  by (simp add: record_matches_def completed_row_def)

lemma map_stored_completed_row:
  assumes "prepared_storable p"
  shows "map_stored_result (completed_row p json None) =
    Inr \<lparr>stored_request_hash = prep_request_hash p, stored_result_json = json,
      stored_actor_id = prep_actor_id p, stored_result_schema_version = schema_result (prep_schema p),
      stored_inventory_transaction_id = None\<rparr>"
  using assms by (cases "prep_request_hash p")
    (simp add: prepared_storable_def map_stored_result_def completed_row_def result_simps
      CommandRequestHash_from_stored_def positive_id_new_def StoredCommandResult_from_persisted_def
      split: if_splits)

lemma replay_completed_row:
  assumes "prepared_storable p" "from_value json = Inr r"
  shows "and_then (map_stored_result (completed_row p json None))
    (\<lambda>stored. map_err IdempotencyApplication (resolve_replay from_value p stored)) = Inr r"
  using assms by (simp add: map_stored_completed_row resolve_replay_def result_simps)

lemma reuse_completed_row:
  assumes "prepared_storable p"
    "prep_actor_id p' \<noteq> prep_actor_id p \<or> prep_request_hash p' \<noteq> prep_request_hash p"
  shows "and_then (map_stored_result (completed_row p json None))
    (\<lambda>stored. map_err IdempotencyApplication (resolve_replay from_value p' stored)) =
    Inl (IdempotencyApplication IdempotencyKeyReused)"
  using assms by (auto simp: map_stored_completed_row resolve_replay_def result_simps)

lemma replayed_found:
  assumes "bind_tenant_context tx (prep_tenant_id p) = Inr tx'" "find (record_matches p) rows = Some row"
  shows "replayed from_value tx p rows =
    and_then (and_then (map_stored_result row)
      (\<lambda>stored. map_err IdempotencyApplication (resolve_replay from_value p stored)))
      (\<lambda>result. Ok (Some result, tx'))"
  using assms by (cases "map_stored_result row") (simp_all add: replayed_def load_stored_result_def)

lemma replayed_none:
  "bind_tenant_context tx (prep_tenant_id p) = Inr tx' \<Longrightarrow> find (record_matches p) rows = None \<Longrightarrow>
     replayed from_value tx p rows = Ok (None, tx')"
  by (simp add: replayed_def load_stored_result_def)

lemma PreparedCommand_new_v1_Inr:
  assumes "PreparedCommand_new_v1 digest to_vec ctx operation request = Inr p"
  shows "prep_tenant_id p = ctx_tenant_id ctx" "prep_actor_id p = ctx_actor_id ctx"
    "prep_operation p = CommandOperation operation"
    "ctx_idempotency_key ctx = Some (IdempotencyKey_as_str (prep_idempotency_key p))"
    "prep_schema p = CommandSchemaVersion_V1"
    "\<exists>encoded. to_vec request = Inr encoded \<and> prep_request_hash p = CommandRequestHash
       (digest (hash_preimage (ctx_actor_id ctx) (CommandOperation operation)
         CommandSchemaVersion_V1 encoded))"
proof -
  from assms obtain key idempotency_key hash where
    op: "trim operation \<noteq> []" and key: "ctx_idempotency_key ctx = Some key"
      "IdempotencyKey_new key = Inr idempotency_key" and
    hash: "command_request_hash digest to_vec (ctx_actor_id ctx) (CommandOperation operation)
      CommandSchemaVersion_V1 request = Inr hash" and
    p: "p = \<lparr>prep_tenant_id = ctx_tenant_id ctx, prep_actor_id = ctx_actor_id ctx,
         prep_request_id = Some (ctx_request_id ctx), prep_operation = CommandOperation operation,
         prep_idempotency_key = idempotency_key, prep_request_hash = hash,
         prep_schema = CommandSchemaVersion_V1\<rparr>"
    by (auto simp: PreparedCommand_new_v1_def PreparedCommand_new_def CommandOperation_new_def
      result_simps split: if_splits)
  show "prep_tenant_id p = ctx_tenant_id ctx" "prep_actor_id p = ctx_actor_id ctx"
    "prep_operation p = CommandOperation operation" "prep_schema p = CommandSchemaVersion_V1"
    by (simp_all add: p)
  show "ctx_idempotency_key ctx = Some (IdempotencyKey_as_str (prep_idempotency_key p))"
    using key by (auto simp: p IdempotencyKey_new_def split: if_splits)
  show "\<exists>encoded. to_vec request = Inr encoded \<and> prep_request_hash p = CommandRequestHash
       (digest (hash_preimage (ctx_actor_id ctx) (CommandOperation operation)
         CommandSchemaVersion_V1 encoded))"
    using hash by (cases "to_vec request") (auto simp: p command_request_hash_def split: if_splits)
qed

text \<open>A fingerprint of the right form makes the result readable again.\<close>

lemma PreparedCommand_new_v1_storable:
  assumes "PreparedCommand_new_v1 digest to_vec ctx operation request = Inr p"
    and "\<And>bytes. is_ok (CommandRequestHash_from_stored (digest bytes))" "0 < ctx_actor_id ctx"
  shows "prepared_storable p"
  using PreparedCommand_new_v1_Inr [OF assms(1)] assms(2,3)
  by (auto simp: prepared_storable_def CommandSchemaVersion_V1_def)

text \<open>A committed command has appended the row of its result.\<close>

lemma commit_appends:
  assumes "commit to_value references_exist tx p result rows = Inr (r, rows')"
  shows "r = result \<and> (\<exists>json. to_value result = Inr json \<and> rows' = rows @ [completed_row p json None])"
  using assms
  by (auto simp: commit_def commit_with_inventory_transaction_def completed_result_def
    insert_result_def completed_row_def Let_def result_simps split: sum.splits if_splits)

section \<open>The interface of an idempotent command\<close>

text \<open>
  What a handler promises: it prepares its identity from the request; when the table holds the
  result of that identity it answers from the table and changes nothing (\<open>visible\<close> is its
  own authorization check on a replay); otherwise, when it succeeds, it has appended exactly one
  row, the one its identity finds, and leaves its replay visible. Every success keeps the
  invariant of the database and only appends to the table.
\<close>

locale replayable_command =
  fixes prepare :: "'q \<Rightarrow> AppError + PreparedCommand"
    and rows :: "'s \<Rightarrow> 'j command_record list"
    and to_value :: "'r \<Rightarrow> string + 'j"
    and from_value :: "'j \<Rightarrow> string + 'r"
    and inv :: "'s \<Rightarrow> bool"
    and visible :: "'q \<Rightarrow> 's \<Rightarrow> AppError + unit"
    and run :: "'q \<Rightarrow> 's \<Rightarrow> AppError + 'r \<times> 's"
  assumes run_prepared: "run q s = Inr (r, s') \<Longrightarrow> is_ok (prepare q)"
    and run_replay: "prepare q = Inr p \<Longrightarrow> find (record_matches p) (rows s) = Some row \<Longrightarrow>
        run q s = and_then (map_err AppError_from_idempotency
            (and_then (map_stored_result row)
              (\<lambda>stored. map_err IdempotencyApplication (resolve_replay from_value p stored))))
          (\<lambda>r. and_then (visible q s) (\<lambda>_. Ok (r, s)))"
    and run_fresh: "prepare q = Inr p \<Longrightarrow> find (record_matches p) (rows s) = None \<Longrightarrow> inv s \<Longrightarrow>
        run q s = Inr (r, s') \<Longrightarrow>
        \<exists>json. to_value r = Inr json \<and> rows s' = rows s @ [completed_row p json None] \<and>
          visible q s' = Inr ()"
    and run_inv: "run q s = Inr (r, s') \<Longrightarrow> inv s \<Longrightarrow> inv s'"
begin

text \<open>
  Exactly once: as long as the table only grows, the same command finds its own row, returns
  the first result and changes nothing.
\<close>

lemma exactly_once:
  assumes first: "run q s = Inr (r, s')" and "inv s" and prepared: "prepare q = Inr p"
    and codec: "\<And>json. to_value r = Inr json \<Longrightarrow> from_value json = Inr r"
    and storable: "prepared_storable p"
    and later: "prepare q' = Inr p" "rows s'' = rows s' @ added" "visible q' s'' = Inr ()"
  shows "run q' s'' = Inr (r, s'')"
proof (cases "find (record_matches p) (rows s)")
  case None
  from run_fresh [OF prepared None assms(2) first] obtain json where
    row: "to_value r = Inr json" "rows s' = rows s @ [completed_row p json None]" by blast
  have "find (record_matches p) (rows s'') = Some (completed_row p json None)"
    using find_append_match [OF None completed_row_matches] row(2) later(2) by simp
  from run_replay [OF later(1) this] show ?thesis
    using later(3) storable codec [OF row(1)] by (simp add: replay_completed_row)
next
  case (Some row)
  from first [unfolded run_replay [OF prepared Some]] have "s' = s"
    and answer: "and_then (map_stored_result row)
      (\<lambda>stored. map_err IdempotencyApplication (resolve_replay from_value p stored)) = Inr r"
    by (auto simp: result_simps split: sum.splits)
  have "find (record_matches p) (rows s'') = Some row"
    using find_append_some [OF Some] later(2) \<open>s' = s\<close> by simp
  from run_replay [OF later(1) this] show ?thesis using later(3) by (simp add: answer)
qed

text \<open>A used key is refused for any other request or actor, whatever it asks for.\<close>

lemma reuse_refused:
  assumes first: "run q s = Inr (r, s')" and "inv s" and prepared: "prepare q = Inr p"
    and fresh: "find (record_matches p) (rows s) = None"
    and storable: "prepared_storable p"
    and later: "prepare q' = Inr p'" "rows s'' = rows s' @ added"
    and key: "prep_tenant_id p' = prep_tenant_id p" "prep_operation p' = prep_operation p"
      "prep_idempotency_key p' = prep_idempotency_key p"
    and other: "prep_actor_id p' \<noteq> prep_actor_id p \<or> prep_request_hash p' \<noteq> prep_request_hash p"
  shows "run q' s'' = Inl (Application IdempotencyKeyReused)"
proof -
  from run_fresh [OF prepared fresh assms(2) first] obtain json where
    row: "rows s' = rows s @ [completed_row p json None]" by blast
  have same: "record_matches p' = record_matches p" using key by (simp add: record_matches_def fun_eq_iff)
  have "find (record_matches p') (rows s'') = Some (completed_row p json None)"
    unfolding same using find_append_match [OF fresh completed_row_matches] row later(2) by simp
  from run_replay [OF later(1) this] show ?thesis
    using storable other by (auto simp: reuse_completed_row AppError_from_idempotency_def)
qed

end

section \<open>The fingerprint\<close>

text \<open>The framing is unambiguous: the fingerprint separates every part of the identity.\<close>

lemma hash_preimage_inj:
  assumes eq: "hash_preimage a op sch enc = hash_preimage a' op' sch' enc'"
    and ops: "scalar_values (CommandOperation_as_str op)" "scalar_values (CommandOperation_as_str op')"
      "utf8_len (CommandOperation_as_str op) < 2 ^ 64" "utf8_len (CommandOperation_as_str op') < 2 ^ 64"
    and actors: "in_i64 a" "in_i64 a'" "0 < a" "0 < a'"
    and schemas: "schema_request sch < 2 ^ 32" "schema_request sch' < 2 ^ 32"
  shows "a = a' \<and> op = op' \<and> schema_request sch = schema_request sch' \<and> enc = enc'"
proof -
  let ?o = "CommandOperation_as_str op" and ?o' = "CommandOperation_as_str op'"
  have eq1: "be_bytes 8 (utf8_len ?o) @ utf8_bytes ?o @ be_bytes 8 (nat (a mod 2 ^ 64)) @
      be_bytes 4 (schema_request sch) @ enc =
    be_bytes 8 (utf8_len ?o') @ utf8_bytes ?o' @ be_bytes 8 (nat (a' mod 2 ^ 64)) @
      be_bytes 4 (schema_request sch') @ enc'"
    using eq by (simp add: hash_preimage_def)
  then have len: "utf8_len ?o = utf8_len ?o'"
    and rest: "utf8_bytes ?o @ be_bytes 8 (nat (a mod 2 ^ 64)) @ be_bytes 4 (schema_request sch) @ enc =
      utf8_bytes ?o' @ be_bytes 8 (nat (a' mod 2 ^ 64)) @ be_bytes 4 (schema_request sch') @ enc'"
    using append_be_bytes_inj [OF eq1] ops(3,4) by simp_all
  from rest len have bytes: "utf8_bytes ?o = utf8_bytes ?o'"
    and rest2: "be_bytes 8 (nat (a mod 2 ^ 64)) @ be_bytes 4 (schema_request sch) @ enc =
      be_bytes 8 (nat (a' mod 2 ^ 64)) @ be_bytes 4 (schema_request sch') @ enc'"
    by (simp_all add: utf8_len_def)
  have small: "nat (x mod 2 ^ 64) < 256 ^ 8" for x :: int
    by (simp add: nat_less_iff)
  from append_be_bytes_inj [OF rest2 small small]
  have actor: "nat (a mod 2 ^ 64) = nat (a' mod 2 ^ 64)"
    and rest3: "be_bytes 4 (schema_request sch) @ enc = be_bytes 4 (schema_request sch') @ enc'" by simp_all
  from append_be_bytes_inj [OF rest3] schemas have "schema_request sch = schema_request sch'" "enc = enc'"
    by simp_all
  moreover have "op = op'"
    using utf8_bytes_inj [OF ops(1,2) bytes] by (rule CommandOperation.expand)
  moreover have "a = a'"
    using actor actors by (simp add: in_i64_def i64_max_def i64_min_def)
  ultimately show ?thesis by blast
qed

end
