(* ===== verification/Order_Holds.thy ===== *)
theory Order_Holds
  imports Idempotency Outbox_History
begin

text \<open>
  Placing and releasing order holds, \<open>place\_order\_hold\<close> and
  \<open>release\_order\_hold\<close> of \<open>crates/api/src/repo/orders.rs\<close>: each is one
  transaction over the order row, the hold rows, the activity log, the outbox and the table of
  command results, so it is one function on the database that holds them, with an error for
  every rollback. The caller's current owner scope, the clock, whether the foreign keys of the
  new rows hold, serde's encodings and the JSON text of the event payload are arguments.
\<close>

section \<open>Definitions\<close>

subsection \<open>Rows and commands\<close>

record order_row =
  row_order_id :: int
  row_tenant_id :: TenantId
  row_owner_id :: InventoryOwnerId
  row_status :: string
  row_revision :: int
  row_deleted :: "Timestamp option"

record order_hold_row =
  hold_row_id :: int
  hold_tenant_id :: TenantId
  hold_owner_id :: InventoryOwnerId
  hold_order_id :: int
  hold_created :: Timestamp
  hold_created_by :: UserId
  hold_reason_code :: string
  hold_note :: "rust_string option"
  hold_released_at :: "Timestamp option"
  hold_released_by :: "UserId option"
  hold_release_note :: "rust_string option"

record order_activity_row =
  activity_tenant_id :: TenantId
  activity_owner_id :: InventoryOwnerId
  activity_created :: Timestamp
  activity_order_id :: int
  activity_actor_user_id :: "UserId option"
  activity_action :: string

record 'j order_db =
  db_orders :: "order_row list"
  db_holds :: "order_hold_row list"
  db_next_hold_id :: int
  db_activity :: "order_activity_row list"
  db_outbox :: outbox_db
  db_commands :: "'j command_record list"

record OrderHoldCommandResult =
  held_order_id :: int
  held_hold_id :: int
  held_order_status :: OrderStatus
  held_active_hold_count :: int

text \<open>
  What a handler receives: the authenticated access, the command context and its environment,
  with the instants its two \<open>now\_iso()\<close> calls and the database's transaction clock
  return.
\<close>

record hold_command =
  cmd_tenant_id :: TenantId
  cmd_user_id :: UserId
  cmd_context :: CommandContext
  cmd_scope :: "AppError + OwnerScope"
  cmd_occurred_at :: Timestamp
  cmd_activity_at :: Timestamp
  cmd_transaction_at :: Timestamp
  cmd_references_exist :: bool

datatype json_field = JsonNumber int | JsonString string

text \<open>serde, SHA-256 and JSON: the parts of other crates a handler calls.\<close>

record ('q, 'j) hold_codec =
  codec_digest :: "nat list \<Rightarrow> rust_string"
  codec_to_vec :: "'q \<Rightarrow> string + nat list"
  codec_to_value :: "OrderHoldCommandResult \<Rightarrow> string + 'j"
  codec_from_value :: "'j \<Rightarrow> string + OrderHoldCommandResult"
  codec_json :: "(string \<times> json_field) list \<Rightarrow> rust_string"
  codec_is_object :: "rust_string \<Rightarrow> bool"

abbreviation bad_request :: "string \<Rightarrow> AppError" where
  "bad_request message \<equiv> Application (InvalidRequest message)"

abbreviation conflict :: "string \<Rightarrow> AppError" where
  "conflict message \<equiv> Application (ApplicationError.Conflict message)"

abbreviation not_found :: "string \<Rightarrow> AppError" where
  "not_found resource \<equiv> Application (NotFound resource)"

abbreviation internal :: "string \<Rightarrow> AppError" where
  "internal message \<equiv> Application (Internal message)"

subsection \<open>Shared steps\<close>

definition InvalidId_fmt :: "InvalidId \<Rightarrow> string" where
  "InvalidId_fmt self =
     InvalidId_kind self @ '' must be a positive integer, got '' @ format_i64 (InvalidId_value self)"

definition OrderHoldTransitionError_fmt :: "OrderHoldTransitionError \<Rightarrow> string" where
  "OrderHoldTransitionError_fmt self =
     (case self of
        OrderNotHoldable \<Rightarrow> ''order cannot be held in its current state''
      | OrderNotHeld \<Rightarrow> ''order is not held'')"

definition validate_hold_note :: "rust_string option \<Rightarrow> bool \<Rightarrow> AppError + unit" where
  "validate_hold_note note required =
     (if required \<and> note = None
        then Err (bad_request ''note is required when the hold reason is other'')
      else case note of
        None \<Rightarrow> Ok ()
      | Some note \<Rightarrow>
          if trim note \<noteq> note \<or> note = []
            then Err (bad_request ''order hold note must be trimmed and nonempty'')
          else if length note > 1000
            then Err (bad_request ''order hold note cannot exceed 1000 characters'')
          else Ok ())"

definition order_is :: "TenantId \<Rightarrow> int \<Rightarrow> order_row \<Rightarrow> bool" where
  "order_is tenant_id order_id ord \<longleftrightarrow> row_tenant_id ord = tenant_id \<and> row_order_id ord = order_id"

definition require_replayed_order_visible ::
  "TenantId \<Rightarrow> int \<Rightarrow> OwnerScope \<Rightarrow> 'j order_db \<Rightarrow> AppError + unit" where
  "require_replayed_order_visible tenant_id order_id scope db =
     (case find (order_is tenant_id order_id) (db_orders db) of
        None \<Rightarrow> Err (not_found ''order'')
      | Some row \<Rightarrow>
          if OwnerScope_includes scope (row_owner_id row) then Ok () else Err (not_found ''order''))"

text \<open>The message quotes the value; the escapes of the debug format are left out.\<close>

definition parse_order_status :: "int \<Rightarrow> string \<Rightarrow> AppError + OrderStatus" where
  "parse_order_status order_id value =
     ok_or (OrderStatus_parse value)
       (internal (''order '' @ format_i64 order_id @ '' has unknown status '' @ [CHR 0x22]
         @ value @ [CHR 0x22]))"

definition hold_active :: "TenantId \<Rightarrow> int \<Rightarrow> order_hold_row \<Rightarrow> bool" where
  "hold_active tenant_id order_id h \<longleftrightarrow>
     hold_tenant_id h = tenant_id \<and> hold_order_id h = order_id \<and> hold_released_at h = None"

definition active_order_hold_count :: "TenantId \<Rightarrow> int \<Rightarrow> 'j order_db \<Rightarrow> int" where
  "active_order_hold_count tenant_id order_id db =
     int (length (filter (hold_active tenant_id order_id) (db_holds db)))"

definition set_order_status :: "OrderStatus \<Rightarrow> order_row \<Rightarrow> order_row" where
  "set_order_status status ord =
     ord\<lparr>row_status := OrderStatus_as_str status, row_revision := row_revision ord + 1\<rparr>"

text \<open>\<open>UPDATE orders SET status = $1, revision = revision + 1\<close>.\<close>

definition update_order_status ::
  "TenantId \<Rightarrow> int \<Rightarrow> OrderStatus \<Rightarrow> 'j order_db \<Rightarrow> AppError + 'j order_db" where
  "update_order_status tenant_id order_id status db =
     (if list_ex (\<lambda>ord. order_is tenant_id order_id ord \<and> row_revision ord = i64_max) (db_orders db)
        then Err (Db ''bigint out of range'')
      else Ok (db\<lparr>db_orders := update_where (order_is tenant_id order_id) (set_order_status status)
        (db_orders db)\<rparr>))"

definition insert_order_activity ::
  "hold_command \<Rightarrow> tx_context \<Rightarrow> InventoryOwnerId \<Rightarrow> int \<Rightarrow> string \<Rightarrow> 'j order_db \<Rightarrow> AppError + 'j order_db" where
  "insert_order_activity cmd tx owner order_id action db =
     and_then (map_err AppError_from_persistence (bind_tenant_context tx (cmd_tenant_id cmd))) (\<lambda>_.
     if \<not> cmd_references_exist cmd then Err (Db ''foreign key'')
     else Ok (db\<lparr>db_activity := db_activity db @
       [\<lparr>activity_tenant_id = cmd_tenant_id cmd, activity_owner_id = owner,
         activity_created = cmd_activity_at cmd, activity_order_id = order_id,
         activity_actor_user_id = Some (ctx_actor_id (cmd_context cmd)),
         activity_action = action\<rparr>]\<rparr>))"

definition next_outbox_sequence :: "TenantId \<Rightarrow> rust_string \<Rightarrow> outbox_db \<Rightarrow> AppError + int" where
  "next_outbox_sequence tenant_id ordering_key outbox =
     (let last_sequence = (case outbox_sequences outbox (tenant_id, ordering_key) of
            None \<Rightarrow> 0 | Some s \<Rightarrow> s)
      in if last_sequence = i64_max then Err (Db ''bigint out of range'') else Ok (last_sequence + 1))"

definition hold_event_key :: "int \<Rightarrow> string \<Rightarrow> rust_string" where
  "hold_event_key hold_id transition =
     lit (''order-hold:'' @ format_i64 hold_id @ '':'' @ transition)"

definition order_ordering_key :: "int \<Rightarrow> rust_string" where
  "order_ordering_key order_id = lit (''order:'' @ format_i64 order_id)"

definition enqueue_order_hold_event ::
  "('q, 'j) hold_codec \<Rightarrow> hold_command \<Rightarrow> tx_context \<Rightarrow> InventoryOwnerId \<Rightarrow> int \<Rightarrow> int \<Rightarrow> string \<Rightarrow>
   (string \<times> json_field) list \<Rightarrow> 'j order_db \<Rightarrow> AppError + 'j order_db" where
  "enqueue_order_hold_event codec cmd tx owner order_id hold_id transition payload db =
     (let ordering_key = order_ordering_key order_id
      in and_then (next_outbox_sequence (cmd_tenant_id cmd) ordering_key (db_outbox db))
        (\<lambda>aggregate_sequence.
          and_then (map_err AppError_from_persistence
            (enqueue (codec_is_object codec) (cmd_references_exist cmd) tx (cmd_transaction_at cmd)
              \<lparr>new_tenant_id = cmd_tenant_id cmd, new_inventory_owner_id = Some owner,
               new_facility_id = None, new_actor_user_id = Some (ctx_actor_id (cmd_context cmd)),
               new_event_key = hold_event_key hold_id transition, new_aggregate_type = lit ''order'',
               new_aggregate_id = lit (format_i64 order_id), new_ordering_key = ordering_key,
               new_aggregate_sequence = aggregate_sequence,
               new_event_type = lit (''order.hold.'' @ transition), new_schema_version = 1,
               new_payload = codec_json codec payload, new_occurred_at = cmd_occurred_at cmd\<rparr>
              (db_outbox db)))
          (\<lambda>(_, _, outbox). Ok (db\<lparr>db_outbox := outbox\<rparr>))))"

text \<open>The end of both handlers: record the result and commit.\<close>

definition commit_hold_result ::
  "('q, 'j) hold_codec \<Rightarrow> hold_command \<Rightarrow> tx_context \<Rightarrow> PreparedCommand \<Rightarrow> OrderHoldCommandResult \<Rightarrow>
   'j order_db \<Rightarrow> AppError + OrderHoldCommandResult \<times> 'j order_db" where
  "commit_hold_result codec cmd tx prepared result db =
     and_then (map_err AppError_from_idempotency
       (commit (codec_to_value codec) (cmd_references_exist cmd) tx prepared result (db_commands db)))
     (\<lambda>(result, rows). Ok (result, db\<lparr>db_commands := rows\<rparr>))"

text \<open>
  The replay both handlers start with, once the command is prepared and its scope is known:
  \<open>body\<close> is what the handler does when there is nothing to replay.
\<close>

definition run_or_replay ::
  "('q, 'j) hold_codec \<Rightarrow> hold_command \<Rightarrow> int \<Rightarrow> PreparedCommand \<times> tx_context \<times> OwnerScope \<Rightarrow>
   (tx_context \<Rightarrow> AppError + OrderHoldCommandResult \<times> 'j order_db) \<Rightarrow> 'j order_db \<Rightarrow>
   AppError + OrderHoldCommandResult \<times> 'j order_db" where
  "run_or_replay codec cmd order_id start body db = (case start of (prepared, tx, scope) \<Rightarrow>
     and_then (map_err AppError_from_idempotency
       (replayed (codec_from_value codec) tx prepared (db_commands db))) (\<lambda>(result, tx').
       case result of
         Some result \<Rightarrow>
           and_then (require_replayed_order_visible (cmd_tenant_id cmd) order_id scope db)
             (\<lambda>_. Ok (result, db))
       | None \<Rightarrow> body tx'))"

subsection \<open>Placing a hold\<close>

definition prepare_place_order_hold ::
  "(int \<times> OrderHoldReason \<times> rust_string option, 'j) hold_codec \<Rightarrow> hold_command \<Rightarrow> int \<Rightarrow> OrderHoldReason \<Rightarrow>
   rust_string option \<Rightarrow> AppError + PreparedCommand \<times> tx_context \<times> OwnerScope" where
  "prepare_place_order_hold codec cmd order_id reason note =
     and_then (map_err Application
       (require_actor (cmd_context cmd) (cmd_tenant_id cmd) (cmd_user_id cmd))) (\<lambda>_.
     and_then (validate_hold_note note (reason = OrderHoldReason.Other)) (\<lambda>_.
     if order_id \<le> 0 then Err (bad_request ''order ID must be positive'')
     else
     and_then (map_err Application (PreparedCommand_new_v1 (codec_digest codec) (codec_to_vec codec)
       (cmd_context cmd) (lit ''order.place_hold.v1'') (order_id, reason, note))) (\<lambda>prepared.
     and_then (map_err AppError_from_persistence
       (bind_tenant_context fresh_context (cmd_tenant_id cmd))) (\<lambda>tx.
     and_then (cmd_scope cmd) (\<lambda>scope. Ok (prepared, tx, scope))))))"

text \<open>The check constraints of \<open>order\_holds\<close> on a new or released row.\<close>

definition hold_note_ok :: "rust_string option \<Rightarrow> bool" where
  "hold_note_ok note \<longleftrightarrow>
     (case note of None \<Rightarrow> True | Some n \<Rightarrow> btrim n = n \<and> n \<noteq> [] \<and> length n \<le> 1000)"

definition new_hold_row ::
  "hold_command \<Rightarrow> InventoryOwnerId \<Rightarrow> int \<Rightarrow> OrderHoldReason \<Rightarrow> rust_string option \<Rightarrow> int \<Rightarrow>
   order_hold_row" where
  "new_hold_row cmd owner order_id reason note hold_id =
     \<lparr>hold_row_id = hold_id, hold_tenant_id = cmd_tenant_id cmd, hold_owner_id = owner,
      hold_order_id = order_id, hold_created = cmd_occurred_at cmd,
      hold_created_by = ctx_actor_id (cmd_context cmd),
      hold_reason_code = OrderHoldReason_as_str reason, hold_note = note,
      hold_released_at = None, hold_released_by = None, hold_release_note = None\<rparr>"

definition duplicate_hold ::
  "TenantId \<Rightarrow> InventoryOwnerId \<Rightarrow> int \<Rightarrow> string \<Rightarrow> 'j order_db \<Rightarrow> bool" where
  "duplicate_hold tenant_id owner order_id reason_code db \<longleftrightarrow>
     list_ex (\<lambda>h. hold_active tenant_id order_id h \<and> hold_owner_id h = owner \<and>
       hold_reason_code h = reason_code) (db_holds db)"

definition insert_hold ::
  "hold_command \<Rightarrow> InventoryOwnerId \<Rightarrow> int \<Rightarrow> OrderHoldReason \<Rightarrow> rust_string option \<Rightarrow> 'j order_db \<Rightarrow>
   AppError + int \<times> 'j order_db" where
  "insert_hold cmd owner order_id reason note db =
     (let hold_id = db_next_hold_id db;
          row = new_hold_row cmd owner order_id reason note hold_id
      in if \<not> hold_note_ok note \<or> hold_reason_code row = ''other'' \<and> note = None
           then Err (Db ''order_holds check'')
         else if duplicate_hold (cmd_tenant_id cmd) owner order_id (hold_reason_code row) db
           then Err (Db ''order_holds_active_reason_key'')
         else if \<not> cmd_references_exist cmd then Err (Db ''foreign key'')
         else Ok (hold_id, db\<lparr>db_holds := db_holds db @ [row], db_next_hold_id := hold_id + 1\<rparr>))"

definition execute_place_order_hold ::
  "(int \<times> OrderHoldReason \<times> rust_string option, 'j) hold_codec \<Rightarrow> hold_command \<Rightarrow> int \<Rightarrow> OrderHoldReason \<Rightarrow>
   rust_string option \<Rightarrow> PreparedCommand \<Rightarrow> OwnerScope \<Rightarrow> 'j order_db \<Rightarrow> tx_context \<Rightarrow>
   AppError + OrderHoldCommandResult \<times> 'j order_db" where
  "execute_place_order_hold codec cmd order_id reason note prepared scope db tx =
     (case find (\<lambda>ord. order_is (cmd_tenant_id cmd) order_id ord \<and>
            row_deleted ord = None \<and> OwnerScope_includes scope (row_owner_id ord)) (db_orders db) of
        None \<Rightarrow> Err (not_found ''order'')
      | Some row \<Rightarrow>
          and_then (map_err (\<lambda>e. internal (InvalidId_fmt e))
            (positive_id_new ''inventory owner ID'' (row_owner_id row))) (\<lambda>owner.
          and_then (parse_order_status order_id (row_status row)) (\<lambda>current_status.
          and_then (map_err (\<lambda>e. conflict (OrderHoldTransitionError_fmt e)) (place_hold current_status))
            (\<lambda>order_status.
          if duplicate_hold (cmd_tenant_id cmd) owner order_id (OrderHoldReason_as_str reason) db
            then Err (conflict (''order already has an active '' @ OrderHoldReason_as_str reason @ '' hold''))
          else
          and_then (insert_hold cmd owner order_id reason note db) (\<lambda>(hold_id, db1).
          and_then (update_order_status (cmd_tenant_id cmd) order_id order_status db1) (\<lambda>db2.
          and_then (insert_order_activity cmd tx owner order_id ''placed order hold'' db2) (\<lambda>db3.
          let active_hold_count = active_order_hold_count (cmd_tenant_id cmd) order_id db3
          in and_then (enqueue_order_hold_event codec cmd tx owner order_id hold_id ''placed''
              [(''order_id'', JsonNumber order_id), (''order_hold_id'', JsonNumber hold_id),
               (''reason'', JsonString (OrderHoldReason_as_str reason)),
               (''order_status'', JsonString (OrderStatus_as_str order_status)),
               (''active_hold_count'', JsonNumber active_hold_count)] db3) (\<lambda>db4.
          commit_hold_result codec cmd tx prepared
            \<lparr>held_order_id = order_id, held_hold_id = hold_id, held_order_status = order_status,
             held_active_hold_count = active_hold_count\<rparr> db4))))))))"

definition place_order_hold ::
  "(int \<times> OrderHoldReason \<times> rust_string option, 'j) hold_codec \<Rightarrow> hold_command \<Rightarrow> int \<Rightarrow> OrderHoldReason \<Rightarrow>
   rust_string option \<Rightarrow> 'j order_db \<Rightarrow> AppError + OrderHoldCommandResult \<times> 'j order_db" where
  "place_order_hold codec cmd order_id reason note db =
     and_then (prepare_place_order_hold codec cmd order_id reason note) (\<lambda>start.
       run_or_replay codec cmd order_id start (execute_place_order_hold codec cmd order_id reason note
         (fst start) (snd (snd start)) db) db)"

subsection \<open>Releasing a hold\<close>

definition prepare_release_order_hold ::
  "(int \<times> int \<times> rust_string option, 'j) hold_codec \<Rightarrow> hold_command \<Rightarrow> int \<Rightarrow> int \<Rightarrow>
   rust_string option \<Rightarrow> AppError + PreparedCommand \<times> tx_context \<times> OwnerScope" where
  "prepare_release_order_hold codec cmd order_id hold_id note =
     and_then (map_err Application
       (require_actor (cmd_context cmd) (cmd_tenant_id cmd) (cmd_user_id cmd))) (\<lambda>_.
     and_then (validate_hold_note note False) (\<lambda>_.
     if order_id \<le> 0 \<or> hold_id \<le> 0
       then Err (bad_request ''order ID and order hold ID must be positive'')
     else
     and_then (map_err Application (PreparedCommand_new_v1 (codec_digest codec) (codec_to_vec codec)
       (cmd_context cmd) (lit ''order.release_hold.v1'') (order_id, hold_id, note))) (\<lambda>prepared.
     and_then (map_err AppError_from_persistence
       (bind_tenant_context fresh_context (cmd_tenant_id cmd))) (\<lambda>tx.
     and_then (cmd_scope cmd) (\<lambda>scope. Ok (prepared, tx, scope))))))"

text \<open>The join of the hold with its order.\<close>

definition find_hold ::
  "TenantId \<Rightarrow> int \<Rightarrow> int \<Rightarrow> OwnerScope \<Rightarrow> 'j order_db \<Rightarrow> (order_hold_row \<times> order_row) option" where
  "find_hold tenant_id order_id hold_id scope db =
     (case find (\<lambda>h. hold_tenant_id h = tenant_id \<and> hold_order_id h = order_id \<and>
            hold_row_id h = hold_id \<and> OwnerScope_includes scope (hold_owner_id h)) (db_holds db) of
        None \<Rightarrow> None
      | Some h \<Rightarrow>
          (case find (\<lambda>ord. row_tenant_id ord = hold_tenant_id h \<and> row_owner_id ord = hold_owner_id h \<and>
               row_order_id ord = hold_order_id h \<and> row_deleted ord = None) (db_orders db) of
             None \<Rightarrow> None | Some ord \<Rightarrow> Some (h, ord)))"

definition release_hold_row ::
  "hold_command \<Rightarrow> rust_string option \<Rightarrow> order_hold_row \<Rightarrow> order_hold_row" where
  "release_hold_row cmd note h =
     h\<lparr>hold_released_at := Some (cmd_occurred_at cmd),
       hold_released_by := Some (ctx_actor_id (cmd_context cmd)), hold_release_note := note\<rparr>"

definition update_released_hold ::
  "hold_command \<Rightarrow> int \<Rightarrow> int \<Rightarrow> rust_string option \<Rightarrow> 'j order_db \<Rightarrow> AppError + 'j order_db" where
  "update_released_hold cmd order_id hold_id note db =
     (if \<not> hold_note_ok note then Err (Db ''order_holds check'')
      else if \<not> cmd_references_exist cmd then Err (Db ''foreign key'')
      else Ok (db\<lparr>db_holds := update_where (\<lambda>h. hold_active (cmd_tenant_id cmd) order_id h \<and>
        hold_row_id h = hold_id) (release_hold_row cmd note) (db_holds db)\<rparr>))"

definition execute_release_order_hold ::
  "(int \<times> int \<times> rust_string option, 'j) hold_codec \<Rightarrow> hold_command \<Rightarrow> int \<Rightarrow> int \<Rightarrow>
   rust_string option \<Rightarrow> PreparedCommand \<Rightarrow> OwnerScope \<Rightarrow> 'j order_db \<Rightarrow> tx_context \<Rightarrow>
   AppError + OrderHoldCommandResult \<times> 'j order_db" where
  "execute_release_order_hold codec cmd order_id hold_id note prepared scope db tx =
     (case find_hold (cmd_tenant_id cmd) order_id hold_id scope db of
        None \<Rightarrow> Err (not_found ''order hold'')
      | Some (hold, row) \<Rightarrow>
          if hold_released_at hold \<noteq> None then Err (conflict ''order hold is already released'')
          else
          and_then (map_err (\<lambda>e. internal (InvalidId_fmt e))
            (positive_id_new ''inventory owner ID'' (hold_owner_id hold))) (\<lambda>owner.
          and_then (parse_order_status order_id (row_status row)) (\<lambda>current_status.
          and_then (update_released_hold cmd order_id hold_id note db) (\<lambda>db1.
          let active_hold_count = active_order_hold_count (cmd_tenant_id cmd) order_id db1
          in and_then (map_err (\<lambda>e. conflict (OrderHoldTransitionError_fmt e))
              (release_hold current_status (active_hold_count > 0))) (\<lambda>order_status.
          and_then (update_order_status (cmd_tenant_id cmd) order_id order_status db1) (\<lambda>db2.
          and_then (insert_order_activity cmd tx owner order_id ''released order hold'' db2) (\<lambda>db3.
          and_then (enqueue_order_hold_event codec cmd tx owner order_id hold_id ''released''
              [(''order_id'', JsonNumber order_id), (''order_hold_id'', JsonNumber hold_id),
               (''order_status'', JsonString (OrderStatus_as_str order_status)),
               (''active_hold_count'', JsonNumber active_hold_count)] db3) (\<lambda>db4.
          commit_hold_result codec cmd tx prepared
            \<lparr>held_order_id = order_id, held_hold_id = hold_id, held_order_status = order_status,
             held_active_hold_count = active_hold_count\<rparr> db4))))))))"

definition release_order_hold ::
  "(int \<times> int \<times> rust_string option, 'j) hold_codec \<Rightarrow> hold_command \<Rightarrow> int \<Rightarrow> int \<Rightarrow>
   rust_string option \<Rightarrow> 'j order_db \<Rightarrow> AppError + OrderHoldCommandResult \<times> 'j order_db" where
  "release_order_hold codec cmd order_id hold_id note db =
     and_then (prepare_release_order_hold codec cmd order_id hold_id note) (\<lambda>start.
       run_or_replay codec cmd order_id start (execute_release_order_hold codec cmd order_id hold_id note
         (fst start) (snd (snd start)) db) db)"

subsection \<open>Runs of hold commands and their invariant\<close>

inductive hold_step ::
  "(int \<times> OrderHoldReason \<times> rust_string option, 'j) hold_codec \<Rightarrow>
   (int \<times> int \<times> rust_string option, 'j) hold_codec \<Rightarrow>
   Timestamp \<times> 'j order_db \<Rightarrow> Timestamp \<times> 'j order_db \<Rightarrow> bool"
  for place_codec release_codec where
  step_place: "place_order_hold place_codec cmd order_id reason note db = Inr (result, db') \<Longrightarrow>
    cmd_transaction_at cmd = now \<Longrightarrow> hold_step place_codec release_codec (now, db) (now, db')"
| step_release: "release_order_hold release_codec cmd order_id hold_id note db = Inr (result, db') \<Longrightarrow>
    cmd_transaction_at cmd = now \<Longrightarrow> hold_step place_codec release_codec (now, db) (now, db')"
| step_wait: "now \<le> now' \<Longrightarrow> hold_step place_codec release_codec (now, db) (now', db)"

definition order_row_ok :: "order_hold_row list \<Rightarrow> order_row \<Rightarrow> bool" where
  "order_row_ok holds ord \<longleftrightarrow>
     0 < row_owner_id ord \<and> 0 < row_revision ord \<and> row_revision ord \<le> i64_max \<and>
     OrderStatus_parse (row_status ord) \<noteq> None \<and>
     (row_status ord = OrderStatus_as_str Held \<longleftrightarrow>
        list_ex (hold_active (row_tenant_id ord) (row_order_id ord)) holds)"

definition hold_row_ok :: "order_row list \<Rightarrow> int \<Rightarrow> order_hold_row \<Rightarrow> bool" where
  "hold_row_ok orders next_hold_id h \<longleftrightarrow>
     0 < hold_row_id h \<and> hold_row_id h < next_hold_id \<and>
     list_ex (\<lambda>ord. order_is (hold_tenant_id h) (hold_order_id h) ord \<and>
       row_owner_id ord = hold_owner_id h) orders \<and>
     OrderHoldReason_parse (hold_reason_code h) \<noteq> None \<and>
     (hold_reason_code h = ''other'' \<longrightarrow> hold_note h \<noteq> None) \<and>
     hold_note_ok (hold_note h) \<and> hold_note_ok (hold_release_note h) \<and>
     (hold_released_at h = None \<longleftrightarrow> hold_released_by h = None)"

definition active_reason :: "order_hold_row \<Rightarrow> TenantId \<times> InventoryOwnerId \<times> int \<times> string" where
  "active_reason h = (hold_tenant_id h, hold_owner_id h, hold_order_id h, hold_reason_code h)"

text \<open>The event keys of holds that are still to be used are free.\<close>

definition hold_keys_ok ::
  "(TenantId \<times> rust_string) list \<Rightarrow> int \<Rightarrow> order_hold_row list \<Rightarrow> bool" where
  "hold_keys_ok keys next_hold_id holds \<longleftrightarrow>
     (\<forall>tenant_id hold_id. next_hold_id \<le> hold_id \<longrightarrow>
        (tenant_id, hold_event_key hold_id ''placed'') \<notin> set keys \<and>
        (tenant_id, hold_event_key hold_id ''released'') \<notin> set keys) \<and>
     (\<forall>h\<in>set holds. hold_released_at h = None \<longrightarrow>
        (hold_tenant_id h, hold_event_key (hold_row_id h) ''released'') \<notin> set keys)"

definition orders_ok :: "'j order_db \<Rightarrow> bool" where
  "orders_ok db \<longleftrightarrow>
     distinct (map row_order_id (db_orders db)) \<and> distinct (map hold_row_id (db_holds db)) \<and>
     distinct (map active_reason (filter (\<lambda>h. hold_released_at h = None) (db_holds db))) \<and>
     0 < db_next_hold_id db \<and>
     list_all (order_row_ok (db_holds db)) (db_orders db) \<and>
     list_all (hold_row_ok (db_orders db) (db_next_hold_id db)) (db_holds db) \<and>
     hold_keys_ok (outbox_event_keys (db_outbox db)) (db_next_hold_id db) (db_holds db)"

definition orders_inv :: "Timestamp \<times> 'j order_db \<Rightarrow> bool" where
  "orders_inv s = (case s of (now, db) \<Rightarrow> orders_ok db \<and> outbox_inv (now, db_outbox db))"

subsection \<open>Sample inputs\<close>

definition sample_context :: "rust_string \<Rightarrow> CommandContext" where
  "sample_context key = \<lparr>ctx_tenant_id = 1, ctx_actor_id = 7, ctx_request_id = lit ''r'',
     ctx_idempotency_key = Some key\<rparr>"

definition sample_command :: "rust_string \<Rightarrow> Timestamp \<Rightarrow> hold_command" where
  "sample_command key now = \<lparr>cmd_tenant_id = 1, cmd_user_id = 7, cmd_context = sample_context key,
     cmd_scope = Inr \<lparr>all_inventory_owners = True, inventory_owner_ids = []\<rparr>,
     cmd_occurred_at = now, cmd_activity_at = now, cmd_transaction_at = now,
     cmd_references_exist = True\<rparr>"

text \<open>A codec that stores results as they are and requests by one distinguishing byte.\<close>

definition sample_codec :: "('q \<Rightarrow> nat) \<Rightarrow> ('q, OrderHoldCommandResult) hold_codec" where
  "sample_codec byte = \<lparr>codec_digest = (\<lambda>bytes. replicate 63 48 @ [48 + last bytes mod 10]),
     codec_to_vec = (\<lambda>q. Inr [byte q]), codec_to_value = Inr, codec_from_value = Inr,
     codec_json = (\<lambda>_. lit ''{}''), codec_is_object = (\<lambda>_. True)\<rparr>"

definition sample_orders :: "OrderHoldCommandResult order_db" where
  "sample_orders = \<lparr>db_orders = [\<lparr>row_order_id = 5, row_tenant_id = 1, row_owner_id = 2,
       row_status = ''open'', row_revision = 1, row_deleted = None\<rparr>],
     db_holds = [], db_next_hold_id = 1, db_activity = [], db_outbox = outbox_empty, db_commands = []\<rparr>"

abbreviation sample_place_codec :: "(int \<times> OrderHoldReason \<times> rust_string option, OrderHoldCommandResult) hold_codec" where
  "sample_place_codec \<equiv> sample_codec (\<lambda>(i, _, _). nat i)"

abbreviation sample_release_codec :: "(int \<times> int \<times> rust_string option, OrderHoldCommandResult) hold_codec" where
  "sample_release_codec \<equiv> sample_codec (\<lambda>(_, i, _). nat i)"

definition sample_held :: "OrderHoldCommandResult order_db" where
  "sample_held = \<lparr>db_orders = [\<lparr>row_order_id = 5, row_tenant_id = 1, row_owner_id = 2,
       row_status = ''held'', row_revision = 2, row_deleted = None\<rparr>],
     db_holds = [new_hold_row (sample_command (lit ''k'') 0) 2 5 CustomerRequest None 1],
     db_next_hold_id = 2, db_activity = [], db_outbox = outbox_empty, db_commands = []\<rparr>"

definition sample_prepared :: "rust_string \<Rightarrow> nat \<Rightarrow> PreparedCommand" where
  "sample_prepared operation digit = \<lparr>prep_tenant_id = 1, prep_actor_id = 7,
     prep_request_id = Some (lit ''r''), prep_operation = CommandOperation operation,
     prep_idempotency_key = IdempotencyKey (lit ''k''),
     prep_request_hash = CommandRequestHash (replicate 63 48 @ [48 + digit]),
     prep_schema = CommandSchemaVersion_V1\<rparr>"

section \<open>Lemmas\<close>

inductive_cases hold_stepE: "hold_step place_codec release_codec s s'"

subsection \<open>Event keys\<close>

lemma decimal_digits: "c \<in> set (decimal n) \<Longrightarrow> 48 \<le> (of_char c :: nat) \<and> (of_char c :: nat) \<le> 57"
proof (induction n rule: decimal.induct)
  case (1 n)
  have "n mod 10 < 10" by simp
  moreover have "c \<in> set (if n < 10 then [char_of (48 + n)]
      else decimal (n div 10) @ [char_of (48 + n mod 10)])"
    using 1(2) decimal.simps [of n] by simp
  ultimately show ?case using 1(1) by (cases "n < 10") auto
qed

lemma decimal_last: "last (decimal n) = char_of (48 + n mod 10)"
  by (subst decimal.simps) simp

lemma decimal_butlast: "butlast (decimal n) = (if n < 10 then [] else decimal (n div 10))"
  by (subst decimal.simps) simp

lemma decimal_nonempty [simp]: "decimal n \<noteq> []" "[] \<noteq> decimal n"
  by (subst decimal.simps, simp)+

lemma decimal_inj: "decimal m = decimal n \<Longrightarrow> m = n"
proof (induction m arbitrary: n rule: decimal.induct)
  case (1 m)
  have "(of_char (char_of (48 + m mod 10)) :: nat) = of_char (char_of (48 + n mod 10))"
    using decimal_last [of m] decimal_last [of n] 1(2) by simp
  then have mod: "m mod 10 = n mod 10" by simp
  show ?case
  proof (cases "m < 10 \<or> n < 10")
    case True
    then have "m < 10 \<and> n < 10"
      using decimal_butlast [of m] decimal_butlast [of n] 1(2) by (auto split: if_splits)
    with mod show ?thesis by simp
  next
    case False
    then have "decimal (m div 10) = decimal (n div 10)"
      using decimal_butlast [of m] decimal_butlast [of n] 1(2) by simp
    with 1(1) False have "m div 10 = n div 10" by blast
    then have "m div 10 * 10 + m mod 10 = n div 10 * 10 + n mod 10" by (simp only: mod)
    then show ?thesis by (simp only: div_mult_mod_eq)
  qed
qed

lemma lit_inj: "lit s = lit t \<longleftrightarrow> s = t"
  by (simp add: lit_def inj_map_eq_map inj_def)

lemma format_i64_colon: "0 \<le> i \<Longrightarrow> CHR '':'' \<notin> set (format_i64 i)"
  using decimal_digits [of "CHR '':''" "nat i"] by (auto simp: format_i64_def)

lemma hold_event_key_inj:
  assumes "0 \<le> i" "0 \<le> j" "hold_event_key i t = hold_event_key j t'"
  shows "i = j \<and> t = t'"
proof -
  let ?P = "\<lambda>c. c \<noteq> CHR '':''"
  have eq: "format_i64 i @ CHR '':'' # t = format_i64 j @ CHR '':'' # t'"
    using assms(3) by (simp add: hold_event_key_def lit_inj)
  have take: "takeWhile ?P (format_i64 k @ CHR '':'' # u) = format_i64 k" if "0 \<le> k" for k u
    using format_i64_colon [OF that] by (subst takeWhile_append2) auto
  have "format_i64 i = format_i64 j" using take [OF assms(1)] take [OF assms(2)] eq by metis
  with eq assms(1,2) decimal_inj [of "nat i" "nat j"] show ?thesis by (auto simp: format_i64_def)
qed

subsection \<open>What each step changes\<close>

lemma update_order_status_Inr:
  "update_order_status tenant_id order_id status db = Inr db' \<Longrightarrow>
     db' = db\<lparr>db_orders := update_where (order_is tenant_id order_id) (set_order_status status)
       (db_orders db)\<rparr> \<and>
     (\<forall>ord\<in>set (db_orders db). order_is tenant_id order_id ord \<longrightarrow> row_revision ord \<noteq> i64_max)"
  by (auto simp: update_order_status_def list_ex_iff split: if_splits)

lemma insert_order_activity_Inr:
  "insert_order_activity cmd tx owner order_id action db = Inr db' \<Longrightarrow>
     \<exists>row. db' = db\<lparr>db_activity := db_activity db @ [row]\<rparr>"
  by (auto simp: insert_order_activity_def result_simps split: if_splits)

lemma enqueue_order_hold_event_Inr:
  assumes "enqueue_order_hold_event codec cmd tx owner order_id hold_id transition payload db = Inr db'"
  obtains event new_id tx' outbox where
    "enqueue (codec_is_object codec) (cmd_references_exist cmd) tx (cmd_transaction_at cmd) event
       (db_outbox db) = Inr (new_id, tx', outbox)"
    "new_tenant_id event = cmd_tenant_id cmd"
    "new_event_key event = hold_event_key hold_id transition"
    "db' = db\<lparr>db_outbox := outbox\<rparr>"
  using assms by (fastforce simp: enqueue_order_hold_event_def Let_def result_simps)

lemma enqueue_event_keys:
  "enqueue is_object references_exist tx now event db = Inr (new_id, tx', db') \<Longrightarrow>
     outbox_event_keys db' = (new_tenant_id event, new_event_key event) # outbox_event_keys db"
  by (auto simp: enqueue_def Let_def result_simps split: if_splits)

lemma commit_hold_result_Inr:
  assumes "commit_hold_result codec cmd tx p result db = Inr (r, db')"
  shows "r = result \<and> (\<exists>json. codec_to_value codec result = Inr json \<and>
    db' = db\<lparr>db_commands := db_commands db @ [completed_row p json None]\<rparr>)"
proof -
  from assms obtain rows where rows: "commit (codec_to_value codec) (cmd_references_exist cmd) tx p
      result (db_commands db) = Inr (r, rows)" "db' = db\<lparr>db_commands := rows\<rparr>"
    by (auto simp: commit_hold_result_def result_simps)
  from commit_appends [OF rows(1)] rows(2) show ?thesis by auto
qed

lemma place_hold_Inr: "place_hold status = Inr status' \<Longrightarrow> status' = Held \<and> status \<in> {OrderStatus.Open, Held}"
  by (cases status) simp_all

text \<open>
  A hold that was placed: the order was visible, open or held and had no active hold for the
  same reason; the database differs by the order's status, one hold, one activity, one event
  and one command result.
\<close>

lemma execute_place_Inr:
  assumes "execute_place_order_hold codec cmd order_id reason note p scope db tx = Inr (r, db')"
  obtains ord event new_id tx' json where
    "ord \<in> set (db_orders db)" "order_is (cmd_tenant_id cmd) order_id ord" "row_deleted ord = None"
    "OwnerScope_includes scope (row_owner_id ord)" "0 < row_owner_id ord"
    "\<not> duplicate_hold (cmd_tenant_id cmd) (row_owner_id ord) order_id (OrderHoldReason_as_str reason) db"
    "hold_note_ok note" "OrderHoldReason_as_str reason = ''other'' \<Longrightarrow> note \<noteq> None"
    "\<forall>ord\<in>set (db_orders db). order_is (cmd_tenant_id cmd) order_id ord \<longrightarrow> row_revision ord \<noteq> i64_max"
    "db_orders db' = update_where (order_is (cmd_tenant_id cmd) order_id) (set_order_status Held)
       (db_orders db)"
    "db_holds db' = db_holds db @
       [new_hold_row cmd (row_owner_id ord) order_id reason note (db_next_hold_id db)]"
    "db_next_hold_id db' = db_next_hold_id db + 1"
    "enqueue (codec_is_object codec) (cmd_references_exist cmd) tx (cmd_transaction_at cmd) event
       (db_outbox db) = Inr (new_id, tx', db_outbox db')"
    "new_tenant_id event = cmd_tenant_id cmd"
    "new_event_key event = hold_event_key (db_next_hold_id db) ''placed''"
    "codec_to_value codec r = Inr json"
    "db_commands db' = db_commands db @ [completed_row p json None]"
proof -
  from assms obtain ord where ord: "find (\<lambda>ord. order_is (cmd_tenant_id cmd) order_id ord \<and>
      row_deleted ord = None \<and> OwnerScope_includes scope (row_owner_id ord)) (db_orders db) = Some ord"
    by (auto simp: execute_place_order_hold_def split: option.splits)
  from assms obtain status db1 hold_id db2 db3 payload db4 result where
    owner: "0 < row_owner_id ord" and
    dup: "\<not> duplicate_hold (cmd_tenant_id cmd) (row_owner_id ord) order_id (OrderHoldReason_as_str reason) db" and
    ins: "insert_hold cmd (row_owner_id ord) order_id reason note db = Inr (hold_id, db1)" and
    upd: "update_order_status (cmd_tenant_id cmd) order_id status db1 = Inr db2" and
    status: "status = Held" and
    act: "insert_order_activity cmd tx (row_owner_id ord) order_id ''placed order hold'' db2 = Inr db3" and
    enq: "enqueue_order_hold_event codec cmd tx (row_owner_id ord) order_id hold_id ''placed'' payload db3
      = Inr db4" and
    com: "commit_hold_result codec cmd tx p result db4 = Inr (r, db')"
    unfolding execute_place_order_hold_def ord
    by (auto simp: result_simps positive_id_new_def Let_def dest!: place_hold_Inr split: if_splits)
  have found: "ord \<in> set (db_orders db)" "order_is (cmd_tenant_id cmd) order_id ord" "row_deleted ord = None"
    "OwnerScope_includes scope (row_owner_id ord)"
    using ord by (auto simp: find_Some_iff)
  have db1: "hold_id = db_next_hold_id db" "hold_note_ok note"
    "OrderHoldReason_as_str reason = ''other'' \<Longrightarrow> note \<noteq> None"
    "db1 = db\<lparr>db_holds := db_holds db @
       [new_hold_row cmd (row_owner_id ord) order_id reason note (db_next_hold_id db)],
       db_next_hold_id := db_next_hold_id db + 1\<rparr>"
    using ins by (auto simp: insert_hold_def Let_def new_hold_row_def split: if_splits)
  obtain row where db3: "db3 = db2\<lparr>db_activity := db_activity db2 @ [row]\<rparr>"
    using insert_order_activity_Inr [OF act] by blast
  note db2 = update_order_status_Inr [OF upd]
  from enqueue_order_hold_event_Inr [OF enq] obtain event new_id tx' outbox where
    event: "enqueue (codec_is_object codec) (cmd_references_exist cmd) tx (cmd_transaction_at cmd) event
       (db_outbox db3) = Inr (new_id, tx', outbox)"
    "new_tenant_id event = cmd_tenant_id cmd" "new_event_key event = hold_event_key hold_id ''placed''"
    "db4 = db3\<lparr>db_outbox := outbox\<rparr>" .
  from commit_hold_result_Inr [OF com] obtain json where
    json: "r = result" "codec_to_value codec result = Inr json"
      "db' = db4\<lparr>db_commands := db_commands db4 @ [completed_row p json None]\<rparr>" by blast
  show ?thesis
    by (rule that [of ord event new_id tx' json])
      (use found owner dup db1 db2 db3 event json status in \<open>simp_all\<close>)
qed

lemma parse_order_status_Inr:
  "parse_order_status order_id value = Inr status \<Longrightarrow> value = OrderStatus_as_str status"
  by (simp add: parse_order_status_def result_simps order_status.parse_eq_Some_iff)

lemma release_hold_Inr:
  "release_hold status remaining = Inr status' \<Longrightarrow>
     status = Held \<and> status' = (if remaining then Held else OrderStatus.Open)"
  by (auto simp: release_hold_def split: if_splits)

lemma active_count_pos:
  "active_order_hold_count tenant_id order_id db > 0 \<longleftrightarrow>
     list_ex (hold_active tenant_id order_id) (db_holds db)"
  by (auto simp: active_order_hold_count_def list_ex_iff filter_empty_conv)

lemma find_hold_Some:
  assumes "find_hold tenant_id order_id hold_id scope db = Some (h, ord)"
  shows "h \<in> set (db_holds db)" "hold_tenant_id h = tenant_id" "hold_order_id h = order_id"
    "hold_row_id h = hold_id" "OwnerScope_includes scope (hold_owner_id h)"
    "ord \<in> set (db_orders db)" "order_is tenant_id order_id ord" "row_owner_id ord = hold_owner_id h"
  using assms by (auto simp: find_hold_def find_Some_iff order_is_def split: option.splits)

text \<open>
  A hold that was released: it was active on a held order; the order opens again when it was
  the last one.
\<close>

lemma execute_release_Inr:
  assumes "execute_release_order_hold codec cmd order_id hold_id note p scope db tx = Inr (r, db')"
  obtains h ord event new_id tx' json where
    "h \<in> set (db_holds db)" "hold_active (cmd_tenant_id cmd) order_id h" "hold_row_id h = hold_id"
    "ord \<in> set (db_orders db)" "order_is (cmd_tenant_id cmd) order_id ord"
    "OwnerScope_includes scope (row_owner_id ord)" "hold_note_ok note"
    "row_status ord = OrderStatus_as_str Held"
    "\<forall>ord\<in>set (db_orders db). order_is (cmd_tenant_id cmd) order_id ord \<longrightarrow> row_revision ord \<noteq> i64_max"
    "db_orders db' = update_where (order_is (cmd_tenant_id cmd) order_id)
       (set_order_status (if list_ex (hold_active (cmd_tenant_id cmd) order_id) (db_holds db')
          then Held else OrderStatus.Open)) (db_orders db)"
    "db_holds db' = update_where (\<lambda>h. hold_active (cmd_tenant_id cmd) order_id h \<and> hold_row_id h = hold_id)
       (release_hold_row cmd note) (db_holds db)"
    "db_next_hold_id db' = db_next_hold_id db"
    "enqueue (codec_is_object codec) (cmd_references_exist cmd) tx (cmd_transaction_at cmd) event
       (db_outbox db) = Inr (new_id, tx', db_outbox db')"
    "new_tenant_id event = cmd_tenant_id cmd"
    "new_event_key event = hold_event_key hold_id ''released''"
    "codec_to_value codec r = Inr json"
    "db_commands db' = db_commands db @ [completed_row p json None]"
proof -
  from assms obtain h ord where find: "find_hold (cmd_tenant_id cmd) order_id hold_id scope db = Some (h, ord)"
    by (auto simp: execute_release_order_hold_def split: option.splits)
  from assms obtain db1 status db2 db3 payload db4 result where
    active: "hold_released_at h = None" and
    held: "row_status ord = OrderStatus_as_str Held" and
    rel: "update_released_hold cmd order_id hold_id note db = Inr db1" and
    upd: "update_order_status (cmd_tenant_id cmd) order_id status db1 = Inr db2" and
    status: "status = (if active_order_hold_count (cmd_tenant_id cmd) order_id db1 > 0 then Held
      else OrderStatus.Open)" and
    act: "insert_order_activity cmd tx (hold_owner_id h) order_id ''released order hold'' db2 = Inr db3" and
    enq: "enqueue_order_hold_event codec cmd tx (hold_owner_id h) order_id hold_id ''released'' payload db3
      = Inr db4" and
    com: "commit_hold_result codec cmd tx p result db4 = Inr (r, db')"
    unfolding execute_release_order_hold_def find
    by (auto simp: result_simps positive_id_new_def Let_def
      dest!: release_hold_Inr parse_order_status_Inr split: if_splits)
  have db1: "hold_note_ok note"
    "db1 = db\<lparr>db_holds := update_where (\<lambda>h. hold_active (cmd_tenant_id cmd) order_id h \<and>
       hold_row_id h = hold_id) (release_hold_row cmd note) (db_holds db)\<rparr>"
    using rel by (auto simp: update_released_hold_def split: if_splits)
  obtain row where db3: "db3 = db2\<lparr>db_activity := db_activity db2 @ [row]\<rparr>"
    using insert_order_activity_Inr [OF act] by blast
  note db2 = update_order_status_Inr [OF upd]
  from enqueue_order_hold_event_Inr [OF enq] obtain event new_id tx' outbox where
    event: "enqueue (codec_is_object codec) (cmd_references_exist cmd) tx (cmd_transaction_at cmd) event
       (db_outbox db3) = Inr (new_id, tx', outbox)"
    "new_tenant_id event = cmd_tenant_id cmd" "new_event_key event = hold_event_key hold_id ''released''"
    "db4 = db3\<lparr>db_outbox := outbox\<rparr>" .
  from commit_hold_result_Inr [OF com] obtain json where
    json: "r = result" "codec_to_value codec result = Inr json"
      "db' = db4\<lparr>db_commands := db_commands db4 @ [completed_row p json None]\<rparr>" by blast
  have holds: "db_holds db' = db_holds db1" by (simp add: json(3) event(4) db3 db2)
  note found = find_hold_Some [OF find]
  show ?thesis
    by (rule that [of h ord event new_id tx' json], unfold holds active_count_pos [symmetric])
      (use found active held db1 db2 db3 event json status in \<open>simp_all add: hold_active_def\<close>)
qed

subsection \<open>The invariant\<close>

lemma set_order_status_simps [simp]:
  "row_order_id (set_order_status status ord) = row_order_id ord"
  "row_tenant_id (set_order_status status ord) = row_tenant_id ord"
  "row_owner_id (set_order_status status ord) = row_owner_id ord"
  "row_deleted (set_order_status status ord) = row_deleted ord"
  "row_status (set_order_status status ord) = OrderStatus_as_str status"
  "row_revision (set_order_status status ord) = row_revision ord + 1"
  by (simp_all add: set_order_status_def)

lemma release_hold_row_simps [simp]:
  "hold_row_id (release_hold_row cmd note h) = hold_row_id h"
  "hold_tenant_id (release_hold_row cmd note h) = hold_tenant_id h"
  "hold_owner_id (release_hold_row cmd note h) = hold_owner_id h"
  "hold_order_id (release_hold_row cmd note h) = hold_order_id h"
  "hold_reason_code (release_hold_row cmd note h) = hold_reason_code h"
  "hold_note (release_hold_row cmd note h) = hold_note h"
  "hold_release_note (release_hold_row cmd note h) = note"
  "hold_released_at (release_hold_row cmd note h) = Some (cmd_occurred_at cmd)"
  "hold_released_by (release_hold_row cmd note h) = Some (ctx_actor_id (cmd_context cmd))"
  by (simp_all add: release_hold_row_def)

lemma list_ex_update_where:
  "(\<And>e. e \<in> set rows \<Longrightarrow> P e \<Longrightarrow> Q (f e) = Q e) \<Longrightarrow> list_ex Q (update_where P f rows) = list_ex Q rows"
  by (induction rows) (simp_all add: update_where_def)

text \<open>The order rows stay good when the target's new status says whether it has active holds.\<close>

lemma order_rows_update:
  assumes ok: "list_all (order_row_ok holds) orders"
    and revision: "\<forall>ord\<in>set orders. order_is t i ord \<longrightarrow> row_revision ord \<noteq> i64_max"
    and target: "status = Held \<longleftrightarrow> list_ex (hold_active t i) holds'"
    and others: "\<And>t' i'. (t', i') \<noteq> (t, i) \<Longrightarrow>
      list_ex (hold_active t' i') holds' = list_ex (hold_active t' i') holds"
  shows "list_all (order_row_ok holds') (update_where (order_is t i) (set_order_status status) orders)"
  unfolding list_all_iff ball_update_where
proof
  fix ord assume ord: "ord \<in> set orders"
  with ok have row: "order_row_ok holds ord" by (simp add: list_all_iff)
  show "order_row_ok holds' (if order_is t i ord then set_order_status status ord else ord)"
  proof (cases "order_is t i ord")
    case True
    with revision ord have "row_revision ord \<noteq> i64_max" by blast
    with True row target show ?thesis
      by (auto simp: order_row_ok_def order_is_def order_status.parse_as_str order_status.as_str_inject)
  next
    case False
    with row others [of "row_tenant_id ord" "row_order_id ord"] show ?thesis
      by (auto simp: order_row_ok_def order_is_def)
  qed
qed

lemma hold_row_ok_update:
  "hold_row_ok (update_where (order_is t i) (set_order_status status) orders) n h = hold_row_ok orders n h"
  by (simp add: hold_row_ok_def list_ex_update_where order_is_def)

lemma hold_event_key_eq:
  "0 < i \<Longrightarrow> 0 < j \<Longrightarrow> hold_event_key i t = hold_event_key j t' \<longleftrightarrow> i = j \<and> t = t'"
  using hold_event_key_inj [of i j t t'] by auto

lemma hold_keys_placed:
  assumes "hold_keys_ok keys n holds" "0 < n" "\<forall>h\<in>set holds. 0 < hold_row_id h" "hold_row_id h = n"
  shows "hold_keys_ok ((t, hold_event_key n ''placed'') # keys) (n + 1) (holds @ [h])"
  using assms by (auto simp: hold_keys_ok_def hold_event_key_eq)

lemma hold_keys_released:
  assumes ok: "hold_keys_ok keys n holds" and ids: "distinct (map hold_row_id holds)"
    and rows: "\<forall>h\<in>set holds. 0 < hold_row_id h \<and> hold_row_id h < n"
    and h: "h \<in> set holds" "hold_active t i h" "hold_row_id h = k"
  shows "hold_keys_ok ((t, hold_event_key k ''released'') # keys) n
    (update_where (\<lambda>h. hold_active t i h \<and> hold_row_id h = k) (release_hold_row cmd note) holds)"
proof -
  have k: "0 < k" "k < n" using bspec [OF rows h(1)] h(3) by simp_all
  have same: "g = h" if "g \<in> set holds" "hold_row_id g = k" for g
    using inj_onD [of hold_row_id "set holds" g h] ids that h by (simp add: distinct_map)
  have later: "(t', hold_event_key j tr) \<noteq> (t, hold_event_key k ''released'')" if "n \<le> j" for t' j tr
    using k that hold_event_key_eq [of j k tr "''released''"] by simp
  have active: "(hold_tenant_id g, hold_event_key (hold_row_id g) ''released'')
      \<notin> set ((t, hold_event_key k ''released'') # keys)"
    if g: "g \<in> set (update_where (\<lambda>h. hold_active t i h \<and> hold_row_id h = k)
      (release_hold_row cmd note) holds)" "hold_released_at g = None" for g
  proof -
    from g(1) obtain e where e: "e \<in> set holds"
      "g = (if hold_active t i e \<and> hold_row_id e = k then release_hold_row cmd note e else e)"
      unfolding set_update_where by blast
    have "\<not> (hold_active t i e \<and> hold_row_id e = k)" using g(2) unfolding e(2) by (rule contrapos_pn) simp
    with e have old: "g \<in> set holds" "\<not> (hold_active t i g \<and> hold_row_id g = k)" by simp_all
    then have "hold_row_id g \<noteq> k" using same [OF old(1)] h(2,3) by metis
    moreover have "0 < hold_row_id g" using rows old(1) by blast
    moreover have "(hold_tenant_id g, hold_event_key (hold_row_id g) ''released'') \<notin> set keys"
      by (rule ok [unfolded hold_keys_ok_def, THEN conjunct2, rule_format, OF old(1) g(2)])
    ultimately show ?thesis using k(1) by (simp add: hold_event_key_eq)
  qed
  have free: "(t', hold_event_key j ''placed'') \<notin> set keys" "(t', hold_event_key j ''released'') \<notin> set keys"
    if "n \<le> j" for t' j
    using ok [unfolded hold_keys_ok_def, THEN conjunct1, rule_format, OF that] by simp_all
  show ?thesis
    unfolding hold_keys_ok_def
    by (intro conjI allI impI ballI active) (simp_all add: free later del: Pair_inject prod.inject)
qed

lemma place_keeps_ok:
  assumes ok: "orders_ok db"
    and run: "execute_place_order_hold codec cmd order_id reason note p scope db tx = Inr (r, db')"
  shows "orders_ok db'"
proof (rule execute_place_Inr [OF run])
  fix ord event new_id tx' json assume
    ord: "ord \<in> set (db_orders db)" "order_is (cmd_tenant_id cmd) order_id ord" and
    dup: "\<not> duplicate_hold (cmd_tenant_id cmd) (row_owner_id ord) order_id
      (OrderHoldReason_as_str reason) db" and
    note_ok: "hold_note_ok note" "OrderHoldReason_as_str reason = ''other'' \<Longrightarrow> note \<noteq> None" and
    revision: "\<forall>ord\<in>set (db_orders db). order_is (cmd_tenant_id cmd) order_id ord \<longrightarrow>
      row_revision ord \<noteq> i64_max" and
    orders: "db_orders db' = update_where (order_is (cmd_tenant_id cmd) order_id) (set_order_status Held)
       (db_orders db)" and
    holds: "db_holds db' = db_holds db @
       [new_hold_row cmd (row_owner_id ord) order_id reason note (db_next_hold_id db)]" and
    next_id: "db_next_hold_id db' = db_next_hold_id db + 1" and
    enq: "enqueue (codec_is_object codec) (cmd_references_exist cmd) tx (cmd_transaction_at cmd) event
       (db_outbox db) = Inr (new_id, tx', db_outbox db')" and
    event: "new_tenant_id event = cmd_tenant_id cmd"
      "new_event_key event = hold_event_key (db_next_hold_id db) ''placed''"
  let ?h = "new_hold_row cmd (row_owner_id ord) order_id reason note (db_next_hold_id db)"
  have row: "hold_row_id ?h = db_next_hold_id db" "hold_tenant_id ?h = cmd_tenant_id cmd"
    "hold_order_id ?h = order_id" "hold_owner_id ?h = row_owner_id ord" "hold_released_at ?h = None"
    "hold_released_by ?h = None" "hold_note ?h = note" "hold_release_note ?h = None"
    "hold_reason_code ?h = OrderHoldReason_as_str reason"
    by (simp_all add: new_hold_row_def)
  have holds_ok: "\<forall>h\<in>set (db_holds db). hold_row_ok (db_orders db) (db_next_hold_id db) h"
    using ok by (simp add: orders_ok_def list_all_iff)
  have next_pos: "0 < db_next_hold_id db" using ok by (simp add: orders_ok_def)
  have "distinct (map row_order_id (db_orders db'))"
    using ok by (simp add: orders orders_ok_def map_update_where)
  moreover have "distinct (map hold_row_id (db_holds db'))"
    using ok holds_ok by (auto simp: holds row orders_ok_def hold_row_ok_def)
  moreover have "distinct (map active_reason (filter (\<lambda>h. hold_released_at h = None) (db_holds db')))"
    using ok dup by (auto simp: holds row orders_ok_def active_reason_def duplicate_hold_def
      hold_active_def list_ex_iff)
  moreover have "list_all (order_row_ok (db_holds db')) (db_orders db')"
    unfolding orders by (rule order_rows_update [of "db_holds db"])
      (use ok revision in \<open>auto simp: orders_ok_def holds row hold_active_def\<close>)
  moreover have "list_all (hold_row_ok (db_orders db') (db_next_hold_id db')) (db_holds db')"
    using holds_ok ord note_ok next_pos
    by (auto simp: orders holds next_id row list_all_iff hold_row_ok_update)
      (auto simp: hold_row_ok_def row order_hold_reason.parse_as_str list_ex_iff hold_note_ok_def)
  moreover have "hold_keys_ok (outbox_event_keys (db_outbox db')) (db_next_hold_id db') (db_holds db')"
    unfolding enqueue_event_keys [OF enq] event next_id holds
    by (rule hold_keys_placed) (use ok next_pos holds_ok row in \<open>auto simp: orders_ok_def hold_row_ok_def\<close>)
  ultimately show "orders_ok db'" using next_pos by (simp add: orders_ok_def next_id)
qed

lemma filter_update_where:
  "(\<And>e. e \<in> set rows \<Longrightarrow> P e \<Longrightarrow> \<not> Q (f e)) \<Longrightarrow>
     filter Q (update_where P f rows) = filter (\<lambda>e. Q e \<and> \<not> P e) rows"
  by (induction rows) (simp_all add: update_where_def)

lemma release_keeps_ok:
  assumes ok: "orders_ok db"
    and run: "execute_release_order_hold codec cmd order_id hold_id note p scope db tx = Inr (r, db')"
  shows "orders_ok db'"
proof (rule execute_release_Inr [OF run])
  fix h ord event new_id tx' json
  let ?P = "\<lambda>h. hold_active (cmd_tenant_id cmd) order_id h \<and> hold_row_id h = hold_id"
  let ?status = "if list_ex (hold_active (cmd_tenant_id cmd) order_id) (db_holds db')
    then Held else OrderStatus.Open"
  assume h: "h \<in> set (db_holds db)" "hold_active (cmd_tenant_id cmd) order_id h" "hold_row_id h = hold_id"
    and note_ok: "hold_note_ok note"
    and revision: "\<forall>ord\<in>set (db_orders db). order_is (cmd_tenant_id cmd) order_id ord \<longrightarrow>
      row_revision ord \<noteq> i64_max"
    and orders: "db_orders db' = update_where (order_is (cmd_tenant_id cmd) order_id)
      (set_order_status ?status) (db_orders db)"
    and holds: "db_holds db' = update_where ?P (release_hold_row cmd note) (db_holds db)"
    and next_id: "db_next_hold_id db' = db_next_hold_id db"
    and enq: "enqueue (codec_is_object codec) (cmd_references_exist cmd) tx (cmd_transaction_at cmd) event
       (db_outbox db) = Inr (new_id, tx', db_outbox db')"
    and event: "new_tenant_id event = cmd_tenant_id cmd"
      "new_event_key event = hold_event_key hold_id ''released''"
  have holds_ok: "\<forall>h\<in>set (db_holds db). hold_row_ok (db_orders db) (db_next_hold_id db) h"
    using ok by (simp add: orders_ok_def list_all_iff)
  have "distinct (map row_order_id (db_orders db'))"
    using ok by (simp add: orders orders_ok_def map_update_where)
  moreover have "distinct (map hold_row_id (db_holds db'))"
    using ok by (simp add: holds orders_ok_def map_update_where)
  moreover have "distinct (map active_reason (filter (\<lambda>h. hold_released_at h = None) (db_holds db')))"
    using ok distinct_map_filter [of active_reason "filter (\<lambda>h. hold_released_at h = None) (db_holds db)"]
    by (simp add: holds orders_ok_def filter_update_where)
  moreover have "list_all (order_row_ok (db_holds db')) (db_orders db')"
    unfolding orders
  proof (rule order_rows_update [of "db_holds db"])
    fix t i assume other: "(t, i) \<noteq> (cmd_tenant_id cmd, order_id)"
    show "list_ex (hold_active t i) (db_holds db') = list_ex (hold_active t i) (db_holds db)"
      unfolding holds by (rule list_ex_update_where) (use other in \<open>auto simp: hold_active_def\<close>)
  qed (use ok revision in \<open>auto simp: orders_ok_def\<close>)
  moreover have "list_all (hold_row_ok (db_orders db') (db_next_hold_id db')) (db_holds db')"
    using holds_ok note_ok unfolding orders next_id holds list_all_iff hold_row_ok_update ball_update_where
    by (auto simp: hold_row_ok_def)
  moreover have "hold_keys_ok (outbox_event_keys (db_outbox db')) (db_next_hold_id db') (db_holds db')"
    unfolding enqueue_event_keys [OF enq] event next_id holds
    by (rule hold_keys_released) (use ok holds_ok h in \<open>auto simp: orders_ok_def hold_row_ok_def\<close>)
  ultimately show "orders_ok db'" using ok by (simp add: orders_ok_def next_id)
qed

subsection \<open>Replays\<close>

lemma find_updated_order:
  assumes "distinct (map row_order_id orders)" "ord \<in> set orders" "order_is t i ord"
  shows "find (order_is t i) (update_where (order_is t i) (set_order_status status) orders) =
    Some (set_order_status status ord)"
  using assms
  by (induction orders) (auto simp: update_where_def order_is_def image_iff)

lemma visible_after_update:
  assumes "distinct (map row_order_id (db_orders db))" "ord \<in> set (db_orders db)" "order_is t i ord"
    "db_orders db' = update_where (order_is t i) (set_order_status status) (db_orders db)"
    "OwnerScope_includes scope (row_owner_id ord)"
  shows "require_replayed_order_visible t i scope db' = Inr ()"
  using assms by (simp add: require_replayed_order_visible_def find_updated_order)

text \<open>What both preparations establish before the replay is looked up.\<close>

lemma bind_fresh_context: "bind_tenant_context fresh_context t = Inr tx \<longleftrightarrow>
    tx = \<lparr>session_token_hash = None, bound_tenant = Some t\<rparr>"
  by (auto simp: bind_tenant_context_def fresh_context_def)

lemma bind_bound_context:
  "bind_tenant_context \<lparr>session_token_hash = None, bound_tenant = Some t\<rparr> t =
     Inr \<lparr>session_token_hash = None, bound_tenant = Some t\<rparr>"
  by (simp add: bind_tenant_context_def)

lemma prepare_place_Inr:
  assumes "prepare_place_order_hold codec cmd order_id reason note = Inr (p, tx, scope)"
  shows "PreparedCommand_new_v1 (codec_digest codec) (codec_to_vec codec) (cmd_context cmd)
      (lit ''order.place_hold.v1'') (order_id, reason, note) = Inr p"
    "bind_tenant_context tx (prep_tenant_id p) = Inr tx" "cmd_scope cmd = Inr scope"
    "prep_tenant_id p = cmd_tenant_id cmd"
proof -
  show new: "PreparedCommand_new_v1 (codec_digest codec) (codec_to_vec codec) (cmd_context cmd)
      (lit ''order.place_hold.v1'') (order_id, reason, note) = Inr p"
    and "cmd_scope cmd = Inr scope"
    using assms by (auto simp: prepare_place_order_hold_def result_simps split: if_splits)
  have "ctx_tenant_id (cmd_context cmd) = cmd_tenant_id cmd"
    and tx: "tx = \<lparr>session_token_hash = None, bound_tenant = Some (cmd_tenant_id cmd)\<rparr>"
    using assms by (auto simp: prepare_place_order_hold_def result_simps require_actor_def bind_fresh_context
      split: if_splits)
  then show tenant: "prep_tenant_id p = cmd_tenant_id cmd"
    using PreparedCommand_new_v1_Inr(1) [OF new] by simp
  show "bind_tenant_context tx (prep_tenant_id p) = Inr tx" by (simp add: tx tenant bind_bound_context)
qed

lemma prepare_release_Inr:
  assumes "prepare_release_order_hold codec cmd order_id hold_id note = Inr (p, tx, scope)"
  shows "PreparedCommand_new_v1 (codec_digest codec) (codec_to_vec codec) (cmd_context cmd)
      (lit ''order.release_hold.v1'') (order_id, hold_id, note) = Inr p"
    "bind_tenant_context tx (prep_tenant_id p) = Inr tx" "cmd_scope cmd = Inr scope"
    "prep_tenant_id p = cmd_tenant_id cmd"
proof -
  show new: "PreparedCommand_new_v1 (codec_digest codec) (codec_to_vec codec) (cmd_context cmd)
      (lit ''order.release_hold.v1'') (order_id, hold_id, note) = Inr p"
    and "cmd_scope cmd = Inr scope"
    using assms by (auto simp: prepare_release_order_hold_def result_simps split: if_splits)
  have "ctx_tenant_id (cmd_context cmd) = cmd_tenant_id cmd"
    and tx: "tx = \<lparr>session_token_hash = None, bound_tenant = Some (cmd_tenant_id cmd)\<rparr>"
    using assms by (auto simp: prepare_release_order_hold_def result_simps require_actor_def bind_fresh_context
      split: if_splits)
  then show tenant: "prep_tenant_id p = cmd_tenant_id cmd"
    using PreparedCommand_new_v1_Inr(1) [OF new] by simp
  show "bind_tenant_context tx (prep_tenant_id p) = Inr tx" by (simp add: tx tenant bind_bound_context)
qed

lemma run_or_replay_found:
  assumes "bind_tenant_context tx (prep_tenant_id p) = Inr tx"
    "find (record_matches p) (db_commands db) = Some row"
  shows "run_or_replay codec cmd order_id (p, tx, scope) body db =
    and_then (map_err AppError_from_idempotency (and_then (map_stored_result row)
      (\<lambda>stored. map_err IdempotencyApplication (resolve_replay (codec_from_value codec) p stored))))
    (\<lambda>r. and_then (require_replayed_order_visible (cmd_tenant_id cmd) order_id scope db) (\<lambda>_. Ok (r, db)))"
  by (cases "and_then (map_stored_result row)
    (\<lambda>stored. map_err IdempotencyApplication (resolve_replay (codec_from_value codec) p stored))")
    (simp_all add: run_or_replay_def replayed_found [OF assms])

lemma run_or_replay_none:
  "bind_tenant_context tx (prep_tenant_id p) = Inr tx \<Longrightarrow>
   find (record_matches p) (db_commands db) = None \<Longrightarrow>
   run_or_replay codec cmd order_id (p, tx, scope) body db = body tx"
  by (simp add: run_or_replay_def replayed_none)

text \<open>A successful run was a replay, which changes nothing, or an execution.\<close>

lemma run_or_replay_Inr:
  assumes "bind_tenant_context tx (prep_tenant_id p) = Inr tx"
    "run_or_replay codec cmd order_id (p, tx, scope) body db = Inr (r, db')"
  shows "db' = db \<or> body tx = Inr (r, db')"
proof (cases "find (record_matches p) (db_commands db)")
  case None
  with assms run_or_replay_none show ?thesis by metis
next
  case (Some row)
  from assms(2) [unfolded run_or_replay_found [OF assms(1) Some]] show ?thesis
    by (auto simp: result_simps)
qed

lemma place_order_hold_Inr:
  assumes "place_order_hold codec cmd order_id reason note db = Inr (r, db')"
  obtains p tx scope where "prepare_place_order_hold codec cmd order_id reason note = Inr (p, tx, scope)"
    "run_or_replay codec cmd order_id (p, tx, scope)
       (execute_place_order_hold codec cmd order_id reason note p scope db) db = Inr (r, db')"
  using assms by (auto simp: place_order_hold_def result_simps)

lemma release_order_hold_Inr:
  assumes "release_order_hold codec cmd order_id hold_id note db = Inr (r, db')"
  obtains p tx scope where "prepare_release_order_hold codec cmd order_id hold_id note = Inr (p, tx, scope)"
    "run_or_replay codec cmd order_id (p, tx, scope)
       (execute_release_order_hold codec cmd order_id hold_id note p scope db) db = Inr (r, db')"
  using assms by (auto simp: release_order_hold_def result_simps)

lemma place_order_hold_ok:
  assumes "place_order_hold codec cmd order_id reason note db = Inr (r, db')" "orders_ok db"
  shows "orders_ok db'"
proof (rule place_order_hold_Inr [OF assms(1)])
  fix p tx scope
  assume prep: "prepare_place_order_hold codec cmd order_id reason note = Inr (p, tx, scope)"
    and run: "run_or_replay codec cmd order_id (p, tx, scope)
       (execute_place_order_hold codec cmd order_id reason note p scope db) db = Inr (r, db')"
  from run_or_replay_Inr [OF prepare_place_Inr(2) [OF prep] run] show "orders_ok db'"
    using assms(2) place_keeps_ok by blast
qed

lemma release_order_hold_ok:
  assumes "release_order_hold codec cmd order_id hold_id note db = Inr (r, db')" "orders_ok db"
  shows "orders_ok db'"
proof (rule release_order_hold_Inr [OF assms(1)])
  fix p tx scope
  assume prep: "prepare_release_order_hold codec cmd order_id hold_id note = Inr (p, tx, scope)"
    and run: "run_or_replay codec cmd order_id (p, tx, scope)
       (execute_release_order_hold codec cmd order_id hold_id note p scope db) db = Inr (r, db')"
  from run_or_replay_Inr [OF prepare_release_Inr(2) [OF prep] run] show "orders_ok db'"
    using assms(2) release_keeps_ok by blast
qed

lemma execute_place_fresh:
  assumes run: "execute_place_order_hold codec cmd order_id reason note p scope db tx = Inr (r, db')"
    and ok: "orders_ok db"
  shows "\<exists>json. codec_to_value codec r = Inr json \<and>
    db_commands db' = db_commands db @ [completed_row p json None] \<and>
    require_replayed_order_visible (cmd_tenant_id cmd) order_id scope db' = Inr ()"
proof (rule execute_place_Inr [OF run])
  fix ord event new_id tx' json assume
    row: "ord \<in> set (db_orders db)" "order_is (cmd_tenant_id cmd) order_id ord" and
    orders: "db_orders db' = update_where (order_is (cmd_tenant_id cmd) order_id)
      (set_order_status Held) (db_orders db)" and
    scope: "OwnerScope_includes scope (row_owner_id ord)" and
    json: "codec_to_value codec r = Inr json"
      "db_commands db' = db_commands db @ [completed_row p json None]"
  have "distinct (map row_order_id (db_orders db))" using ok by (simp add: orders_ok_def)
  from visible_after_update [OF this row orders scope] json show ?thesis by blast
qed

lemma execute_release_fresh:
  assumes run: "execute_release_order_hold codec cmd order_id hold_id note p scope db tx = Inr (r, db')"
    and ok: "orders_ok db"
  shows "\<exists>json. codec_to_value codec r = Inr json \<and>
    db_commands db' = db_commands db @ [completed_row p json None] \<and>
    require_replayed_order_visible (cmd_tenant_id cmd) order_id scope db' = Inr ()"
proof (rule execute_release_Inr [OF run])
  fix h ord event new_id tx' json assume
    row: "ord \<in> set (db_orders db)" "order_is (cmd_tenant_id cmd) order_id ord" and
    orders: "db_orders db' = update_where (order_is (cmd_tenant_id cmd) order_id)
      (set_order_status (if list_ex (hold_active
      (cmd_tenant_id cmd) order_id) (db_holds db') then Held else OrderStatus.Open)) (db_orders db)" and
    scope: "OwnerScope_includes scope (row_owner_id ord)" and
    json: "codec_to_value codec r = Inr json"
      "db_commands db' = db_commands db @ [completed_row p json None]"
  have "distinct (map row_order_id (db_orders db))" using ok by (simp add: orders_ok_def)
  from visible_after_update [OF this row orders scope] json show ?thesis by blast
qed

text \<open>Both handlers meet the interface of an idempotent command.\<close>

interpretation place_holds: replayable_command
  "\<lambda>(cmd, order_id, reason, note).
     and_then (prepare_place_order_hold codec cmd order_id reason note) (\<lambda>(p, _, _). Ok p)"
  db_commands "codec_to_value codec" "codec_from_value codec" orders_ok
  "\<lambda>(cmd, order_id, reason, note) db. and_then (cmd_scope cmd)
     (\<lambda>scope. require_replayed_order_visible (cmd_tenant_id cmd) order_id scope db)"
  "\<lambda>(cmd, order_id, reason, note) db. place_order_hold codec cmd order_id reason note db"
  for codec :: "(int \<times> OrderHoldReason \<times> rust_string option, 'j) hold_codec"
proof (unfold_locales, goal_cases prepared replay fresh inv)
  case (prepared q s r s')
  then show ?case by (cases q) (auto simp: place_order_hold_def result_simps is_ok_iff)
next
  case (replay q p s row)
  then obtain cmd order_id reason memo tx scope where q: "q = (cmd, order_id, reason, memo)"
    and prep: "prepare_place_order_hold codec cmd order_id reason memo = Inr (p, tx, scope)"
    by (cases q) (auto simp: result_simps)
  show ?case
    using run_or_replay_found [OF prepare_place_Inr(2) [OF prep] replay(2)] prepare_place_Inr(3) [OF prep]
    by (simp add: q place_order_hold_def prep)
next
  case (fresh q p s r s')
  then obtain cmd order_id reason memo tx scope where q: "q = (cmd, order_id, reason, memo)"
    and prep: "prepare_place_order_hold codec cmd order_id reason memo = Inr (p, tx, scope)"
    by (cases q) (auto simp: result_simps)
  have "execute_place_order_hold codec cmd order_id reason memo p scope s tx = Inr (r, s')"
    using fresh(4)
    by (simp add: q place_order_hold_def prep run_or_replay_none [OF prepare_place_Inr(2) [OF prep] fresh(2)])
  from execute_place_fresh [OF this fresh(3)] show ?case by (simp add: q prepare_place_Inr(3) [OF prep])
next
  case (inv q s r s')
  then show ?case by (cases q) (auto intro: place_order_hold_ok)
qed

interpretation release_holds: replayable_command
  "\<lambda>(cmd, order_id, hold_id, note).
     and_then (prepare_release_order_hold codec cmd order_id hold_id note) (\<lambda>(p, _, _). Ok p)"
  db_commands "codec_to_value codec" "codec_from_value codec" orders_ok
  "\<lambda>(cmd, order_id, hold_id, note) db. and_then (cmd_scope cmd)
     (\<lambda>scope. require_replayed_order_visible (cmd_tenant_id cmd) order_id scope db)"
  "\<lambda>(cmd, order_id, hold_id, note) db. release_order_hold codec cmd order_id hold_id note db"
  for codec :: "(int \<times> int \<times> rust_string option, 'j) hold_codec"
proof (unfold_locales, goal_cases prepared replay fresh inv)
  case (prepared q s r s')
  then show ?case by (cases q) (auto simp: release_order_hold_def result_simps is_ok_iff)
next
  case (replay q p s row)
  then obtain cmd order_id hold_id memo tx scope where q: "q = (cmd, order_id, hold_id, memo)"
    and prep: "prepare_release_order_hold codec cmd order_id hold_id memo = Inr (p, tx, scope)"
    by (cases q) (auto simp: result_simps)
  show ?case
    using run_or_replay_found [OF prepare_release_Inr(2) [OF prep] replay(2)] prepare_release_Inr(3) [OF prep]
    by (simp add: q release_order_hold_def prep)
next
  case (fresh q p s r s')
  then obtain cmd order_id hold_id memo tx scope where q: "q = (cmd, order_id, hold_id, memo)"
    and prep: "prepare_release_order_hold codec cmd order_id hold_id memo = Inr (p, tx, scope)"
    by (cases q) (auto simp: result_simps)
  have "execute_release_order_hold codec cmd order_id hold_id memo p scope s tx = Inr (r, s')"
    using fresh(4)
    by (simp add: q release_order_hold_def prep run_or_replay_none [OF prepare_release_Inr(2) [OF prep] fresh(2)])
  from execute_release_fresh [OF this fresh(3)] show ?case by (simp add: q prepare_release_Inr(3) [OF prep])
next
  case (inv q s r s')
  then show ?case by (cases q) (auto intro: release_order_hold_ok)
qed

lemma place_order_hold_outbox:
  assumes "place_order_hold codec cmd order_id reason note db = Inr (r, db')"
    "outbox_inv (cmd_transaction_at cmd, db_outbox db)"
  shows "outbox_inv (cmd_transaction_at cmd, db_outbox db')"
proof (rule place_order_hold_Inr [OF assms(1)])
  fix p tx scope
  assume prep: "prepare_place_order_hold codec cmd order_id reason note = Inr (p, tx, scope)"
    and run: "run_or_replay codec cmd order_id (p, tx, scope)
       (execute_place_order_hold codec cmd order_id reason note p scope db) db = Inr (r, db')"
  from run_or_replay_Inr [OF prepare_place_Inr(2) [OF prep] run]
  show "outbox_inv (cmd_transaction_at cmd, db_outbox db')"
    using assms(2) by (auto elim!: execute_place_Inr dest: inv_enqueue)
qed

lemma release_order_hold_outbox:
  assumes "release_order_hold codec cmd order_id hold_id note db = Inr (r, db')"
    "outbox_inv (cmd_transaction_at cmd, db_outbox db)"
  shows "outbox_inv (cmd_transaction_at cmd, db_outbox db')"
proof (rule release_order_hold_Inr [OF assms(1)])
  fix p tx scope
  assume prep: "prepare_release_order_hold codec cmd order_id hold_id note = Inr (p, tx, scope)"
    and run: "run_or_replay codec cmd order_id (p, tx, scope)
       (execute_release_order_hold codec cmd order_id hold_id note p scope db) db = Inr (r, db')"
  from run_or_replay_Inr [OF prepare_release_Inr(2) [OF prep] run]
  show "outbox_inv (cmd_transaction_at cmd, db_outbox db')"
    using assms(2) by (auto elim!: execute_release_Inr dest: inv_enqueue)
qed

lemma hold_step_inv:
  assumes "hold_step place_codec release_codec s s'" "orders_inv s"
  shows "orders_inv s'"
  using assms
  by (cases rule: hold_step.cases)
    (auto simp: orders_inv_def intro: place_order_hold_ok release_order_hold_ok place_order_hold_outbox
      release_order_hold_outbox inv_tick)

subsection \<open>The sample run\<close>

lemma sample_hash:
  "codec_digest (sample_codec byte) (hash_preimage a op sch [n]) = replicate 63 48 @ [48 + n mod 10]"
  "codec_to_vec (sample_codec byte) q = Inr [byte q]"
  by (simp_all add: sample_codec_def hash_preimage_def)

lemma sample_context_simps:
  "ctx_tenant_id (sample_context key) = 1" "ctx_actor_id (sample_context key) = 7"
  by (simp_all add: sample_context_def)

lemma sample_bind:
  "bind_tenant_context fresh_context t = Inr \<lparr>session_token_hash = None, bound_tenant = Some t\<rparr>"
  by (simp add: bind_fresh_context)

lemma sample_key: "IdempotencyKey_new (lit ''k'') = Inr (IdempotencyKey (lit ''k''))"
  by (simp add: IdempotencyKey_new_def MAX_IDEMPOTENCY_KEY_BYTES_def utf8_len_eq lit_def trim_def
    is_whitespace_def)

lemma sample_operations:
  "trim (lit ''order.place_hold.v1'') \<noteq> []" "utf8_len (lit ''order.place_hold.v1'') < 2 ^ 64"
  "trim (lit ''order.release_hold.v1'') \<noteq> []" "utf8_len (lit ''order.release_hold.v1'') < 2 ^ 64"
  by (simp_all add: utf8_len_eq lit_def trim_def is_whitespace_def)

lemma sample_new_v1:
  assumes "trim operation \<noteq> []" "utf8_len operation < 2 ^ 64"
  shows "PreparedCommand_new_v1 (codec_digest (sample_codec byte)) (codec_to_vec (sample_codec byte))
    (sample_context (lit ''k'')) operation q = Inr (sample_prepared operation (byte q mod 10))"
  using assms
  by (simp add: PreparedCommand_new_v1_def PreparedCommand_new_def CommandOperation_new_def
    command_request_hash_def sample_hash sample_prepared_def sample_context_def sample_key)

lemma sample_prepare_place:
  "prepare_place_order_hold sample_place_codec (sample_command (lit ''k'') now) 5 CustomerRequest None =
     Inr (sample_prepared (lit ''order.place_hold.v1'') 5,
       \<lparr>session_token_hash = None, bound_tenant = Some 1\<rparr>,
       \<lparr>all_inventory_owners = True, inventory_owner_ids = []\<rparr>)"
  by (simp add: prepare_place_order_hold_def sample_command_def sample_context_simps
    sample_new_v1 [OF sample_operations(1,2)] validate_hold_note_def bind_fresh_context
    require_actor_def sample_bind)

lemma sample_prepare_release:
  "0 < hold_id \<Longrightarrow> prepare_release_order_hold sample_release_codec (sample_command (lit ''k'') now) 5 hold_id None =
     Inr (sample_prepared (lit ''order.release_hold.v1'') (nat hold_id mod 10),
       \<lparr>session_token_hash = None, bound_tenant = Some 1\<rparr>,
       \<lparr>all_inventory_owners = True, inventory_owner_ids = []\<rparr>)"
  by (simp add: prepare_release_order_hold_def sample_command_def sample_context_simps
    sample_new_v1 [OF sample_operations(3,4)] validate_hold_note_def bind_fresh_context
    require_actor_def sample_bind)

lemmas sample_evaluation = OwnerScope_includes_def order_is_def positive_id_new_def
  parse_order_status_def OrderStatus_parse_def OrderStatus_as_str_def duplicate_hold_def
  insert_hold_def hold_note_ok_def update_order_status_def update_where_def set_order_status_def
  insert_order_activity_def active_order_hold_count_def hold_active_def i64_max_def
  enqueue_order_hold_event_def next_outbox_sequence_def enqueue_def enqueue_validate_def
  required_text_def trim_def is_whitespace_def lit_def order_ordering_key_def hold_event_key_def
  format_i64_def decimal.simps commit_hold_result_def commit_def commit_with_inventory_transaction_def
  completed_result_def insert_result_def record_ok_def btrim_def bind_tenant_context_def
  OrderHoldReason_as_str_def i32_max_def wrap_i64_def

lemma sample_place:
  "\<exists>db'. place_order_hold sample_place_codec (sample_command (lit ''k'') 0) 5 CustomerRequest None
      sample_orders = Inr (\<lparr>held_order_id = 5, held_hold_id = 1, held_order_status = Held,
        held_active_hold_count = 1\<rparr>, db') \<and>
     map row_status (db_orders db') = [''held''] \<and> length (db_commands db') = 1 \<and>
     require_replayed_order_visible 1 5 \<lparr>all_inventory_owners = True, inventory_owner_ids = []\<rparr> db' = Inr ()"
  unfolding place_order_hold_def sample_prepare_place and_then_simps
  by (subst run_or_replay_none)
    (simp_all add: sample_orders_def sample_prepared_def bind_tenant_context_def
      execute_place_order_hold_def require_replayed_order_visible_def sample_evaluation sample_command_def sample_context_def
      sample_codec_def new_hold_row_def outbox_empty_def CommandSchemaVersion_V1_def Let_def)

lemma sample_release:
  "\<exists>db'. release_order_hold sample_release_codec (sample_command (lit ''k'') 0) 5 1 None sample_held =
      Inr (\<lparr>held_order_id = 5, held_hold_id = 1, held_order_status = OrderStatus.Open,
        held_active_hold_count = 0\<rparr>, db') \<and>
     map row_status (db_orders db') = [''open''] \<and> length (db_commands db') = 1"
  unfolding release_order_hold_def sample_prepare_release [OF zero_less_one] and_then_simps
  by (subst run_or_replay_none)
    (simp_all add: sample_held_def sample_prepared_def bind_tenant_context_def
      execute_release_order_hold_def find_hold_def update_released_hold_def release_hold_row_def
      release_hold_def sample_evaluation sample_command_def sample_context_def
      sample_codec_def new_hold_row_def outbox_empty_def CommandSchemaVersion_V1_def Let_def)

lemma sample_orders_ok: "orders_ok sample_orders" "orders_ok sample_held"
  by (simp_all add: orders_ok_def sample_orders_def sample_held_def order_row_ok_def hold_row_ok_def
    hold_keys_ok_def outbox_empty_def OrderStatus_parse_def OrderStatus_as_str_def i64_max_def
    new_hold_row_def sample_command_def hold_active_def order_is_def OrderHoldReason_parse_def
    OrderHoldReason_as_str_def hold_note_ok_def)

lemma sample_digest: "is_ok (CommandRequestHash_from_stored (codec_digest (sample_codec byte) bytes))"
proof -
  let ?h = "replicate 63 48 @ [48 + last bytes mod 10]"
  have "last bytes mod 10 \<le> 9" using mod_less_divisor [of 10 "last bytes"] by linarith
  then have small: "\<forall>c\<in>set ?h. c < 128" and hex: "\<forall>c\<in>set ?h. is_ascii_hexdigit c"
    by (auto simp: is_ascii_hexdigit_def)
  show ?thesis
    using hex by (simp add: CommandRequestHash_from_stored_def sample_codec_def utf8_len_def
      utf8_bytes_ascii [OF small] REQUEST_HASH_BYTES_def list_all_iff)
qed

section \<open>Properties\<close>

text \<open>
  C37. Runs of hold commands keep the database well formed: whatever holds are placed and
  released, with any interleaving of commands, replays and waiting, each order is held exactly
  while it has an active hold, no order has two active holds for the same reason, every hold
  belongs to its order and is fully attributed, the event keys still to be used stay free, and
  the outbox keeps its own invariant.
\<close>

theorem hold_runs_well_formed:
  assumes "orders_inv s" "(hold_step place_codec release_codec)\<^sup>*\<^sup>* s s'"
  shows "orders_inv s'"
  using assms(2,1) by (induction rule: rtranclp_induct) (auto intro: hold_step_inv)

theorem hold_runs_well_formed_witness:
  "\<exists>db' :: OrderHoldCommandResult order_db.
     orders_inv (0, db') \<and> map row_status (db_orders db') = [''held'']"
proof -
  obtain r db' where
    place: "place_order_hold sample_place_codec (sample_command (lit ''k'') 0) 5 CustomerRequest None
      sample_orders = Inr (r, db')" and status: "map row_status (db_orders db') = [''held'']"
    using sample_place by (elim exE conjE) (rule that)
  have "hold_step sample_place_codec sample_release_codec (0, sample_orders) (0, db')"
    by (rule step_place [OF place]) (simp add: sample_command_def)
  moreover have "orders_inv (0, sample_orders)"
    using sample_orders_ok(1) inv_empty by (simp add: orders_inv_def sample_orders_def)
  ultimately have "orders_inv (0, db')" using hold_runs_well_formed by blast
  with status show ?thesis by (intro exI conjI)
qed



text \<open>
  C39. A used idempotency key is not given to another request: after a hold has been released
  under a key, releasing with the same key but another request (another order, hold or note, or
  another actor) is refused as a reuse of the key, whatever has been committed since. The digest
  is assumed to print 64 hexadecimal digits and not to collide on the two requests.
\<close>

theorem release_order_hold_key_reuse:
  assumes first: "release_order_hold codec cmd order_id hold_id note db = Inr (r, db')"
    and ok: "orders_ok db"
    and prep: "prepare_release_order_hold codec cmd order_id hold_id note = Inr (p, tx, scope)"
    and fresh: "find (record_matches p) (db_commands db) = None"
    and digest: "\<And>bytes. is_ok (CommandRequestHash_from_stored (codec_digest codec bytes))"
    and actors: "0 < ctx_actor_id (cmd_context cmd)" "in_i64 (ctx_actor_id (cmd_context cmd))"
      "0 < ctx_actor_id (cmd_context cmd')" "in_i64 (ctx_actor_id (cmd_context cmd'))"
    and prep': "prepare_release_order_hold codec cmd' order_id' hold_id' note' = Inr (p', tx', scope')"
    and key: "cmd_tenant_id cmd' = cmd_tenant_id cmd"
      "ctx_idempotency_key (cmd_context cmd') = ctx_idempotency_key (cmd_context cmd)"
    and request: "codec_to_vec codec (order_id, hold_id, note) = Inr encoded"
      "codec_to_vec codec (order_id', hold_id', note') = Inr encoded'"
      "encoded' \<noteq> encoded \<or> ctx_actor_id (cmd_context cmd') \<noteq> ctx_actor_id (cmd_context cmd)"
    and collision_free: "\<And>pre pre'. pre = hash_preimage (ctx_actor_id (cmd_context cmd))
        (CommandOperation (lit ''order.release_hold.v1'')) CommandSchemaVersion_V1 encoded \<Longrightarrow>
      pre' = hash_preimage (ctx_actor_id (cmd_context cmd'))
        (CommandOperation (lit ''order.release_hold.v1'')) CommandSchemaVersion_V1 encoded' \<Longrightarrow>
      codec_digest codec pre' = codec_digest codec pre \<Longrightarrow> pre' = pre"
    and later: "db_commands db'' = db_commands db' @ added"
  shows "release_order_hold codec cmd' order_id' hold_id' note' db'' = Inl (Application IdempotencyKeyReused)"
proof -
  let ?op = "CommandOperation (lit ''order.release_hold.v1'')"
  note new = PreparedCommand_new_v1_Inr [OF prepare_release_Inr(1) [OF prep]]
  note new' = PreparedCommand_new_v1_Inr [OF prepare_release_Inr(1) [OF prep']]
  have ascii: "scalar_values (lit ''order.release_hold.v1'')" by (simp add: lit_def)
  have "prep_request_hash p' \<noteq> prep_request_hash p"
  proof
    assume "prep_request_hash p' = prep_request_hash p"
    then have "codec_digest codec (hash_preimage (ctx_actor_id (cmd_context cmd')) ?op
        CommandSchemaVersion_V1 encoded') = codec_digest codec (hash_preimage
        (ctx_actor_id (cmd_context cmd)) ?op CommandSchemaVersion_V1 encoded)"
      using new(6) new'(6) request(1,2) by auto
    from hash_preimage_inj [OF collision_free [OF refl refl this]] show False
      using ascii sample_operations(4) actors request(3) by (simp add: CommandSchemaVersion_V1_def)
  qed
  moreover have "prep_idempotency_key p' = prep_idempotency_key p"
    using new(4) new'(4) key(2) by (simp add: IdempotencyKey.expand)
  moreover have "prepared_storable p"
    by (rule PreparedCommand_new_v1_storable [OF prepare_release_Inr(1) [OF prep] digest actors(1)])
  ultimately have "(case (cmd', order_id', hold_id', note') of (cmd, order_id, hold_id, note) \<Rightarrow>
      release_order_hold codec cmd order_id hold_id note) db'' = Inl (Application IdempotencyKeyReused)"
    using release_holds.reuse_refused [where q = "(cmd, order_id, hold_id, note)" and s = db and p = p
        and q' = "(cmd', order_id', hold_id', note')" and p' = p' and s'' = db'' and added = added
        and r = r and s' = db'] first ok prep fresh prep' later new(3) new'(3)
      prepare_release_Inr(4) [OF prep] prepare_release_Inr(4) [OF prep'] key(1)
    by simp
  then show ?thesis by simp
qed

theorem release_order_hold_key_reuse_witness:
  "\<exists>r db'. release_order_hold sample_release_codec (sample_command (lit ''k'') 0) 5 1 None sample_held =
      Inr (r, db') \<and> held_order_status r = OrderStatus.Open \<and>
    release_order_hold sample_release_codec (sample_command (lit ''k'') 9) 5 2 None db' =
      Inl (Application IdempotencyKeyReused)"
proof -
  obtain r db' where
    release: "release_order_hold sample_release_codec (sample_command (lit ''k'') 0) 5 1 None sample_held =
      Inr (r, db')" and status: "held_order_status r = OrderStatus.Open"
    using sample_release by (elim exE conjE) (rule that, assumption, simp)
  have "release_order_hold sample_release_codec (sample_command (lit ''k'') 9) 5 2 None db' =
      Inl (Application IdempotencyKeyReused)"
    by (rule release_order_hold_key_reuse [OF release sample_orders_ok(2) sample_prepare_release _ sample_digest
        _ _ _ _ sample_prepare_release, where encoded = "[1]" and encoded' = "[2]" and added = "[]"])
      (simp_all add: sample_held_def sample_command_def sample_context_def sample_hash
        in_i64_def i64_min_def i64_max_def)
  with release status show ?thesis by (intro exI conjI)
qed

end
