(* ===== verification/Order_Lifecycle.thy ===== *)
theory Order_Lifecycle
  imports Picking Shipping Idempotency "HOL-Library.Sublist"
begin

text \<open>
  The life of an order across the components that move it: the readiness that ends picking
  (\<open>crates/api/src/repo/picking/readiness.rs\<close>) and the writes of the order row by picking,
  short shipment, reversal, packing, shipping and outbound loads, each guarded by the status and
  the revision it read. A step of \<open>order\_step\<close> is one successful command on the row; the
  paths of its statuses are what the cross-component property is about.
\<close>

section \<open>Definitions\<close>

subsection \<open>Readiness to pack\<close>

record OrderPickReadiness =
  staged_allocation_count :: int
  staged_quantity :: int
  ordered_quantity :: int
  accepted_short_quantity :: int
  accepted_substitute_quantity :: int
  effective_demand_quantity :: int
  has_executable_work :: bool
  has_unresolved_shortage :: bool
  has_line_demand_mismatch :: bool

definition is_ready_to_pack :: "OrderPickReadiness \<Rightarrow> bool" where
  "is_ready_to_pack self \<longleftrightarrow>
     \<not> has_executable_work self \<and> \<not> has_unresolved_shortage self \<and>
     \<not> has_line_demand_mismatch self \<and> effective_demand_quantity self > 0 \<and>
     staged_quantity self = effective_demand_quantity self"

text \<open>The check of the counts the readiness query returned.\<close>

definition validate_pick_readiness :: "OrderPickReadiness \<Rightarrow> AppError + OrderPickReadiness" where
  "validate_pick_readiness readiness =
     (if staged_allocation_count readiness < 0
          \<or> staged_quantity readiness < 0
          \<or> ordered_quantity readiness \<le> 0
          \<or> accepted_short_quantity readiness < 0
          \<or> accepted_substitute_quantity readiness < 0
          \<or> effective_demand_quantity readiness < 0
          \<or> Option.bind (checked_add (accepted_short_quantity readiness)
                (accepted_substitute_quantity readiness))
              (\<lambda>accepted. checked_add accepted (effective_demand_quantity readiness))
            \<noteq> Some (ordered_quantity readiness)
        then Err (Application (Internal ''order pick readiness is invalid''))
      else Ok readiness)"

subsection \<open>Writes of the order row\<close>

record LockedOrder =
  locked_status :: OrderStatus
  locked_revision :: OrderRevision

definition order_conflict :: "string \<Rightarrow> AppError" where
  "order_conflict message = Application (ApplicationError.Conflict message)"

definition next_order_revision :: "LockedOrder \<Rightarrow> AppError + OrderRevision" where
  "next_order_revision order =
     ok_or (OrderRevision_checked_next (locked_revision order))
       (Application (Internal ''order revision overflow''))"

text \<open>
  \<open>UPDATE orders SET status, revision WHERE ... AND status = $5 AND revision = $6\<close>, and the
  conflict when no row matched.
\<close>

definition update_locked_order ::
  "string \<Rightarrow> LockedOrder \<Rightarrow> LockedOrder \<Rightarrow> OrderStatus \<Rightarrow> OrderRevision \<Rightarrow> AppError + LockedOrder" where
  "update_locked_order message row expected status revision =
     (if locked_status row = locked_status expected \<and> locked_revision row = locked_revision expected
        then Ok \<lparr>locked_status = status, locked_revision = revision\<rparr>
      else Err (order_conflict message))"

definition advance_order_to_awaiting_packing :: "LockedOrder \<Rightarrow> LockedOrder \<Rightarrow> AppError + LockedOrder" where
  "advance_order_to_awaiting_packing row order =
     and_then (next_order_revision order) (\<lambda>revision.
       update_locked_order ''order changed during pick confirmation'' row
         (order\<lparr>locked_status := Processing\<rparr>) AwaitingPacking revision)"

definition require_picking_execution :: "LockedOrder \<Rightarrow> AppError + unit" where
  "require_picking_execution order =
     (if locked_status order \<noteq> Processing
        then Err (order_conflict ''order is not in picking execution'')
      else Ok ())"

definition confirm_pick_order :: "LockedOrder \<Rightarrow> OrderPickReadiness \<Rightarrow> AppError + LockedOrder" where
  "confirm_pick_order order counts =
     and_then (validate_pick_readiness counts) (\<lambda>readiness.
       if is_ready_to_pack readiness then advance_order_to_awaiting_packing order order
       else Ok order)"

definition PickShortageStatus_debug :: "PickShortageStatus \<Rightarrow> string" where
  "PickShortageStatus_debug self = (case self of
        AwaitingInventory \<Rightarrow> ''AwaitingInventory''
      | RecoveryInProgress \<Rightarrow> ''RecoveryInProgress''
      | Resolved \<Rightarrow> ''Resolved'')"

definition PickingError_fmt :: "PickingError \<Rightarrow> string" where
  "PickingError_fmt self =
     (case self of
        PickingError.InvalidQuantity value \<Rightarrow> ''pick quantity must be a positive integer, got '' @ format_i64 value
      | PickingError.EmptyScanValue \<Rightarrow> ''pick scan value cannot be empty''
      | PickingError.UntrimmedScanValue \<Rightarrow> ''pick scan value must be trimmed''
      | PickingError.ScanValueTooLong \<Rightarrow>
          ''pick scan value cannot exceed '' @ decimal MAX_PICK_SCAN_VALUE_LENGTH @ '' characters''
      | PickingError.InvalidScanCharacter \<Rightarrow> ''pick scan value cannot contain control characters''
      | PickingError.ContentAlreadyCompleted \<Rightarrow> ''pick content is already completed''
      | PickingError.ContentAlreadyShorted \<Rightarrow> ''pick content is already shorted''
      | PickingError.InvalidReversalNote \<Rightarrow> ''pick reversal note must be trimmed and nonblank''
      | PickingError.ReversalNoteTooLong \<Rightarrow>
          ''pick reversal note cannot exceed '' @ decimal MAX_PICK_REVERSAL_NOTE_LENGTH @ '' characters''
      | PickingError.ReversalNoteRequired \<Rightarrow> ''pick reversal reason other requires a note''
      | PickingError.OrderNotReversible status \<Rightarrow> ''order '' @ OrderStatus_as_str status @ '' cannot reverse a pick''
      | PickingError.ReversalAfterPackingStarted \<Rightarrow> ''pick cannot be reversed after packing execution begins''
      | PickingError.ShortagePickRequiresShortageRecovery \<Rightarrow>
          ''shortage-backed picks must be resolved through shortage recovery''
      | PickingError.InvalidActualQuantity value \<Rightarrow>
          ''actual pick quantity cannot be negative, got '' @ format_i64 value
      | PickingError.InvalidShortageRevision value \<Rightarrow>
          ''pick shortage revision must be positive, got '' @ format_i64 value
      | PickingError.PickIsNotShort planned_value picked_value \<Rightarrow>
          ''actual pick quantity '' @ format_i64 picked_value
            @ '' must be less than planned quantity '' @ format_i64 planned_value
      | PickingError.InvalidShortageNote \<Rightarrow> ''pick shortage note must be trimmed and nonblank''
      | PickingError.ShortageNoteTooLong \<Rightarrow>
          ''pick shortage note cannot exceed '' @ decimal MAX_PICK_SHORTAGE_NOTE_LENGTH @ '' characters''
      | PickingError.ShortageNoteRequired \<Rightarrow> ''pick shortage reason other requires a note''
      | PickingError.InvalidShortShipNote \<Rightarrow> ''short-shipment note must be trimmed and nonblank''
      | PickingError.ShortShipNoteTooLong \<Rightarrow>
          ''short-shipment note cannot exceed '' @ decimal MAX_PICK_SHORT_SHIP_NOTE_LENGTH
            @ '' characters''
      | PickingError.ShortShipNoteRequired \<Rightarrow> ''short-shipment reason other requires a note''
      | PickingError.ShortShipRequiresAwaitingInventory status \<Rightarrow>
          ''only an awaiting-inventory shortage can be accepted for short shipment, got ''
            @ PickShortageStatus_debug status
      | PickingError.NoShortageQuantityToAccept \<Rightarrow> ''pick shortage has no remaining quantity to accept''
      | PickingError.InconsistentShortShipRecoveryQuantities \<Rightarrow>
          ''pick-shortage recovery quantities are inconsistent for short shipment''
      | PickingError.AcceptedShortExceedsDemand demand accepted \<Rightarrow>
          ''accepted short quantity '' @ format_i64 accepted
            @ '' exceeds ordered quantity '' @ format_i64 demand)"

record LockedShortage =
  locked_shortage_owner_id :: InventoryOwnerId
  locked_shortage_order_id :: int
  locked_shortage_status :: PickShortageStatus
  locked_shortage_revision :: PickShortageRevision
  locked_shortage_quantities :: PickShortageQuantities
  locked_reallocated_quantity :: ActualPickQuantity
  locked_recovery_terminal_quantity :: ActualPickQuantity
  locked_remaining_quantity :: ActualPickQuantity

text \<open>
  Accepting a short shipment, as far as it decides the order row: the checks of the locked rows
  in their order, the readiness before and after the shortage is resolved, and the write.
  \<open>order\_id\<close> is the order the shortage was found under, \<open>owner\<close> the order's owner.
\<close>

definition accept_short_shipment_order ::
  "int \<Rightarrow> InventoryOwnerId \<Rightarrow> OrderRevision \<Rightarrow> PickShortageRevision \<Rightarrow> bool \<Rightarrow> LockedShortage \<Rightarrow>
   OrderPickReadiness \<Rightarrow> OrderPickReadiness \<Rightarrow> LockedOrder \<Rightarrow> AppError + LockedOrder" where
  "accept_short_shipment_order order_id owner expected_order_revision expected_shortage_revision
       downstream_execution shortage current resulting order =
     (if locked_status order \<noteq> Processing
        then Err (order_conflict ''only an order in picking execution can accept a short shipment'')
      else if locked_revision order \<noteq> expected_order_revision
        then Err (order_conflict ''short-shipment order revision is stale'')
      else if locked_shortage_order_id shortage \<noteq> order_id \<or> locked_shortage_owner_id shortage \<noteq> owner
        then Err (Application (NotFound ''pick shortage''))
      else if locked_shortage_revision shortage \<noteq> expected_shortage_revision
        then Err (order_conflict ''short-shipment shortage revision is stale'')
      else if downstream_execution
        then Err (order_conflict ''short shipment cannot be accepted after packing has started'')
      else
        and_then (map_err (\<lambda>error. order_conflict (PickingError_fmt error))
          (resolve_pick_shortage_as_short_ship (locked_shortage_status shortage)
            (short (locked_shortage_quantities shortage)) (locked_reallocated_quantity shortage)
            (locked_recovery_terminal_quantity shortage) (locked_remaining_quantity shortage)))
          (\<lambda>transition.
        and_then (validate_pick_readiness current) (\<lambda>current_readiness.
        if effective_demand_quantity current_readiness \<le> PickQuantity_get (accepted_quantity transition)
          then Err (order_conflict ''a short shipment must retain positive executable order demand'')
        else
        and_then (ok_or (PickShortageRevision_checked_next (locked_shortage_revision shortage))
          (Application (Internal ''pick shortage revision overflow''))) (\<lambda>_.
        and_then (next_order_revision order) (\<lambda>order_revision.
        and_then (validate_pick_readiness resulting) (\<lambda>readiness.
          update_locked_order ''order changed while accepting the short shipment'' order
            \<lparr>locked_status = Processing, locked_revision = locked_revision order\<rparr>
            (if is_ready_to_pack readiness then AwaitingPacking else Processing) order_revision))))))"

definition regress_order_to_processing ::
  "LockedOrder \<Rightarrow> OrderStatus \<Rightarrow> OrderRevision \<Rightarrow> OrderRevision \<Rightarrow> AppError + LockedOrder" where
  "regress_order_to_processing row prior_status expected_revision resulting_revision =
     update_locked_order ''order changed during pick reversal'' row
       \<lparr>locked_status = prior_status, locked_revision = expected_revision\<rparr> Processing resulting_revision"

text \<open>Closing a carton: the order moves on when the session is complete.\<close>

definition close_carton_order :: "LockedOrder \<Rightarrow> PackingProgress \<Rightarrow> PackingError + OrderStatus" where
  "close_carton_order order next_progress =
     (if ready_to_manifest next_progress then complete_packing (locked_status order) next_progress
      else Ok (locked_status order))"

text \<open>The departure of a whole shipment on an outbound load: its guards and its write.\<close>

record LockedShipment =
  locked_shipment_order_id :: int
  locked_shipment_owner_id :: InventoryOwnerId
  locked_shipment_status :: ShipmentStatus
  locked_shipment_revision :: ShipmentRevision

definition outbound_load_ready ::
  "int \<Rightarrow> InventoryOwnerId \<Rightarrow> ShipmentRevision \<Rightarrow> OrderRevision \<Rightarrow> LockedShipment \<Rightarrow> LockedOrder \<Rightarrow>
   AppError + unit" where
  "outbound_load_ready order_id owner expected_shipment_revision expected_order_revision shipment order =
     (if locked_shipment_order_id shipment \<noteq> order_id
          \<or> locked_shipment_owner_id shipment \<noteq> owner
          \<or> locked_shipment_status shipment \<noteq> Manifested
          \<or> locked_status order \<noteq> AwaitingShipment
        then Err (order_conflict ''outbound load shipment is no longer ready to depart'')
      else if locked_shipment_revision shipment \<noteq> expected_shipment_revision
          \<or> locked_revision order \<noteq> expected_order_revision
        then Err (order_conflict ''outbound load shipment departure revision is stale'')
      else Ok ())"

definition ship_loaded_order :: "LockedOrder \<Rightarrow> AppError + LockedOrder" where
  "ship_loaded_order order =
     and_then (next_order_revision order) (\<lambda>revision.
       update_locked_order ''order changed during outbound load departure'' order
         (order\<lparr>locked_status := AwaitingShipment\<rparr>) Shipped revision)"

subsection \<open>The life of the row\<close>

text \<open>
  The guarded write of the commands that read the order, take a domain transition and write its
  status under the revision they read; \<open>message\<close> is the conflict each of them reports.
\<close>

definition write_order_status :: "string \<Rightarrow> LockedOrder \<Rightarrow> OrderStatus \<Rightarrow> AppError + LockedOrder" where
  "write_order_status message order status =
     and_then (next_order_revision order) (\<lambda>revision.
       update_locked_order message order order status revision)"

text \<open>
  One successful command. The hold commands write without a guard; \<open>revised\<close> stands for the
  commands that only advance the revision (amendments, allocation, substitution, shipment
  creation), whatever the status.
\<close>

inductive order_step :: "LockedOrder \<Rightarrow> LockedOrder \<Rightarrow> bool" where
  hold_placed: "place_hold (locked_status r) = Inr s \<Longrightarrow>
    OrderRevision_checked_next (locked_revision r) = Some v \<Longrightarrow>
    order_step r \<lparr>locked_status = s, locked_revision = v\<rparr>"
| hold_released: "release_hold (locked_status r) remaining = Inr s \<Longrightarrow>
    OrderRevision_checked_next (locked_revision r) = Some v \<Longrightarrow>
    order_step r \<lparr>locked_status = s, locked_revision = v\<rparr>"
| released: "release_order (locked_status r) = Inr s \<Longrightarrow>
    write_order_status ''order changed during release'' r s = Inr r' \<Longrightarrow> order_step r r'"
| cancelled: "cancel_order_before_physical_execution (locked_status r) execution = Inr s \<Longrightarrow>
    write_order_status ''order changed during cancellation'' r s = Inr r' \<Longrightarrow> order_step r r'"
| pick_confirmed: "require_picking_execution r = Inr () \<Longrightarrow> confirm_pick_order r readiness = Inr r' \<Longrightarrow>
    order_step r r'"
| short_shipped: "accept_short_shipment_order order_id owner revision shortage_revision downstream shortage
      current resulting r = Inr r' \<Longrightarrow> order_step r r'"
| pick_reversed: "reverse_pick_before_packing (locked_status r) downstream shortage_backed = Inr s \<Longrightarrow>
    next_order_revision r = Inr revision \<Longrightarrow>
    regress_order_to_processing r (locked_status r) (locked_revision r) revision = Inr r' \<Longrightarrow> order_step r r'"
| packing_begun: "begin_packing (locked_status r) = Inr s \<Longrightarrow>
    write_order_status ''order changed while opening packing'' r s = Inr r' \<Longrightarrow> order_step r r'"
| packing_abandoned: "abandon_empty_packing (locked_status r) progress = Inr s \<Longrightarrow>
    write_order_status ''order changed during pack-session abandonment'' r s = Inr r' \<Longrightarrow> order_step r r'"
| carton_closed: "continue_packing (locked_status r) = Inr s0 \<Longrightarrow> close_carton_order r progress = Inr s \<Longrightarrow>
    write_order_status ''order changed during packing'' r s = Inr r' \<Longrightarrow> order_step r r'"
| carton_reopened: "reopen_carton (locked_status r) session progress carton content = Inr (s, progress') \<Longrightarrow>
    write_order_status ''order changed while reopening carton'' r s = Inr r' \<Longrightarrow> order_step r r'"
| departed: "confirm_shipment_departure shipment (locked_status r) cartons scans = Inr transition \<Longrightarrow>
    write_order_status ''order changed during departure confirmation'' r
      (departure_order_status transition) = Inr r' \<Longrightarrow> order_step r r'"
| load_departed: "outbound_load_ready order_id owner shipment_revision revision shipment r = Inr () \<Longrightarrow>
    ship_loaded_order r = Inr r' \<Longrightarrow>
    order_step r r'"
| revised: "OrderRevision_checked_next (locked_revision r) = Some v \<Longrightarrow>
    order_step r (r\<lparr>locked_revision := v\<rparr>)"

text \<open>The rows an order goes through, oldest first.\<close>

inductive order_history :: "LockedOrder list \<Rightarrow> bool" where
  created: "order_history [\<lparr>locked_status = NewFulfillmentOrder_initial_status order,
    locked_revision = OrderRevision 1\<rparr>]"
| stepped: "order_history (rows @ [r]) \<Longrightarrow> order_step r r' \<Longrightarrow> order_history (rows @ [r, r'])"

text \<open>What a step may do to the status, as the table of the transitions of all components.\<close>

definition status_step :: "OrderStatus \<Rightarrow> OrderStatus \<Rightarrow> bool" where
  "status_step s s' \<longleftrightarrow>
     s' = s \<or>
     (s, s') \<in> {(OrderStatus.Open, Held), (Held, OrderStatus.Open), (OrderStatus.Open, Processing),
       (OrderStatus.Open, OrderStatus.Cancelled), (Held, OrderStatus.Cancelled), (Processing, OrderStatus.Cancelled),
       (Processing, AwaitingPacking), (AwaitingPacking, Processing),
       (AwaitingPacking, OrderStatus.Packing), (OrderStatus.Packing, AwaitingPacking),
       (OrderStatus.Packing, AwaitingShipment), (AwaitingShipment, OrderStatus.Packing),
       (AwaitingShipment, Shipped)}"

definition milestones :: "OrderStatus \<Rightarrow> OrderStatus list" where
  "milestones s =
     (case s of
        Processing \<Rightarrow> [OrderStatus.Open, Processing]
      | AwaitingPacking \<Rightarrow> [OrderStatus.Open, Processing, AwaitingPacking]
      | OrderStatus.Packing \<Rightarrow> [OrderStatus.Open, Processing, AwaitingPacking, OrderStatus.Packing]
      | AwaitingShipment \<Rightarrow>
          [OrderStatus.Open, Processing, AwaitingPacking, OrderStatus.Packing, AwaitingShipment]
      | Shipped \<Rightarrow>
          [OrderStatus.Open, Processing, AwaitingPacking, OrderStatus.Packing, AwaitingShipment, Shipped]
      | _ \<Rightarrow> [OrderStatus.Open])"

text \<open>
  A later row of the same order: the same row, or one with a greater revision, where a shipped
  or cancelled order keeps its status.
\<close>

definition supersedes :: "LockedOrder \<Rightarrow> LockedOrder \<Rightarrow> bool" where
  "supersedes r r' \<longleftrightarrow> r' = r \<or>
     OrderRevision_get (locked_revision r) < OrderRevision_get (locked_revision r') \<and>
     (locked_status r \<in> {Shipped, OrderStatus.Cancelled} \<longrightarrow> locked_status r' = locked_status r)"

text \<open>Samples: a readiness that ends picking, and the rows of an order shipped on a load.\<close>

definition sample_readiness :: OrderPickReadiness where
  "sample_readiness = \<lparr>staged_allocation_count = 1, staged_quantity = 4, ordered_quantity = 5,
     accepted_short_quantity = 1, accepted_substitute_quantity = 0, effective_demand_quantity = 4,
     has_executable_work = False, has_unresolved_shortage = False, has_line_demand_mismatch = False\<rparr>"

definition sample_progress :: PackingProgress where
  "sample_progress = \<lparr>expected_allocation_count = 1, packed_allocation_count = 1,
     expected_quantity = 4, packed_quantity = 4, open_carton_count = 0, closed_carton_count = 1\<rparr>"

definition sample_row :: "OrderStatus \<Rightarrow> int \<Rightarrow> LockedOrder" where
  "sample_row status revision = \<lparr>locked_status = status, locked_revision = OrderRevision revision\<rparr>"

definition sample_history :: "LockedOrder list" where
  "sample_history = [sample_row OrderStatus.Open 1, sample_row Processing 2, sample_row AwaitingPacking 3,
     sample_row OrderStatus.Packing 4, sample_row AwaitingShipment 5, sample_row Shipped 6]"

section \<open>Lemmas\<close>

inductive_cases order_stepE: "order_step r r'"

lemma checked_next_Some:
  "OrderRevision_checked_next v = Some v' \<Longrightarrow> OrderRevision_get v' = OrderRevision_get v + 1"
  by (auto simp: OrderRevision_checked_next_def checked_add_def split: option.splits if_splits)

lemma next_order_revision_Inr:
  "next_order_revision r = Inr v \<Longrightarrow> OrderRevision_get v = OrderRevision_get (locked_revision r) + 1"
  by (auto simp: next_order_revision_def result_simps dest: checked_next_Some)

lemma write_order_status_Inr:
  "write_order_status message r s = Inr r' \<Longrightarrow>
     locked_status r' = s \<and>
     OrderRevision_get (locked_revision r') = OrderRevision_get (locked_revision r) + 1"
  by (auto simp: write_order_status_def update_locked_order_def result_simps dest: next_order_revision_Inr
    split: if_splits)

lemma advance_Inr:
  "advance_order_to_awaiting_packing r r = Inr r' \<Longrightarrow>
     locked_status r = Processing \<and> locked_status r' = AwaitingPacking \<and>
     OrderRevision_get (locked_revision r') = OrderRevision_get (locked_revision r) + 1"
  by (auto simp: advance_order_to_awaiting_packing_def update_locked_order_def result_simps
    dest: next_order_revision_Inr split: if_splits)

lemma confirm_pick_order_Inr:
  "confirm_pick_order r c = Inr r' \<Longrightarrow> r' = r \<or> (locked_status r = Processing \<and>
     locked_status r' = AwaitingPacking \<and>
     OrderRevision_get (locked_revision r') = OrderRevision_get (locked_revision r) + 1)"
  by (auto simp: confirm_pick_order_def result_simps dest: advance_Inr split: if_splits)

lemma accept_short_shipment_order_Inr:
  "accept_short_shipment_order i w v u d sh c c' r = Inr r' \<Longrightarrow> locked_status r = Processing \<and>
     locked_status r' \<in> {Processing, AwaitingPacking} \<and>
     OrderRevision_get (locked_revision r') = OrderRevision_get (locked_revision r) + 1"
  by (auto simp: accept_short_shipment_order_def update_locked_order_def result_simps
    dest: next_order_revision_Inr split: if_splits)

lemma ship_loaded_order_Inr:
  "ship_loaded_order r = Inr r' \<Longrightarrow> locked_status r = AwaitingShipment \<and>
     locked_status r' = Shipped \<and>
     OrderRevision_get (locked_revision r') = OrderRevision_get (locked_revision r) + 1"
  by (auto simp: ship_loaded_order_def update_locked_order_def result_simps
    dest: next_order_revision_Inr split: if_splits)

lemma regress_order_to_processing_Inr:
  "regress_order_to_processing r s v w = Inr r' \<Longrightarrow>
     locked_status r' = Processing \<and> locked_revision r' = w"
  by (auto simp: regress_order_to_processing_def update_locked_order_def split: if_splits)

text \<open>The statuses the transitions of each component connect.\<close>

lemma transition_tables:
  "place_hold s = Inr s' \<Longrightarrow> status_step s s'"
  "release_hold s remaining = Inr s' \<Longrightarrow> status_step s s'"
  "release_order s = Inr s' \<Longrightarrow> status_step s s'"
  "begin_packing s = Inr s' \<Longrightarrow> status_step s s'"
  "abandon_empty_packing s progress = Inr s' \<Longrightarrow> status_step s s'"
  subgoal by (cases s) (auto simp: status_step_def)
  subgoal by (cases s) (auto simp: status_step_def release_hold_def split: if_splits)
  subgoal by (cases s) (auto simp: status_step_def release_order_def)
  subgoal by (cases s) (auto simp: status_step_def begin_packing_def)
  subgoal by (cases s) (auto simp: status_step_def abandon_empty_packing_def split: if_splits)
  done

lemma cancellation_table:
  "cancel_order_before_physical_execution s execution = Inr s' \<Longrightarrow> status_step s s'"
  by (cases s; cases execution; auto simp: status_step_def cancel_order_before_physical_execution_def
    split: if_splits)

lemma reversal_table:
  "reverse_pick_before_packing s downstream shortage_backed = Inr s' \<Longrightarrow> status_step s Processing"
  by (cases s; auto simp: status_step_def reverse_pick_before_packing_def split: if_splits)

lemma close_carton_table: "close_carton_order r progress = Inr s \<Longrightarrow> status_step (locked_status r) s"
  by (cases "locked_status r"; auto simp: status_step_def close_carton_order_def complete_packing_def
    split: if_splits)

lemma reopen_table:
  "reopen_carton s session progress carton content = Inr (s', progress') \<Longrightarrow> status_step s s'"
  by (auto simp: status_step_def reopen_carton_def result_simps split: if_splits sum.splits)

lemma departure_table:
  "confirm_shipment_departure shipment s cartons scans = Inr t \<Longrightarrow>
     status_step s (departure_order_status t)"
  by (auto simp: status_step_def confirm_shipment_departure_def result_simps Let_def split: if_splits)

lemma write_order_status_step:
  "write_order_status message r s = Inr r' \<Longrightarrow> status_step (locked_status r) s \<Longrightarrow>
     r' = r \<or> status_step (locked_status r) (locked_status r') \<and>
     OrderRevision_get (locked_revision r') = OrderRevision_get (locked_revision r) + 1"
  by (drule write_order_status_Inr) simp

lemma order_step_cases:
  assumes "order_step r r'"
  shows "r' = r \<or> status_step (locked_status r) (locked_status r') \<and>
    OrderRevision_get (locked_revision r') = OrderRevision_get (locked_revision r) + 1"
  using assms
proof cases
  case (pick_confirmed readiness)
  show ?thesis using confirm_pick_order_Inr [OF pick_confirmed(2)] by (auto simp: status_step_def)
next
  case short_shipped
  show ?thesis using accept_short_shipment_order_Inr [OF short_shipped] by (auto simp: status_step_def)
next
  case load_departed
  show ?thesis using ship_loaded_order_Inr [OF load_departed(2)] by (auto simp: status_step_def)
next
  case (pick_reversed downstream shortage_backed s revision)
  show ?thesis
    using regress_order_to_processing_Inr [OF pick_reversed(3)] reversal_table [OF pick_reversed(1)]
      next_order_revision_Inr [OF pick_reversed(2)] by simp
next
  case (revised v)
  show ?thesis using checked_next_Some [OF revised(2)] by (simp add: revised(1) status_step_def)
next
  case (hold_placed s v)
  show ?thesis
    using transition_tables(1) [OF hold_placed(2)] checked_next_Some [OF hold_placed(3)] by (simp add: hold_placed(1))
next
  case (hold_released remaining s v)
  show ?thesis
    using transition_tables(2) [OF hold_released(2)] checked_next_Some [OF hold_released(3)]
    by (simp add: hold_released(1))
next
  case (released s)
  show ?thesis by (rule write_order_status_step [OF released(2) transition_tables(3) [OF released(1)]])
next
  case (cancelled execution s)
  show ?thesis by (rule write_order_status_step [OF cancelled(2) cancellation_table [OF cancelled(1)]])
next
  case (packing_begun s)
  show ?thesis by (rule write_order_status_step [OF packing_begun(2) transition_tables(4) [OF packing_begun(1)]])
next
  case (packing_abandoned progress s)
  show ?thesis by (rule write_order_status_step [OF packing_abandoned(2) transition_tables(5) [OF packing_abandoned(1)]])
next
  case (carton_closed s0 progress s)
  show ?thesis by (rule write_order_status_step [OF carton_closed(3) close_carton_table [OF carton_closed(2)]])
next
  case (carton_reopened session progress carton content s progress')
  show ?thesis by (rule write_order_status_step [OF carton_reopened(2) reopen_table [OF carton_reopened(1)]])
next
  case (departed shipment cartons scans transition)
  show ?thesis by (rule write_order_status_step [OF departed(2) departure_table [OF departed(1)]])
qed

lemma order_step_supersedes: "order_step r r' \<Longrightarrow> supersedes r r'"
  using order_step_cases [of r r'] by (auto simp: supersedes_def status_step_def)

lemma supersedes_trans: "supersedes a b \<Longrightarrow> supersedes b c \<Longrightarrow> supersedes a c"
  by (auto simp: supersedes_def)

lemma history_sorted: "order_history rows \<Longrightarrow> sorted_wrt supersedes rows"
proof (induction rule: order_history.induct)
  case (stepped rows r r')
  then show ?case using order_step_supersedes [of r r'] supersedes_trans
    by (auto simp: sorted_wrt_append)
qed simp

lemma status_step_void: "status_step s s' \<Longrightarrow> s \<noteq> Void \<Longrightarrow> s' \<noteq> Void"
  by (auto simp: status_step_def)

lemma history_not_void: "order_history rows \<Longrightarrow> \<forall>r\<in>set rows. locked_status r \<noteq> Void"
proof (induction rule: order_history.induct)
  case (created order)
  show ?case by (simp add: NewFulfillmentOrder_initial_status_def)
next
  case (stepped rows r r')
  then have "locked_status r \<noteq> Void" by simp
  with order_step_cases [OF stepped.hyps(2)] have "locked_status r' \<noteq> Void"
    using status_step_void by blast
  with stepped.IH show ?case by simp
qed

text \<open>Each status change follows the road: one milestone more, or back along it.\<close>

lemma status_step_milestones:
  assumes "status_step s s'" "s \<noteq> Void"
  shows "(\<exists>rest. milestones s = milestones s' @ rest) \<or> milestones s' = milestones s @ [s']"
  using assms by (cases s; cases s') (simp_all add: status_step_def milestones_def)

lemma history_milestones:
  "order_history rows \<Longrightarrow> subseq (milestones (locked_status (last rows))) (map locked_status rows)"
proof (induction rule: order_history.induct)
  case (created order)
  show ?case by (simp add: milestones_def NewFulfillmentOrder_initial_status_def)
next
  case (stepped rows r r')
  let ?road = "map locked_status (rows @ [r])"
  have old: "subseq (milestones (locked_status r)) ?road" using stepped.IH by simp
  then have longer: "subseq (milestones (locked_status r)) (?road @ [locked_status r'])"
    by (meson subseq_order.trans subseq_rev_drop_many)
  have "locked_status r \<noteq> Void" using history_not_void [OF stepped.hyps(1)] by simp
  then consider "r' = r" | rest where "milestones (locked_status r) = milestones (locked_status r') @ rest"
    | "milestones (locked_status r') = milestones (locked_status r) @ [locked_status r']"
    using order_step_cases [OF stepped.hyps(2)] status_step_milestones by blast
  then have "subseq (milestones (locked_status r')) (?road @ [locked_status r'])"
  proof cases
    case 1
    with longer show ?thesis by simp
  next
    case 2
    then have "subseq (milestones (locked_status r')) (milestones (locked_status r))"
      by (simp add: prefix_imp_subseq)
    then show ?thesis using longer by (rule subseq_order.trans)
  next
    case 3
    show ?thesis unfolding 3 by (rule list_emb_append_mono [OF old]) simp
  qed
  then show ?case by simp
qed

subsection \<open>The sample order\<close>

lemmas sample_row_defs = write_order_status_def next_order_revision_def update_locked_order_def
  OrderRevision_checked_next_def checked_add_def checked_i64_def in_i64_def i64_min_def i64_max_def sample_row_def

lemma sample_steps:
  "order_step (sample_row OrderStatus.Open 1) (sample_row Processing 2)"
  "order_step (sample_row Processing 2) (sample_row AwaitingPacking 3)"
  "order_step (sample_row AwaitingPacking 3) (sample_row OrderStatus.Packing 4)"
  "order_step (sample_row OrderStatus.Packing 4) (sample_row AwaitingShipment 5)"
  "order_step (sample_row AwaitingShipment 5) (sample_row Shipped 6)"
proof -
  show "order_step (sample_row OrderStatus.Open 1) (sample_row Processing 2)"
    by (rule released [where s = Processing]) (simp_all add: release_order_def sample_row_defs)
  show "order_step (sample_row Processing 2) (sample_row AwaitingPacking 3)"
    by (rule pick_confirmed [where readiness = sample_readiness])
      (simp_all add: require_picking_execution_def confirm_pick_order_def validate_pick_readiness_def is_ready_to_pack_def
        sample_readiness_def advance_order_to_awaiting_packing_def sample_row_defs)
  show "order_step (sample_row AwaitingPacking 3) (sample_row OrderStatus.Packing 4)"
    by (rule packing_begun [where s = OrderStatus.Packing]) (simp_all add: begin_packing_def sample_row_defs)
  show "order_step (sample_row OrderStatus.Packing 4) (sample_row AwaitingShipment 5)"
    by (rule carton_closed [where s = AwaitingShipment and progress = sample_progress])
      (simp_all add: close_carton_order_def continue_packing_def complete_packing_def
        ready_to_manifest_def PackingProgress_status_def sample_progress_def sample_row_defs)
  show "order_step (sample_row AwaitingShipment 5) (sample_row Shipped 6)"
    by (rule load_departed [where order_id = 1 and owner = 1 and revision = "OrderRevision 5"
        and shipment_revision = "ShipmentRevision 1" and shipment = "\<lparr>locked_shipment_order_id = 1,
          locked_shipment_owner_id = 1, locked_shipment_status = Manifested,
          locked_shipment_revision = ShipmentRevision 1\<rparr>"])
      (simp_all add: outbound_load_ready_def ship_loaded_order_def sample_row_defs)
qed

lemma sample_created: "order_history [sample_row OrderStatus.Open 1]"
  using created [of undefined] by (simp add: sample_row_def NewFulfillmentOrder_initial_status_def)

lemma sample_order_history: "order_history sample_history"
proof -
  note grow = stepped [of "[]" for r r', simplified] stepped [of "[a]" for a, simplified]
    stepped [of "[a, b]" for a b, simplified] stepped [of "[a, b, c]" for a b c, simplified]
    stepped [of "[a, b, c, d]" for a b c d, simplified]
  show ?thesis unfolding sample_history_def
    by (intro grow sample_created sample_steps)
qed

end
