(* ===== verification/Spec2Isabelle.thy ===== *)
theory Spec2Isabelle
  imports Allocation Picking Packing Backorder Replenishment Barcodes Shipping Worker_Runs
    Order_Holds Order_Lifecycle
begin

text \<open>
  \<^bold>\<open>Wareboxes.\<close> A verification development for Wareboxes, a multi-tenant warehouse
  management system written in Rust. Paths below are relative to the repository's source root.

  \<^bold>\<open>The program.\<close> The domain crate (\<open>crates/domain\<close>) holds pure rules: validated
  newtypes, status machines and planners. The application crate (\<open>crates/application\<close>) holds
  the commands, their results, the outbox types and command idempotency. The API's repositories
  (\<open>crates/api/src/repo\<close>) run a command as one PostgreSQL transaction that locks rows, asks the
  domain for a transition, writes rows, enqueues an outbox event and stores the result under the
  idempotency key. \<open>crates/persistence-postgres\<close> implements the outbox and the table of command
  results. The worker (\<open>crates/worker\<close>, \<open>apps/worker\<close>) claims outbox events, publishes
  them and settles them, and runs the scheduled inventory reconciliation. \<open>crates/barcodes\<close>
  encodes the labels. The parts modelled here are those an outbound order passes through: creation,
  allocation, replenishment, picking, packing, shipping, holds and cancellation, the events these
  commands emit and their delivery.

  \<^bold>\<open>Conventions.\<close>
  \<^item> A Rust \<open>Result\<close> is a sum with the error on the left (\<open>Ok\<close>, \<open>Err\<close>,
    \<open>and_then\<close> for the question mark operator); every early return is a branch.
  \<^item> An i64 is an integer. Where the code checks for overflow the model uses \<open>checked_add\<close> and
    its relatives; where it adds without a check the model wraps (\<open>wrap_i64\<close>, and \<open>mod\<close> for
    the u8 and u32 sums of the barcodes), as a release build does.
  \<^item> Text that is validated is a list of Unicode scalar values (\<open>rust_string\<close>); literals and
    messages are strings, and \<open>lit\<close> turns one into the other.
  \<^item> A transaction is a function on the whole database record: an error is the rollback, success
    returns the committed rows. Row locks and advisory locks make transactions take effect one at a
    time; rows skipped under \<open>SKIP LOCKED\<close> are the argument \<open>locked\<close>. The clock, the caller's
    scope and whether a row referenced in a table outside the model exists are arguments too.
  \<^item> Struct fields and enum variants keep their names, with the type's name in front of functions
    (\<open>OrderKey\_new\<close> is \<open>OrderKey::new\<close>). Small helpers that spell out one clause of a
    statement or one function of the standard library lie within the lines of the operation that
    uses them.

  \<^bold>\<open>The theories.\<close>
  \<^item> \<open>Wareboxes\_Prelude\<close>: results, checked and wrapping arithmetic, trimming and bounded text,
    with the collections \<open>result_simps\<close> and the list lemmas the components share.
  \<^item> \<open>Contracts\<close>: the interfaces as locales. \<open>tag\_codec\<close> (as_str and parse are inverse),
    \<open>validated\_newtype\<close> (new accepts exactly the valid values and returns them),
    \<open>revision\_newtype\<close> (a positive i64 that advances by one), \<open>total\_comparison\<close> (what
    \<open>sort_by\<close> needs, with uniqueness of the sorted order) and \<open>stock\_rotation\<close> (greedy
    selection along such an order). Every component interprets them on its own definitions.
  \<^item> \<open>Orders\<close>: \<open>order.rs\<close>, \<open>order_release.rs\<close>, \<open>order_cancellation.rs\<close>,
    \<open>order_amendment.rs\<close>, \<open>order_line_amendment.rs\<close> and the identifiers and scopes of
    \<open>lib.rs\<close>.
  \<^item> \<open>Allocation\<close> (\<open>allocation.rs\<close>), C1 to C5: a plan conserves demand and stock, follows
    FIFO or FEFO, does not depend on the order of the supply, fails exactly on a repeated balance
    and classifies its outcome.
  \<^item> \<open>Picking\<close> (\<open>picking.rs\<close>), C6 to C8: short shipment accepts exactly the conserved
    quantities, forged quantities do not deserialize, a pick is decided once.
  \<^item> \<open>Packing\<close> (\<open>packing.rs\<close>), C9 to C11: the progress counters refine the session, reopening
    a carton is guarded and undone by closing it, the invariant of the carton lifecycle.
  \<^item> \<open>Backorder\<close> (\<open>backorder.rs\<close> of the domain, the application and the API), C12 to C14: the
    split equals a reference split, conserves every line and total, and its result check passes in
    exactly the cases stated, which leaves out some valid splits.
  \<^item> \<open>Replenishment\<close> (\<open>replenishment.rs\<close>), C15 to C19: the planning decision, the exact and
    FEFO selection of sources, the canonical reserve set with its binary search, the balance of work
    requests.
  \<^item> \<open>Barcodes\<close> (\<open>crates/barcodes/src/lib.rs\<close>), C20 to C24: check digits detect every
    single-digit change, and UPC-A, Code 128-B and GS1-128 symbols scan back to their values.
  \<^item> \<open>Outbox\_Store\<close>, \<open>Outbox\_Invariant\<close>, \<open>Outbox\_History\<close>
    (\<open>crates/persistence-postgres/src/outbox.rs\<close> over the outbox tables of the baseline
    migration), C25 to C28: \<open>outbox\_step\<close> is any committed transaction of any tenant, one lemma
    per transaction preserves the invariant, and every history delivers in order per ordering key,
    publishes once, fails only for bad input or exhausted counters, and claims exactly the first
    claimable events.
  \<^item> \<open>Bytes\<close>: UTF-8 and big-endian integers, with injectivity.
  \<^item> \<open>Outbox\_Worker\<close>, \<open>Worker\_Runs\<close> (\<open>crates/worker/src/runner.rs\<close>,
    \<open>publisher.rs\<close>, \<open>store.rs\<close>, \<open>reconciliation.rs\<close>, and the stores of
    \<open>apps/worker/src\<close>), C29 to C34: the store trait is the locale \<open>settling\_store\<close>,
    interpreted on the outbox database (\<open>postgres\<close>), and the page protocol of both paging loops is
    \<open>tenant\_paging\<close>, interpreted for delivery and for reconciliation. Processing an event settles
    it; every interleaving of the tasks (\<open>worker\_step\<close>, \<open>task\_step\<close>) stays within capacity
    and drains; both loops return and cover every tenant once.
  \<^item> \<open>Shipping\<close> (\<open>shipping.rs\<close> and the remaining cartons in
    \<open>crates/api/src/repo/shipping/departure.rs\<close>), C35 and C36: the manual manifest and sequences
    of departures are accepted exactly when stated.
  \<^item> \<open>Idempotency\<close> (\<open>idempotency.rs\<close> of the application and of the persistence crate, with
    the error conversions of \<open>crates/api/src/error.rs\<close>): command identity, fingerprint, replay
    and commit. The bytes that are hashed determine the actor, the operation, the
    version and the encoded request (\<open>hash\_preimage\_inj\<close>). The locale \<open>replayable\_command\<close> is what a
    handler owes for its replays to be exact.
  \<^item> \<open>Order\_Holds\<close> (\<open>place\_order\_hold\<close> and \<open>release\_order\_hold\<close> of
    \<open>crates/api/src/repo/orders.rs\<close>), C37 to C39: both handlers as whole transactions over orders,
    holds, activity, outbox and command results. Runs keep the database well formed, a command
    happens once, and a key is refused for any other request. Both handlers interpret
    \<open>replayable\_command\<close>.
  \<^item> \<open>Order\_Lifecycle\<close> (\<open>crates/api/src/repo/picking\<close>, \<open>packing/carton.rs\<close>,
    \<open>shipping/departure.rs\<close>): the readiness to pack and the writes of the order row by every
    command that moves it. \<open>order\_step\<close> is one successful command on the row; C40 below is the
    road every order takes through all of them. Its step \<open>revised\<close> lets any command advance the
    revision alone in any status, which allows more histories than the code.

  \<^bold>\<open>Termination and fuel.\<close> No definition has fuel. The planners recurse on their lists, the
  GS1 parser and the binary search carry a termination proof (the rest of the input, the width of
  the interval). The two paging loops (\<open>discover\_loop\<close>, \<open>reconcile\_loop\<close>) call a store that
  may answer differently every time and are partial functions into options; C32 proves that
  discovery returns whatever the store answers, because the validated pages climb through the
  finitely many i64 identifiers, and C34 that reconciliation returns.

  \<^bold>\<open>Code of other crates.\<close> SHA-256 with its hexadecimal print, serde's encodings of requests and
  results and the JSON of event payloads are parameters. What a property assumes of them is a named
  hypothesis: that the digest prints 64 hexadecimal digits, for C38 that a stored result decodes to
  what was encoded, and for C39 that the digests of the two requests do not collide. The publisher is the value its call yields.

  \<^bold>\<open>Limits of the model.\<close> Timestamps and intervals are unbounded integers, so PostgreSQL's
  range errors do not occur. The escapes of Rust's debug format in the message about an unknown
  order status are left out. Lost connections and the cancellation of futures are not modelled; a
  worker that dies is a worker that takes no further step, and its lease runs out with the clock.

  \<^bold>\<open>Not modelled.\<close>
  \<^item> The domain rules outside outbound fulfillment (receiving, returns, counting, yard, labor,
    billing, tenancy): pure and of the same style, left out for size.
  \<^item> The SQL of the commands other than holds, outbox and idempotency, where only the decision and
    the write of the order row are taken: their effects live in tables the model does not have.
  \<^item> HTTP routes, authentication, user interfaces, the Android client and the edge agent, the
    carrier and document workers, process start and migrations: input and output.
  \<^item> The QR encoder, which calls a third-party crate, and the SVG writer, which formats text.
  \<^item> The wire types of the API contract: derived serialization without behaviour.
\<close>

section \<open>The life of an order\<close>

text \<open>
  C40. The components that move an order agree on one road. Whatever holds, releases,
  cancellations, pick confirmations, short shipments, reversals, packing sessions, reopened
  cartons, departures and revisions an order goes through, in any sequence: a shipped order was
  open, in processing, awaiting packing, in packing and awaiting shipment, in that order, before
  it was shipped; a later row of the order is the same row or has a greater revision, so the
  optimistic guards on the revision identify the row; a shipped or cancelled order keeps its
  status; and no order becomes void.
\<close>

theorem order_road:
  assumes "order_history rows"
  shows "(locked_status (last rows) = Shipped \<longrightarrow>
      subseq [OrderStatus.Open, Processing, AwaitingPacking, OrderStatus.Packing, AwaitingShipment,
        Shipped] (map locked_status rows)) \<and>
    sorted_wrt supersedes rows \<and> Void \<notin> locked_status ` set rows"
  using history_milestones [OF assms] history_sorted [OF assms] history_not_void [OF assms]
  by (auto simp: milestones_def)

theorem order_road_witness:
  "sorted_wrt supersedes sample_history \<and>
   subseq [OrderStatus.Open, Processing, AwaitingPacking, OrderStatus.Packing, AwaitingShipment, Shipped]
     (map locked_status sample_history)"
  using order_road [OF sample_order_history] by (simp add: sample_history_def sample_row_def)

end
